(* ===== verification/AIDO_Prelude.thy ===== *)
theory AIDO_Prelude
  imports Complex_Main "HOL-Library.AList"
begin

text \<open>
  Shared vocabulary of the development.

  \<^item> Operations over the SQLite store are functions from a store to an outcome and a store
    (\<open>('s, 'e, 'a) op\<close>): \<open>Inl e\<close> is a raised exception, and the store returned beside
    it is what had been written when the exception left the operation.
    \<open>immediate_transaction\<close> is \<open>shared/db.py: immediate_transaction\<close> (lines 93-142):
    it commits the store of a normal return and restores the store of entry otherwise.
  \<^item> SQL statements over a table are list functions: \<open>upd_where\<close> is
    \<^verbatim>\<open>UPDATE ... SET ... WHERE\<close>, \<open>rowcount\<close> the cursor's row count,
    \<open>select_one\<close> a \<^verbatim>\<open>SELECT\<close> of the first row, \<open>first_by\<close>
    \<^verbatim>\<open>ORDER BY ... LIMIT 1\<close>. Rows are kept in \<^verbatim>\<open>rowid\<close> order.
  \<^item> \<open>reach\<close> and the locale \<open>invariant_system\<close> carry invariants of step relations
    to every reachable state.
\<close>

section \<open>Collections of facts\<close>

named_theorems op_simps \<open>unfolding of the store operations\<close>
named_theorems table_simps \<open>rewriting of table updates and selections\<close>

section \<open>Operations and transactions\<close>

type_synonym ('s, 'e, 'a) op = "'s \<Rightarrow> ('e + 'a) \<times> 's"

definition ret :: "'a \<Rightarrow> ('s, 'e, 'a) op" where
  "ret a s = (Inr a, s)"

definition raise_error :: "'e \<Rightarrow> ('s, 'e, 'a) op" where
  "raise_error e s = (Inl e, s)"

definition and_then :: "('s, 'e, 'a) op \<Rightarrow> ('a \<Rightarrow> ('s, 'e, 'b) op) \<Rightarrow> ('s, 'e, 'b) op" where
  "and_then m f s = (case m s of (Inl e, s') \<Rightarrow> (Inl e, s') | (Inr a, s') \<Rightarrow> f a s')"

definition immediate_transaction :: "('s, 'e, 'a) op \<Rightarrow> ('s, 'e, 'a) op" where
  "immediate_transaction m s =
     (case m s of (Inl e, _) \<Rightarrow> (Inl e, s) | (Inr a, s') \<Rightarrow> (Inr a, s'))"

text \<open>Sequencing of fallible computations without a store, and their use inside an operation.\<close>

definition try_then :: "'e + 'a \<Rightarrow> ('a \<Rightarrow> 'e + 'b) \<Rightarrow> 'e + 'b" where
  "try_then r f = (case r of Inl e \<Rightarrow> Inl e | Inr a \<Rightarrow> f a)"

definition lift_error :: "('e \<Rightarrow> 'f) \<Rightarrow> 'e + 'a \<Rightarrow> 'f + 'a" where
  "lift_error g r = (case r of Inl e \<Rightarrow> Inl (g e) | Inr a \<Rightarrow> Inr a)"

definition run_pure :: "'e + 'a \<Rightarrow> ('s, 'e, 'a) op" where
  "run_pure r s = (r, s)"

lemma try_then_simps [simp]: "try_then (Inl e) f = Inl e" "try_then (Inr a) f = f a"
  by (simp_all add: try_then_def)

lemma lift_error_simps [simp]: "lift_error g (Inl e) = Inl (g e)" "lift_error g (Inr a) = Inr a"
  by (simp_all add: lift_error_def)

lemma try_then_Inr_iff: "try_then r f = Inr b \<longleftrightarrow> (\<exists>a. r = Inr a \<and> f a = Inr b)"
  by (cases r) auto

lemma lift_error_Inr_iff: "lift_error g r = Inr b \<longleftrightarrow> r = Inr b"
  by (cases r) auto

lemma and_then_Inr_iff:
  "and_then m f s = (Inr b, t) \<longleftrightarrow> (\<exists>a s'. m s = (Inr a, s') \<and> f a s' = (Inr b, t))"
  by (auto simp: and_then_def split: prod.splits sum.splits)

lemma and_then_ok: "m s = (Inr a, s') \<Longrightarrow> and_then m f s = f a s'"
  by (simp add: and_then_def)

lemma and_then_err: "m s = (Inl e, s') \<Longrightarrow> and_then m f s = (Inl e, s')"
  by (simp add: and_then_def)

lemma ret_Inr_iff [simp]: "ret a s = (Inr b, t) \<longleftrightarrow> a = b \<and> s = t"
  by (auto simp: ret_def)

lemma run_pure_Inr_iff [simp]: "run_pure r s = (Inr b, t) \<longleftrightarrow> r = Inr b \<and> s = t"
  by (auto simp: run_pure_def)

lemma raise_error_Inr [simp]: "raise_error e s \<noteq> (Inr b, t)"
  by (simp add: raise_error_def)

lemma not_isl_fst: "\<not> isl (fst x) \<Longrightarrow> \<exists>a t. x = (Inr a, t)"
  by (cases x; cases "fst x") auto

lemmas op_defs = ret_def raise_error_def and_then_def immediate_transaction_def run_pure_def
declare op_defs [op_simps]

lemma immediate_transaction_rollback:
  "immediate_transaction m s = (Inl e, s') \<Longrightarrow> s' = s"
  by (auto simp: immediate_transaction_def split: prod.splits sum.splits)

lemma immediate_transaction_commit:
  "immediate_transaction m s = (Inr a, s') \<longleftrightarrow> m s = (Inr a, s')"
  by (auto simp: immediate_transaction_def split: prod.splits sum.splits)

lemma immediate_transaction_error:
  "immediate_transaction m s = (Inl e, s') \<longleftrightarrow> (s' = s \<and> (\<exists>t. m s = (Inl e, t)))"
  by (auto simp: immediate_transaction_def split: prod.splits sum.splits)

section \<open>Tables\<close>

definition upd_where :: "('r \<Rightarrow> bool) \<Rightarrow> ('r \<Rightarrow> 'r) \<Rightarrow> 'r list \<Rightarrow> 'r list" where
  "upd_where P f rows = map (\<lambda>r. if P r then f r else r) rows"

definition rowcount :: "('r \<Rightarrow> bool) \<Rightarrow> 'r list \<Rightarrow> nat" where
  "rowcount P rows = length (filter P rows)"

definition select_one :: "('r \<Rightarrow> bool) \<Rightarrow> 'r list \<Rightarrow> 'r option" where
  "select_one P rows = find P rows"

text \<open>The first row among those of least key: \<^verbatim>\<open>ORDER BY key ASC, rowid ASC LIMIT 1\<close>.\<close>

fun first_by :: "('r \<Rightarrow> 'k::linorder) \<Rightarrow> 'r list \<Rightarrow> 'r option" where
  "first_by key [] = None"
| "first_by key (r # rs) =
     (case first_by key rs of
        None \<Rightarrow> Some r
      | Some q \<Rightarrow> if key r \<le> key q then Some r else Some q)"

lemma upd_where_Nil [simp]: "upd_where P f [] = []"
  by (simp add: upd_where_def)

lemma upd_where_Cons [simp]:
  "upd_where P f (r # rs) = (if P r then f r else r) # upd_where P f rs"
  by (simp add: upd_where_def)

lemma upd_where_append [simp]:
  "upd_where P f (rs @ qs) = upd_where P f rs @ upd_where P f qs"
  by (simp add: upd_where_def)

lemma length_upd_where [simp]: "length (upd_where P f rows) = length rows"
  by (simp add: upd_where_def)

lemma map_upd_where_key:
  assumes "\<And>r. key (f r) = key r"
  shows "map key (upd_where P f rows) = map key rows"
  using assms by (simp add: upd_where_def)

lemma key_set_upd_where:
  assumes "\<And>r. key (f r) = key r"
  shows "key ` set (upd_where P f rows) = key ` set rows"
  using arg_cong [OF map_upd_where_key [of key f P rows, OF assms], of set] by (simp only: set_map)

lemma set_upd_where:
  "set (upd_where P f rows) = (\<lambda>r. if P r then f r else r) ` set rows"
  by (simp add: upd_where_def)

lemma upd_where_no_match: "rowcount P rows = 0 \<Longrightarrow> upd_where P f rows = rows"
  by (induction rows) (auto simp: rowcount_def split: if_splits)

lemma rowcount_consumed:
  assumes "\<And>r. P r \<Longrightarrow> \<not> P (f r)"
  shows "rowcount P (upd_where P f rows) = 0"
  using assms by (induction rows) (auto simp: rowcount_def)

lemma in_upd_where_iff:
  "q \<in> set (upd_where P f rows) \<longleftrightarrow> (\<exists>r \<in> set rows. q = (if P r then f r else r))"
  by (auto simp: set_upd_where)

lemma upd_where_hitI: "r \<in> set rows \<Longrightarrow> P r \<Longrightarrow> f r \<in> set (upd_where P f rows)"
  by (induction rows) auto

lemma upd_where_missI: "r \<in> set rows \<Longrightarrow> \<not> P r \<Longrightarrow> r \<in> set (upd_where P f rows)"
  by (induction rows) auto

lemma upd_whereE:
  assumes "q \<in> set (upd_where P f rows)"
  obtains (hit) r where "r \<in> set rows" "P r" "q = f r" | (miss) "q \<in> set rows" "\<not> P q"
  using assms unfolding in_upd_where_iff by (metis (full_types))

lemma select_one_SomeD: "select_one P rows = Some r \<Longrightarrow> r \<in> set rows \<and> P r"
  by (auto simp: select_one_def find_Some_iff)

lemma select_one_NoneD: "select_one P rows = None \<Longrightarrow> r \<in> set rows \<Longrightarrow> \<not> P r"
  by (auto simp: select_one_def find_None_iff)

lemma select_one_Nil [simp]: "select_one P [] = None"
  by (simp add: select_one_def)

lemma select_one_Cons [simp]:
  "select_one P (r # rs) = (if P r then Some r else select_one P rs)"
  by (simp add: select_one_def)

lemma select_one_append:
  "select_one P (rs @ qs) = (case select_one P rs of None \<Rightarrow> select_one P qs | Some r \<Rightarrow> Some r)"
  by (induction rs) auto

lemma select_one_key_upd:
  assumes "\<And>r. key (f r) = key r"
  shows "select_one (\<lambda>r. key r = k) (upd_where P f rows) =
    map_option (\<lambda>r. if P r then f r else r) (select_one (\<lambda>r. key r = k) rows)"
  using assms by (induction rows) auto

lemma distinct_key_unique:
  "distinct (map key rows) \<Longrightarrow> r \<in> set rows \<Longrightarrow> q \<in> set rows \<Longrightarrow> key r = key q \<Longrightarrow> r = q"
  by (induction rows) (auto simp: rev_image_eqI)

lemma select_one_distinct:
  "distinct (map key rows) \<Longrightarrow> r \<in> set rows \<Longrightarrow> key r = k \<Longrightarrow>
   select_one (\<lambda>q. key q = k) rows = Some r"
  by (induction rows) (auto simp: rev_image_eqI)

lemma first_by_SomeD:
  "first_by key rows = Some r \<Longrightarrow> r \<in> set rows \<and> (\<forall>q \<in> set rows. key r \<le> key q)"
proof (induction rows arbitrary: r)
  case Nil
  then show ?case by simp
next
  case (Cons a rows)
  show ?case
  proof (cases "first_by key rows")
    case None
    then have "rows = []" by (cases rows) (auto split: option.splits if_splits)
    with Cons.prems show ?thesis by simp
  next
    case (Some q)
    with Cons.IH have "q \<in> set rows \<and> (\<forall>p \<in> set rows. key q \<le> key p)" by blast
    with Cons.prems Some show ?thesis
      by (auto split: if_splits intro: order_trans dest: not_le_imp_less less_imp_le)
  qed
qed

lemma first_by_None_iff: "first_by key rows = None \<longleftrightarrow> rows = []"
  by (cases rows) (auto split: option.splits)

declare upd_where_append [table_simps] length_upd_where [table_simps]

section \<open>Reachable states and invariants\<close>

inductive reach :: "('s \<Rightarrow> bool) \<Rightarrow> ('s \<Rightarrow> 's \<Rightarrow> bool) \<Rightarrow> 's \<Rightarrow> bool"
  for init :: "'s \<Rightarrow> bool" and step :: "'s \<Rightarrow> 's \<Rightarrow> bool" where
  reach_init: "init s \<Longrightarrow> reach init step s"
| reach_step: "reach init step s \<Longrightarrow> step s t \<Longrightarrow> reach init step t"

text \<open>
  The contract of a component with steps: an invariant that its start states satisfy and its
  steps keep. The client's lemma is that every reachable state satisfies it.
\<close>

locale invariant_system =
  fixes init :: "'s \<Rightarrow> bool"
    and step :: "'s \<Rightarrow> 's \<Rightarrow> bool"
    and inv :: "'s \<Rightarrow> bool"
  assumes inv_init: "init s \<Longrightarrow> inv s"
    and inv_step: "inv s \<Longrightarrow> step s t \<Longrightarrow> inv t"
begin

lemma inv_reach: "reach init step s \<Longrightarrow> inv s"
  by (induction rule: reach.induct) (auto intro: inv_init inv_step)

lemma inv_rtranclp: "step\<^sup>*\<^sup>* s t \<Longrightarrow> inv s \<Longrightarrow> inv t"
  by (induction rule: rtranclp_induct) (auto intro: inv_step)

end

end
