(* ===== verification/Py_Values.thy ===== *)
theory Py_Values
  imports AIDO_Prelude "HOL-Library.List_Lexorder" "HOL-Library.Char_ord"
begin

text \<open>
  The Python values the program stores as JSON: \<open>None\<close>, booleans, integers, floats, strings, lists
  and dicts with string keys in insertion order. Strings are lists of characters of code point
  below 256, ordered as Python orders them (by code point, lexicographically). Floats are exact
  rationals, so rounding and the values \<open>nan\<close> and \<open>inf\<close> are outside the model.
  \<open>json_store\<close> is what reading a JSON column gives back after writing it
  (\<open>shared/serialization.py\<close>: \<open>json_dumps\<close> with \<^verbatim>\<open>sort_keys=True\<close>, then \<open>json_loads\<close>).
\<close>

datatype pyval =
    PNone
  | PBool bool
  | PInt int
  | PFloat rat
  | PStr string
  | PList "pyval list"
  | PDict "(string \<times> pyval) list"

type_synonym pydict = "(string \<times> pyval) list"

datatype py_error = TypeError | ValueError | OverflowError | AttributeError | LookupError | RuntimeError

fun truthy :: "pyval \<Rightarrow> bool" where
  "truthy PNone = False"
| "truthy (PBool b) = b"
| "truthy (PInt i) = (i \<noteq> 0)"
| "truthy (PFloat r) = (r \<noteq> 0)"
| "truthy (PStr s) = (s \<noteq> [])"
| "truthy (PList xs) = (xs \<noteq> [])"
| "truthy (PDict d) = (d \<noteq> [])"

section \<open>Text\<close>

text \<open>
  \<open>str(v)\<close>: texts are themselves, integers their decimal digits; the text of a float, a list or
  a dict is the argument \<open>other\<close>.
\<close>

fun nat_str :: "nat \<Rightarrow> string" where
  "nat_str n = (if n < 10 then [char_of (48 + n)] else nat_str (n div 10) @ [char_of (48 + n mod 10)])"

declare nat_str.simps [simp del]

definition int_str :: "int \<Rightarrow> string" where
  "int_str i = (if i < 0 then CHR ''-'' # nat_str (nat (- i)) else nat_str (nat i))"

fun py_str :: "(pyval \<Rightarrow> string) \<Rightarrow> pyval \<Rightarrow> string" where
  "py_str other PNone = ''None''"
| "py_str other (PBool b) = (if b then ''True'' else ''False'')"
| "py_str other (PInt i) = int_str i"
| "py_str other (PStr s) = s"
| "py_str other v = other v"

text \<open>\<open>str.lower\<close> on code points below 256.\<close>

definition lower_char :: "char \<Rightarrow> char" where
  "lower_char c = (let n = (of_char c :: nat) in
     if 65 \<le> n \<and> n \<le> 90 \<or> 192 \<le> n \<and> n \<le> 222 \<and> n \<noteq> 215 then char_of (n + 32) else c)"

text \<open>On the bits of a character, for evaluation: the letters \<^verbatim>\<open>A-Z\<close> and the Latin capitals gain the fifth bit.\<close>

definition letter_bits :: "bool \<Rightarrow> bool \<Rightarrow> bool \<Rightarrow> bool \<Rightarrow> bool \<Rightarrow> bool" where
  "letter_bits b0 b1 b2 b3 b4 \<longleftrightarrow> (b0 \<or> b1 \<or> b2 \<or> b3 \<or> b4) \<and> \<not> (b4 \<and> b3 \<and> (b2 \<or> b1 \<and> b0))"

lemma lower_char_code [code]:
  "lower_char (Char b0 b1 b2 b3 b4 b5 b6 b7) =
     (if b6 \<and> \<not> b5 \<and> (if b7 then \<not> (b4 \<and> b2 \<and> b1 \<and> b0) else letter_bits b0 b1 b2 b3 b4)
      then Char b0 b1 b2 b3 b4 True b6 b7 else Char b0 b1 b2 b3 b4 b5 b6 b7)"
  by (cases b0; cases b1; cases b2; cases b3; cases b4; cases b5; cases b6; cases b7;
      simp add: lower_char_def letter_bits_def char_of_def bit_iff_odd)

definition py_lower :: "string \<Rightarrow> string" where
  "py_lower s = map lower_char s"

fun is_list :: "pyval \<Rightarrow> bool" where
  "is_list (PList _) = True" | "is_list _ = False"

fun is_dict :: "pyval \<Rightarrow> bool" where
  "is_dict (PDict _) = True" | "is_dict _ = False"

fun is_str :: "pyval \<Rightarrow> bool" where
  "is_str (PStr _) = True" | "is_str _ = False"

text \<open>\<open>v if isinstance(v, list) else []\<close>, \<open>v if isinstance(v, dict) else {}\<close> and \<open>v or w\<close>.\<close>

fun list_or_empty :: "pyval \<Rightarrow> pyval list" where
  "list_or_empty (PList xs) = xs" | "list_or_empty _ = []"

fun dict_or_empty :: "pyval \<Rightarrow> pydict" where
  "dict_or_empty (PDict d) = d" | "dict_or_empty _ = []"

definition py_or :: "pyval \<Rightarrow> pyval \<Rightarrow> pyval" where
  "py_or v w = (if truthy v then v else w)"

text \<open>\<open>v == 0\<close>; and whether \<open>v in {...}\<close> raises: lists and dicts are not hashable.\<close>

definition eq_zero :: "pyval \<Rightarrow> bool" where
  "eq_zero v = (v = PInt 0 \<or> v = PFloat 0 \<or> v = PBool False)"

definition hashable :: "pyval \<Rightarrow> bool" where
  "hashable v = (\<not> is_list v \<and> \<not> is_dict v)"

section \<open>Dicts\<close>

text \<open>\<open>d.get(k, default)\<close>, \<open>d.get(k)\<close>, \<open>d[k] = v\<close> and \<open>{**a, **b}\<close>.\<close>

definition dget_or :: "pydict \<Rightarrow> string \<Rightarrow> pyval \<Rightarrow> pyval" where
  "dget_or d k dflt = (case map_of d k of None \<Rightarrow> dflt | Some v \<Rightarrow> v)"

definition dget :: "pydict \<Rightarrow> string \<Rightarrow> pyval" where
  "dget d k = dget_or d k PNone"

definition dset :: "pydict \<Rightarrow> string \<Rightarrow> pyval \<Rightarrow> pydict" where
  "dset d k v = AList.update k v d"

definition dmerge :: "pydict \<Rightarrow> pydict \<Rightarrow> pydict" where
  "dmerge a b = fold (\<lambda>(k, v) d. dset d k v) b a"

lemma map_of_dset [simp]: "map_of (dset d k v) = (map_of d)(k \<mapsto> v)"
  by (simp add: dset_def update_conv')

lemma dget_or_dset [simp]:
  "dget_or (dset d k v) k' x = (if k' = k then v else dget_or d k' x)"
  by (simp add: dget_or_def)

lemma dget_dset [simp]: "dget (dset d k v) k' = (if k' = k then v else dget d k')"
  by (simp add: dget_def)

lemma dget_Nil [simp]: "dget [] k = PNone"
  by (simp add: dget_def dget_or_def)

lemma dget_or_Nil [simp]: "dget_or [] k x = x"
  by (simp add: dget_or_def)

lemma dget_Cons [simp]: "dget ((k', v) # d) k = (if k = k' then v else dget d k)"
  by (simp add: dget_def dget_or_def)

lemma dget_or_Cons [simp]: "dget_or ((k', v) # d) k x = (if k = k' then v else dget_or d k x)"
  by (simp add: dget_or_def)

lemma dmerge_Nil [simp]: "dmerge a [] = a"
  by (simp add: dmerge_def)

lemma dmerge_Cons: "dmerge a ((k, v) # b) = dmerge (dset a k v) b"
  by (simp add: dmerge_def)

lemma map_of_dmerge_fold:
  "map_of (dmerge a b) k =
     (case map_of (rev b) k of None \<Rightarrow> map_of a k | Some v \<Rightarrow> Some v)"
proof (induction b arbitrary: a)
  case (Cons p b)
  obtain k' v where p: "p = (k', v)" by (cases p)
  show ?case by (simp add: p dmerge_Cons Cons.IH map_add_def split: option.splits)
qed simp

lemma map_of_rev_distinct:
  assumes "distinct (map fst b)"
  shows "map_of (rev b) = map_of b"
proof -
  have "distinct (map fst (rev b))" using assms by (simp add: rev_map [symmetric])
  with assms show ?thesis by (simp add: map_of_inject_set)
qed

lemma map_of_dmerge:
  "distinct (map fst b) \<Longrightarrow>
   map_of (dmerge a b) k = (case map_of b k of None \<Rightarrow> map_of a k | Some v \<Rightarrow> Some v)"
  by (simp add: map_of_dmerge_fold map_of_rev_distinct)

lemma keys_dset [simp]: "fst ` set (dset d k v) = insert k (fst ` set d)"
  by (simp add: dset_def dom_update)

lemma distinct_dset: "distinct (map fst d) \<Longrightarrow> distinct (map fst (dset d k v))"
  by (simp add: dset_def distinct_update)

lemma dset_nonempty [simp]: "dset d k v \<noteq> []"
  by (simp add: dset_def)

lemma list_all_dset: "list_all P d \<Longrightarrow> P (k, v) \<Longrightarrow> list_all P (dset d k v)"
  unfolding dset_def by (induction d) auto

lemma keys_dmerge: "fst ` set (dmerge a b) = fst ` set a \<union> fst ` set b"
proof (induction b arbitrary: a)
  case (Cons p b)
  then show ?case by (cases p) (simp add: dmerge_Cons)
qed simp

lemma distinct_dmerge: "distinct (map fst a) \<Longrightarrow> distinct (map fst (dmerge a b))"
  by (induction b arbitrary: a) (auto simp: dmerge_Cons distinct_dset)

lemma map_of_in_keys: "k \<in> fst ` set d \<Longrightarrow> \<exists>v. map_of d k = Some v"
  by (induction d) auto

lemma list_all_dget_or:
  "list_all (\<lambda>p. Q (snd p)) d \<Longrightarrow> Q x \<Longrightarrow> Q (dget_or d k x)"
  by (induction d) auto

text \<open>Merging over defaults that are all overridden keeps exactly the overriding values.\<close>

lemma dget_dmerge_full:
  assumes "distinct (map fst b)" "fst ` set a \<subseteq> fst ` set b"
  shows "dget (dmerge a b) k = dget b k"
proof (cases "map_of b k")
  case None
  then have "k \<notin> fst ` set b" by (simp add: map_of_eq_None_iff)
  with assms(2) have "map_of a k = None" by (auto simp: map_of_eq_None_iff)
  with None assms(1) show ?thesis by (simp add: dget_def dget_or_def map_of_dmerge)
next
  case (Some v)
  with assms(1) show ?thesis by (simp add: dget_def dget_or_def map_of_dmerge)
qed

section \<open>Numbers\<close>

text \<open>
  \<open>int(s)\<close> and \<open>float(s)\<close> of a string: surrounding white space, a sign, decimal digits with
  single underscores between them; for \<open>float\<close> a fraction and an exponent.
\<close>

definition is_digit :: "char \<Rightarrow> bool" where
  "is_digit c = (48 \<le> (of_char c :: nat) \<and> (of_char c :: nat) \<le> 57)"

definition is_space :: "char \<Rightarrow> bool" where
  "is_space c = (let n = (of_char c :: nat) in
     (9 \<le> n \<and> n \<le> 13) \<or> (28 \<le> n \<and> n \<le> 32) \<or> n = 133 \<or> n = 160)"

lemma is_space_code [code]:
  "is_space (Char b0 b1 b2 b3 b4 b5 b6 b7) =
     (\<not> b6 \<and> (if b5 then \<not> b4 \<and> \<not> b3 \<and> \<not> b2 \<and> \<not> b1 \<and> \<not> b0
                else if b7 then \<not> b4 \<and> \<not> b3 \<and> b2 \<and> \<not> b1 \<and> b0
                else if b4 then b3 \<and> b2
                else b3 \<and> (b0 \<or> b1 \<or> b2) \<and> \<not> (b2 \<and> b1)))"
  by (cases b0; cases b1; cases b2; cases b3; cases b4; cases b5; cases b6; cases b7; simp add: is_space_def)

definition py_strip :: "string \<Rightarrow> string" where
  "py_strip s = rev (dropWhile is_space (rev (dropWhile is_space s)))"

fun digits_val :: "nat \<Rightarrow> string \<Rightarrow> nat option" where
  "digits_val acc [] = None"
| "digits_val acc [c] = (if is_digit c then Some (acc * 10 + (of_char c - 48)) else None)"
| "digits_val acc (c # d # cs) =
     (if is_digit c then
        (if d = CHR ''_'' then digits_val (acc * 10 + (of_char c - 48)) cs
         else digits_val (acc * 10 + (of_char c - 48)) (d # cs))
      else None)"

definition split_sign :: "string \<Rightarrow> bool \<times> string" where
  "split_sign s = (case s of
      [] \<Rightarrow> (False, [])
    | c # cs \<Rightarrow> if c = CHR ''-'' then (True, cs) else if c = CHR ''+'' then (False, cs) else (False, s))"

definition int_of_str :: "string \<Rightarrow> int option" where
  "int_of_str s = (let (neg, ds) = split_sign (py_strip s) in
     map_option (\<lambda>n. if neg then - int n else int n) (digits_val 0 ds))"

definition exponent_of_str :: "string \<Rightarrow> int option" where
  "exponent_of_str s = (let (neg, ds) = split_sign s in
     map_option (\<lambda>n. if neg then - int n else int n) (digits_val 0 ds))"

definition scale10 :: "rat \<Rightarrow> int \<Rightarrow> rat" where
  "scale10 r e = (if 0 \<le> e then r * 10 ^ nat e else r / 10 ^ nat (- e))"

definition digit_count :: "string \<Rightarrow> nat" where
  "digit_count s = length (filter is_digit s)"

definition mantissa_of_str :: "string \<Rightarrow> rat option" where
  "mantissa_of_str s = (let w = takeWhile (\<lambda>c. c \<noteq> CHR ''.'') s;
                            f = dropWhile (\<lambda>c. c \<noteq> CHR ''.'') s in
     case f of
       [] \<Rightarrow> map_option of_nat (digits_val 0 w)
     | _ # fs \<Rightarrow>
         (case (if w = [] then Some 0 else digits_val 0 w, if fs = [] then Some 0 else digits_val 0 fs) of
            (Some a, Some b) \<Rightarrow>
              if w = [] \<and> fs = [] then None
              else Some (of_nat a + scale10 (of_nat b) (- int (digit_count fs)))
          | _ \<Rightarrow> None))"

definition float_of_str :: "string \<Rightarrow> rat option" where
  "float_of_str s = (let (neg, t) = split_sign (py_strip s);
      isexp = (\<lambda>c. c = CHR ''e'' \<or> c = CHR ''E'');
      m = takeWhile (\<lambda>c. \<not> isexp c) t;
      e = dropWhile (\<lambda>c. \<not> isexp c) t in
      case (mantissa_of_str m, if e = [] then Some 0 else exponent_of_str (tl e)) of
        (Some r, Some k) \<Rightarrow> Some (scale10 (if neg then - r else r) k)
      | _ \<Rightarrow> None)"

definition truncate_rat :: "rat \<Rightarrow> int" where
  "truncate_rat r = (if 0 \<le> r then \<lfloor>r\<rfloor> else \<lceil>r\<rceil>)"

fun py_int :: "pyval \<Rightarrow> py_error + int" where
  "py_int (PInt i) = Inr i"
| "py_int (PBool b) = Inr (if b then 1 else 0)"
| "py_int (PFloat r) = Inr (truncate_rat r)"
| "py_int (PStr s) = (case int_of_str s of None \<Rightarrow> Inl ValueError | Some i \<Rightarrow> Inr i)"
| "py_int _ = Inl TypeError"

fun py_float :: "pyval \<Rightarrow> py_error + rat" where
  "py_float (PInt i) = Inr (of_int i)"
| "py_float (PBool b) = Inr (if b then 1 else 0)"
| "py_float (PFloat r) = Inr r"
| "py_float (PStr s) = (case float_of_str s of None \<Rightarrow> Inl ValueError | Some r \<Rightarrow> Inr r)"
| "py_float _ = Inl TypeError"

text \<open>\<open>isinstance(v, (int, float))\<close>: a \<open>bool\<close> is an \<open>int\<close>.\<close>

fun is_number :: "pyval \<Rightarrow> bool" where
  "is_number (PInt _) = True"
| "is_number (PFloat _) = True"
| "is_number (PBool _) = True"
| "is_number _ = False"

lemma is_number_py_float: "is_number v \<Longrightarrow> \<exists>r. py_float v = Inr r"
  by (cases v) auto

lemma is_number_py_int: "is_number v \<Longrightarrow> \<exists>i. py_int v = Inr i"
  by (cases v) auto

section \<open>JSON columns\<close>

fun json_store :: "pyval \<Rightarrow> pyval" where
  "json_store (PList xs) = PList (map json_store xs)"
| "json_store (PDict d) = PDict (sort_key fst (map (\<lambda>p. (fst p, json_store (snd p))) d))"
| "json_store v = v"

definition json_dict :: "pydict \<Rightarrow> pydict" where
  "json_dict d = sort_key fst (map (\<lambda>p. (fst p, json_store (snd p))) d)"

lemma json_store_dict: "json_store (PDict d) = PDict (json_dict d)"
  by (simp add: json_dict_def)

declare json_store.simps(2) [simp del]
declare json_store_dict [simp]

lemma map_of_filter_key: "map_of xs k = map_of (filter (\<lambda>p. fst p = k) xs) k"
  by (induction xs) auto

lemma map_of_sort_key: "map_of (sort_key fst xs) k = map_of xs k"
  using map_of_filter_key [of "sort_key fst xs" k] map_of_filter_key [of xs k]
  by (simp add: sort_key_stable)

lemma map_of_json_dict: "map_of (json_dict d) k = map_option json_store (map_of d k)"
proof -
  have "map_of (map (\<lambda>p. (fst p, json_store (snd p))) d) k = map_option json_store (map_of d k)"
    by (induction d) auto
  then show ?thesis by (simp add: json_dict_def map_of_sort_key)
qed

lemma dget_json_dict [simp]: "dget (json_dict d) k = json_store (dget d k)"
  by (simp add: dget_def dget_or_def map_of_json_dict split: option.splits)

lemma set_keys_json_dict [simp]: "fst ` set (json_dict d) = fst ` set d"
  by (force simp: json_dict_def)

lemma distinct_json_dict: "distinct (map fst (json_dict d)) = distinct (map fst d)"
proof -
  have "distinct (map fst (sort_key fst xs)) = distinct (map fst xs)" for xs :: pydict
    by (simp add: distinct_map)
  then show ?thesis by (simp add: json_dict_def o_def)
qed

lemma truthy_json_store [simp]: "truthy (json_store v) = truthy v"
  by (cases v) (auto simp: json_dict_def dest: arg_cong [of _ _ set])

lemma list_all_json_dict:
  "(\<And>v. Q v \<Longrightarrow> Q (json_store v)) \<Longrightarrow>
   list_all (\<lambda>p. Q (snd p)) d \<Longrightarrow> list_all (\<lambda>p. Q (snd p)) (json_dict d)"
  by (auto simp: json_dict_def list_all_iff)

lemma is_number_json_store: "is_number v \<Longrightarrow> is_number (json_store v)"
  by (cases v) auto

lemma json_store_scalar [simp]:
  "json_store v = PNone \<longleftrightarrow> v = PNone" "json_store v = PInt i \<longleftrightarrow> v = PInt i"
  "json_store v = PStr t \<longleftrightarrow> v = PStr t" "json_store v = PBool b \<longleftrightarrow> v = PBool b"
  "json_store v = PFloat r \<longleftrightarrow> v = PFloat r"
  by (cases v; simp)+

lemma json_dict_Nil [simp]: "json_dict [] = []"
  by (simp add: json_dict_def)

text \<open>Writing what was read changes nothing: a stored value is a fixed point.\<close>

lemma sort_key_map_snd:
  "sort_key fst (map (\<lambda>p. (fst p, f (snd p))) xs) = map (\<lambda>p. (fst p, f (snd p))) (sort_key fst xs)"
proof -
  have ins: "insort_key fst (fst p, f (snd p)) (map (\<lambda>p. (fst p, f (snd p))) ys) =
      map (\<lambda>p. (fst p, f (snd p))) (insort_key fst p ys)" for p and ys
    by (induction ys) auto
  show ?thesis by (induction xs) (simp_all add: ins)
qed

lemma json_store_idem [simp]: "json_store (json_store v) = json_store v"
proof (induction v rule: json_store.induct)
  case (2 d)
  have eq: "map (\<lambda>p. (fst p, json_store (json_store (snd p)))) d =
            map (\<lambda>p. (fst p, json_store (snd p))) d"
    using 2 by simp
  have "json_dict (json_dict d) =
        sort_key fst (sort_key fst (map (\<lambda>p. (fst p, json_store (json_store (snd p)))) d))"
    by (simp add: json_dict_def flip: sort_key_map_snd) (simp add: o_def)
  also have "\<dots> = json_dict d"
    by (simp only: eq) (simp add: json_dict_def sort_key_id_if_sorted)
  finally show ?case by simp
qed simp_all

lemma json_dict_idem: "json_dict (json_dict d) = json_dict d"
  using json_store_idem [of "PDict d"] by simp

end
