(* ===== verification/Py_Time.thy ===== *)
theory Py_Time
  imports Py_Values
begin

text \<open>
  \<open>shared/time.py\<close>: canonical timestamps. An instant is the number of milliseconds since
  0001-01-01T00:00:00Z, the first instant of a Python \<open>datetime\<close>; \<open>iso_of\<close> renders it as
  \<open>datetime.isoformat(timespec="milliseconds")\<close> with \<open>+00:00\<close> replaced by \<open>Z\<close>, in the proleptic
  Gregorian calendar of the \<open>datetime\<close> module. \<open>iso_of_less_iff\<close> is the module's promise: texts
  compare as instants do. The components keep timestamps as instants because of it.
\<close>

section \<open>Calendar\<close>

definition leap_year :: "nat \<Rightarrow> bool" where
  "leap_year y = (y mod 4 = 0 \<and> (y mod 100 \<noteq> 0 \<or> y mod 400 = 0))"

definition year_days :: "nat \<Rightarrow> nat" where
  "year_days y = (if leap_year y then 366 else 365)"

text \<open>Days of the years \<open>1 \<dots> y\<close>.\<close>

definition days_through :: "nat \<Rightarrow> nat" where
  "days_through y = y * 365 + y div 4 + y div 400 - y div 100"

lemma hundredth_le_quarter: "n div 100 \<le> n div (4::nat)"
  by (simp add: div_le_mono2)

lemma days_through_Suc: "days_through (Suc y) = days_through y + year_days (Suc y)"
proof -
  have a: "Suc y mod 4 = 0" if "Suc y mod 100 = 0"
    using that dvd_trans [of 4 100 "Suc y"] by (simp add: mod_eq_0_iff_dvd)
  have b: "Suc y mod 100 = 0" if "Suc y mod 400 = 0"
    using that dvd_trans [of 100 400 "Suc y"] by (simp add: mod_eq_0_iff_dvd)
  show ?thesis
    using a b hundredth_le_quarter [of y]
    by (simp add: days_through_def year_days_def leap_year_def div_Suc) (simp add: ac_simps)
qed

lemma days_through_0 [simp]: "days_through 0 = 0"
  by (simp add: days_through_def)

lemma year_days_bounds: "365 \<le> year_days y" "year_days y \<le> 366"
  by (auto simp: year_days_def)

lemma days_through_bounds: "365 * y \<le> days_through y" "days_through y \<le> 366 * y"
proof -
  have "365 * y \<le> days_through y \<and> days_through y \<le> 366 * y"
  proof (induction y)
    case (Suc y)
    then show ?case using year_days_bounds [of "Suc y"] by (simp add: days_through_Suc)
  qed simp
  then show "365 * y \<le> days_through y" "days_through y \<le> 366 * y" by auto
qed

lemma days_through_mono: "y \<le> z \<Longrightarrow> days_through y \<le> days_through z"
  by (rule lift_Suc_mono_le) (simp_all add: days_through_Suc)

text \<open>The year of a day number (0 is 0001-01-01), searched upwards from a lower bound.\<close>

function year_from :: "nat \<Rightarrow> nat \<Rightarrow> nat" where
  "year_from y n = (if n < days_through y then y else year_from (Suc y) n)"
  by auto
termination
proof (relation "measure (\<lambda>(y, n). Suc n - y)")
  fix y n :: nat
  assume "\<not> n < days_through y"
  then have "y \<le> n" using days_through_bounds(1) [of y] by linarith
  then show "((Suc y, n), (y, n)) \<in> measure (\<lambda>(y, n). Suc n - y)" by simp
qed simp

declare year_from.simps [simp del]

definition year_of :: "nat \<Rightarrow> nat" where
  "year_of n = year_from (Suc (n div 366)) n"

definition day_in_year :: "nat \<Rightarrow> nat" where
  "day_in_year n = n - days_through (year_of n - 1)"

fun month_split :: "nat \<Rightarrow> nat list \<Rightarrow> nat \<Rightarrow> nat \<times> nat" where
  "month_split m [] d = (m, d)"
| "month_split m (l # ls) d = (if d < l then (m, d) else month_split (Suc m) ls (d - l))"

definition month_lengths :: "nat \<Rightarrow> nat list" where
  "month_lengths y = [31, if leap_year y then 29 else 28, 31, 30, 31, 30, 31, 31, 30, 31, 30, 31]"

lemma year_from_bounds:
  assumes "days_through (y - 1) \<le> n" "0 < y"
  shows "days_through (year_from y n - 1) \<le> n \<and> n < days_through (year_from y n) \<and> 0 < year_from y n"
  using assms
proof (induction y n rule: year_from.induct)
  case (1 y n)
  show ?case
  proof (cases "n < days_through y")
    case True
    then show ?thesis using "1.prems" by (simp add: year_from.simps [of y n])
  next
    case False
    then show ?thesis using "1.IH" by (simp add: year_from.simps [of y n])
  qed
qed

lemma year_of_bounds:
  "days_through (year_of n - 1) \<le> n" "n < days_through (year_of n)" "0 < year_of n"
proof -
  have "days_through (n div 366) \<le> 366 * (n div 366)" by (rule days_through_bounds)
  also have "\<dots> \<le> n" by simp
  finally have "days_through (Suc (n div 366) - 1) \<le> n" by simp
  from year_from_bounds [OF this]
  show "days_through (year_of n - 1) \<le> n" "n < days_through (year_of n)" "0 < year_of n"
    by (simp_all add: year_of_def)
qed

lemma year_of_mono: "n \<le> m \<Longrightarrow> year_of n \<le> year_of m"
proof (rule ccontr)
  assume le: "n \<le> m" and "\<not> year_of n \<le> year_of m"
  then have "year_of m \<le> year_of n - 1" by simp
  then have "days_through (year_of m) \<le> days_through (year_of n - 1)" by (rule days_through_mono)
  then show False using le year_of_bounds [of n] year_of_bounds [of m] by linarith
qed

lemma year_day_less:
  "n < m \<Longrightarrow> year_of n < year_of m \<or> year_of n = year_of m \<and> day_in_year n < day_in_year m"
  using year_of_mono [of n m] year_of_bounds [of n] year_of_bounds [of m]
  by (auto simp: day_in_year_def)

lemma month_split_ge: "m \<le> fst (month_split m ls d)"
  by (induction m ls d rule: month_split.induct) auto

lemma month_split_less:
  "d < e \<Longrightarrow> fst (month_split m ls d) < fst (month_split m ls e) \<or>
     fst (month_split m ls d) = fst (month_split m ls e) \<and>
     snd (month_split m ls d) < snd (month_split m ls e)"
proof (induction m ls d arbitrary: e rule: month_split.induct)
  case (2 m l ls d)
  then show ?case using month_split_ge [of "Suc m" ls "e - l"] by auto
qed simp

lemma month_split_snd_less:
  "\<forall>l \<in> set ls. l \<le> b \<Longrightarrow> d < sum_list ls \<Longrightarrow>
   fst (month_split m ls d) < m + length ls \<and> snd (month_split m ls d) < b"
proof (induction m ls d rule: month_split.induct)
  case (2 m l ls d)
  then show ?case by auto
qed simp

section \<open>Fixed-width text\<close>

definition digit_char :: "nat \<Rightarrow> char" where
  "digit_char n = char_of (48 + n mod 10)"

fun pad :: "nat \<Rightarrow> nat \<Rightarrow> string" where
  "pad 0 n = []"
| "pad (Suc k) n = pad k (n div 10) @ [digit_char n]"

lemma length_pad [simp]: "length (pad k n) = k"
  by (induction k arbitrary: n) auto

lemma append_less_iff:
  "length u = length v \<Longrightarrow> u @ x < v @ y \<longleftrightarrow> u < v \<or> u = v \<and> x < (y :: 'a :: linorder list)"
  by (induction u v rule: list_induct2) auto

lemma digit_char_less: "n mod 10 < m mod 10 \<Longrightarrow> digit_char n < digit_char m"
  by (simp add: digit_char_def less_char_def)

lemma pad_less: "n < m \<Longrightarrow> m < 10 ^ k \<Longrightarrow> pad k n < pad k m"
proof (induction k arbitrary: n m)
  case (Suc k)
  have md: "m div 10 < 10 ^ k" using Suc.prems by (simp add: less_mult_imp_div_less mult.commute)
  consider "n div 10 < m div 10" | "n div 10 = m div 10" "n mod 10 < m mod 10"
    using Suc.prems by (metis div_le_mono div_mult_mod_eq le_neq_implies_less less_imp_le nat_add_left_cancel_less)
  then show ?case
  proof cases
    case 1
    with Suc.IH md show ?thesis by (simp add: append_less_iff)
  next
    case 2
    then show ?thesis by (simp add: append_less_iff digit_char_less)
  qed
qed simp

section \<open>Timestamps\<close>

definition day_ms :: nat where "day_ms = 86400000"

definition iso_date :: "nat \<Rightarrow> string" where
  "iso_date n = (let y = year_of n; (m, d) = month_split 1 (month_lengths y) (day_in_year n) in
     pad 4 y @ ''-'' @ pad 2 m @ ''-'' @ pad 2 (Suc d))"

definition iso_time :: "nat \<Rightarrow> string" where
  "iso_time t = pad 2 (t div 3600000) @ '':'' @ pad 2 (t div 60000 mod 60) @ '':'' @
     pad 2 (t div 1000 mod 60) @ ''.'' @ pad 3 (t mod 1000) @ ''Z''"

definition max_instant :: int where
  "max_instant = int (days_through 9999 * day_ms)"

definition valid_instant :: "int \<Rightarrow> bool" where
  "valid_instant t = (0 \<le> t \<and> t < max_instant)"

definition iso_of :: "int \<Rightarrow> string" where
  "iso_of t = iso_date (nat t div day_ms) @ ''T'' @ iso_time (nat t mod day_ms)"

lemma length_iso_date [simp]: "length (iso_date n) = 10"
  by (simp add: iso_date_def Let_def split: prod.splits)

lemma year_of_le: "n < days_through k \<Longrightarrow> year_of n \<le> k"
proof (rule ccontr)
  assume n: "n < days_through k" and "\<not> year_of n \<le> k"
  then have "days_through k \<le> days_through (year_of n - 1)" by (intro days_through_mono) simp
  with n year_of_bounds(1) [of n] show False by linarith
qed

lemma day_in_year_less: "day_in_year n < year_days (year_of n)"
proof -
  obtain y where y: "year_of n = Suc y" using year_of_bounds(3) [of n] gr0_implies_Suc by blast
  show ?thesis using year_of_bounds(1,2) [of n] by (simp add: day_in_year_def y days_through_Suc)
qed

lemma month_day_bounds:
  "fst (month_split 1 (month_lengths (year_of n)) (day_in_year n)) < 13 \<and>
   snd (month_split 1 (month_lengths (year_of n)) (day_in_year n)) < 32"
proof -
  have "day_in_year n < sum_list (month_lengths (year_of n))"
    using day_in_year_less [of n] by (auto simp: month_lengths_def year_days_def split: if_splits)
  moreover have "\<forall>l \<in> set (month_lengths (year_of n)). l \<le> 31"
    "length (month_lengths (year_of n)) = 12"
    by (auto simp: month_lengths_def split: if_splits)
  ultimately show ?thesis using month_split_snd_less [of "month_lengths (year_of n)" 31 "day_in_year n" 1] by auto
qed

lemma iso_date_less:
  assumes "n < m" "m < days_through 9999"
  shows "iso_date n < iso_date m"
proof -
  have y: "year_of m < 10 ^ 4" using year_of_le [OF assms(2)] by simp
  from year_day_less [OF assms(1)] show ?thesis
  proof
    assume "year_of n < year_of m"
    then have "pad 4 (year_of n) < pad 4 (year_of m)" using y by (rule pad_less)
    then show ?thesis by (simp add: iso_date_def Let_def append_less_iff split: prod.splits)
  next
    assume "year_of n = year_of m \<and> day_in_year n < day_in_year m"
    then show ?thesis
      using month_split_less [of "day_in_year n" "day_in_year m" 1 "month_lengths (year_of m)"]
        month_day_bounds [of m]
      by (auto simp: iso_date_def Let_def append_less_iff split: prod.splits intro: pad_less)
  qed
qed

lemma radix_less:
  "a < b \<Longrightarrow> a div k < b div k \<or> a div k = b div k \<and> a mod k < b mod (k :: nat)"
  by (metis div_le_mono div_mult_mod_eq le_neq_implies_less less_imp_le nat_add_left_cancel_less)

lemma time_fields_less:
  assumes "h < g \<or> h = g \<and> (m < n \<or> m = n \<and> (s < t \<or> s = t \<and> x < y))"
    and "g < 10 ^ 2" "n < 10 ^ 2" "t < 10 ^ 2" "y < 10 ^ 3"
  shows "pad 2 h @ '':'' @ pad 2 m @ '':'' @ pad 2 s @ ''.'' @ pad 3 x @ ''Z'' <
         pad 2 g @ '':'' @ pad 2 n @ '':'' @ pad 2 t @ ''.'' @ pad 3 y @ ''Z''"
  using assms pad_less [of h g 2] pad_less [of m n 2] pad_less [of s t 2] pad_less [of x y 3]
  by (auto simp: append_less_iff simp del: pad.simps)

lemma iso_time_less:
  assumes "a < b" "b < day_ms"
  shows "iso_time a < iso_time b"
  unfolding iso_time_def
proof (rule time_fields_less)
  have e: "x div 3600000 = x div 1000 div 60 div 60" "x div 60000 = x div 1000 div 60" for x :: nat
    by (simp_all add: div_mult2_eq [symmetric])
  show "a div 3600000 < b div 3600000 \<or> a div 3600000 = b div 3600000 \<and>
    (a div 60000 mod 60 < b div 60000 mod 60 \<or> a div 60000 mod 60 = b div 60000 mod 60 \<and>
     (a div 1000 mod 60 < b div 1000 mod 60 \<or> a div 1000 mod 60 = b div 1000 mod 60 \<and>
      a mod 1000 < b mod 1000))"
    unfolding e
    using radix_less [OF assms(1), of 1000] radix_less [of "a div 1000" "b div 1000" 60]
      radix_less [of "a div 1000 div 60" "b div 1000 div 60" 60] by metis
  show "b div 3600000 < 10 ^ 2" using assms(2) by (simp add: day_ms_def)
qed (simp_all add: less_trans [OF mod_less_divisor])

lemma iso_of_less:
  assumes "0 \<le> s" "s < t" "t < max_instant"
  shows "iso_of s < iso_of t"
proof -
  have m: "nat t div day_ms < days_through 9999"
    using assms by (simp add: max_instant_def less_mult_imp_div_less nat_less_iff)
  have pos: "nat t mod day_ms < day_ms" by (simp add: day_ms_def)
  have "nat s < nat t" using assms by simp
  from radix_less [OF this, of day_ms] show ?thesis
    using iso_date_less [OF _ m] iso_time_less [OF _ pos]
    by (auto simp: iso_of_def append_less_iff)
qed

lemma iso_of_less_iff:
  "valid_instant s \<Longrightarrow> valid_instant t \<Longrightarrow> iso_of s < iso_of t \<longleftrightarrow> s < t"
  using iso_of_less [of s t] iso_of_less [of t s]
  by (cases s t rule: linorder_cases) (auto simp: valid_instant_def)

lemma iso_of_nonempty [simp]: "iso_of t \<noteq> []"
  by (simp add: iso_of_def)

section \<open>Operations\<close>

text \<open>\<open>utc_now\<close> reads the clock; the model takes the instant read as \<open>now\<close>.\<close>

definition utc_now :: "int \<Rightarrow> string" where
  "utc_now now = iso_of now"

text \<open>A \<open>datetime\<close> beyond the years 1 to 9999 raises \<open>OverflowError\<close>.\<close>

definition shift_instant :: "int \<Rightarrow> int \<Rightarrow> py_error + int" where
  "shift_instant t d = (if valid_instant (t + d) then Inr (t + d) else Inl OverflowError)"

definition add_millis :: "int \<Rightarrow> int \<Rightarrow> py_error + string" where
  "add_millis now ms = (case shift_instant now ms of Inl e \<Rightarrow> Inl e | Inr t \<Rightarrow> Inr (iso_of t))"

text \<open>
  \<open>timedelta(seconds=s)\<close> rounds to microseconds, half to even; \<open>isoformat\<close> then drops what is
  below a millisecond.
\<close>

definition round_half_even :: "rat \<Rightarrow> int" where
  "round_half_even r = (let f = \<lfloor>r\<rfloor>; d = r - of_int f in
     if d < 1 / 2 then f else if 1 / 2 < d then f + 1 else if even f then f else f + 1)"

definition seconds_ms :: "rat \<Rightarrow> int" where
  "seconds_ms s = round_half_even (s * 1000000) div 1000"

definition iso_after_seconds :: "int \<Rightarrow> rat \<Rightarrow> py_error + string" where
  "iso_after_seconds base seconds =
     (case shift_instant base (seconds_ms seconds) of Inl e \<Rightarrow> Inl e | Inr t \<Rightarrow> Inr (iso_of t))"

definition utc_cutoff_iso :: "int \<Rightarrow> int \<Rightarrow> py_error + string" where
  "utc_cutoff_iso retention_seconds now =
     (case shift_instant now (- 1000 * max 1 retention_seconds) of
        Inl e \<Rightarrow> Inl e | Inr t \<Rightarrow> Inr (iso_of t))"

lemma round_half_even_of_int [simp]: "round_half_even (of_int n) = n"
  by (simp add: round_half_even_def)

lemma seconds_ms_of_int [simp]: "seconds_ms (of_int n) = 1000 * n"
proof -
  have "(of_int n * 1000000 :: rat) = of_int (n * 1000000)" by simp
  then show ?thesis unfolding seconds_ms_def by (simp only: round_half_even_of_int)
qed

lemma seconds_ms_pos:
  assumes "1 / 10 \<le> s"
  shows "0 < seconds_ms s"
proof -
  have "(100000 :: int) \<le> \<lfloor>s * 1000000\<rfloor>" using assms by (simp add: le_floor_iff)
  moreover have "\<lfloor>s * 1000000\<rfloor> \<le> round_half_even (s * 1000000)" by (simp add: round_half_even_def Let_def)
  ultimately have "1000 \<le> round_half_even (s * 1000000)" by linarith
  then show ?thesis unfolding seconds_ms_def by (simp add: pos_imp_zdiv_pos_iff)
qed

end
