(* ===== verification/Loop_Fsm.thy ===== *)
theory Loop_Fsm
  imports Py_Time
begin

text \<open>
  \<open>product_loop/fsm.py\<close>: the pure state machine of a product loop. \<open>loop_state\<close> are the states in
  the order of \<open>PRODUCT_LOOP_STATES\<close>, \<open>allowed_transitions\<close> the transition table, and the governance
  block \<open>context['fsm']\<close> is the JSON dict the code keeps, with the Python errors a badly typed
  block raises. The lemmas: terminal states have no way out, every other state can be blocked,
  cancelled and brought to \<open>delivered\<close>, and what each stop condition says of policy and usage.
\<close>

datatype loop_state =
    Goal_received | Workspace_check | Runtime_check | Git_check | Discovery | Discovering
  | Awaiting_user | Planning | Brief_ready | Architecture_review | Backlog_ready
  | Iteration_planning | Branch_ready | Executing | Qa_running | Security_running
  | Quality_review | Review_ready | Awaiting_approval | Awaiting_feedback | Reworking
  | Delivered | Blocked | Cancelled

definition product_loop_states :: "loop_state list" where
  "product_loop_states =
     [Goal_received, Workspace_check, Runtime_check, Git_check, Discovery, Discovering,
      Awaiting_user, Planning, Brief_ready, Architecture_review, Backlog_ready,
      Iteration_planning, Branch_ready, Executing, Qa_running, Security_running,
      Quality_review, Review_ready, Awaiting_approval, Awaiting_feedback, Reworking,
      Delivered, Blocked, Cancelled]"

fun state_name :: "loop_state \<Rightarrow> string" where
  "state_name Goal_received = ''goal_received''"
| "state_name Workspace_check = ''workspace_check''"
| "state_name Runtime_check = ''runtime_check''"
| "state_name Git_check = ''git_check''"
| "state_name Discovery = ''discovery''"
| "state_name Discovering = ''discovering''"
| "state_name Awaiting_user = ''awaiting_user''"
| "state_name Planning = ''planning''"
| "state_name Brief_ready = ''brief_ready''"
| "state_name Architecture_review = ''architecture_review''"
| "state_name Backlog_ready = ''backlog_ready''"
| "state_name Iteration_planning = ''iteration_planning''"
| "state_name Branch_ready = ''branch_ready''"
| "state_name Executing = ''executing''"
| "state_name Qa_running = ''qa_running''"
| "state_name Security_running = ''security_running''"
| "state_name Quality_review = ''quality_review''"
| "state_name Review_ready = ''review_ready''"
| "state_name Awaiting_approval = ''awaiting_approval''"
| "state_name Awaiting_feedback = ''awaiting_feedback''"
| "state_name Reworking = ''reworking''"
| "state_name Delivered = ''delivered''"
| "state_name Blocked = ''blocked''"
| "state_name Cancelled = ''cancelled''"

text \<open>Membership of a string in the keys of \<open>ALLOWED_TRANSITIONS\<close>, as the state it names.\<close>

definition state_of_name :: "string \<Rightarrow> loop_state option" where
  "state_of_name n = find (\<lambda>st. state_name st = n) product_loop_states"

definition is_terminal :: "loop_state \<Rightarrow> bool" where
  "is_terminal st = (st = Delivered \<or> st = Cancelled)"

definition resumable_states :: "loop_state list" where
  "resumable_states = filter (\<lambda>st. \<not> is_terminal st \<and> st \<noteq> Blocked) product_loop_states"

fun allowed_transitions :: "loop_state \<Rightarrow> loop_state list" where
  "allowed_transitions Goal_received = [Workspace_check, Discovery, Discovering, Blocked, Cancelled]"
| "allowed_transitions Workspace_check = [Runtime_check, Git_check, Blocked, Cancelled]"
| "allowed_transitions Runtime_check = [Git_check, Discovery, Blocked, Cancelled]"
| "allowed_transitions Git_check = [Runtime_check, Discovery, Blocked, Cancelled]"
| "allowed_transitions Discovery =
     [Awaiting_user, Planning, Brief_ready, Backlog_ready, Blocked, Cancelled]"
| "allowed_transitions Discovering = [Awaiting_user, Brief_ready, Blocked, Cancelled]"
| "allowed_transitions Awaiting_user = [Discovering, Brief_ready, Blocked, Cancelled]"
| "allowed_transitions Planning = [Architecture_review, Backlog_ready, Blocked, Cancelled]"
| "allowed_transitions Brief_ready = [Architecture_review, Backlog_ready, Blocked, Cancelled]"
| "allowed_transitions Architecture_review = [Backlog_ready, Brief_ready, Blocked, Cancelled]"
| "allowed_transitions Backlog_ready = [Branch_ready, Iteration_planning, Blocked, Cancelled]"
| "allowed_transitions Branch_ready = [Executing, Blocked, Cancelled]"
| "allowed_transitions Iteration_planning = [Branch_ready, Executing, Blocked, Cancelled]"
| "allowed_transitions Executing = [Qa_running, Blocked, Cancelled]"
| "allowed_transitions Qa_running = [Security_running, Reworking, Executing, Blocked, Cancelled]"
| "allowed_transitions Security_running = [Quality_review, Review_ready, Blocked, Cancelled]"
| "allowed_transitions Review_ready = [Awaiting_approval, Reworking, Blocked, Cancelled]"
| "allowed_transitions Quality_review =
     [Review_ready, Awaiting_approval, Reworking, Blocked, Cancelled]"
| "allowed_transitions Awaiting_approval =
     [Delivered, Reworking, Awaiting_feedback, Blocked, Cancelled]"
| "allowed_transitions Awaiting_feedback = [Reworking, Executing, Blocked, Cancelled]"
| "allowed_transitions Reworking = [Executing, Blocked, Cancelled]"
| "allowed_transitions Delivered = []"
| "allowed_transitions Cancelled = []"
| "allowed_transitions Blocked = resumable_states @ [Cancelled]"

datatype loop_error =
    LoopNotFound string
  | UnknownState string
  | VersionMismatch int int
  | InvalidTransition loop_state loop_state
  | NotBlocked
  | UsageMismatch int int
  | ConcurrentTransition string
  | MaxReworkReached int string
  | IntegrityError
  | PyError py_error

text \<open>The errors that are a \<open>ProductLoopTransitionError\<close>.\<close>

fun is_transition_error :: "loop_error \<Rightarrow> bool" where
  "is_transition_error (UnknownState _) = True"
| "is_transition_error (VersionMismatch _ _) = True"
| "is_transition_error (InvalidTransition _ _) = True"
| "is_transition_error NotBlocked = True"
| "is_transition_error (UsageMismatch _ _) = True"
| "is_transition_error (ConcurrentTransition _) = True"
| "is_transition_error _ = False"

definition allowed_next_states :: "string \<Rightarrow> loop_error + loop_state list" where
  "allowed_next_states n =
     (case state_of_name n of None \<Rightarrow> Inl (UnknownState n) | Some st \<Rightarrow> Inr (allowed_transitions st))"

definition status_for :: "loop_state \<Rightarrow> string" where
  "status_for st =
     (if st = Delivered then ''delivered''
      else if st = Cancelled then ''cancelled''
      else if st = Blocked then ''blocked''
      else ''active'')"

section \<open>The governance block\<close>

definition empty_policy :: pydict where
  "empty_policy =
     [(''budget'', PDict []), (''timeouts'', PDict []), (''maxReworkRounds'', PNone), (''deadline'', PNone)]"

definition empty_usage :: pydict where
  "empty_usage =
     [(''consumed'', PDict []), (''reworkRounds'', PInt 0), (''stateDeadline'', PNone),
      (''stoppedReason'', PNone), (''usageSeq'', PInt 0)]"

definition empty_fsm :: pydict where
  "empty_fsm = [(''correlationId'', PNone), (''policy'', PDict empty_policy), (''usage'', PDict empty_usage)]"

text \<open>\<open>v or {}\<close> where a dict is needed next: any other true value has no \<open>get\<close> and no \<open>**\<close>.\<close>

definition or_empty :: "pyval \<Rightarrow> py_error + pydict" where
  "or_empty v = (if truthy v then (case v of PDict d \<Rightarrow> Inr d | _ \<Rightarrow> Inl TypeError) else Inr [])"

record fsm_block =
  fb_correlation :: pyval
  fb_policy :: pydict
  fb_usage :: pydict

definition fsm_of :: "pydict \<Rightarrow> py_error + fsm_block" where
  "fsm_of context =
     try_then (or_empty (dget context ''fsm'')) (\<lambda>raw.
     try_then (or_empty (dget raw ''policy'')) (\<lambda>policy.
     try_then (or_empty (dget raw ''usage'')) (\<lambda>usage.
       Inr \<lparr>fb_correlation = dget raw ''correlationId'',
            fb_policy = dmerge empty_policy policy,
            fb_usage = dmerge empty_usage usage\<rparr>)))"

text \<open>The dict \<open>fsm_of\<close> builds, as it is written back.\<close>

definition fsm_dict :: "fsm_block \<Rightarrow> pydict" where
  "fsm_dict b = [(''correlationId'', fb_correlation b), (''policy'', PDict (fb_policy b)),
                 (''usage'', PDict (fb_usage b))]"

fun deep_merge_fsm :: "pydict \<Rightarrow> pydict \<Rightarrow> pydict" where
  "deep_merge_fsm result [] = result"
| "deep_merge_fsm result ((key, value) # patch) =
     deep_merge_fsm
       (case (value, dget result key) of
          (PDict v, PDict r) \<Rightarrow> dset result key (PDict (dmerge r v))
        | _ \<Rightarrow> dset result key value) patch"

section \<open>Stop conditions\<close>

text \<open>A fired condition, with the values its \<open>detail\<close> text interpolates.\<close>

datatype stop_condition =
    Budget_exhausted string pyval
  | Deadline_exceeded pyval
  | State_timeout pyval
  | Max_rework_reached pyval

fun condition_name :: "stop_condition \<Rightarrow> string" where
  "condition_name (Budget_exhausted _ _) = ''budget_exhausted''"
| "condition_name (Deadline_exceeded _) = ''deadline_exceeded''"
| "condition_name (State_timeout _) = ''state_timeout''"
| "condition_name (Max_rework_reached _) = ''max_rework_reached''"

fun condition_json :: "stop_condition \<Rightarrow> pyval" where
  "condition_json (Budget_exhausted k l) =
     PDict [(''condition'', PStr ''budget_exhausted''), (''detail'', PList [PStr k, l])]"
| "condition_json (Deadline_exceeded d) =
     PDict [(''condition'', PStr ''deadline_exceeded''), (''detail'', PList [d])]"
| "condition_json (State_timeout d) =
     PDict [(''condition'', PStr ''state_timeout''), (''detail'', PList [d])]"
| "condition_json (Max_rework_reached m) =
     PDict [(''condition'', PStr ''max_rework_reached''), (''detail'', PList [m])]"

fun budget_conditions :: "pydict \<Rightarrow> pydict \<Rightarrow> py_error + stop_condition list" where
  "budget_conditions consumed [] = Inr []"
| "budget_conditions consumed ((key, limit) # budget) =
     (if is_number limit then
        try_then (py_float (dget_or consumed key (PInt 0))) (\<lambda>c.
        try_then (py_float limit) (\<lambda>l.
        try_then (budget_conditions consumed budget) (\<lambda>rest.
          Inr (if l \<le> c then Budget_exhausted key limit # rest else rest))))
      else budget_conditions consumed budget)"

text \<open>\<open>v and now > v\<close> for a stored timestamp: texts compare by code point, and a text does not
  compare with anything else.\<close>

definition past_deadline :: "pyval \<Rightarrow> int \<Rightarrow> py_error + bool" where
  "past_deadline v now =
     (if truthy v then (case v of PStr d \<Rightarrow> Inr (d < iso_of now) | _ \<Rightarrow> Inl TypeError) else Inr False)"

definition rework_exhausted :: "pydict \<Rightarrow> pydict \<Rightarrow> py_error + bool" where
  "rework_exhausted policy usage =
     (let m = dget policy ''maxReworkRounds'' in
      if m = PNone then Inr False
      else try_then (py_int (dget_or usage ''reworkRounds'' (PInt 0))) (\<lambda>r.
           try_then (py_int m) (\<lambda>mx. Inr (mx \<le> r))))"

definition evaluate_stop_conditions :: "pydict \<Rightarrow> int \<Rightarrow> py_error + stop_condition list" where
  "evaluate_stop_conditions context now =
     try_then (fsm_of context) (\<lambda>fsm.
     let policy = fb_policy fsm; usage = fb_usage fsm in
     try_then (or_empty (dget usage ''consumed'')) (\<lambda>consumed.
     try_then (or_empty (dget policy ''budget'')) (\<lambda>budget.
     try_then (budget_conditions consumed budget) (\<lambda>fired.
     try_then (past_deadline (dget policy ''deadline'') now) (\<lambda>late.
     try_then (past_deadline (dget usage ''stateDeadline'') now) (\<lambda>timed_out.
     try_then (rework_exhausted policy usage) (\<lambda>spent.
       Inr (fired
         @ (if late then [Deadline_exceeded (dget policy ''deadline'')] else [])
         @ (if timed_out then [State_timeout (dget usage ''stateDeadline'')] else [])
         @ (if spent then [Max_rework_reached (dget policy ''maxReworkRounds'')] else [])))))))))"

section \<open>Entering a state\<close>

text \<open>\<open>ProductLoopCoordinator._state_deadline\<close>.\<close>

definition state_deadline :: "loop_state \<Rightarrow> pyval \<Rightarrow> int \<Rightarrow> py_error + pyval" where
  "state_deadline st timeouts now =
     try_then (or_empty timeouts) (\<lambda>d.
       let v = dget d (state_name st) in
       if v = PNone then Inr PNone
       else try_then (py_float v) (\<lambda>seconds.
            try_then (iso_after_seconds now seconds) (\<lambda>t. Inr (PStr t))))"

text \<open>The rework counter on entry to \<open>to\<close>: \<open>reworking\<close> takes one round, or is refused.\<close>

definition rework_round :: "string \<Rightarrow> pydict \<Rightarrow> pydict \<Rightarrow> loop_state \<Rightarrow> loop_error + pydict" where
  "rework_round loop_id policy usage to =
     (if to \<noteq> Reworking then Inr usage
      else try_then (lift_error PyError (py_int (dget_or usage ''reworkRounds'' (PInt 0)))) (\<lambda>r.
        let m = dget policy ''maxReworkRounds'' in
        if m = PNone then Inr (dset usage ''reworkRounds'' (PInt (r + 1)))
        else try_then (lift_error PyError (py_int m)) (\<lambda>mx.
               if mx < r + 1 then Inl (MaxReworkReached mx loop_id)
               else Inr (dset usage ''reworkRounds'' (PInt (r + 1))))))"

definition enter_fsm ::
  "string \<Rightarrow> pydict \<Rightarrow> loop_state \<Rightarrow> int \<Rightarrow> pydict \<Rightarrow> loop_error + pydict" where
  "enter_fsm loop_id context to now fsm_patch =
     try_then (lift_error PyError (fsm_of context)) (\<lambda>fsm.
     try_then (rework_round loop_id (fb_policy fsm) (fb_usage fsm) to) (\<lambda>usage.
     try_then (lift_error PyError (state_deadline to (dget (fb_policy fsm) ''timeouts'') now)) (\<lambda>dl.
       let d = fsm_dict (fsm\<lparr>fb_usage := dset usage ''stateDeadline'' dl\<rparr>) in
       Inr (if fsm_patch = [] then d else deep_merge_fsm d fsm_patch))))"

section \<open>States and transitions\<close>

lemma in_product_loop_states [simp]: "st \<in> set product_loop_states"
  by (cases st) (simp_all add: product_loop_states_def)

lemma state_of_state_name [simp]: "state_of_name (state_name st) = Some st"
  by (cases st) (simp_all add: state_of_name_def product_loop_states_def)

lemma state_of_nameD: "state_of_name n = Some st \<Longrightarrow> state_name st = n"
  by (auto simp: state_of_name_def find_Some_iff)

lemma state_name_inject: "state_name st = state_name st' \<longleftrightarrow> st = st'"
  by (metis option.inject state_of_state_name)

lemma allowed_terminal [simp]: "is_terminal st \<Longrightarrow> allowed_transitions st = []"
  by (auto simp: is_terminal_def)

lemma set_resumable [simp]: "st \<in> set resumable_states \<longleftrightarrow> \<not> is_terminal st \<and> st \<noteq> Blocked"
  by (simp add: resumable_states_def)

lemma block_allowed: "\<not> is_terminal st \<Longrightarrow> st \<noteq> Blocked \<Longrightarrow> Blocked \<in> set (allowed_transitions st)"
  by (cases st) (simp_all add: is_terminal_def)

lemma cancel_allowed: "\<not> is_terminal st \<Longrightarrow> Cancelled \<in> set (allowed_transitions st)"
  by (cases st) (simp_all add: is_terminal_def)

lemma allowed_irrefl: "st \<notin> set (allowed_transitions st)"
  by (cases st) (simp_all add: is_terminal_def)

lemma delivered_only_from_approval:
  "Delivered \<in> set (allowed_transitions st) \<Longrightarrow> st = Awaiting_approval"
  by (cases st) (simp_all add: is_terminal_def)

lemma status_for_active: "status_for st = ''active'' \<longleftrightarrow> \<not> is_terminal st \<and> st \<noteq> Blocked"
  by (simp add: status_for_def is_terminal_def)

text \<open>Steps that do not go through a block.\<close>

definition work_step :: "loop_state \<Rightarrow> loop_state \<Rightarrow> bool" where
  "work_step st st' = (st' \<in> set (allowed_transitions st) \<and> st' \<noteq> Blocked)"

lemma work_step_hop: "work_step st st' \<Longrightarrow> work_step\<^sup>*\<^sup>* st' goal \<Longrightarrow> work_step\<^sup>*\<^sup>* st goal"
  by (rule converse_rtranclp_into_rtranclp)

section \<open>Typing of the governance block\<close>

definition policy_ok :: "pydict \<Rightarrow> bool" where
  "policy_ok p =
     ((\<exists>b. dget p ''budget'' = PDict b) \<and>
      (\<exists>t. dget p ''timeouts'' = PDict t) \<and>
      (dget p ''maxReworkRounds'' = PNone \<or> (\<exists>m. dget p ''maxReworkRounds'' = PInt m)) \<and>
      (dget p ''deadline'' = PNone \<or> (\<exists>d. dget p ''deadline'' = PStr d)))"

definition all_numbers :: "pydict \<Rightarrow> bool" where
  "all_numbers d = list_all (\<lambda>p. is_number (snd p)) d"

definition usage_ok :: "pydict \<Rightarrow> bool" where
  "usage_ok u =
     ((\<exists>c. dget u ''consumed'' = PDict c \<and> all_numbers c) \<and>
      (\<exists>r. dget u ''reworkRounds'' = PInt r \<and> 0 \<le> r) \<and>
      (dget u ''stateDeadline'' = PNone \<or> (\<exists>d. dget u ''stateDeadline'' = PStr d)) \<and>
      (\<exists>q. dget u ''usageSeq'' = PInt q \<and> 0 \<le> q))"

text \<open>The number of rounds taken stays within the policy.\<close>

definition rounds_ok :: "pydict \<Rightarrow> pydict \<Rightarrow> bool" where
  "rounds_ok p u =
     (\<forall>m r. dget p ''maxReworkRounds'' = PInt m \<longrightarrow> dget u ''reworkRounds'' = PInt r \<longrightarrow> r \<le> max 0 m)"

definition governed :: "pydict \<Rightarrow> bool" where
  "governed context =
     (case fsm_of context of
        Inl _ \<Rightarrow> False
      | Inr f \<Rightarrow> policy_ok (fb_policy f) \<and> usage_ok (fb_usage f) \<and> rounds_ok (fb_policy f) (fb_usage f))"

lemma empty_keys:
  "fst ` set empty_policy = {''budget'', ''timeouts'', ''maxReworkRounds'', ''deadline''}"
  "fst ` set empty_usage = {''consumed'', ''reworkRounds'', ''stateDeadline'', ''stoppedReason'', ''usageSeq''}"
  by (auto simp: empty_policy_def empty_usage_def)

definition complete_block :: "fsm_block \<Rightarrow> bool" where
  "complete_block b =
     (distinct (map fst (fb_policy b)) \<and> fst ` set empty_policy \<subseteq> fst ` set (fb_policy b) \<and>
      distinct (map fst (fb_usage b)) \<and> fst ` set empty_usage \<subseteq> fst ` set (fb_usage b))"

lemma fsm_of_complete: "fsm_of context = Inr f \<Longrightarrow> complete_block f"
  by (auto simp: fsm_of_def try_then_Inr_iff complete_block_def keys_dmerge
      intro!: distinct_dmerge) (auto simp: empty_policy_def empty_usage_def)

lemma complete_block_usage:
  "complete_block b \<Longrightarrow> distinct (map fst u) \<Longrightarrow> fst ` set empty_usage \<subseteq> fst ` set u \<Longrightarrow>
   complete_block (b\<lparr>fb_usage := u\<rparr>)"
  by (simp add: complete_block_def)

lemma or_empty_dict [simp]: "or_empty (PDict d) = Inr d"
  by (auto simp: or_empty_def)

lemma or_empty_None [simp]: "or_empty PNone = Inr []"
  by (simp add: or_empty_def)

text \<open>What reading a block back from the store gives: the same entries, in JSON form.\<close>

definition same_entries :: "fsm_block \<Rightarrow> fsm_block \<Rightarrow> bool" where
  "same_entries f b =
     (fb_correlation f = json_store (fb_correlation b) \<and>
      dget (fb_policy f) = json_store \<circ> dget (fb_policy b) \<and>
      dget (fb_usage f) = json_store \<circ> dget (fb_usage b))"

lemma fsm_of_stored:
  assumes "complete_block b"
  shows "\<exists>f. fsm_of (json_dict (dset context ''fsm'' (PDict (fsm_dict b)))) = Inr f \<and> same_entries f b"
proof -
  have "dget (dmerge empty_policy (json_dict (fb_policy b))) k = json_store (dget (fb_policy b) k)"
    "dget (dmerge empty_usage (json_dict (fb_usage b))) k = json_store (dget (fb_usage b) k)" for k
    using assms by (simp_all add: dget_dmerge_full distinct_json_dict complete_block_def)
  then show ?thesis
    by (simp add: fsm_of_def fsm_dict_def same_entries_def o_def fun_eq_iff)
qed

lemma all_numbers_json: "all_numbers d \<Longrightarrow> all_numbers (json_dict d)"
  by (simp add: all_numbers_def list_all_json_dict is_number_json_store)

lemma same_entries_ok:
  assumes "same_entries f b"
  shows "policy_ok (fb_policy f) = policy_ok (fb_policy b)"
    and "usage_ok (fb_usage b) \<Longrightarrow> usage_ok (fb_usage f)"
    and "rounds_ok (fb_policy f) (fb_usage f) = rounds_ok (fb_policy b) (fb_usage b)"
proof -
  have p: "dget (fb_policy f) k = json_store (dget (fb_policy b) k)"
    and u: "dget (fb_usage f) k = json_store (dget (fb_usage b) k)" for k
    using assms by (simp_all add: same_entries_def)
  have d: "(\<exists>d. json_store v = PDict d) = (\<exists>d. v = PDict d)" for v by (cases v) simp_all
  show "policy_ok (fb_policy f) = policy_ok (fb_policy b)" by (simp add: policy_ok_def p d)
  show "usage_ok (fb_usage b) \<Longrightarrow> usage_ok (fb_usage f)"
    using all_numbers_json by (fastforce simp: usage_ok_def u)
  show "rounds_ok (fb_policy f) (fb_usage f) = rounds_ok (fb_policy b) (fb_usage b)"
    by (simp add: rounds_ok_def p u)
qed

lemma governed_stored:
  assumes "complete_block b" "policy_ok (fb_policy b)" "usage_ok (fb_usage b)"
    "rounds_ok (fb_policy b) (fb_usage b)"
  shows "governed (json_dict (dset context ''fsm'' (PDict (fsm_dict b))))"
  using fsm_of_stored [OF assms(1), of "context"] assms(2-4) same_entries_ok
  by (auto simp: governed_def)

lemma governed_cong:
  "dget c ''fsm'' = dget d ''fsm'' \<Longrightarrow> governed c = governed d"
  by (simp add: governed_def fsm_of_def)

text \<open>Patches the callers use: the reason of a stop, and a fresh count of rounds for a new story.\<close>

fun known_patch :: "pydict \<Rightarrow> bool" where
  "known_patch [] = True"
| "known_patch [(k, PDict [(f, v)])] =
     (k = ''usage'' \<and> (f = ''stoppedReason'' \<or> (f = ''reworkRounds'' \<and> v = PInt 0)))"
| "known_patch _ = False"

lemma known_patch_cases:
  assumes "known_patch p"
  obtains "p = []"
    | f v where "p = [(''usage'', PDict [(f, v)])]" "f = ''stoppedReason'' \<or> f = ''reworkRounds'' \<and> v = PInt 0"
  using assms by (cases p rule: known_patch.cases) auto

lemma deep_merge_usage:
  "deep_merge_fsm (fsm_dict b) [(''usage'', PDict u)] = fsm_dict (b\<lparr>fb_usage := dmerge (fb_usage b) u\<rparr>)"
  by (simp add: fsm_dict_def dset_def)

text \<open>Entering a state keeps the block well typed and within its rounds.\<close>

lemma rework_round_ok:
  assumes "rework_round i p u to = Inr u'" "policy_ok p" "usage_ok u" "rounds_ok p u"
  shows "usage_ok u' \<and> rounds_ok p u' \<and> (distinct (map fst u) \<longrightarrow> distinct (map fst u')) \<and>
    fst ` set u \<subseteq> fst ` set u'"
proof (cases "to = Reworking")
  case True
  from assms(3) obtain r where r: "dget u ''reworkRounds'' = PInt r" "0 \<le> r"
    by (auto simp: usage_ok_def)
  then have r': "dget_or u ''reworkRounds'' (PInt 0) = PInt r"
    by (auto simp: dget_def dget_or_def split: option.splits)
  from assms(1) True r' have u': "u' = dset u ''reworkRounds'' (PInt (r + 1))"
    by (auto simp: rework_round_def try_then_Inr_iff lift_error_Inr_iff Let_def split: if_splits)
  have "rounds_ok p u'"
    using assms(1) True r' unfolding u' by (auto simp: rounds_ok_def rework_round_def Let_def split: if_splits)
  moreover have "usage_ok u'" using assms(3) r unfolding u' by (auto simp: usage_ok_def)
  ultimately show ?thesis unfolding u' by (auto simp: distinct_dset)
next
  case False
  with assms show ?thesis by (simp add: rework_round_def)
qed

lemma state_deadline_type: "state_deadline st t now = Inr dl \<Longrightarrow> dl = PNone \<or> (\<exists>x. dl = PStr x)"
  by (auto simp: state_deadline_def try_then_Inr_iff Let_def split: if_splits)

lemma enter_fsm_block:
  assumes "enter_fsm i c to now patch = Inr d" "governed c" "known_patch patch"
  shows "\<exists>b. d = fsm_dict b \<and> complete_block b \<and> policy_ok (fb_policy b) \<and> usage_ok (fb_usage b) \<and>
    rounds_ok (fb_policy b) (fb_usage b)"
proof -
  from assms(1) obtain f u dl where f: "fsm_of c = Inr f"
    and u: "rework_round i (fb_policy f) (fb_usage f) to = Inr u"
    and dl: "state_deadline to (dget (fb_policy f) ''timeouts'') now = Inr dl"
    and d: "d = (if patch = [] then fsm_dict (f\<lparr>fb_usage := dset u ''stateDeadline'' dl\<rparr>)
        else deep_merge_fsm (fsm_dict (f\<lparr>fb_usage := dset u ''stateDeadline'' dl\<rparr>)) patch)"
    by (auto simp: enter_fsm_def try_then_Inr_iff lift_error_Inr_iff Let_def)
  from f assms(2) have ok: "policy_ok (fb_policy f)" "usage_ok (fb_usage f)"
    "rounds_ok (fb_policy f) (fb_usage f)" by (simp_all add: governed_def)
  have cb: "complete_block f" using f by (rule fsm_of_complete)
  define b where "b = f\<lparr>fb_usage := dset u ''stateDeadline'' dl\<rparr>"
  note u' = rework_round_ok [OF u ok]
  have "fst ` set empty_usage \<subseteq> fst ` set u" "distinct (map fst u)"
    using cb u' order_trans [of "fst ` set empty_usage" "fst ` set (fb_usage f)" "fst ` set u"]
    by (simp_all add: complete_block_def)
  then have "complete_block b"
    unfolding b_def using cb by (intro complete_block_usage distinct_dset) (simp_all add: subset_insertI2)
  moreover have "policy_ok (fb_policy b)" by (simp add: b_def ok)
  moreover have "usage_ok (fb_usage b)"
    using u' state_deadline_type [OF dl] by (auto simp: b_def usage_ok_def)
  moreover have "rounds_ok (fb_policy b) (fb_usage b)" using u' by (simp add: b_def rounds_ok_def)
  ultimately have b: "complete_block b" "policy_ok (fb_policy b)" "usage_ok (fb_usage b)"
    "rounds_ok (fb_policy b) (fb_usage b)" by auto
  from assms(3) show ?thesis
  proof (cases rule: known_patch_cases)
    case 1
    with d b show ?thesis by (auto simp: b_def)
  next
    case (2 g v)
    define b' where "b' = b\<lparr>fb_usage := dmerge (fb_usage b) [(g, v)]\<rparr>"
    have "d = fsm_dict b'" using d 2(1) by (simp add: b'_def b_def deep_merge_usage del: deep_merge_fsm.simps)
    moreover have "complete_block b'"
      unfolding b'_def using b(1)
      by (intro complete_block_usage) (auto simp: complete_block_def dmerge_Cons distinct_dset)
    moreover have gv: "dget (fb_usage b') k = (if k = g then v else dget (fb_usage b) k)" for k
      by (simp add: b'_def dmerge_Cons)
    have "policy_ok (fb_policy b')" using b(2) by (simp add: b'_def)
    moreover have "usage_ok (fb_usage b')"
      using 2(2) b(3) by (elim disjE conjE) (simp_all add: usage_ok_def gv)
    moreover have "rounds_ok (fb_policy b') (fb_usage b')"
      using 2(2) b(4) unfolding rounds_ok_def gv by (elim disjE conjE) (simp_all add: b'_def)
    ultimately show ?thesis by blast
  qed
qed

lemma enter_fsm_governed:
  "enter_fsm i c to now patch = Inr d \<Longrightarrow> governed c \<Longrightarrow> known_patch patch \<Longrightarrow>
   governed (json_dict (dset c' ''fsm'' (PDict d)))"
  using enter_fsm_block governed_stored by metis

end
