(* ===== verification/Product_Loop.thy ===== *)
theory Product_Loop
  imports Loop_Fsm
begin

text \<open>
  \<open>product_loop/loop_fsm.py\<close> (class \<open>ProductLoopFsm\<close>) over \<open>product_loop/repository.py\<close> and the
  remediation clean-up of \<open>remediations/repository.py\<close>: the durable life cycle of a loop. The store
  holds the three tables the operations touch. \<open>utc_now()\<close> inside an operation reads \<open>clk\<close>; the
  generated identifier of a new loop is an argument, and row identifiers of the transition log,
  which nothing reads, are left out.
\<close>

record product_loop =
  pl_id :: string
  pl_project_id :: string
  pl_initiative_id :: "string option"
  pl_title :: string
  pl_state :: loop_state
  pl_previous_state :: "loop_state option"
  pl_status :: string
  pl_context :: pydict
  pl_version :: int
  pl_created_at :: int
  pl_updated_at :: int

text \<open>\<open>lt_from_state\<close> is \<open>None\<close> for the empty text of the first row.\<close>

record loop_transition =
  lt_loop_id :: string
  lt_project_id :: string
  lt_from_state :: "loop_state option"
  lt_to_state :: loop_state
  lt_reason :: string
  lt_actor :: string
  lt_trigger :: string
  lt_version :: int
  lt_metadata :: pydict
  lt_created_at :: int

record remediation_action =
  ra_id :: string
  ra_loop_id :: string
  ra_status :: string
  ra_created_at :: int
  ra_resolved_at :: "int option"

record loop_store =
  ls_loops :: "product_loop list"
  ls_transitions :: "loop_transition list"
  ls_remediations :: "remediation_action list"

section \<open>Repository\<close>

definition get_loop :: "string \<Rightarrow> loop_store \<Rightarrow> loop_error + product_loop" where
  "get_loop i s = (case select_one (\<lambda>l. pl_id l = i) (ls_loops s) of
     None \<Rightarrow> Inl (LoopNotFound i) | Some l \<Rightarrow> Inr l)"

definition create_loop ::
  "string \<Rightarrow> string \<Rightarrow> string option \<Rightarrow> string \<Rightarrow> loop_state \<Rightarrow> pydict \<Rightarrow> int \<Rightarrow>
   (loop_store, loop_error, product_loop) op" where
  "create_loop new_id project initiative title st context clk s =
     (if new_id \<in> pl_id ` set (ls_loops s) then (Inl IntegrityError, s)
      else let s' = s\<lparr>ls_loops := ls_loops s @
             [\<lparr>pl_id = new_id, pl_project_id = project, pl_initiative_id = initiative, pl_title = title,
               pl_state = st, pl_previous_state = None, pl_status = status_for st,
               pl_context = json_dict context, pl_version = 1,
               pl_created_at = clk, pl_updated_at = clk\<rparr>]\<rparr>
           in (get_loop new_id s', s'))"

definition update_loop_state ::
  "string \<Rightarrow> loop_state \<Rightarrow> loop_state \<Rightarrow> pydict \<Rightarrow> int \<Rightarrow> int \<Rightarrow>
   (loop_store, loop_error, product_loop) op" where
  "update_loop_state i st previous context version clk s =
     (case get_loop i s of Inl e \<Rightarrow> (Inl e, s)
      | Inr _ \<Rightarrow>
          let s' = s\<lparr>ls_loops := upd_where (\<lambda>l. pl_id l = i)
            (\<lambda>l. l\<lparr>pl_state := st, pl_previous_state := Some previous, pl_status := status_for st,
                   pl_context := json_dict context, pl_version := version, pl_updated_at := clk\<rparr>)
            (ls_loops s)\<rparr>
          in (get_loop i s', s'))"

definition update_loop_context ::
  "string \<Rightarrow> pydict \<Rightarrow> int \<Rightarrow> (loop_store, loop_error, product_loop) op" where
  "update_loop_context i context clk s =
     (case get_loop i s of Inl e \<Rightarrow> (Inl e, s)
      | Inr _ \<Rightarrow>
          let s' = s\<lparr>ls_loops := upd_where (\<lambda>l. pl_id l = i)
            (\<lambda>l. l\<lparr>pl_context := json_dict context, pl_updated_at := clk\<rparr>) (ls_loops s)\<rparr>
          in (get_loop i s', s'))"

text \<open>The table has \<^verbatim>\<open>UNIQUE(loop_id, version)\<close>.\<close>

definition create_transition ::
  "loop_transition \<Rightarrow> (loop_store, loop_error, loop_transition) op" where
  "create_transition row s =
     (if \<exists>r \<in> set (ls_transitions s).
           lt_loop_id r = lt_loop_id row \<and> lt_version r = lt_version row
      then (Inl IntegrityError, s)
      else (Inr row, s\<lparr>ls_transitions := ls_transitions s @ [row]\<rparr>))"

definition list_transitions :: "string \<Rightarrow> loop_store \<Rightarrow> loop_transition list" where
  "list_transitions i s = sort_key lt_version (filter (\<lambda>r. lt_loop_id r = i) (ls_transitions s))"

text \<open>Only the actions of a loop that the store says is terminal are resolved.\<close>

definition resolve_pending_for_loop_in_transaction ::
  "string \<Rightarrow> int \<Rightarrow> loop_store \<Rightarrow> string list \<times> loop_store" where
  "resolve_pending_for_loop_in_transaction loop_id clk s =
     (let i = py_strip loop_id;
          hit = (\<lambda>a. ra_loop_id a = i \<and> ra_status a = ''pending'' \<and>
                     (\<exists>l \<in> set (ls_loops s). pl_id l = ra_loop_id a \<and> is_terminal (pl_state l)))
      in if i = [] then ([], s)
         else (map ra_id (sort_key ra_created_at (filter hit (ls_remediations s))),
               s\<lparr>ls_remediations := upd_where hit
                   (\<lambda>a. a\<lparr>ra_status := ''resolved'', ra_resolved_at := Some clk\<rparr>)
                   (ls_remediations s)\<rparr>))"

section \<open>Operations of ProductLoopFsm\<close>

definition start_fsm ::
  "string option \<Rightarrow> pydict \<Rightarrow> pydict \<Rightarrow> int option \<Rightarrow> string option \<Rightarrow> pyval \<Rightarrow> pydict" where
  "start_fsm correlation_id budget timeouts max_rework deadline state_dl =
     [(''correlationId'', case correlation_id of None \<Rightarrow> PNone | Some c \<Rightarrow> PStr c),
      (''policy'', PDict [(''budget'', PDict budget), (''timeouts'', PDict timeouts),
         (''maxReworkRounds'', case max_rework of None \<Rightarrow> PNone | Some m \<Rightarrow> PInt m),
         (''deadline'', case deadline of None \<Rightarrow> PNone | Some d \<Rightarrow> PStr d)]),
      (''usage'', PDict (dset empty_usage ''stateDeadline'' state_dl))]"

record start_args =
  sa_project_id :: string
  sa_title :: string
  sa_initiative_id :: "string option"
  sa_context :: pydict
  sa_correlation_id :: "string option"
  sa_budget :: pydict
  sa_timeouts :: pydict
  sa_max_rework_rounds :: "int option"
  sa_deadline :: "string option"
  sa_actor :: string
  sa_reason :: string
  sa_now :: "int option"

definition now_or :: "int option \<Rightarrow> int \<Rightarrow> int" where
  "now_or now clk = (case now of None \<Rightarrow> clk | Some t \<Rightarrow> t)"

definition start :: "string \<Rightarrow> start_args \<Rightarrow> int \<Rightarrow> (loop_store, loop_error, product_loop) op" where
  "start new_id a clk s =
     (case state_deadline Goal_received (PDict (sa_timeouts a)) (now_or (sa_now a) clk) of
        Inl e \<Rightarrow> (Inl (PyError e), s)
      | Inr dl \<Rightarrow>
          let fsm = start_fsm (sa_correlation_id a) (sa_budget a) (sa_timeouts a)
                      (sa_max_rework_rounds a) (sa_deadline a) dl;
              context = dset (sa_context a) ''fsm'' (PDict fsm)
          in immediate_transaction
               (and_then (create_loop new_id (sa_project_id a) (sa_initiative_id a) (sa_title a)
                            Goal_received context clk) (\<lambda>loop.
                and_then (create_transition
                  \<lparr>lt_loop_id = pl_id loop, lt_project_id = sa_project_id a, lt_from_state = None,
                   lt_to_state = Goal_received, lt_reason = sa_reason a, lt_actor = sa_actor a,
                   lt_trigger = ''started'', lt_version = pl_version loop,
                   lt_metadata = json_dict [(''correlationId'', dget fsm ''correlationId'')],
                   lt_created_at = clk\<rparr>) (\<lambda>_. ret loop))) s)"

record transition_args =
  ta_to_state :: string
  ta_reason :: string
  ta_actor :: string
  ta_trigger :: string
  ta_correlation_id :: "string option"
  ta_metadata :: pydict
  ta_expected_version :: "int option"
  ta_context_patch :: pydict
  ta_now :: "int option"
  ta_fsm_patch :: pydict

definition plain_transition :: "string \<Rightarrow> string \<Rightarrow> string \<Rightarrow> string \<Rightarrow> transition_args" where
  "plain_transition to reason actor trigger =
     \<lparr>ta_to_state = to, ta_reason = reason, ta_actor = actor, ta_trigger = trigger,
      ta_correlation_id = None, ta_metadata = [], ta_expected_version = None,
      ta_context_patch = [], ta_now = None, ta_fsm_patch = []\<rparr>"

definition version_conflict :: "int option \<Rightarrow> int \<Rightarrow> bool" where
  "version_conflict expected found = (case expected of None \<Rightarrow> False | Some v \<Rightarrow> v \<noteq> found)"

definition write_transition ::
  "string \<Rightarrow> transition_args \<Rightarrow> int \<Rightarrow> product_loop \<Rightarrow> loop_state \<Rightarrow> pydict \<Rightarrow>
   (loop_store, loop_error, product_loop) op" where
  "write_transition i a clk loop to fsm =
     (let correlation = (case ta_correlation_id a of Some c \<Rightarrow> PStr c
                         | None \<Rightarrow> dget fsm ''correlationId'');
          context = dset (dmerge (pl_context loop) (ta_context_patch a)) ''fsm'' (PDict fsm)
      in and_then (update_loop_state i to (pl_state loop) context (pl_version loop + 1) clk) (\<lambda>updated.
         and_then (create_transition
           \<lparr>lt_loop_id = i, lt_project_id = pl_project_id loop,
            lt_from_state = Some (pl_state loop), lt_to_state = to, lt_reason = ta_reason a,
            lt_actor = ta_actor a,
            lt_trigger = (if ta_trigger a = [] then ta_to_state a else ta_trigger a),
            lt_version = pl_version loop + 1,
            lt_metadata = json_dict (dset (ta_metadata a) ''correlationId'' correlation),
            lt_created_at = clk\<rparr>) (\<lambda>_. ret updated)))"

definition apply_transition ::
  "string \<Rightarrow> transition_args \<Rightarrow> int \<Rightarrow> (loop_store, loop_error, product_loop) op" where
  "apply_transition i a clk s =
     (case state_of_name (ta_to_state a) of
        None \<Rightarrow> (Inl (UnknownState (ta_to_state a)), s)
      | Some to \<Rightarrow>
     (case get_loop i s of
        Inl e \<Rightarrow> (Inl e, s)
      | Inr loop \<Rightarrow>
        if version_conflict (ta_expected_version a) (pl_version loop)
        then (Inl (VersionMismatch (the (ta_expected_version a)) (pl_version loop)), s)
        else if to \<notin> set (allowed_transitions (pl_state loop))
        then (Inl (InvalidTransition (pl_state loop) to), s)
        else
     (case enter_fsm i (pl_context loop) to (now_or (ta_now a) clk) (ta_fsm_patch a) of
        Inl e \<Rightarrow> (Inl e, s)
      | Inr fsm \<Rightarrow> write_transition i a clk loop to fsm s)))"

definition transition_in_transaction ::
  "string \<Rightarrow> transition_args \<Rightarrow> int \<Rightarrow> (loop_store, loop_error, product_loop) op" where
  "transition_in_transaction i a clk =
     and_then (apply_transition i a clk) (\<lambda>updated s.
       if is_terminal (pl_state updated)
       then (Inr updated, snd (resolve_pending_for_loop_in_transaction i clk s))
       else (Inr updated, s))"

definition transition ::
  "string \<Rightarrow> transition_args \<Rightarrow> int \<Rightarrow> (loop_store, loop_error, product_loop) op" where
  "transition i a clk s =
     (case immediate_transaction (transition_in_transaction i a clk) s of
        (Inl IntegrityError, s') \<Rightarrow> (Inl (ConcurrentTransition i), s')
      | r \<Rightarrow> r)"

definition block ::
  "string \<Rightarrow> string \<Rightarrow> string \<Rightarrow> pydict \<Rightarrow> string option \<Rightarrow> int option \<Rightarrow> int \<Rightarrow>
   (loop_store, loop_error, product_loop) op" where
  "block i reason actor metadata correlation_id now clk =
     transition i ((plain_transition ''blocked'' reason actor ''blocked'')
       \<lparr>ta_metadata := metadata, ta_correlation_id := correlation_id, ta_now := now\<rparr>) clk"

definition cancel ::
  "string \<Rightarrow> string \<Rightarrow> string \<Rightarrow> string option \<Rightarrow> int option \<Rightarrow> int \<Rightarrow>
   (loop_store, loop_error, product_loop) op" where
  "cancel i reason actor correlation_id now clk =
     transition i ((plain_transition ''cancelled'' reason actor ''cancelled'')
       \<lparr>ta_correlation_id := correlation_id, ta_now := now\<rparr>) clk"

text \<open>\<open>to_state or loop["previousState"] or INITIAL_STATE\<close>; the read is outside the transaction.\<close>

definition unblock_target :: "string option \<Rightarrow> product_loop \<Rightarrow> string" where
  "unblock_target to_state loop =
     (case to_state of
        Some (c # cs) \<Rightarrow> c # cs
      | _ \<Rightarrow> (case pl_previous_state loop of
                Some st \<Rightarrow> state_name st
              | None \<Rightarrow> state_name Goal_received))"

definition unblock ::
  "string \<Rightarrow> string option \<Rightarrow> string \<Rightarrow> string \<Rightarrow> int option \<Rightarrow> int \<Rightarrow>
   (loop_store, loop_error, product_loop) op" where
  "unblock i to_state reason actor now clk s =
     (case get_loop i s of
        Inl e \<Rightarrow> (Inl e, s)
      | Inr loop \<Rightarrow>
          if pl_state loop \<noteq> Blocked then (Inl NotBlocked, s)
          else transition i ((plain_transition (unblock_target to_state loop) reason actor ''unblocked'')
                 \<lparr>ta_now := now\<rparr>) clk s)"

fun add_consumption :: "pydict \<Rightarrow> pydict \<Rightarrow> py_error + pydict" where
  "add_consumption consumed [] = Inr consumed"
| "add_consumption consumed ((key, value) # delta) =
     try_then (py_float (dget_or consumed key (PInt 0))) (\<lambda>c.
     try_then (py_float value) (\<lambda>v. add_consumption (dset consumed key (PFloat (c + v))) delta))"

definition usage_after :: "fsm_block \<Rightarrow> pydict \<Rightarrow> int option \<Rightarrow> loop_error + pydict" where
  "usage_after fsm delta expected_seq =
     try_then (lift_error PyError (py_int (dget_or (fb_usage fsm) ''usageSeq'' (PInt 0)))) (\<lambda>seq.
       if version_conflict expected_seq seq then Inl (UsageMismatch (the expected_seq) seq)
       else try_then (lift_error PyError (or_empty (dget (fb_usage fsm) ''consumed''))) (\<lambda>consumed.
            try_then (lift_error PyError (add_consumption consumed delta)) (\<lambda>consumed'.
              Inr (dset (dset (fb_usage fsm) ''consumed'' (PDict consumed'))
                     ''usageSeq'' (PInt (seq + 1))))))"

definition record_usage ::
  "string \<Rightarrow> pydict \<Rightarrow> int option \<Rightarrow> int \<Rightarrow> (loop_store, loop_error, product_loop) op" where
  "record_usage i delta expected_seq clk =
     immediate_transaction (\<lambda>s.
       case get_loop i s of
         Inl e \<Rightarrow> (Inl e, s)
       | Inr loop \<Rightarrow>
           (case try_then (lift_error PyError (fsm_of (pl_context loop))) (\<lambda>fsm.
                  try_then (usage_after fsm delta expected_seq) (\<lambda>usage.
                    Inr (fsm_dict (fsm\<lparr>fb_usage := usage\<rparr>)))) of
              Inl e \<Rightarrow> (Inl e, s)
            | Inr d \<Rightarrow> update_loop_context i (dset (pl_context loop) ''fsm'' (PDict d)) clk s))"

definition join_names :: "string \<Rightarrow> string list \<Rightarrow> string" where
  "join_names sep xs = concat (case xs of [] \<Rightarrow> [] | y # ys \<Rightarrow> y # map (\<lambda>z. sep @ z) ys)"

definition stop_reason :: "stop_condition list \<Rightarrow> string" where
  "stop_reason fired =
     ''Stop condition(s) reached: '' @ join_names '', '' (map condition_name fired)"

definition enforce_stop_conditions ::
  "string \<Rightarrow> int option \<Rightarrow> string \<Rightarrow> int \<Rightarrow>
   (loop_store, loop_error, product_loop \<times> stop_condition list) op" where
  "enforce_stop_conditions i now actor clk s =
     (case get_loop i s of
        Inl e \<Rightarrow> (Inl e, s)
      | Inr loop \<Rightarrow>
          if is_terminal (pl_state loop) \<or> pl_state loop = Blocked then (Inr (loop, []), s)
          else (case evaluate_stop_conditions (pl_context loop) (now_or now clk) of
             Inl e \<Rightarrow> (Inl (PyError e), s)
           | Inr [] \<Rightarrow> (Inr (loop, []), s)
           | Inr fired \<Rightarrow>
              (case transition i ((plain_transition ''blocked'' (stop_reason fired) actor ''stop_condition'')
                      \<lparr>ta_metadata := [(''stopConditions'', PList (map condition_json fired))],
                       ta_now := Some (now_or now clk),
                       ta_fsm_patch := [(''usage'', PDict [(''stoppedReason'', PStr (stop_reason fired))])]\<rparr>) clk s of
                 (Inr updated, s') \<Rightarrow> (Inr (updated, fired), s')
               | (Inl e, s') \<Rightarrow>
                   if is_transition_error e
                   then (case get_loop i s' of Inl e' \<Rightarrow> (Inl e', s') | Inr l \<Rightarrow> (Inr (l, fired), s'))
                   else (Inl e, s'))))"

text \<open>\<open>ProductLoopCoordinator._write_context_entries\<close>: entries over the context as stored now.\<close>

definition write_context_entries ::
  "string \<Rightarrow> pydict \<Rightarrow> int \<Rightarrow> (loop_store, loop_error, product_loop) op" where
  "write_context_entries i entries clk =
     immediate_transaction (\<lambda>s.
       case get_loop i s of
         Inl e \<Rightarrow> (Inl e, s)
       | Inr current \<Rightarrow> update_loop_context i (dmerge (pl_context current) entries) clk s)"

record resume_view =
  rv_loop :: product_loop
  rv_resumable :: bool
  rv_allowed_next_states :: "string list"
  rv_transitions :: "loop_transition list"

definition resume :: "string \<Rightarrow> loop_store \<Rightarrow> loop_error + resume_view" where
  "resume i s =
     try_then (get_loop i s) (\<lambda>loop.
       Inr \<lparr>rv_loop = loop, rv_resumable = (\<not> is_terminal (pl_state loop)),
            rv_allowed_next_states = sort (map state_name (allowed_transitions (pl_state loop))),
            rv_transitions = list_transitions i s\<rparr>)"

section \<open>Effect of a transition\<close>

definition moved_loop ::
  "transition_args \<Rightarrow> int \<Rightarrow> loop_state \<Rightarrow> pydict \<Rightarrow> product_loop \<Rightarrow> product_loop" where
  "moved_loop a clk to fsm l =
     l\<lparr>pl_state := to, pl_previous_state := Some (pl_state l), pl_status := status_for to,
       pl_context := json_dict (dset (dmerge (pl_context l) (ta_context_patch a)) ''fsm'' (PDict fsm)),
       pl_version := pl_version l + 1, pl_updated_at := clk\<rparr>"

lemma moved_loop_simps [simp]:
  "pl_id (moved_loop a clk to fsm l) = pl_id l"
  "pl_state (moved_loop a clk to fsm l) = to"
  "pl_previous_state (moved_loop a clk to fsm l) = Some (pl_state l)"
  "pl_status (moved_loop a clk to fsm l) = status_for to"
  "pl_version (moved_loop a clk to fsm l) = pl_version l + 1"
  "pl_project_id (moved_loop a clk to fsm l) = pl_project_id l"
  by (simp_all add: moved_loop_def)

definition moved_row ::
  "transition_args \<Rightarrow> int \<Rightarrow> loop_state \<Rightarrow> pydict \<Rightarrow> product_loop \<Rightarrow> loop_transition" where
  "moved_row a clk to fsm l =
     \<lparr>lt_loop_id = pl_id l, lt_project_id = pl_project_id l, lt_from_state = Some (pl_state l),
      lt_to_state = to, lt_reason = ta_reason a, lt_actor = ta_actor a,
      lt_trigger = (if ta_trigger a = [] then ta_to_state a else ta_trigger a),
      lt_version = pl_version l + 1,
      lt_metadata = json_dict (dset (ta_metadata a) ''correlationId''
        (case ta_correlation_id a of Some c \<Rightarrow> PStr c | None \<Rightarrow> dget fsm ''correlationId'')),
      lt_created_at = clk\<rparr>"

lemma moved_row_simps [simp]:
  "lt_loop_id (moved_row a clk to fsm l) = pl_id l"
  "lt_from_state (moved_row a clk to fsm l) = Some (pl_state l)"
  "lt_to_state (moved_row a clk to fsm l) = to"
  "lt_version (moved_row a clk to fsm l) = pl_version l + 1"
  by (simp_all add: moved_row_def)

lemma get_loop_InrD: "get_loop i s = Inr l \<Longrightarrow> l \<in> set (ls_loops s) \<and> pl_id l = i"
  by (auto simp: get_loop_def split: option.splits dest: select_one_SomeD)

lemma get_loop_in:
  "distinct (map pl_id (ls_loops s)) \<Longrightarrow> l \<in> set (ls_loops s) \<Longrightarrow> get_loop (pl_id l) s = Inr l"
  by (simp add: get_loop_def select_one_distinct)

lemma get_loop_upd:
  "(\<And>l. pl_id (f l) = pl_id l) \<Longrightarrow>
   get_loop j (s\<lparr>ls_loops := upd_where P f (ls_loops s)\<rparr>) =
     (case get_loop j s of Inl e \<Rightarrow> Inl e | Inr l \<Rightarrow> Inr (if P l then f l else l))"
  by (auto simp: get_loop_def select_one_key_upd split: option.splits)

lemma get_loop_other_tables [simp]:
  "get_loop j (s\<lparr>ls_transitions := x\<rparr>) = get_loop j s"
  "get_loop j (s\<lparr>ls_remediations := y\<rparr>) = get_loop j s"
  by (simp_all add: get_loop_def)

text \<open>With unique identifiers an update by identifier replaces that one row.\<close>

lemma upd_where_key_replace:
  assumes "distinct (map key rows)" "r \<in> set rows" "key r = k"
  shows "upd_where (\<lambda>q. key q = k) f rows = map (\<lambda>q. if q = r then f r else q) rows"
  using assms by (auto simp: upd_where_def dest: distinct_key_unique)

definition log_of :: "string \<Rightarrow> loop_store \<Rightarrow> loop_transition list" where
  "log_of i s = filter (\<lambda>r. lt_loop_id r = i) (ls_transitions s)"

definition moved_store ::
  "transition_args \<Rightarrow> int \<Rightarrow> loop_state \<Rightarrow> pydict \<Rightarrow> product_loop \<Rightarrow> loop_store \<Rightarrow> loop_store" where
  "moved_store a clk to fsm l s =
     s\<lparr>ls_loops := upd_where (\<lambda>q. pl_id q = pl_id l)
         (\<lambda>q. q\<lparr>pl_state := to, pl_previous_state := Some (pl_state l), pl_status := status_for to,
            pl_context := pl_context (moved_loop a clk to fsm l), pl_version := pl_version l + 1,
            pl_updated_at := clk\<rparr>) (ls_loops s),
       ls_transitions := ls_transitions s @ [moved_row a clk to fsm l]\<rparr>"

lemma write_transition_ok:
  assumes "get_loop i s = Inr l"
  shows "write_transition i a clk l to fsm s =
    (if \<exists>r \<in> set (log_of i s). lt_version r = pl_version l + 1
     then (Inl IntegrityError, (moved_store a clk to fsm l s)\<lparr>ls_transitions := ls_transitions s\<rparr>)
     else (Inr (moved_loop a clk to fsm l), moved_store a clk to fsm l s))"
proof -
  have i: "pl_id l = i" using get_loop_InrD [OF assms] by simp
  show ?thesis using assms i
    by (auto simp: write_transition_def update_loop_state_def create_transition_def and_then_def
        get_loop_upd moved_store_def moved_loop_def moved_row_def log_of_def ret_def Let_def)
qed

lemma apply_transition_Inr:
  "apply_transition i a clk s = (Inr u, s') \<longleftrightarrow>
   (\<exists>to l fsm. state_of_name (ta_to_state a) = Some to \<and> get_loop i s = Inr l \<and>
      \<not> version_conflict (ta_expected_version a) (pl_version l) \<and>
      to \<in> set (allowed_transitions (pl_state l)) \<and>
      enter_fsm i (pl_context l) to (now_or (ta_now a) clk) (ta_fsm_patch a) = Inr fsm \<and>
      (\<forall>r \<in> set (log_of i s). lt_version r \<noteq> pl_version l + 1) \<and>
      u = moved_loop a clk to fsm l \<and> s' = moved_store a clk to fsm l s)"
  by (auto simp: apply_transition_def write_transition_ok split: option.splits sum.splits if_splits)

text \<open>The remediation clean-up after entering a terminal state.\<close>

definition settle_remediations :: "string \<Rightarrow> int \<Rightarrow> loop_state \<Rightarrow> loop_store \<Rightarrow> loop_store" where
  "settle_remediations i clk to s =
     (if is_terminal to then snd (resolve_pending_for_loop_in_transaction i clk s) else s)"

lemma settle_tables [simp]:
  "ls_loops (settle_remediations i clk to s) = ls_loops s"
  "ls_transitions (settle_remediations i clk to s) = ls_transitions s"
  by (simp_all add: settle_remediations_def resolve_pending_for_loop_in_transaction_def Let_def)

lemma transition_in_transaction_settle:
  "transition_in_transaction i a clk s =
     (case apply_transition i a clk s of
        (Inl e, t) \<Rightarrow> (Inl e, t)
      | (Inr u, t) \<Rightarrow> (Inr u, settle_remediations i clk (pl_state u) t))"
  by (simp add: transition_in_transaction_def and_then_def settle_remediations_def
      split: prod.splits sum.splits)

lemma transition_Inr:
  "transition i a clk s = (Inr u, s') \<longleftrightarrow>
   (\<exists>to l fsm. state_of_name (ta_to_state a) = Some to \<and> get_loop i s = Inr l \<and>
      \<not> version_conflict (ta_expected_version a) (pl_version l) \<and>
      to \<in> set (allowed_transitions (pl_state l)) \<and>
      enter_fsm i (pl_context l) to (now_or (ta_now a) clk) (ta_fsm_patch a) = Inr fsm \<and>
      (\<forall>r \<in> set (log_of i s). lt_version r \<noteq> pl_version l + 1) \<and>
      u = moved_loop a clk to fsm l \<and>
      s' = settle_remediations i clk to (moved_store a clk to fsm l s))"
proof -
  have "transition i a clk s = (Inr u, s') \<longleftrightarrow> transition_in_transaction i a clk s = (Inr u, s')"
    by (auto simp: transition_def immediate_transaction_def split: prod.splits sum.splits loop_error.splits)
  also have "\<dots> \<longleftrightarrow> (\<exists>t. apply_transition i a clk s = (Inr u, t) \<and>
      s' = settle_remediations i clk (pl_state u) t)"
    by (auto simp: transition_in_transaction_settle split: prod.splits sum.splits)
  finally show ?thesis by (auto simp: apply_transition_Inr)
qed

lemma transition_Inl: "transition i a clk s = (Inl e, s') \<Longrightarrow> s' = s"
  by (auto simp: transition_def immediate_transaction_def split: prod.splits sum.splits loop_error.splits)

lemma transition_cases:
  obtains (Failed) e where "transition i a clk s = (Inl e, s)"
  | (Moved) to l fsm where
      "state_of_name (ta_to_state a) = Some to" "get_loop i s = Inr l"
      "to \<in> set (allowed_transitions (pl_state l))"
      "enter_fsm i (pl_context l) to (now_or (ta_now a) clk) (ta_fsm_patch a) = Inr fsm"
      "transition i a clk s =
         (Inr (moved_loop a clk to fsm l), settle_remediations i clk to (moved_store a clk to fsm l s))"
proof (cases "transition i a clk s")
  case (Pair r t)
  then show thesis using that transition_Inl [of i a clk s] transition_Inr [of i a clk s]
    by (cases r) auto
qed

section \<open>Effect of a start\<close>

definition started_context :: "start_args \<Rightarrow> pyval \<Rightarrow> pydict" where
  "started_context a dl = json_dict (dset (sa_context a) ''fsm'' (PDict (start_fsm (sa_correlation_id a)
     (sa_budget a) (sa_timeouts a) (sa_max_rework_rounds a) (sa_deadline a) dl)))"

definition started_loop :: "string \<Rightarrow> start_args \<Rightarrow> int \<Rightarrow> pyval \<Rightarrow> product_loop" where
  "started_loop new_id a clk dl =
     \<lparr>pl_id = new_id, pl_project_id = sa_project_id a, pl_initiative_id = sa_initiative_id a,
      pl_title = sa_title a, pl_state = Goal_received, pl_previous_state = None,
      pl_status = status_for Goal_received, pl_context = started_context a dl, pl_version = 1,
      pl_created_at = clk, pl_updated_at = clk\<rparr>"

definition started_row :: "string \<Rightarrow> start_args \<Rightarrow> int \<Rightarrow> pyval \<Rightarrow> loop_transition" where
  "started_row new_id a clk dl =
     \<lparr>lt_loop_id = new_id, lt_project_id = sa_project_id a, lt_from_state = None,
      lt_to_state = Goal_received, lt_reason = sa_reason a, lt_actor = sa_actor a,
      lt_trigger = ''started'', lt_version = 1,
      lt_metadata = json_dict [(''correlationId'',
        dget (start_fsm (sa_correlation_id a) (sa_budget a) (sa_timeouts a)
                (sa_max_rework_rounds a) (sa_deadline a) dl) ''correlationId'')],
      lt_created_at = clk\<rparr>"

lemma get_loop_new:
  assumes "pl_id q \<notin> pl_id ` set (ls_loops s)"
  shows "get_loop (pl_id q) (s\<lparr>ls_loops := ls_loops s @ [q]\<rparr>) = Inr q"
proof -
  have "select_one (\<lambda>l. pl_id l = pl_id q) (ls_loops s) = None"
    using assms by (auto simp: select_one_def find_None_iff image_iff)
  then show ?thesis by (simp add: get_loop_def select_one_append)
qed

lemma start_eq:
  "start new_id a clk s =
     (case state_deadline Goal_received (PDict (sa_timeouts a)) (now_or (sa_now a) clk) of
        Inl e \<Rightarrow> (Inl (PyError e), s)
      | Inr dl \<Rightarrow>
          if new_id \<in> pl_id ` set (ls_loops s) \<or> (\<exists>r \<in> set (log_of new_id s). lt_version r = 1)
          then (Inl IntegrityError, s)
          else (Inr (started_loop new_id a clk dl),
                s\<lparr>ls_loops := ls_loops s @ [started_loop new_id a clk dl],
                  ls_transitions := ls_transitions s @ [started_row new_id a clk dl]\<rparr>))"
proof (cases "state_deadline Goal_received (PDict (sa_timeouts a)) (now_or (sa_now a) clk)")
  case (Inr dl)
  have loop: "create_loop new_id (sa_project_id a) (sa_initiative_id a) (sa_title a) Goal_received
      (dset (sa_context a) ''fsm'' (PDict (start_fsm (sa_correlation_id a)
        (sa_budget a) (sa_timeouts a) (sa_max_rework_rounds a) (sa_deadline a) dl))) clk s =
    (if new_id \<in> pl_id ` set (ls_loops s) then (Inl IntegrityError, s)
     else (Inr (started_loop new_id a clk dl), s\<lparr>ls_loops := ls_loops s @ [started_loop new_id a clk dl]\<rparr>))"
    using get_loop_new [of "started_loop new_id a clk dl" s]
    by (simp add: create_loop_def started_loop_def started_context_def Let_def)
  have row: "create_transition (started_row new_id a clk dl) t =
    (if \<exists>r \<in> set (log_of new_id t). lt_version r = 1 then (Inl IntegrityError, t)
     else (Inr (started_row new_id a clk dl), t\<lparr>ls_transitions := ls_transitions t @ [started_row new_id a clk dl]\<rparr>))" for t
    by (auto simp: create_transition_def started_row_def log_of_def)
  have log: "log_of new_id (s\<lparr>ls_loops := x\<rparr>) = log_of new_id s" for x by (simp add: log_of_def)
  have sel: "pl_id (started_loop new_id a clk dl) = new_id" "pl_version (started_loop new_id a clk dl) = 1"
    by (simp_all add: started_loop_def)
  show ?thesis
    unfolding start_def Inr sum.case Let_def immediate_transaction_def and_then_def loop
    using row log sel by (simp add: started_row_def ret_def)
qed (simp add: start_def)

end
