(* ===== verification/Loop_Invariants.thy ===== *)
theory Loop_Invariants
  imports Product_Loop
begin

text \<open>
  The product loop as a transition system. \<open>replay\<close> is the specification of the append-only log:
  it runs the rows of one loop from nothing and accepts them only when they are contiguous, chained
  and legal. \<open>loop_inv\<close> ties every stored loop to its log and to its governance block; the steps of
  \<open>loop_step\<close> are the operations of \<open>ProductLoopFsm\<close> in any order and with any arguments, and the
  interpretation of \<open>invariant_system\<close> carries \<open>loop_inv\<close> to every reachable store.
\<close>

section \<open>Replay of the log\<close>

fun replay_from :: "loop_state \<times> int \<Rightarrow> loop_transition list \<Rightarrow> (loop_state \<times> int) option" where
  "replay_from c [] = Some c"
| "replay_from (st, v) (r # rs) =
     (if lt_from_state r = Some st \<and> lt_to_state r \<in> set (allowed_transitions st) \<and> lt_version r = v + 1
      then replay_from (lt_to_state r, v + 1) rs else None)"

fun replay :: "loop_transition list \<Rightarrow> (loop_state \<times> int) option" where
  "replay [] = None"
| "replay (r # rs) =
     (if lt_from_state r = None \<and> lt_to_state r = Goal_received \<and> lt_version r = 1
      then replay_from (Goal_received, 1) rs else None)"

lemma replay_from_append:
  "replay_from c (xs @ [r]) =
     (case replay_from c xs of
        None \<Rightarrow> None
      | Some (st, v) \<Rightarrow>
          if lt_from_state r = Some st \<and> lt_to_state r \<in> set (allowed_transitions st) \<and> lt_version r = v + 1
          then Some (lt_to_state r, v + 1) else None)"
  by (induction c xs rule: replay_from.induct) auto

lemma replay_append:
  "xs \<noteq> [] \<Longrightarrow> replay (xs @ [r]) =
     (case replay xs of
        None \<Rightarrow> None
      | Some (st, v) \<Rightarrow>
          if lt_from_state r = Some st \<and> lt_to_state r \<in> set (allowed_transitions st) \<and> lt_version r = v + 1
          then Some (lt_to_state r, v + 1) else None)"
  by (cases xs) (auto simp: replay_from_append)

lemma replay_from_versions:
  "replay_from (st, v) rs = Some (st', v') \<Longrightarrow>
   map lt_version rs = map (\<lambda>k. v + 1 + int k) [0..<length rs] \<and> v' = v + int (length rs)"
proof (induction "(st, v)" rs arbitrary: st v rule: replay_from.induct)
  case (2 st v r rs)
  then have "map lt_version rs = map (\<lambda>k. v + 1 + 1 + int k) [0..<length rs]"
    "v' = v + 1 + int (length rs)" "lt_version r = v + 1"
    by (auto split: if_splits)
  then show ?case by (simp add: map_upt_Suc del: upt_Suc)
qed simp

lemma replay_versions:
  assumes "replay rs = Some (st, v)"
  shows "map lt_version rs = map (\<lambda>k. 1 + int k) [0..<length rs]" "v = int (length rs)"
proof -
  from assms obtain r qs where rs: "rs = r # qs" "lt_version r = 1"
    "replay_from (Goal_received, 1) qs = Some (st, v)"
    by (cases rs) (auto split: if_splits)
  from replay_from_versions [OF rs(3)] show "v = int (length rs)" by (simp add: rs(1))
  from replay_from_versions [OF rs(3)]
  show "map lt_version rs = map (\<lambda>k. 1 + int k) [0..<length rs]"
    by (simp add: rs(1,2) map_upt_Suc del: upt_Suc)
qed

lemma replay_sorted: "replay rs = Some c \<Longrightarrow> sorted (map lt_version rs)"
  by (cases c) (simp add: replay_versions(1) sorted_iff_nth_mono)

lemma replay_version_bound: "replay rs = Some (st, v) \<Longrightarrow> r \<in> set rs \<Longrightarrow> lt_version r \<le> v"
proof -
  assume a: "replay rs = Some (st, v)" "r \<in> set rs"
  then have "lt_version r \<in> set (map lt_version rs)" by simp
  then show "lt_version r \<le> v" using replay_versions [OF a(1)] by auto
qed

section \<open>Invariant\<close>

definition loop_ok :: "loop_store \<Rightarrow> product_loop \<Rightarrow> bool" where
  "loop_ok s l =
     (replay (log_of (pl_id l) s) = Some (pl_state l, pl_version l) \<and>
      pl_status l = status_for (pl_state l) \<and>
      (case pl_previous_state l of None \<Rightarrow> pl_state l \<noteq> Blocked
       | Some p \<Rightarrow> pl_state l \<in> set (allowed_transitions p)) \<and>
      json_dict (pl_context l) = pl_context l \<and> governed (pl_context l))"

definition loop_inv :: "loop_store \<Rightarrow> bool" where
  "loop_inv s =
     (distinct (map pl_id (ls_loops s)) \<and>
      lt_loop_id ` set (ls_transitions s) \<subseteq> pl_id ` set (ls_loops s) \<and>
      (\<forall>l \<in> set (ls_loops s). loop_ok s l))"

definition empty_store :: loop_store where
  "empty_store = \<lparr>ls_loops = [], ls_transitions = [], ls_remediations = []\<rparr>"

lemma loop_inv_get:
  "loop_inv s \<Longrightarrow> get_loop i s = Inr l \<Longrightarrow> loop_ok s l \<and> l \<in> set (ls_loops s) \<and> pl_id l = i"
  by (auto simp: loop_inv_def dest: get_loop_InrD)

lemma loop_ok_cong:
  "log_of (pl_id l) s = log_of (pl_id l) t \<Longrightarrow> loop_ok s l = loop_ok t l"
  by (simp add: loop_ok_def)

lemma log_of_settle [simp]: "log_of i (settle_remediations j clk to s) = log_of i s"
  by (simp add: log_of_def)

lemma loop_inv_settle [simp]: "loop_inv (settle_remediations i clk to s) = loop_inv s"
  by (simp add: loop_inv_def loop_ok_def)

lemma log_of_moved:
  "log_of j (moved_store a clk to fsm l s) =
     log_of j s @ (if j = pl_id l then [moved_row a clk to fsm l] else [])"
  by (simp add: log_of_def moved_store_def)

lemma moved_loops:
  assumes "loop_inv s" "l \<in> set (ls_loops s)"
  shows "ls_loops (moved_store a clk to fsm l s) =
    map (\<lambda>q. if q = l then moved_loop a clk to fsm l else q) (ls_loops s)"
  using assms upd_where_key_replace [of pl_id "ls_loops s" l "pl_id l"]
  by (simp add: moved_store_def loop_inv_def) (simp add: moved_loop_def cong: if_cong)

lemma moved_ok:
  assumes "loop_ok s l" "to \<in> set (allowed_transitions (pl_state l))"
    "enter_fsm i (pl_context l) to now (ta_fsm_patch a) = Inr fsm" "known_patch (ta_fsm_patch a)"
  shows "loop_ok (moved_store a clk to fsm l s) (moved_loop a clk to fsm l)"
proof -
  have r: "replay (log_of (pl_id l) s) = Some (pl_state l, pl_version l)" and g: "governed (pl_context l)"
    using assms(1) by (simp_all add: loop_ok_def)
  then have ne: "log_of (pl_id l) s \<noteq> []" by auto
  have "governed (pl_context (moved_loop a clk to fsm l))"
    using enter_fsm_governed [OF assms(3) g assms(4)] by (simp add: moved_loop_def)
  moreover have "json_dict (pl_context (moved_loop a clk to fsm l)) = pl_context (moved_loop a clk to fsm l)"
    by (simp add: moved_loop_def json_dict_idem)
  moreover have "replay (log_of (pl_id l) s @ [moved_row a clk to fsm l]) = Some (to, pl_version l + 1)"
    using r ne assms(2) by (simp add: replay_append)
  ultimately show ?thesis using assms(2) by (simp add: loop_ok_def log_of_moved)
qed

lemma moved_inv:
  assumes inv: "loop_inv s" and l: "get_loop i s = Inr l"
    and "to \<in> set (allowed_transitions (pl_state l))"
    and "enter_fsm i (pl_context l) to now (ta_fsm_patch a) = Inr fsm" "known_patch (ta_fsm_patch a)"
  shows "loop_inv (moved_store a clk to fsm l s)" (is "loop_inv ?t")
proof -
  have ok: "loop_ok s l" and mem: "l \<in> set (ls_loops s)" using loop_inv_get [OF inv l] by auto
  have dist: "distinct (map pl_id (ls_loops s))" using inv by (simp add: loop_inv_def)
  have ids: "map pl_id (ls_loops ?t) = map pl_id (ls_loops s)"
    by (simp add: moved_loops [OF inv mem])
  have idset: "pl_id ` set (ls_loops ?t) = pl_id ` set (ls_loops s)"
    using arg_cong [OF ids, of set] by (simp only: set_map)
  have rows: "lt_loop_id ` set (ls_transitions ?t) \<subseteq> pl_id ` set (ls_loops s)"
    using inv mem by (auto simp: loop_inv_def moved_store_def)
  have "loop_ok ?t q" if q: "q \<in> set (ls_loops ?t)" for q
  proof (cases "pl_id q = pl_id l")
    case True
    with q dist mem have "q = moved_loop a clk to fsm l"
      by (auto simp: moved_loops [OF inv mem] split: if_splits dest: distinct_key_unique)
    then show ?thesis using moved_ok [OF ok assms(3-5)] by simp
  next
    case False
    with q have "q \<in> set (ls_loops s)" by (auto simp: moved_loops [OF inv mem] split: if_splits)
    then have "loop_ok s q" using inv by (simp add: loop_inv_def)
    then show ?thesis using False by (simp add: loop_ok_def log_of_moved)
  qed
  then show ?thesis using dist rows ids idset unfolding loop_inv_def by simp
qed

lemma transition_inv:
  assumes "loop_inv s" "known_patch (ta_fsm_patch a)"
  shows "loop_inv (snd (transition i a clk s))"
proof (cases rule: transition_cases [of i a clk s])
  case (Failed e)
  then show ?thesis using assms by simp
next
  case (Moved to l fsm)
  then show ?thesis using moved_inv [OF assms(1) Moved(2,3,4) assms(2)] by simp
qed

text \<open>An update of the context alone keeps the invariant when it keeps the block governed.\<close>

lemma update_loop_context_inv:
  assumes inv: "loop_inv s" and g: "governed (json_dict c)"
  shows "loop_inv (snd (update_loop_context i c clk s))"
proof (cases "get_loop i s")
  case (Inr l)
  have "loop_ok (s\<lparr>ls_loops := x\<rparr>) (q\<lparr>pl_context := json_dict c, pl_updated_at := clk\<rparr>)"
    "loop_ok (s\<lparr>ls_loops := x\<rparr>) q"
    if "loop_ok s q" for q x using that g
    by (auto simp: loop_ok_def log_of_def json_dict_idem split: option.splits)
  then have "\<forall>q \<in> set (upd_where (\<lambda>l. pl_id l = i)
      (\<lambda>l. l\<lparr>pl_context := json_dict c, pl_updated_at := clk\<rparr>) (ls_loops s)). loop_ok (s\<lparr>ls_loops := x\<rparr>) q" for x
    using inv by (auto simp: loop_inv_def in_upd_where_iff)
  then show ?thesis using inv Inr
    by (simp add: update_loop_context_def loop_inv_def map_upd_where_key key_set_upd_where Let_def)
qed (simp add: update_loop_context_def inv)

lemma usage_after_ok:
  assumes "usage_after f delta q = Inr u" "usage_ok (fb_usage f)" "rounds_ok p (fb_usage f)"
  shows "usage_ok u \<and> rounds_ok p u \<and>
    (\<exists>x y. u = dset (dset (fb_usage f) ''consumed'' x) ''usageSeq'' y)"
proof -
  have num: "add_consumption c d = Inr c' \<Longrightarrow> all_numbers c \<Longrightarrow> all_numbers c'" for c d c'
    by (induction c d rule: add_consumption.induct)
      (auto simp: try_then_Inr_iff all_numbers_def list_all_dset)
  from assms(1) obtain seq c c' where "or_empty (dget (fb_usage f) ''consumed'') = Inr c"
    "add_consumption c delta = Inr c'" and seq: "py_int (dget_or (fb_usage f) ''usageSeq'' (PInt 0)) = Inr seq"
    and u: "u = dset (dset (fb_usage f) ''consumed'' (PDict c')) ''usageSeq'' (PInt (seq + 1))"
    by (auto simp: usage_after_def try_then_Inr_iff lift_error_Inr_iff split: if_splits)
  moreover have "0 \<le> seq" using seq assms(2)
    by (auto simp: usage_ok_def dget_def dget_or_def split: option.splits)
  ultimately show ?thesis using assms(2,3) num
    by (auto simp: usage_ok_def rounds_ok_def)
qed

lemma record_usage_inv:
  assumes "loop_inv s"
  shows "loop_inv (snd (record_usage i delta q clk s))"
proof -
  have "loop_inv (snd (update_loop_context i (dset (pl_context l) ''fsm'' (PDict d)) clk s))"
    if l: "get_loop i s = Inr l" and f: "fsm_of (pl_context l) = Inr f"
      and u: "usage_after f delta q = Inr u" and d: "d = fsm_dict (f\<lparr>fb_usage := u\<rparr>)" for l f u d
  proof (rule update_loop_context_inv [OF assms])
    have g: "policy_ok (fb_policy f)" "usage_ok (fb_usage f)" "rounds_ok (fb_policy f) (fb_usage f)"
      using loop_inv_get [OF assms l] f by (simp_all add: loop_ok_def governed_def)
    have cb: "complete_block f" using f by (rule fsm_of_complete)
    obtain x y where u': "u = dset (dset (fb_usage f) ''consumed'' x) ''usageSeq'' y"
      and ok: "usage_ok u" "rounds_ok (fb_policy f) u"
      using usage_after_ok [OF u g(2,3)] by blast
    have "complete_block (f\<lparr>fb_usage := u\<rparr>)"
      using cb unfolding u' by (intro complete_block_usage distinct_dset) (auto simp: complete_block_def)
    then show "governed (json_dict (dset (pl_context l) ''fsm'' (PDict d)))"
      using g(1) ok unfolding d by (intro governed_stored) simp_all
  qed
  then show ?thesis using assms
    by (auto simp: record_usage_def immediate_transaction_def try_then_def lift_error_def
        split: sum.splits prod.splits)
      (metis snd_conv)+
qed

lemma write_context_entries_inv:
  assumes "loop_inv s" "''fsm'' \<notin> fst ` set entries"
  shows "loop_inv (snd (write_context_entries i entries clk s))"
proof -
  have "loop_inv (snd (update_loop_context i (dmerge (pl_context l) entries) clk s))"
    if l: "get_loop i s = Inr l" for l
  proof (rule update_loop_context_inv [OF assms(1)])
    have ok: "json_dict (pl_context l) = pl_context l" "governed (pl_context l)"
      using loop_inv_get [OF assms(1) l] by (simp_all add: loop_ok_def)
    have "map_of (rev entries) ''fsm'' = None"
      using assms(2) by (simp add: map_of_eq_None_iff)
    then have "dget (dmerge (pl_context l) entries) ''fsm'' = dget (pl_context l) ''fsm''"
      by (simp add: dget_def dget_or_def map_of_dmerge_fold)
    then have "dget (json_dict (dmerge (pl_context l) entries)) ''fsm'' = dget (json_dict (pl_context l)) ''fsm''"
      by simp
    then show "governed (json_dict (dmerge (pl_context l) entries))"
      using ok governed_cong by metis
  qed
  then show ?thesis using assms(1)
    by (auto simp: write_context_entries_def immediate_transaction_def split: sum.splits prod.splits)
qed

lemma start_governed:
  assumes "state_deadline st t now = Inr dl"
  shows "governed (json_dict (dset c ''fsm'' (PDict (start_fsm corr budget timeouts mx deadline dl))))"
proof -
  define b where "b = \<lparr>fb_correlation = (case corr of None \<Rightarrow> PNone | Some c \<Rightarrow> PStr c),
    fb_policy = [(''budget'', PDict budget), (''timeouts'', PDict timeouts),
         (''maxReworkRounds'', case mx of None \<Rightarrow> PNone | Some m \<Rightarrow> PInt m),
         (''deadline'', case deadline of None \<Rightarrow> PNone | Some d \<Rightarrow> PStr d)],
    fb_usage = dset empty_usage ''stateDeadline'' dl\<rparr>"
  have "start_fsm corr budget timeouts mx deadline dl = fsm_dict b"
    by (simp add: start_fsm_def fsm_dict_def b_def)
  moreover have "complete_block b"
    by (auto simp: b_def complete_block_def empty_policy_def intro!: distinct_dset)
      (simp add: empty_usage_def)
  moreover have "policy_ok (fb_policy b)"
    by (simp add: b_def policy_ok_def split: option.splits)
  moreover have "usage_ok (fb_usage b)"
    using state_deadline_type [OF assms]
    by (auto simp: b_def usage_ok_def empty_usage_def all_numbers_def)
  moreover have "rounds_ok (fb_policy b) (fb_usage b)"
    by (simp add: b_def rounds_ok_def empty_usage_def split: option.splits)
  ultimately show ?thesis by (simp add: governed_stored)
qed

lemma start_inv:
  assumes inv: "loop_inv s"
  shows "loop_inv (snd (start new_id a clk s))"
proof (cases "start new_id a clk s = (fst (start new_id a clk s), s)")
  case True
  then show ?thesis using inv by (metis snd_conv)
next
  case False
  then obtain dl where dl: "state_deadline Goal_received (PDict (sa_timeouts a)) (now_or (sa_now a) clk) = Inr dl"
    and new: "new_id \<notin> pl_id ` set (ls_loops s)"
    and t: "snd (start new_id a clk s) = s\<lparr>ls_loops := ls_loops s @ [started_loop new_id a clk dl],
                  ls_transitions := ls_transitions s @ [started_row new_id a clk dl]\<rparr>" (is "_ = ?t")
    by (auto simp: start_eq split: sum.splits if_splits)
  have ids: "pl_id (started_loop new_id a clk dl) = new_id" "lt_loop_id (started_row new_id a clk dl) = new_id"
    by (simp_all add: started_loop_def started_row_def)
  have "lt_loop_id r \<noteq> new_id" if "r \<in> set (ls_transitions s)" for r
  proof -
    have "lt_loop_id r \<in> pl_id ` set (ls_loops s)" using inv that unfolding loop_inv_def by blast
    with new show ?thesis by metis
  qed
  then have fresh: "filter (\<lambda>r. lt_loop_id r = new_id) (ls_transitions s) = []"
    by (simp add: filter_empty_conv)
  have "governed (started_context a dl)"
    unfolding started_context_def using dl by (rule start_governed)
  moreover have "json_dict (started_context a dl) = started_context a dl"
    unfolding started_context_def by (rule json_dict_idem)
  moreover have "log_of new_id ?t = [started_row new_id a clk dl]"
    using fresh ids by (simp add: log_of_def)
  moreover have "replay [started_row new_id a clk dl] = Some (Goal_received, 1)"
    by (simp add: started_row_def)
  ultimately have "loop_ok ?t (started_loop new_id a clk dl)"
    by (simp add: loop_ok_def started_loop_def)
  moreover have "loop_ok ?t p" if "p \<in> set (ls_loops s)" for p
  proof -
    have "log_of (pl_id p) ?t = log_of (pl_id p) s" using that new ids by (auto simp: log_of_def)
    then have "loop_ok ?t p = loop_ok s p" by (rule loop_ok_cong)
    then show ?thesis using that inv by (simp add: loop_inv_def)
  qed
  ultimately have "\<forall>p \<in> set (ls_loops ?t). loop_ok ?t p" by simp
  moreover have "distinct (map pl_id (ls_loops ?t))" using inv ids new by (simp add: loop_inv_def)
  moreover have "lt_loop_id ` set (ls_transitions ?t) \<subseteq> pl_id ` set (ls_loops ?t)"
    using inv ids by (simp add: loop_inv_def subset_insertI2)
  ultimately have "loop_inv ?t" unfolding loop_inv_def by blast
  then show ?thesis by (simp only: t)
qed

section \<open>The transition system\<close>

inductive loop_step :: "loop_store \<Rightarrow> loop_store \<Rightarrow> bool" where
  step_start: "start new_id a clk s = (r, t) \<Longrightarrow> loop_step s t"
| step_transition: "known_patch (ta_fsm_patch b) \<Longrightarrow> transition i b clk s = (r, t) \<Longrightarrow> loop_step s t"
| step_block: "block i reason actor md corr now clk s = (r, t) \<Longrightarrow> loop_step s t"
| step_cancel: "cancel i reason actor corr now clk s = (r, t) \<Longrightarrow> loop_step s t"
| step_unblock: "unblock i to_state reason actor now clk s = (r, t) \<Longrightarrow> loop_step s t"
| step_usage: "record_usage i delta q clk s = (r, t) \<Longrightarrow> loop_step s t"
| step_enforce: "enforce_stop_conditions i now actor clk s = (o', t) \<Longrightarrow> loop_step s t"
| step_context:
    "''fsm'' \<notin> fst ` set entries \<Longrightarrow> write_context_entries i entries clk s = (r, t) \<Longrightarrow> loop_step s t"

text \<open>Block, cancel, unblock and the enforcement are transitions, or leave the store alone.\<close>

definition moves_by_transition :: "string \<Rightarrow> loop_store \<Rightarrow> loop_store \<Rightarrow> bool" where
  "moves_by_transition i s t =
     (t = s \<or> (\<exists>b clk r. known_patch (ta_fsm_patch b) \<and> transition i b clk s = (r, t)))"

lemma moves_by_transitionI:
  "known_patch (ta_fsm_patch b) \<Longrightarrow> transition i b clk s = (r, t) \<Longrightarrow> moves_by_transition i s t"
  by (auto simp: moves_by_transition_def)

lemma plain_patch [simp]: "ta_fsm_patch (plain_transition to reason actor trigger) = []"
  by (simp add: plain_transition_def)

lemma block_moves: "block i reason actor md corr now clk s = (r, t) \<Longrightarrow> moves_by_transition i s t"
  unfolding block_def by (erule moves_by_transitionI [rotated]) simp

lemma cancel_moves: "cancel i reason actor corr now clk s = (r, t) \<Longrightarrow> moves_by_transition i s t"
  unfolding cancel_def by (erule moves_by_transitionI [rotated]) simp

lemma unblock_moves: "unblock i to_state reason actor now clk s = (r, t) \<Longrightarrow> moves_by_transition i s t"
  by (auto simp: unblock_def moves_by_transition_def split: sum.splits if_splits intro!: exI)

lemma enforce_moves:
  assumes "enforce_stop_conditions i now actor clk s = (r, t)"
  shows "moves_by_transition i s t"
  using assms
  by (auto simp: enforce_stop_conditions_def split: sum.splits if_splits list.splits prod.splits
      intro: moves_by_transitionI [rotated] simp: moves_by_transition_def dest: transition_Inl)

lemma moves_inv: "moves_by_transition i s t \<Longrightarrow> loop_inv s \<Longrightarrow> loop_inv t"
  by (auto simp: moves_by_transition_def) (metis snd_conv transition_inv)

lemma loop_step_inv:
  assumes inv: "loop_inv s" and "loop_step s t"
  shows "loop_inv t"
  using assms(2)
proof (cases rule: loop_step.cases)
  case (step_start new_id a clk r)
  then show ?thesis using start_inv [OF inv, of new_id a clk] by simp
next
  case (step_transition b i clk r)
  then show ?thesis using transition_inv [OF inv, of b i clk] by simp
next
  case (step_usage i delta q clk r)
  then show ?thesis using record_usage_inv [OF inv, of i delta q clk] by simp
next
  case (step_context entries i clk r)
  then show ?thesis using write_context_entries_inv [OF inv, of entries i clk] by simp
qed (use inv in \<open>blast intro: moves_inv block_moves cancel_moves unblock_moves enforce_moves\<close>)+

interpretation loops: invariant_system "\<lambda>s. s = empty_store" loop_step loop_inv
proof unfold_locales
  show "loop_inv s" if "s = empty_store" for s
    using that by (simp add: loop_inv_def empty_store_def)
qed (rule loop_step_inv)

definition loop_reachable :: "loop_store \<Rightarrow> bool" where
  "loop_reachable = reach (\<lambda>s. s = empty_store) loop_step"

lemma reachable_inv: "loop_reachable s \<Longrightarrow> loop_inv s"
  unfolding loop_reachable_def by (rule loops.inv_reach)

end
