(* ===== verification/Loop_Properties.thy ===== *)
theory Loop_Properties
  imports Loop_Invariants
begin

text \<open>
  The correctness properties of the product loop: what a transition does and when it is refused,
  the log as the history of the state, the bound on rework, terminal states, the QA and security
  gates before delivery, blocking and resuming, stop conditions and consumption.
\<close>

section \<open>Supporting lemmas\<close>

lemma loop_ok_D:
  assumes "loop_ok s l"
  shows "replay (log_of (pl_id l) s) = Some (pl_state l, pl_version l)"
    "pl_status l = status_for (pl_state l)" "governed (pl_context l)"
  using assms by (simp_all add: loop_ok_def)

lemma list_transitions_log: "replay (log_of i s) = Some c \<Longrightarrow> list_transitions i s = log_of i s"
  by (simp add: list_transitions_def log_of_def replay_sorted sort_key_id_if_sorted)

lemma get_loop_moved:
  "get_loop i s = Inr l \<Longrightarrow>
   get_loop j (moved_store a clk to fsm l s) =
     (if j = i then Inr (moved_loop a clk to fsm l) else get_loop j s)"
proof -
  assume l: "get_loop i s = Inr l"
  have i: "pl_id l = i" using get_loop_InrD [OF l] by simp
  have "get_loop j (moved_store a clk to fsm l s) =
    get_loop j (s\<lparr>ls_loops := ls_loops (moved_store a clk to fsm l s)\<rparr>)"
    by (simp add: get_loop_def)
  also have "\<dots> = (if j = i then Inr (moved_loop a clk to fsm l) else get_loop j s)"
    using l i by (auto simp: moved_store_def get_loop_upd moved_loop_def split: sum.splits dest: get_loop_InrD)
  finally show ?thesis .
qed

lemma get_loop_settle [simp]: "get_loop j (settle_remediations i clk to s) = get_loop j s"
  by (simp add: get_loop_def)

lemma next_version_free:
  assumes "loop_inv s" "get_loop i s = Inr l" "r \<in> set (log_of i s)"
  shows "lt_version r \<noteq> pl_version l + 1"
proof -
  have ok: "loop_ok s l" and i: "pl_id l = i" using loop_inv_get [OF assms(1,2)] by auto
  have "lt_version r \<le> pl_version l"
    using replay_version_bound [OF loop_ok_D(1) [OF ok]] assms(3) i by simp
  then show ?thesis by simp
qed

text \<open>On a store with the invariant the outcome of a transition is decided by its guards.\<close>

lemma transition_eq:
  assumes inv: "loop_inv s" and l: "get_loop i s = Inr l"
    and to: "state_of_name (ta_to_state a) = Some to"
  shows "transition i a clk s =
    (if version_conflict (ta_expected_version a) (pl_version l)
     then (Inl (VersionMismatch (the (ta_expected_version a)) (pl_version l)), s)
     else if to \<notin> set (allowed_transitions (pl_state l))
     then (Inl (InvalidTransition (pl_state l) to), s)
     else (case enter_fsm i (pl_context l) to (now_or (ta_now a) clk) (ta_fsm_patch a) of
             Inl e \<Rightarrow> (Inl (if e = IntegrityError then ConcurrentTransition i else e), s)
           | Inr fsm \<Rightarrow> (Inr (moved_loop a clk to fsm l),
                settle_remediations i clk to (moved_store a clk to fsm l s))))"
proof -
  have "\<not> (\<exists>r \<in> set (log_of i s). lt_version r = pl_version l + 1)"
    using next_version_free [OF inv l] by blast
  then have w: "write_transition i a clk l to fsm s =
      (Inr (moved_loop a clk to fsm l), moved_store a clk to fsm l s)" for fsm
    by (simp add: write_transition_ok [OF l])
  show ?thesis
    by (simp add: transition_def immediate_transaction_def transition_in_transaction_settle
        apply_transition_def l to w split: sum.splits loop_error.splits)
qed

lemma enter_fsm_no_integrity: "enter_fsm i c to now p \<noteq> Inl IntegrityError"
  by (auto simp: enter_fsm_def rework_round_def try_then_def lift_error_def Let_def
      split: sum.splits if_splits)

lemma governed_fsm_of:
  assumes "governed c"
  obtains f where "fsm_of c = Inr f" "policy_ok (fb_policy f)" "usage_ok (fb_usage f)"
    "rounds_ok (fb_policy f) (fb_usage f)"
  using assms by (auto simp: governed_def split: sum.splits)

section \<open>Terminal loops\<close>

text \<open>What a step may do to a loop that is terminal: nothing but its context and timestamp.\<close>

definition frozen_as :: "string \<Rightarrow> product_loop \<Rightarrow> loop_store \<Rightarrow> loop_store \<Rightarrow> bool" where
  "frozen_as i l s t =
     (\<exists>l'. get_loop i t = Inr l' \<and> pl_state l' = pl_state l \<and> pl_version l' = pl_version l \<and>
        pl_status l' = pl_status l \<and> log_of i t = log_of i s)"

lemma update_loop_context_frozen:
  assumes "get_loop i s = Inr l" "update_loop_context j c clk s = (r, t)"
  shows "frozen_as i l s t"
  using assms
  by (auto simp: update_loop_context_def frozen_as_def Let_def get_loop_upd log_of_def split: sum.splits)

lemma frozen_refl: "get_loop i s = Inr l \<Longrightarrow> frozen_as i l s s"
  by (simp add: frozen_as_def)

lemma transition_frozen:
  assumes "get_loop i s = Inr l" "is_terminal (pl_state l)" "transition j a clk s = (r, t)"
  shows "frozen_as i l s t"
proof (cases rule: transition_cases [of j a clk s])
  case (Failed e)
  then show ?thesis using assms frozen_refl by simp
next
  case (Moved to q fsm)
  then have "j \<noteq> i" using assms(1,2) by auto
  moreover have "pl_id q = j" using get_loop_InrD [OF Moved(2)] by simp
  ultimately show ?thesis
    using assms(1,3) Moved(5) get_loop_moved [OF Moved(2)] by (auto simp: frozen_as_def log_of_moved)
qed

lemma moves_frozen:
  "moves_by_transition j s t \<Longrightarrow> get_loop i s = Inr l \<Longrightarrow> is_terminal (pl_state l) \<Longrightarrow> frozen_as i l s t"
  by (auto simp: moves_by_transition_def frozen_refl transition_frozen)

lemma start_frozen:
  assumes "get_loop i s = Inr l" "start new_id a clk s = (r, t)"
  shows "frozen_as i l s t"
proof (cases "t = s")
  case False
  then obtain dl where new: "new_id \<notin> pl_id ` set (ls_loops s)"
    and t: "t = s\<lparr>ls_loops := ls_loops s @ [started_loop new_id a clk dl],
                  ls_transitions := ls_transitions s @ [started_row new_id a clk dl]\<rparr>"
    using assms(2) by (auto simp: start_eq split: sum.splits if_splits)
  have "i \<noteq> new_id" using new get_loop_InrD [OF assms(1)] by auto
  then show ?thesis
    using assms(1)
    by (auto simp: t frozen_as_def get_loop_def select_one_append log_of_def started_row_def
        split: option.splits)
qed (simp add: assms(1) frozen_refl)

lemma step_frozen:
  assumes l: "get_loop i s = Inr l" and fin: "is_terminal (pl_state l)" and "loop_step s t"
  shows "frozen_as i l s t"
  using assms(3)
proof (cases rule: loop_step.cases)
  case (step_start new_id a clk r)
  then show ?thesis using l start_frozen by blast
next
  case (step_transition b j clk r)
  then show ?thesis using transition_frozen [OF l fin] by blast
next
  case (step_usage j delta q clk r)
  then show ?thesis
    using l frozen_refl [OF l] update_loop_context_frozen [OF l]
    by (auto simp: record_usage_def immediate_transaction_def split: sum.splits prod.splits)
next
  case (step_context entries j clk r)
  then show ?thesis
    using l frozen_refl [OF l] update_loop_context_frozen [OF l]
    by (auto simp: write_context_entries_def immediate_transaction_def split: sum.splits prod.splits)
qed (use l fin in \<open>blast intro: moves_frozen block_moves cancel_moves unblock_moves enforce_moves\<close>)+

section \<open>Gates before delivery\<close>

text \<open>The states a loop can be in before it has entered \<open>gate\<close>, when it never went through a block.\<close>

definition planning_states :: "loop_state set" where
  "planning_states = {Goal_received, Workspace_check, Runtime_check, Git_check, Discovery,
     Discovering, Awaiting_user, Planning, Brief_ready, Architecture_review, Backlog_ready,
     Iteration_planning, Branch_ready, Cancelled}"

definition before_gate :: "loop_state \<Rightarrow> loop_state \<Rightarrow> bool" where
  "before_gate g st =
     (st \<in> planning_states \<or>
      g = Qa_running \<and> st = Executing \<or>
      g = Security_running \<and> st \<in> {Executing, Qa_running, Reworking} \<or>
      g = Awaiting_approval \<and>
        st \<in> {Executing, Qa_running, Reworking, Security_running, Quality_review, Review_ready})"

definition delivery_gates :: "loop_state list" where
  "delivery_gates = [Executing, Qa_running, Security_running, Awaiting_approval]"

lemma before_gate_step:
  "g \<in> set delivery_gates \<Longrightarrow> before_gate g st \<Longrightarrow> st' \<in> set (allowed_transitions st) \<Longrightarrow> st' \<noteq> Blocked \<Longrightarrow>
   st' \<noteq> g \<Longrightarrow> before_gate g st'"
  by (cases st) (auto simp: delivery_gates_def before_gate_def planning_states_def)

lemma replay_before_gate:
  assumes "g \<in> set delivery_gates"
  shows "replay_from (st, v) rs = Some (st', v') \<Longrightarrow> before_gate g st \<Longrightarrow>
    \<forall>r \<in> set rs. lt_to_state r \<noteq> g \<and> lt_to_state r \<noteq> Blocked \<Longrightarrow> before_gate g st'"
proof (induction rs arbitrary: st v)
  case (Cons r rs)
  from Cons.prems have "replay_from (lt_to_state r, v + 1) rs = Some (st', v')"
    "lt_to_state r \<in> set (allowed_transitions st)" by (auto split: if_splits)
  moreover from this have "before_gate g (lt_to_state r)"
    using before_gate_step [OF assms Cons.prems(2)] Cons.prems(3) by simp
  ultimately show ?case using Cons.IH Cons.prems(3) by simp
qed simp

lemma replay_gate:
  assumes "g \<in> set delivery_gates" "replay rs = Some (Delivered, v)"
    "\<forall>r \<in> set rs. lt_to_state r \<noteq> Blocked"
  shows "\<exists>r \<in> set rs. lt_to_state r = g"
proof (rule ccontr)
  assume none: "\<not> (\<exists>r \<in> set rs. lt_to_state r = g)"
  obtain r qs where rs: "rs = r # qs" "replay_from (Goal_received, 1) qs = Some (Delivered, v)"
    using assms(2) by (cases rs) (auto split: if_splits)
  have "before_gate g Goal_received" by (simp add: before_gate_def planning_states_def)
  then have "before_gate g Delivered"
    using replay_before_gate [OF assms(1) rs(2)] none assms(3) rs(1) by auto
  then show False by (simp add: before_gate_def planning_states_def)
qed

section \<open>Entering states and stop conditions\<close>

lemma plain_transition_fields [simp]:
  "ta_to_state (plain_transition to reason actor trigger) = to"
  "ta_expected_version (plain_transition to reason actor trigger) = None"
  "ta_context_patch (plain_transition to reason actor trigger) = []"
  "ta_now (plain_transition to reason actor trigger) = None"
  by (simp_all add: plain_transition_def)

lemma enter_plain:
  assumes f: "fsm_of c = Inr f" and "to \<noteq> Reworking"
    and dl: "state_deadline to (dget (fb_policy f) ''timeouts'') now = Inr dl"
  shows "enter_fsm i c to now [] = Inr (fsm_dict (f\<lparr>fb_usage := dset (fb_usage f) ''stateDeadline'' dl\<rparr>))"
  using assms by (simp add: enter_fsm_def rework_round_def)

lemma enter_rework_limit:
  assumes f: "fsm_of c = Inr f" and "dget (fb_policy f) ''maxReworkRounds'' = PInt m"
    and "dget (fb_usage f) ''reworkRounds'' = PInt m"
  shows "enter_fsm i c Reworking now p = Inl (MaxReworkReached m i)"
proof -
  have "dget_or (fb_usage f) ''reworkRounds'' (PInt 0) = PInt m"
    using assms(3) by (auto simp: dget_def dget_or_def split: option.splits)
  then show ?thesis using assms by (simp add: enter_fsm_def rework_round_def Let_def)
qed

text \<open>The block a stored loop has after it entered a state other than \<open>reworking\<close>.\<close>

lemma stored_after_enter:
  assumes f: "fsm_of c = Inr f" and "governed c"
  shows "\<exists>g. fsm_of (json_dict (dset c' ''fsm''
      (PDict (fsm_dict (f\<lparr>fb_usage := dset (fb_usage f) ''stateDeadline'' dl\<rparr>))))) = Inr g \<and>
    dget (fb_policy g) = json_store \<circ> dget (fb_policy f) \<and>
    dget (fb_usage g) = json_store \<circ> (dget (fb_usage f))(''stateDeadline'' := dl)"
proof -
  let ?b = "f\<lparr>fb_usage := dset (fb_usage f) ''stateDeadline'' dl\<rparr>"
  have "complete_block f" using f by (rule fsm_of_complete)
  then have "complete_block ?b"
    by (intro complete_block_usage distinct_dset) (auto simp: complete_block_def)
  then obtain g where "fsm_of (json_dict (dset c' ''fsm'' (PDict (fsm_dict ?b)))) = Inr g" "same_entries g ?b"
    using fsm_of_stored by blast
  then show ?thesis by (auto simp: same_entries_def fun_eq_iff)
qed

lemma state_deadline_json: "state_deadline st (json_store v) now = state_deadline st v now"
proof (cases v)
  case (PDict d)
  have "json_store x = PNone \<longleftrightarrow> x = PNone" "py_float (json_store x) = py_float x" for x
    by (cases x; simp)+
  then show ?thesis by (simp add: PDict state_deadline_def)
qed (auto simp: state_deadline_def or_empty_def)

lemma plain_transition_moves:
  assumes inv: "loop_inv s" and l: "get_loop i s = Inr l"
    and to: "to \<in> set (allowed_transitions (pl_state l))" "to \<noteq> Reworking"
    and f: "fsm_of (pl_context l) = Inr f"
    and dl: "state_deadline to (dget (fb_policy f) ''timeouts'') (now_or (ta_now a) clk) = Inr dl"
    and a: "ta_to_state a = state_name to" "ta_expected_version a = None" "ta_fsm_patch a = []"
  obtains u t h where "transition i a clk s = (Inr u, t)" "get_loop i t = Inr u" "loop_inv t"
    "pl_state u = to" "pl_previous_state u = Some (pl_state l)" "pl_version u = pl_version l + 1"
    "fsm_of (pl_context u) = Inr h" "dget (fb_policy h) = json_store \<circ> dget (fb_policy f)"
    "map lt_to_state (log_of i t) = map lt_to_state (log_of i s) @ [to]"
proof -
  define fsm where "fsm = fsm_dict (f\<lparr>fb_usage := dset (fb_usage f) ''stateDeadline'' dl\<rparr>)"
  define u where "u = moved_loop a clk to fsm l"
  define t where "t = settle_remediations i clk to (moved_store a clk to fsm l s)"
  have g: "governed (pl_context l)" using loop_inv_get [OF inv l] loop_ok_D(3) by blast
  have e: "enter_fsm i (pl_context l) to (now_or (ta_now a) clk) (ta_fsm_patch a) = Inr fsm"
    unfolding fsm_def a(3) using f to(2) dl by (rule enter_plain)
  have "transition i a clk s = (Inr u, t)"
    using transition_eq [OF inv l, of a to clk] to(1) a e by (simp add: version_conflict_def u_def t_def)
  moreover have "loop_inv t" unfolding t_def using moved_inv [OF inv l to(1) e] a(3) by simp
  moreover have "get_loop i t = Inr u" unfolding t_def u_def using get_loop_moved [OF l] by simp
  moreover obtain h where "fsm_of (pl_context u) = Inr h" "dget (fb_policy h) = json_store \<circ> dget (fb_policy f)"
    using stored_after_enter [OF f g] by (auto simp: u_def moved_loop_def fsm_def)
  moreover have "map lt_to_state (log_of i t) = map lt_to_state (log_of i s) @ [to]"
    using get_loop_InrD [OF l] by (simp add: t_def log_of_moved)
  ultimately show thesis using that by (simp add: u_def)
qed

lemma enter_succeeds:
  assumes "fsm_of c = Inr f" and "to \<noteq> Reworking"
    and "state_deadline to (dget (fb_policy f) ''timeouts'') now = Inr dl"
  obtains d where "enter_fsm i c to now p = Inr d"
  using assms by (simp add: enter_fsm_def rework_round_def Let_def)

lemma enter_stored_deadline:
  assumes e: "enter_fsm i c to now [] = Inr d" and g: "governed c" and f: "fsm_of c = Inr f"
  shows "\<exists>h dl. fsm_of (json_dict (dset c' ''fsm'' (PDict d))) = Inr h \<and>
    state_deadline to (dget (fb_policy f) ''timeouts'') now = Inr dl \<and>
    dget (fb_usage h) ''stateDeadline'' = dl"
proof -
  obtain u dl where u: "rework_round i (fb_policy f) (fb_usage f) to = Inr u"
    and dl: "state_deadline to (dget (fb_policy f) ''timeouts'') now = Inr dl"
    and d: "d = fsm_dict (f\<lparr>fb_usage := dset u ''stateDeadline'' dl\<rparr>)"
    using e f by (auto simp: enter_fsm_def try_then_Inr_iff lift_error_Inr_iff Let_def)
  obtain b where "d = fsm_dict b" "complete_block b" using enter_fsm_block [OF e g] by auto
  moreover from this(1) have "b = f\<lparr>fb_usage := dset u ''stateDeadline'' dl\<rparr>"
    by (cases b) (simp add: d fsm_dict_def)
  ultimately have "complete_block (f\<lparr>fb_usage := dset u ''stateDeadline'' dl\<rparr>)" by simp
  from fsm_of_stored [OF this, of c'] show ?thesis
    using dl state_deadline_type [OF dl] by (auto simp: d same_entries_def fun_eq_iff)
qed

text \<open>Stop conditions of a governed block can always be evaluated.\<close>

lemma budget_conditions_total:
  "all_numbers consumed \<Longrightarrow> \<exists>fired. budget_conditions consumed budget = Inr fired"
proof (induction consumed budget rule: budget_conditions.induct)
  case (2 consumed key limit budget)
  have "is_number (dget_or consumed key (PInt 0))"
    using 2(3) unfolding all_numbers_def by (rule list_all_dget_or) simp
  then obtain x where "py_float (dget_or consumed key (PInt 0)) = Inr x" using is_number_py_float by blast
  moreover obtain fired where "budget_conditions consumed budget = Inr fired" using 2 by blast
  ultimately show ?case using is_number_py_float [of limit] by auto
qed simp

lemma evaluate_total:
  assumes "governed c"
  shows "\<exists>fired. evaluate_stop_conditions c now = Inr fired"
proof -
  obtain f where f: "fsm_of c = Inr f" "policy_ok (fb_policy f)" "usage_ok (fb_usage f)"
    using assms by (rule governed_fsm_of)
  obtain consumed r where u: "dget (fb_usage f) ''consumed'' = PDict consumed" "all_numbers consumed"
    "dget (fb_usage f) ''reworkRounds'' = PInt r" using f(3) by (auto simp: usage_ok_def)
  obtain b where b: "dget (fb_policy f) ''budget'' = PDict b" using f(2) by (auto simp: policy_ok_def)
  obtain fired where "budget_conditions consumed b = Inr fired" using budget_conditions_total [OF u(2)] by blast
  moreover have "dget_or (fb_usage f) ''reworkRounds'' (PInt 0) = PInt r"
    using u(3) by (auto simp: dget_def dget_or_def split: option.splits)
  then have "\<exists>x. rework_exhausted (fb_policy f) (fb_usage f) = Inr x"
    using f(2) by (auto simp: rework_exhausted_def policy_ok_def)
  moreover have "\<exists>x. past_deadline (dget (fb_policy f) ''deadline'') now = Inr x"
    "\<exists>x. past_deadline (dget (fb_usage f) ''stateDeadline'') now = Inr x"
    using f(2,3) by (auto simp: past_deadline_def policy_ok_def usage_ok_def)
  ultimately show ?thesis using f(1) u(1) b by (auto simp: evaluate_stop_conditions_def Let_def)
qed

lemma budget_conditions_kind:
  "budget_conditions consumed budget = Inr fired \<Longrightarrow> x \<in> set fired \<Longrightarrow> \<exists>k v. x = Budget_exhausted k v"
proof (induction consumed budget arbitrary: fired rule: budget_conditions.induct)
  case (2 consumed key limit budget)
  then show ?case by (force simp: try_then_Inr_iff split: if_splits)
qed simp

lemma evaluate_timeout_iff:
  assumes "evaluate_stop_conditions c now = Inr fired" "fsm_of c = Inr g"
  shows "(\<exists>d. State_timeout d \<in> set fired) \<longleftrightarrow> past_deadline (dget (fb_usage g) ''stateDeadline'') now = Inr True"
  using assms budget_conditions_kind
  by (auto simp: evaluate_stop_conditions_def try_then_Inr_iff Let_def split: if_splits) fastforce+

text \<open>Consumption under a key, as a number.\<close>

definition consumed_of :: "fsm_block \<Rightarrow> string \<Rightarrow> rat" where
  "consumed_of f k =
     (case dget (fb_usage f) ''consumed'' of
        PDict c \<Rightarrow> (case py_float (dget_or c k (PInt 0)) of Inr r \<Rightarrow> r | Inl _ \<Rightarrow> 0)
      | _ \<Rightarrow> 0)"

definition amount :: "pyval \<Rightarrow> rat" where
  "amount v = (case py_float v of Inr r \<Rightarrow> r | Inl _ \<Rightarrow> 0)"

lemma add_consumption_amount:
  "add_consumption c delta = Inr c' \<Longrightarrow> distinct (map fst delta) \<Longrightarrow>
   amount (dget_or c' k (PInt 0)) =
     amount (dget_or c k (PInt 0)) + (case map_of delta k of None \<Rightarrow> 0 | Some v \<Rightarrow> amount v)"
proof (induction c delta rule: add_consumption.induct)
  case (2 c key v delta)
  then obtain x y where xy: "py_float (dget_or c key (PInt 0)) = Inr x" "py_float v = Inr y"
    "add_consumption (dset c key (PFloat (x + y))) delta = Inr c'"
    by (auto simp: try_then_Inr_iff)
  have "map_of delta key = None" using 2(3) by (simp add: map_of_eq_None_iff)
  with 2 xy show ?case by (auto simp: amount_def split: option.splits)
qed simp

lemma amount_json [simp]: "amount (json_store v) = amount v"
  by (cases v) (simp_all add: amount_def)

lemma dget_or_json: "amount (dget_or (json_dict c) k (PInt 0)) = amount (dget_or c k (PInt 0))"
  by (simp add: dget_or_def map_of_json_dict split: option.splits)

lemma consumed_of_amount: "dget (fb_usage f) ''consumed'' = PDict c \<Longrightarrow> consumed_of f k = amount (dget_or c k (PInt 0))"
  by (simp add: consumed_of_def amount_def)

lemma record_usage_Inr:
  assumes "record_usage i delta q clk s = (Inr u, t)"
  obtains l f us where "get_loop i s = Inr l" "fsm_of (pl_context l) = Inr f"
    "usage_after f delta q = Inr us"
    "t = s\<lparr>ls_loops := upd_where (\<lambda>l. pl_id l = i) (\<lambda>l. l\<lparr>pl_context := pl_context u, pl_updated_at := clk\<rparr>) (ls_loops s)\<rparr>"
    "u = l\<lparr>pl_context := json_dict (dset (pl_context l) ''fsm'' (PDict (fsm_dict (f\<lparr>fb_usage := us\<rparr>)))),
           pl_updated_at := clk\<rparr>"
  using assms
  by (auto simp: record_usage_def immediate_transaction_commit update_loop_context_def Let_def
      try_then_Inr_iff lift_error_Inr_iff get_loop_upd split: sum.splits dest: get_loop_InrD)

section \<open>Driving a loop along a path\<close>

fun legal_path :: "loop_state \<Rightarrow> loop_state list \<Rightarrow> bool" where
  "legal_path st [] = True"
| "legal_path st (st' # path) =
     (st' \<in> set (allowed_transitions st) \<and> st' \<noteq> Reworking \<and> legal_path st' path)"

fun delivery_path :: "loop_state \<Rightarrow> loop_state list" where
  "delivery_path Awaiting_approval = [Delivered]"
| "delivery_path Review_ready = [Awaiting_approval, Delivered]"
| "delivery_path Quality_review = [Awaiting_approval, Delivered]"
| "delivery_path Security_running = [Review_ready, Awaiting_approval, Delivered]"
| "delivery_path Qa_running = [Security_running, Review_ready, Awaiting_approval, Delivered]"
| "delivery_path st =
     (let finish = [Executing, Qa_running, Security_running, Review_ready, Awaiting_approval, Delivered] in
      if st = Executing then tl finish
      else if st \<in> {Reworking, Awaiting_feedback, Branch_ready, Iteration_planning, Blocked} then finish
      else if st = Backlog_ready then Branch_ready # finish
      else if st \<in> {Discovery, Planning, Brief_ready, Architecture_review}
        then Backlog_ready # Branch_ready # finish
      else if st \<in> {Discovering, Awaiting_user} then Brief_ready # Backlog_ready # Branch_ready # finish
      else if st = Workspace_check then Runtime_check # Discovery # Backlog_ready # Branch_ready # finish
      else Discovery # Backlog_ready # Branch_ready # finish)"

lemma delivery_path_legal:
  "\<not> is_terminal st \<Longrightarrow> legal_path st (delivery_path st) \<and> last (delivery_path st) = Delivered \<and>
   delivery_path st \<noteq> []"
  by (cases st) (simp_all add: is_terminal_def)

definition follow :: "string \<Rightarrow> int \<Rightarrow> loop_state list \<Rightarrow> loop_store \<Rightarrow> loop_store" where
  "follow i clk path s =
     fold (\<lambda>st s. snd (transition i (plain_transition (state_name st) ''advance'' ''operator'' []) clk s)) path s"

definition timeouts_computable :: "pydict \<Rightarrow> int \<Rightarrow> bool" where
  "timeouts_computable policy clk = (\<forall>st. \<exists>dl. state_deadline st (dget policy ''timeouts'') clk = Inr dl)"

lemma follow_path:
  assumes "loop_inv s" "get_loop i s = Inr l" "fsm_of (pl_context l) = Inr f"
    "timeouts_computable (fb_policy f) clk" "legal_path (pl_state l) path"
  shows "\<exists>u. get_loop i (follow i clk path s) = Inr u \<and> pl_state u = last (pl_state l # path) \<and>
    pl_version u = pl_version l + int (length path) \<and>
    map lt_to_state (log_of i (follow i clk path s)) = map lt_to_state (log_of i s) @ path"
  using assms
proof (induction path arbitrary: s l f)
  case (Cons st path)
  let ?a = "plain_transition (state_name st) ''advance'' ''operator'' []"
  obtain dl where "state_deadline st (dget (fb_policy f) ''timeouts'') (now_or (ta_now ?a) clk) = Inr dl"
    using Cons.prems(4) by (auto simp: timeouts_computable_def now_or_def)
  then obtain u t h where u: "transition i ?a clk s = (Inr u, t)" "get_loop i t = Inr u" "loop_inv t"
    "pl_state u = st" "pl_previous_state u = Some (pl_state l)" "pl_version u = pl_version l + 1"
    "fsm_of (pl_context u) = Inr h" "dget (fb_policy h) = json_store \<circ> dget (fb_policy f)"
    "map lt_to_state (log_of i t) = map lt_to_state (log_of i s) @ [st]"
    using plain_transition_moves [OF Cons.prems(1,2) _ _ Cons.prems(3), of st ?a clk dl] Cons.prems(5) by auto
  have "timeouts_computable (fb_policy h) clk"
    using Cons.prems(4) u(8) by (simp add: timeouts_computable_def state_deadline_json)
  then show ?case
    using Cons.IH [OF u(3,2,7)] Cons.prems(5) u(1,4,6,9) by (auto simp: follow_def)
qed (simp add: follow_def)

section \<open>Properties\<close>

text \<open>C1. A transition that returns moved the loop along an edge of \<open>ALLOWED_TRANSITIONS\<close>: the
  returned loop is the stored one, with the new state, the old state as previous one, the
  aggregated status and the next version; exactly one row, for that version and edge, was appended
  to the loop's log; every other loop and every other log is as before. A transition that raises
  leaves the whole store unchanged.\<close>

theorem transition_effect:
  assumes "loop_reachable s"
  shows "case transition i a clk s of
      (Inl e, t) \<Rightarrow> t = s
    | (Inr u, t) \<Rightarrow>
        (\<exists>l. get_loop i s = Inr l \<and> get_loop i t = Inr u \<and>
           state_of_name (ta_to_state a) = Some (pl_state u) \<and>
           pl_state u \<in> set (allowed_transitions (pl_state l)) \<and>
           pl_previous_state u = Some (pl_state l) \<and> pl_status u = status_for (pl_state u) \<and>
           pl_version u = pl_version l + 1 \<and>
           (\<exists>row. list_transitions i t = list_transitions i s @ [row] \<and>
              lt_version row = pl_version u \<and> lt_from_state row = Some (pl_state l) \<and>
              lt_to_state row = pl_state u) \<and>
           (\<forall>j. j \<noteq> i \<longrightarrow> get_loop j t = get_loop j s \<and> list_transitions j t = list_transitions j s))"
proof (cases rule: transition_cases [of i a clk s])
  case (Failed e)
  then show ?thesis by simp
next
  case (Moved to l fsm)
  let ?m = "moved_store a clk to fsm l s" and ?row = "moved_row a clk to fsm l"
  have inv: "loop_inv s" using assms by (rule reachable_inv)
  have ok: "loop_ok s l" and i: "pl_id l = i" using loop_inv_get [OF inv Moved(2)] by auto
  have r: "replay (log_of i s) = Some (pl_state l, pl_version l)" using loop_ok_D(1) [OF ok] i by simp
  then have ne: "log_of i s \<noteq> []" by auto
  have m: "log_of i ?m = log_of i s @ [?row]" by (simp add: log_of_moved i)
  have "replay (log_of i s @ [?row]) = Some (to, pl_version l + 1)"
    using r ne Moved(3) by (simp add: replay_append)
  then have "list_transitions i ?m = list_transitions i s @ [?row]"
    using list_transitions_log r m by metis
  moreover have "list_transitions j ?m = list_transitions j s" if "j \<noteq> i" for j
    using that i by (simp add: list_transitions_def moved_store_def)
  moreover have "list_transitions j (settle_remediations i clk to ?m) = list_transitions j ?m" for j
    by (simp add: list_transitions_def)
  ultimately show ?thesis
    using Moved(1,2,3,5) get_loop_moved [OF Moved(2), of _ a clk to fsm] by simp
qed

text \<open>C2. Reading the log of a stored loop back from nothing (first row to \<open>goal_received\<close> at version
  1, then contiguous versions, each row leaving from the state the one before it entered, along an
  allowed edge) ends in the state and version the loop has, after any sequence of operations.\<close>

theorem log_replays_to_state:
  assumes "loop_reachable s" and "get_loop i s = Inr l"
  shows "replay (list_transitions i s) = Some (pl_state l, pl_version l)"
proof -
  have "loop_ok s l" "pl_id l = i" using loop_inv_get [OF reachable_inv [OF assms(1)] assms(2)] by auto
  then have "replay (log_of i s) = Some (pl_state l, pl_version l)" using loop_ok_D(1) by auto
  then show ?thesis using list_transitions_log by metis
qed

text \<open>C5. Whatever the operations did, the rework rounds a loop has taken never exceed its
  \<open>maxReworkRounds\<close>, and the count is a non-negative integer.\<close>

theorem rework_rounds_bounded:
  assumes "loop_reachable s" and "get_loop i s = Inr l"
  shows "\<exists>f r. fsm_of (pl_context l) = Inr f \<and> dget (fb_usage f) ''reworkRounds'' = PInt r \<and> 0 \<le> r \<and>
    (dget (fb_policy f) ''maxReworkRounds'' = PNone \<or>
     (\<exists>m. dget (fb_policy f) ''maxReworkRounds'' = PInt m \<and> r \<le> max 0 m))"
proof -
  have "governed (pl_context l)"
    using loop_inv_get [OF reachable_inv [OF assms(1)] assms(2)] loop_ok_D(3) by blast
  then obtain f where f: "fsm_of (pl_context l) = Inr f" "policy_ok (fb_policy f)" "usage_ok (fb_usage f)"
    "rounds_ok (fb_policy f) (fb_usage f)" by (rule governed_fsm_of)
  then show ?thesis
    by (auto simp: usage_ok_def policy_ok_def rounds_ok_def)
qed

text \<open>C4. Once a loop is \<open>delivered\<close> or \<open>cancelled\<close>, no sequence of operations changes its state,
  version or status or adds to its log.\<close>

theorem terminal_is_absorbing:
  assumes "loop_step\<^sup>*\<^sup>* s t" and "get_loop i s = Inr l" and "is_terminal (pl_state l)"
  shows "\<exists>l'. get_loop i t = Inr l' \<and> pl_state l' = pl_state l \<and> pl_version l' = pl_version l \<and>
    pl_status l' = pl_status l \<and> list_transitions i t = list_transitions i s"
proof -
  from assms(1) have "frozen_as i l s t"
  proof (induction rule: rtranclp_induct)
    case base
    show ?case using assms(2) by (rule frozen_refl)
  next
    case (step t u)
    then obtain q where q: "get_loop i t = Inr q" "pl_state q = pl_state l" "pl_version q = pl_version l"
      "pl_status q = pl_status l" "log_of i t = log_of i s" by (auto simp: frozen_as_def)
    then have "frozen_as i q t u" using step_frozen assms(3) step.hyps(2) by auto
    with q show ?case by (auto simp: frozen_as_def)
  qed
  then show ?thesis by (auto simp: frozen_as_def list_transitions_def log_of_def)
qed

text \<open>C3. A loop that was delivered and was never blocked has been through \<open>executing\<close>,
  \<open>qa_running\<close>, \<open>security_running\<close> and \<open>awaiting_approval\<close>: its log has a row into each of them.\<close>

theorem delivery_passes_every_gate:
  assumes "loop_reachable s" and "get_loop i s = Inr l" and "pl_state l = Delivered"
    and "\<forall>r \<in> set (list_transitions i s). lt_to_state r \<noteq> Blocked"
  shows "{Executing, Qa_running, Security_running, Awaiting_approval} \<subseteq>
    lt_to_state ` set (list_transitions i s)"
proof -
  have "loop_ok s l" "pl_id l = i" using loop_inv_get [OF reachable_inv [OF assms(1)] assms(2)] by auto
  then have r: "replay (log_of i s) = Some (Delivered, pl_version l)" using loop_ok_D(1) assms(3) by metis
  have log: "list_transitions i s = log_of i s" using r by (rule list_transitions_log)
  have gate: "g \<in> lt_to_state ` set (list_transitions i s)" if "g \<in> set delivery_gates" for g
    using replay_gate [OF that r] assms(4) unfolding log by (metis imageI)
  show ?thesis by (simp add: gate delivery_gates_def)
qed

text \<open>C7. A loop that is neither terminal nor blocked and is blocked and then unblocked without a
  destination is back in the state it was in, two versions later; this holds for every state but
  \<open>reworking\<close>, provided the time-outs of the two states entered can be computed.\<close>

theorem block_then_unblock_resumes:
  assumes "loop_reachable s" and "get_loop i s = Inr l"
    and "\<not> is_terminal (pl_state l)" "pl_state l \<noteq> Blocked" "pl_state l \<noteq> Reworking"
    and "fsm_of (pl_context l) = Inr f"
    and "state_deadline Blocked (dget (fb_policy f) ''timeouts'') clk = Inr dl"
    and "state_deadline (pl_state l) (dget (fb_policy f) ''timeouts'') clk' = Inr dl'"
  shows "\<exists>u t w t'. block i reason actor md corr None clk s = (Inr u, t) \<and> pl_state u = Blocked \<and>
    unblock i None reason' actor' None clk' t = (Inr w, t') \<and>
    pl_state w = pl_state l \<and> pl_version w = pl_version l + 2 \<and> get_loop i t' = Inr w"
proof -
  have inv: "loop_inv s" using assms(1) by (rule reachable_inv)
  let ?a = "(plain_transition ''blocked'' reason actor ''blocked'')
    \<lparr>ta_metadata := md, ta_correlation_id := corr, ta_now := None\<rparr>"
  let ?b = "(plain_transition (state_name (pl_state l)) reason' actor' ''unblocked'')\<lparr>ta_now := None\<rparr>"
  have a: "ta_to_state ?a = state_name Blocked" "ta_expected_version ?a = None" "ta_fsm_patch ?a = []"
    "state_deadline Blocked (dget (fb_policy f) ''timeouts'') (now_or (ta_now ?a) clk) = Inr dl"
    using assms(7) by (simp_all add: now_or_def)
  obtain u t h where u: "transition i ?a clk s = (Inr u, t)" "get_loop i t = Inr u"
    "loop_inv t" "pl_state u = Blocked" "pl_previous_state u = Some (pl_state l)"
    "pl_version u = pl_version l + 1" "fsm_of (pl_context u) = Inr h"
    "dget (fb_policy h) = json_store \<circ> dget (fb_policy f)"
    by (rule plain_transition_moves [OF inv assms(2) block_allowed [OF assms(3,4)] _ assms(6) a(4,1,2,3)]) simp
  have b: "ta_to_state ?b = state_name (pl_state l)" "ta_expected_version ?b = None" "ta_fsm_patch ?b = []"
    "state_deadline (pl_state l) (dget (fb_policy h) ''timeouts'') (now_or (ta_now ?b) clk') = Inr dl'"
    using assms(8) u(8) by (simp_all add: now_or_def state_deadline_json)
  have resume_edge: "pl_state l \<in> set (allowed_transitions (pl_state u))" using assms(3,4) u(4) by simp
  obtain w t' k where w: "transition i ?b clk' t = (Inr w, t')"
    "get_loop i t' = Inr w" "pl_state w = pl_state l" "pl_version w = pl_version u + 1"
    by (rule plain_transition_moves [OF u(3,2) resume_edge assms(5) u(7) b(4,1,2,3)])
  have "unblock i None reason' actor' None clk' t = (Inr w, t')"
    using u(2,4,5) w(1) by (simp add: unblock_def unblock_target_def)
  then show ?thesis using u(1,4,6) w by (auto simp: block_def)
qed

text \<open>C9. A loop blocked during its last permitted rework round cannot be resumed where it stopped:
  unblocking it without a destination asks for one more round and is refused, and the store stays
  as it is.\<close>

theorem unblock_refuses_last_rework:
  assumes "loop_reachable s" and "get_loop i s = Inr l" and "pl_state l = Blocked"
    and "pl_previous_state l = Some Reworking" and "fsm_of (pl_context l) = Inr f"
    and "dget (fb_policy f) ''maxReworkRounds'' = PInt m" and "dget (fb_usage f) ''reworkRounds'' = PInt m"
  shows "unblock i None reason actor now clk s = (Inl (MaxReworkReached m i), s)"
proof -
  define b where "b = (plain_transition (state_name Reworking) reason actor ''unblocked'')\<lparr>ta_now := now\<rparr>"
  have b: "ta_to_state b = state_name Reworking" "ta_expected_version b = None"
    by (simp_all add: b_def plain_transition_def)
  have "transition i b clk s = (Inl (MaxReworkReached m i), s)"
    using transition_eq [OF reachable_inv [OF assms(1)] assms(2), of b Reworking clk] b assms(3)
      enter_rework_limit [OF assms(5-7)]
    by (simp add: version_conflict_def is_terminal_def del: state_name.simps)
  then show ?thesis using assms(2-4) by (simp add: unblock_def unblock_target_def b_def)
qed

text \<open>Enforcing the stop conditions of an active loop in which some condition fired blocks it, keeps
  the state it was in as the previous one and reports the conditions; enforcing again changes
  nothing and reports none.\<close>

theorem enforce_blocks_and_is_idempotent:
  assumes "loop_reachable s" and "get_loop i s = Inr l"
    and "\<not> is_terminal (pl_state l)" "pl_state l \<noteq> Blocked"
    and "evaluate_stop_conditions (pl_context l) clk = Inr fired" "fired \<noteq> []"
    and "fsm_of (pl_context l) = Inr f"
    and "state_deadline Blocked (dget (fb_policy f) ''timeouts'') clk = Inr dl"
  shows "\<exists>u t. enforce_stop_conditions i None actor clk s = (Inr (u, fired), t) \<and> get_loop i t = Inr u \<and>
    pl_state u = Blocked \<and> pl_previous_state u = Some (pl_state l) \<and> pl_version u = pl_version l + 1 \<and>
    (\<forall>actor' clk'. enforce_stop_conditions i None actor' clk' t = (Inr (u, []), t))"
proof -
  have inv: "loop_inv s" using assms(1) by (rule reachable_inv)
  define a where "a = (plain_transition ''blocked'' (stop_reason fired) actor ''stop_condition'')
     \<lparr>ta_metadata := [(''stopConditions'', PList (map condition_json fired))], ta_now := Some clk,
      ta_fsm_patch := [(''usage'', PDict [(''stoppedReason'', PStr (stop_reason fired))])]\<rparr>"
  have a: "ta_to_state a = state_name Blocked" "ta_expected_version a = None" "ta_now a = Some clk"
    by (simp_all add: a_def)
  obtain d where d: "enter_fsm i (pl_context l) Blocked clk (ta_fsm_patch a) = Inr d"
    using enter_succeeds [OF assms(7) _ assms(8)] by blast
  define u where "u = moved_loop a clk Blocked d l"
  define t where "t = moved_store a clk Blocked d l s"
  have tr: "transition i a clk s = (Inr u, t)"
    using transition_eq [OF inv assms(2), of a Blocked clk] a d block_allowed [OF assms(3,4)]
    by (simp add: version_conflict_def now_or_def u_def t_def settle_remediations_def is_terminal_def
        del: state_name.simps)
  have get: "get_loop i t = Inr u" unfolding t_def u_def using get_loop_moved [OF assms(2)] by simp
  obtain x xs where "fired = x # xs" using assms(6) by (cases fired) auto
  then have "enforce_stop_conditions i None actor clk s = (Inr (u, fired), t)"
    using assms(2-5) tr by (simp add: enforce_stop_conditions_def now_or_def a_def)
  moreover have "pl_state u = Blocked" by (simp add: u_def)
  ultimately show ?thesis using get by (auto simp: enforce_stop_conditions_def u_def)
qed

text \<open>C8. The time-out of a state runs from the entry into it: after a transition at instant \<open>t0\<close>
  into a state with a time-out of \<open>n\<close> seconds, the condition \<open>state_timeout\<close> is among those that fire
  at \<open>now\<close> exactly when more than \<open>n\<close> seconds have passed since \<open>t0\<close>. The comparison of texts in
  the code is the comparison of instants.\<close>

theorem state_timeout_is_elapsed_time:
  assumes "loop_reachable s" and "transition i a clk s = (Inr u, t)" and "ta_fsm_patch a = []"
    and "get_loop i s = Inr l" and "fsm_of (pl_context l) = Inr f"
    and "dget (fb_policy f) ''timeouts'' = PDict ts" and "dget ts (state_name (pl_state u)) = PInt n"
    and "valid_instant now" and "evaluate_stop_conditions (pl_context u) now = Inr fired"
  shows "(\<exists>d. State_timeout d \<in> set fired) \<longleftrightarrow> now_or (ta_now a) clk + 1000 * n < now"
proof -
  define t0 where "t0 = now_or (ta_now a) clk"
  have g: "governed (pl_context l)"
    using loop_inv_get [OF reachable_inv [OF assms(1)] assms(4)] loop_ok_D(3) by blast
  obtain to d where u: "u = moved_loop a clk to d l" and e: "enter_fsm i (pl_context l) to t0 [] = Inr d"
    using assms(2-4) by (auto simp: transition_Inr t0_def)
  obtain h dl where h: "fsm_of (pl_context u) = Inr h" "dget (fb_usage h) ''stateDeadline'' = dl"
    and dl: "state_deadline to (dget (fb_policy f) ''timeouts'') t0 = Inr dl"
    using enter_stored_deadline [OF e g assms(5), of "dmerge (pl_context l) (ta_context_patch a)"]
    by (auto simp: u moved_loop_def)
  have "dl = PStr (iso_of (t0 + 1000 * n)) \<and> valid_instant (t0 + 1000 * n)"
    using dl assms(6,7) by (auto simp: state_deadline_def u try_then_Inr_iff Let_def iso_after_seconds_def
        shift_instant_def split: if_splits)
  then have "past_deadline dl now = Inr (t0 + 1000 * n < now)"
    using assms(8) by (simp add: past_deadline_def iso_of_less_iff)
  then show ?thesis using evaluate_timeout_iff [OF assms(9) h(1)] h(2) by (simp add: t0_def)
qed

text \<open>Recording consumption adds each reported amount to what was consumed under its key, counts
  one measurement, and leaves the state, the version, the status and the log of the loop alone.\<close>

theorem record_usage_accumulates:
  assumes "loop_reachable s" and "record_usage i delta q clk s = (Inr u, t)"
    and "distinct (map fst delta)"
  shows "\<exists>l f g n. get_loop i s = Inr l \<and> get_loop i t = Inr u \<and>
    pl_state u = pl_state l \<and> pl_version u = pl_version l \<and> pl_status u = pl_status l \<and>
    ls_transitions t = ls_transitions s \<and>
    fsm_of (pl_context l) = Inr f \<and> fsm_of (pl_context u) = Inr g \<and>
    dget (fb_usage f) ''usageSeq'' = PInt n \<and> dget (fb_usage g) ''usageSeq'' = PInt (n + 1) \<and>
    (\<forall>k. consumed_of g k = consumed_of f k + (case map_of delta k of None \<Rightarrow> 0 | Some v \<Rightarrow> amount v))"
proof -
  obtain l f us where l: "get_loop i s = Inr l" and f: "fsm_of (pl_context l) = Inr f"
    and us: "usage_after f delta q = Inr us"
    and t: "t = s\<lparr>ls_loops := upd_where (\<lambda>l. pl_id l = i)
      (\<lambda>l. l\<lparr>pl_context := pl_context u, pl_updated_at := clk\<rparr>) (ls_loops s)\<rparr>"
    and u: "u = l\<lparr>pl_context := json_dict (dset (pl_context l) ''fsm'' (PDict (fsm_dict (f\<lparr>fb_usage := us\<rparr>)))),
           pl_updated_at := clk\<rparr>"
    using assms(2) by (rule record_usage_Inr)
  have get: "get_loop i t = Inr u" unfolding t using l get_loop_InrD [OF l] by (simp add: get_loop_upd u)
  have "governed (pl_context l)"
    using loop_inv_get [OF reachable_inv [OF assms(1)] l] loop_ok_D(3) by blast
  then have uok: "usage_ok (fb_usage f)" using f by (simp add: governed_def)
  then obtain c n where c: "dget (fb_usage f) ''consumed'' = PDict c" and n: "dget (fb_usage f) ''usageSeq'' = PInt n"
    by (auto simp: usage_ok_def)
  have "dget_or (fb_usage f) ''usageSeq'' (PInt 0) = PInt n"
    using n by (auto simp: dget_def dget_or_def split: option.splits)
  then obtain c' where c': "add_consumption c delta = Inr c'"
    "us = dset (dset (fb_usage f) ''consumed'' (PDict c')) ''usageSeq'' (PInt (n + 1))"
    using us c by (auto simp: usage_after_def try_then_Inr_iff lift_error_Inr_iff split: if_splits)
  have "complete_block (f\<lparr>fb_usage := us\<rparr>)"
    using fsm_of_complete [OF f] unfolding c'(2)
    by (intro complete_block_usage distinct_dset) (auto simp: complete_block_def)
  then obtain g where g: "fsm_of (pl_context u) = Inr g" "same_entries g (f\<lparr>fb_usage := us\<rparr>)"
    using fsm_of_stored [of "f\<lparr>fb_usage := us\<rparr>" "pl_context l"] by (auto simp: u)
  then have gu: "dget (fb_usage g) ''usageSeq'' = PInt (n + 1)" "dget (fb_usage g) ''consumed'' = PDict (json_dict c')"
    by (simp_all add: same_entries_def c'(2))
  have "consumed_of g k = consumed_of f k + (case map_of delta k of None \<Rightarrow> 0 | Some v \<Rightarrow> amount v)" for k
    using add_consumption_amount [OF c'(1) assms(3), of k]
    by (simp add: consumed_of_amount [OF gu(2)] consumed_of_amount [OF c] dget_or_json)
  then show ?thesis using l get f g(1) n gu(1) by (auto simp: u t)
qed

text \<open>C6. Work can always be finished: a loop that is not terminal, wherever it is (blocked included)
  and provided its time-outs are numbers of seconds that stay in range, is brought to \<open>delivered\<close> by
  the transitions of \<open>delivery_path\<close>, each of which succeeds.\<close>

theorem open_loop_can_be_delivered:
  assumes "loop_reachable s" and "get_loop i s = Inr l" and "\<not> is_terminal (pl_state l)"
    and "fsm_of (pl_context l) = Inr f" and "timeouts_computable (fb_policy f) clk"
  shows "\<exists>u. get_loop i (follow i clk (delivery_path (pl_state l)) s) = Inr u \<and> pl_state u = Delivered \<and>
    pl_version u = pl_version l + int (length (delivery_path (pl_state l)))"
  using follow_path [OF reachable_inv [OF assms(1)] assms(2,4,5), of "delivery_path (pl_state l)"]
    delivery_path_legal [OF assms(3)] by auto

section \<open>A concrete run\<close>

lemma reachable_empty: "loop_reachable empty_store"
  unfolding loop_reachable_def by (rule reach_init) simp

lemma reachable_step: "loop_reachable s \<Longrightarrow> loop_step s t \<Longrightarrow> loop_reachable t"
  unfolding loop_reachable_def by (rule reach_step)

lemma loop_step_snd_start: "loop_step s (snd (start new_id a clk s))"
  by (rule step_start, rule prod.collapse [symmetric])

lemma loop_step_snd_transition:
  "known_patch (ta_fsm_patch a) \<Longrightarrow> loop_step s (snd (transition i a clk s))"
  by (erule step_transition, rule prod.collapse [symmetric])

lemma reachable_follow: "loop_reachable s \<Longrightarrow> loop_reachable (follow i clk path s)"
proof (induction path arbitrary: s)
  case (Cons st path)
  have "loop_reachable (snd (transition i (plain_transition (state_name st) ''advance'' ''operator'' []) clk s))"
    using Cons.prems loop_step_snd_transition by (rule reachable_step) simp
  then show ?case using Cons.IH by (simp add: follow_def)
qed (simp add: follow_def)

definition run_args :: start_args where
  "run_args = \<lparr>sa_project_id = ''p'', sa_title = ''t'', sa_initiative_id = None, sa_context = [],
     sa_correlation_id = None, sa_budget = [(''tokens'', PInt 0)], sa_timeouts = [(''workspace_check'', PInt 60)],
     sa_max_rework_rounds = Some 1, sa_deadline = None, sa_actor = ''operator'', sa_reason = ''goal'',
     sa_now = None\<rparr>"

definition run_start :: loop_store where
  "run_start = snd (start ''L'' run_args 1000 empty_store)"

definition run_loop :: "loop_store \<Rightarrow> product_loop" where
  "run_loop s = (case get_loop ''L'' s of Inr l \<Rightarrow> l | Inl _ \<Rightarrow> started_loop ''L'' run_args 0 PNone)"

definition run_fsm :: "loop_store \<Rightarrow> fsm_block" where
  "run_fsm s = (case fsm_of (pl_context (run_loop s)) of Inr f \<Rightarrow> f
     | Inl _ \<Rightarrow> \<lparr>fb_correlation = PNone, fb_policy = [], fb_usage = []\<rparr>)"

definition run_delivered :: loop_store where
  "run_delivered = follow ''L'' 1000 (delivery_path Goal_received) run_start"

definition run_rework :: loop_store where
  "run_rework = follow ''L'' 1000 [Blocked, Reworking, Blocked] run_start"

lemma reachable_run_start: "loop_reachable run_start"
  unfolding run_start_def using reachable_empty loop_step_snd_start by (rule reachable_step)

lemma run_start_facts:
  "get_loop ''L'' run_start = Inr (run_loop run_start)"
  "pl_state (run_loop run_start) = Goal_received"
  "fsm_of (pl_context (run_loop run_start)) = Inr (run_fsm run_start)"
  "dget (fb_policy (run_fsm run_start)) ''timeouts'' = PDict [(''workspace_check'', PInt 60)]"
  by code_simp+

lemma run_rework_facts:
  "get_loop ''L'' run_rework = Inr (run_loop run_rework) \<and>
   (let l = run_loop run_rework in
     pl_state l = Blocked \<and> pl_previous_state l = Some Reworking \<and>
     (let f = run_fsm run_rework in
       fsm_of (pl_context l) = Inr f \<and> dget (fb_policy f) ''maxReworkRounds'' = PInt 1 \<and>
       dget (fb_usage f) ''reworkRounds'' = PInt 1))"
  by code_simp

lemma run_start_computable: "timeouts_computable (fb_policy (run_fsm run_start)) 1000"
proof -
  have "\<exists>dl. state_deadline st (PDict [(''workspace_check'', PInt 60)]) 1000 = Inr dl" for st
    by (cases st) (simp_all add: state_deadline_def iso_after_seconds_def shift_instant_def
        valid_instant_def max_instant_def days_through_def day_ms_def seconds_ms_def round_half_even_def)
  then show ?thesis by (simp add: timeouts_computable_def run_start_facts(4))
qed

lemma run_delivered_facts:
  "loop_reachable run_delivered"
  "get_loop ''L'' run_delivered = Inr (run_loop run_delivered)"
  "pl_state (run_loop run_delivered) = Delivered"
  "map lt_to_state (list_transitions ''L'' run_delivered) = Goal_received # delivery_path Goal_received"
proof -
  show "loop_reachable run_delivered"
    unfolding run_delivered_def using reachable_run_start by (rule reachable_follow)
  have p: "legal_path (pl_state (run_loop run_start)) (delivery_path Goal_received)"
    using delivery_path_legal [of Goal_received] by (simp add: run_start_facts(2) is_terminal_def del: delivery_path.simps)
  have "map lt_to_state (log_of ''L'' run_start) = [Goal_received]" by code_simp
  with follow_path [OF reachable_inv [OF reachable_run_start] run_start_facts(1,3) run_start_computable p]
  obtain u where u: "get_loop ''L'' run_delivered = Inr u" "pl_state u = Delivered"
    "map lt_to_state (log_of ''L'' run_delivered) = Goal_received # delivery_path Goal_received"
    by (auto simp: run_delivered_def)
  then show "get_loop ''L'' run_delivered = Inr (run_loop run_delivered)"
    "pl_state (run_loop run_delivered) = Delivered" by (simp_all add: run_loop_def)
  have "loop_inv run_delivered" using \<open>loop_reachable run_delivered\<close> by (rule reachable_inv)
  from loop_inv_get [OF this u(1)] loop_ok_D(1) [of run_delivered u]
  have "replay (log_of ''L'' run_delivered) = Some (pl_state u, pl_version u)" by auto
  then show "map lt_to_state (list_transitions ''L'' run_delivered) = Goal_received # delivery_path Goal_received"
    using u(3) list_transitions_log by metis
qed

section \<open>Witnesses\<close>

lemma run_check:
  obtains u t where
    "transition ''L'' (plain_transition ''workspace_check'' ''go'' ''operator'' []) 1000 run_start = (Inr u, t)"
    "loop_inv t" "get_loop ''L'' t = Inr u" "pl_state u = Workspace_check"
proof -
  let ?a = "plain_transition ''workspace_check'' ''go'' ''operator'' []"
  obtain dl where dl: "state_deadline Workspace_check (dget (fb_policy (run_fsm run_start)) ''timeouts'')
      (now_or (ta_now ?a) 1000) = Inr dl"
    using run_start_computable unfolding timeouts_computable_def plain_transition_fields now_or_def
    by (metis option.case(1))
  have e: "Workspace_check \<in> set (allowed_transitions (pl_state (run_loop run_start)))"
    by (simp add: run_start_facts(2))
  show thesis
    by (rule plain_transition_moves [OF reachable_inv [OF reachable_run_start] run_start_facts(1) e _
          run_start_facts(3) dl]) (simp_all, rule that)
qed

theorem transition_effect_witness:
  "loop_reachable run_start \<and>
   (case transition ''L'' (plain_transition ''workspace_check'' ''go'' ''operator'' []) 1000 run_start of
      (Inl e, t) \<Rightarrow> False
    | (Inr u, t) \<Rightarrow> pl_state u = Workspace_check \<and> pl_previous_state u = Some Goal_received)"
proof -
  let ?a = "plain_transition ''workspace_check'' ''go'' ''operator'' []"
  obtain u t where "transition ''L'' ?a 1000 run_start = (Inr u, t)" by (rule run_check) blast
  with transition_effect [OF reachable_run_start, of "''L''" ?a 1000] show ?thesis
    using reachable_run_start run_start_facts(1,2) state_of_state_name [of Workspace_check] by auto
qed

theorem log_replays_to_state_witness:
  "replay (list_transitions ''L'' run_delivered) = Some (Delivered, pl_version (run_loop run_delivered))"
  using log_replays_to_state [OF run_delivered_facts(1,2)] run_delivered_facts(3) by simp

theorem rework_rounds_bounded_witness:
  "loop_reachable run_start \<and> get_loop ''L'' run_start = Inr (run_loop run_start) \<and>
   (\<exists>f r. fsm_of (pl_context (run_loop run_start)) = Inr f \<and> dget (fb_usage f) ''reworkRounds'' = PInt r \<and> 0 \<le> r)"
  using rework_rounds_bounded [OF reachable_run_start run_start_facts(1)] reachable_run_start run_start_facts(1)
  by blast

theorem terminal_is_absorbing_witness:
  "\<exists>l'. get_loop ''L'' (snd (start ''M'' run_args 2000 run_delivered)) = Inr l' \<and> pl_state l' = Delivered \<and>
   list_transitions ''L'' (snd (start ''M'' run_args 2000 run_delivered)) = list_transitions ''L'' run_delivered"
proof -
  have "loop_step\<^sup>*\<^sup>* run_delivered (snd (start ''M'' run_args 2000 run_delivered))"
    using loop_step_snd_start by (rule r_into_rtranclp)
  from terminal_is_absorbing [OF this run_delivered_facts(2)] show ?thesis
    using run_delivered_facts(3) by (auto simp: is_terminal_def)
qed

theorem delivery_passes_every_gate_witness:
  "{Executing, Qa_running, Security_running, Awaiting_approval} \<subseteq> lt_to_state ` set (list_transitions ''L'' run_delivered)"
proof (rule delivery_passes_every_gate [OF run_delivered_facts(1-3)])
  have "Blocked \<notin> set (map lt_to_state (list_transitions ''L'' run_delivered))"
    unfolding run_delivered_facts(4) by simp
  then show "\<forall>r \<in> set (list_transitions ''L'' run_delivered). lt_to_state r \<noteq> Blocked" by force
qed

theorem block_then_unblock_resumes_witness:
  "\<exists>u t w t'. block ''L'' ''stop'' ''operator'' [] None None 1000 run_start = (Inr u, t) \<and> pl_state u = Blocked \<and>
    unblock ''L'' None ''go'' ''operator'' None 1000 t = (Inr w, t') \<and> pl_state w = Goal_received"
proof -
  obtain dl dl' where
    "state_deadline Blocked (dget (fb_policy (run_fsm run_start)) ''timeouts'') 1000 = Inr dl"
    "state_deadline Goal_received (dget (fb_policy (run_fsm run_start)) ''timeouts'') 1000 = Inr dl'"
    using run_start_computable unfolding timeouts_computable_def by metis
  then show ?thesis
    using block_then_unblock_resumes [OF reachable_run_start run_start_facts(1) _ _ _ run_start_facts(3)]
    by (fastforce simp: run_start_facts(2) is_terminal_def)
qed

theorem unblock_refuses_last_rework_witness:
  "unblock ''L'' None ''go'' ''operator'' None 1000 run_rework = (Inl (MaxReworkReached 1 ''L''), run_rework)"
proof -
  have "loop_reachable run_rework"
    unfolding run_rework_def using reachable_run_start by (rule reachable_follow)
  then show ?thesis using unblock_refuses_last_rework run_rework_facts unfolding Let_def by blast
qed

theorem enforce_blocks_and_is_idempotent_witness:
  "\<exists>u t. enforce_stop_conditions ''L'' None ''system'' 1000 run_start =
     (Inr (u, [Budget_exhausted ''tokens'' (PInt 0)]), t) \<and> pl_state u = Blocked"
proof -
  obtain dl where dl: "state_deadline Blocked (dget (fb_policy (run_fsm run_start)) ''timeouts'') 1000 = Inr dl"
    using run_start_computable unfolding timeouts_computable_def by metis
  have fired: "evaluate_stop_conditions (pl_context (run_loop run_start)) 1000 = Inr [Budget_exhausted ''tokens'' (PInt 0)]"
    by code_simp
  show ?thesis
    using enforce_blocks_and_is_idempotent [OF reachable_run_start run_start_facts(1) _ _ fired _ run_start_facts(3) dl, of "''system''"]
    by (auto simp: run_start_facts(2) is_terminal_def)
qed

theorem state_timeout_is_elapsed_time_witness:
  "\<exists>u t fired. transition ''L'' (plain_transition ''workspace_check'' ''go'' ''operator'' []) 1000 run_start = (Inr u, t) \<and>
     evaluate_stop_conditions (pl_context u) 61001 = Inr fired \<and> (\<exists>d. State_timeout d \<in> set fired)"
proof -
  let ?a = "plain_transition ''workspace_check'' ''go'' ''operator'' []"
  obtain u t where u: "transition ''L'' ?a 1000 run_start = (Inr u, t)" and t: "loop_inv t"
    "get_loop ''L'' t = Inr u" and st: "pl_state u = Workspace_check" by (rule run_check)
  have "governed (pl_context u)" using loop_inv_get [OF t] loop_ok_D(3) by blast
  then obtain fired where fired: "evaluate_stop_conditions (pl_context u) 61001 = Inr fired"
    using evaluate_total by blast
  have "valid_instant 61001" by (simp add: valid_instant_def max_instant_def days_through_def day_ms_def)
  from state_timeout_is_elapsed_time [OF reachable_run_start u _ run_start_facts(1,3,4) _ this fired]
  show ?thesis using u fired st by (auto simp: now_or_def)
qed

theorem record_usage_accumulates_witness:
  "\<exists>u t l f g. record_usage ''L'' [(''tokens'', PInt 3)] None 1000 run_start = (Inr u, t) \<and>
     get_loop ''L'' run_start = Inr l \<and> fsm_of (pl_context l) = Inr f \<and> fsm_of (pl_context u) = Inr g \<and>
     consumed_of g ''tokens'' = consumed_of f ''tokens'' + 3"
proof -
  have "\<not> isl (fst (record_usage ''L'' [(''tokens'', PInt 3)] None 1000 run_start))" by code_simp
  then obtain u t where u: "record_usage ''L'' [(''tokens'', PInt 3)] None 1000 run_start = (Inr u, t)"
    using not_isl_fst by metis
  have "map_of [(''tokens'', PInt 3)] ''tokens'' = Some (PInt 3)" "amount (PInt 3) = 3"
    by (simp_all add: amount_def)
  then show ?thesis using record_usage_accumulates [OF reachable_run_start u] u by fastforce
qed

theorem open_loop_can_be_delivered_witness:
  "\<exists>u. get_loop ''L'' (follow ''L'' 1000 (delivery_path Goal_received) run_start) = Inr u \<and> pl_state u = Delivered"
  using open_loop_can_be_delivered [OF reachable_run_start run_start_facts(1) _ run_start_facts(3) run_start_computable]
  by (auto simp: run_start_facts(2) is_terminal_def simp del: delivery_path.simps)

end
