(* ===== verification/Worker_Leadership.thy ===== *)
theory Worker_Leadership
  imports Py_Time
begin

text \<open>
  \<open>workers/leadership.py\<close>: the leader lease of the local worker with its fencing token, the worker
  heartbeats and the durable control state. One lease row exists per instance. Timestamps are
  instants; the redaction of free text (\<open>shared/redaction.py\<close>) is the argument \<open>redact\<close>.
  The locale \<open>fencing\<close> states what the users of the lease rely on: at most one owner holds a token,
  tokens only grow, and a token that was superseded is never valid again.
\<close>

record leader_lease =
  ll_instance_id :: string
  ll_owner_id :: string
  ll_acquired_at :: int
  ll_heartbeat_at :: int
  ll_expires_at :: int
  ll_fencing_token :: int

datatype heartbeat_metadata = Lease_expires "int option" | Stop_reason string

record worker_heartbeat =
  wh_owner_id :: string
  wh_instance_id :: string
  wh_fencing_token :: "int option"
  wh_role :: string
  wh_status :: string
  wh_heartbeat_at :: int
  wh_metadata :: heartbeat_metadata

record worker_control =
  wc_instance_id :: string
  wc_desired_state :: string
  wc_run_once_requested_at :: "int option"
  wc_reason :: string
  wc_requested_by :: string
  wc_updated_at :: int

record leadership_store =
  lw_leases :: "leader_lease list"
  lw_heartbeats :: "worker_heartbeat list"
  lw_controls :: "worker_control list"

datatype leadership_error = OwnerRequired | UnsupportedState string | ReasonRequired | ClockError py_error

record leadership_decision =
  ld_acquired :: bool
  ld_role :: string
  ld_owner_id :: string
  ld_fencing_token :: int
  ld_acquired_at :: int
  ld_heartbeat_at :: int
  ld_expires_at :: int
  ld_reason :: string

section \<open>Lease\<close>

definition lease_of :: "string \<Rightarrow> leadership_store \<Rightarrow> leader_lease option" where
  "lease_of inst s = select_one (\<lambda>r. ll_instance_id r = inst) (lw_leases s)"

text \<open>\<^verbatim>\<open>INSERT ... ON CONFLICT(key) DO UPDATE\<close>: the row with the key of \<open>row\<close> is replaced, or \<open>row\<close> is appended.\<close>

definition upsert :: "('r \<Rightarrow> 'k) \<Rightarrow> 'r \<Rightarrow> 'r list \<Rightarrow> 'r list" where
  "upsert key row rows =
     (if key row \<in> key ` set rows then upd_where (\<lambda>r. key r = key row) (\<lambda>_. row) rows else rows @ [row])"

definition upsert_heartbeat ::
  "string \<Rightarrow> string \<Rightarrow> int option \<Rightarrow> string \<Rightarrow> string \<Rightarrow> int \<Rightarrow> heartbeat_metadata \<Rightarrow>
   leadership_store \<Rightarrow> leadership_store" where
  "upsert_heartbeat inst owner token role status stamp md s =
     s\<lparr>lw_heartbeats := upsert wh_owner_id
        \<lparr>wh_owner_id = owner, wh_instance_id = inst, wh_fencing_token = token, wh_role = role,
         wh_status = status, wh_heartbeat_at = stamp, wh_metadata = md\<rparr> (lw_heartbeats s)\<rparr>"

definition lease_expiry :: "int \<Rightarrow> rat \<Rightarrow> py_error + int" where
  "lease_expiry now lease_seconds = shift_instant now (seconds_ms (max (1 / 10) lease_seconds))"

definition grant_lease :: "string \<Rightarrow> string \<Rightarrow> int \<Rightarrow> int \<Rightarrow> int \<Rightarrow> leadership_store \<Rightarrow> leadership_store" where
  "grant_lease inst owner now expires token s =
     s\<lparr>lw_leases := upd_where (\<lambda>r. ll_instance_id r = inst)
        (\<lambda>r. r\<lparr>ll_owner_id := owner, ll_acquired_at := now, ll_heartbeat_at := now,
               ll_expires_at := expires, ll_fencing_token := token\<rparr>) (lw_leases s)\<rparr>"

definition extend_lease :: "string \<Rightarrow> string \<Rightarrow> int \<Rightarrow> int \<Rightarrow> int \<Rightarrow> leadership_store \<Rightarrow> leadership_store" where
  "extend_lease inst owner token now expires s =
     s\<lparr>lw_leases := upd_where
        (\<lambda>r. ll_instance_id r = inst \<and> ll_owner_id r = owner \<and> ll_fencing_token r = token)
        (\<lambda>r. r\<lparr>ll_heartbeat_at := now, ll_expires_at := expires\<rparr>) (lw_leases s)\<rparr>"

definition acquire ::
  "string \<Rightarrow> string \<Rightarrow> rat \<Rightarrow> int \<Rightarrow> (leadership_store, leadership_error, leadership_decision) op" where
  "acquire inst owner_id lease_seconds now s =
     (let owner = py_strip owner_id in
      if owner = [] then (Inl OwnerRequired, s)
      else (case lease_expiry now lease_seconds of
        Inl e \<Rightarrow> (Inl (ClockError e), s)
      | Inr expires \<Rightarrow>
          (let (acquired, token, acquired_at, expires_at, s') =
             (case lease_of inst s of
                None \<Rightarrow> (True, 1, now, expires,
                   s\<lparr>lw_leases := lw_leases s @
                     [\<lparr>ll_instance_id = inst, ll_owner_id = owner, ll_acquired_at = now,
                       ll_heartbeat_at = now, ll_expires_at = expires, ll_fencing_token = 1\<rparr>]\<rparr>)
              | Some row \<Rightarrow>
                  if ll_expires_at row \<le> now then
                    (True, ll_fencing_token row + 1, now, expires,
                     grant_lease inst owner now expires (ll_fencing_token row + 1) s)
                  else if ll_owner_id row = owner then
                    (True, ll_fencing_token row, ll_acquired_at row, expires,
                     extend_lease inst owner (ll_fencing_token row) now expires s)
                  else (False, ll_fencing_token row, ll_acquired_at row, ll_expires_at row, s));
             role = (if acquired then ''leader'' else ''standby'')
           in (Inr \<lparr>ld_acquired = acquired, ld_role = role, ld_owner_id = owner,
                    ld_fencing_token = token, ld_acquired_at = acquired_at, ld_heartbeat_at = now,
                    ld_expires_at = expires_at,
                    ld_reason = (if acquired then ''Leadership lease acquired.''
                                 else ''Another worker owns the active lease.'')\<rparr>,
               upsert_heartbeat inst owner (if acquired then Some token else None) role ''connected''
                 now (Lease_expires (Some expires_at)) s'))))"

definition renew ::
  "string \<Rightarrow> string \<Rightarrow> int \<Rightarrow> rat \<Rightarrow> string \<Rightarrow> int \<Rightarrow> (leadership_store, leadership_error, bool) op" where
  "renew inst owner token lease_seconds status now s =
     (case lease_expiry now lease_seconds of
        Inl e \<Rightarrow> (Inl (ClockError e), s)
      | Inr expires \<Rightarrow>
          (let hit = (\<lambda>r. ll_instance_id r = inst \<and> ll_owner_id r = owner \<and>
                          ll_fencing_token r = token \<and> now < ll_expires_at r);
               renewed = (rowcount hit (lw_leases s) = 1);
               s' = s\<lparr>lw_leases := upd_where hit
                       (\<lambda>r. r\<lparr>ll_heartbeat_at := now, ll_expires_at := expires\<rparr>) (lw_leases s)\<rparr>
           in (Inr renewed,
               upsert_heartbeat inst owner (if renewed then Some token else None)
                 (if renewed then ''leader'' else ''standby'')
                 (if renewed then status else ''fenced'') now
                 (Lease_expires (if renewed then Some expires else None)) s')))"

definition release ::
  "(string \<Rightarrow> string) \<Rightarrow> string \<Rightarrow> string \<Rightarrow> int \<Rightarrow> string \<Rightarrow> int \<Rightarrow> leadership_store \<Rightarrow> bool \<times> leadership_store" where
  "release redact inst owner token reason now s =
     (rowcount (\<lambda>r. ll_instance_id r = inst \<and> ll_owner_id r = owner \<and> ll_fencing_token r = token)
        (lw_leases s) = 1,
      upsert_heartbeat inst owner None ''standby'' ''stopped'' now (Stop_reason (redact reason))
        (extend_lease inst owner token now now s))"

definition list_heartbeats :: "string \<Rightarrow> leadership_store \<Rightarrow> worker_heartbeat list" where
  "list_heartbeats inst s =
     rev (sort_key wh_heartbeat_at (rev (filter (\<lambda>h. wh_instance_id h = inst) (lw_heartbeats s))))"

section \<open>Control state\<close>

definition control_of :: "string \<Rightarrow> leadership_store \<Rightarrow> worker_control option" where
  "control_of inst s = select_one (\<lambda>r. wc_instance_id r = inst) (lw_controls s)"

definition desired_states :: "string list" where
  "desired_states = [''paused'', ''running'', ''draining'', ''stopped'', ''emergency_stopped'']"

text \<open>The row of a state request keeps a pending run-once request of the row it replaces.\<close>

definition put_state :: "string \<Rightarrow> string \<Rightarrow> string \<Rightarrow> string \<Rightarrow> int \<Rightarrow> leadership_store \<Rightarrow> leadership_store" where
  "put_state inst state reason by now s =
     s\<lparr>lw_controls :=
        (if inst \<in> wc_instance_id ` set (lw_controls s)
         then upd_where (\<lambda>r. wc_instance_id r = inst)
                (\<lambda>r. r\<lparr>wc_desired_state := state, wc_reason := reason, wc_requested_by := by,
                       wc_updated_at := now\<rparr>) (lw_controls s)
         else lw_controls s @
                [\<lparr>wc_instance_id = inst, wc_desired_state = state, wc_run_once_requested_at = None,
                  wc_reason = reason, wc_requested_by = by, wc_updated_at = now\<rparr>])\<rparr>"

definition control_get :: "(string \<Rightarrow> string) \<Rightarrow> string \<Rightarrow> int \<Rightarrow> leadership_store \<Rightarrow> worker_control option \<times> leadership_store" where
  "control_get redact inst now s =
     (case control_of inst s of
        Some r \<Rightarrow> (Some r, s)
      | None \<Rightarrow>
          let s' = put_state inst ''paused'' (py_strip (redact ''Worker requires an explicit resume.'')) ''system'' now s
          in (control_of inst s', s'))"

definition request_state ::
  "(string \<Rightarrow> string) \<Rightarrow> string \<Rightarrow> string \<Rightarrow> string \<Rightarrow> string \<Rightarrow> int \<Rightarrow>
   (leadership_store, leadership_error, worker_control option) op" where
  "request_state redact inst state reason by now s =
     (if state \<notin> set desired_states then (Inl (UnsupportedState state), s)
      else let clean = py_strip (redact reason) in
        if state = ''emergency_stopped'' \<and> clean = [] then (Inl ReasonRequired, s)
        else (case control_get redact inst now (put_state inst state clean by now s) of
                (r, s') \<Rightarrow> (Inr r, s')))"

definition request_run_once ::
  "(string \<Rightarrow> string) \<Rightarrow> string \<Rightarrow> string \<Rightarrow> string \<Rightarrow> int \<Rightarrow> leadership_store \<Rightarrow> worker_control option \<times> leadership_store" where
  "request_run_once redact inst reason by now s =
     control_get redact inst now
       (s\<lparr>lw_controls :=
          (if inst \<in> wc_instance_id ` set (lw_controls s)
           then upd_where (\<lambda>r. wc_instance_id r = inst)
                  (\<lambda>r. r\<lparr>wc_run_once_requested_at := Some now, wc_reason := redact reason,
                         wc_requested_by := by, wc_updated_at := now\<rparr>) (lw_controls s)
           else lw_controls s @
                  [\<lparr>wc_instance_id = inst, wc_desired_state = ''paused'', wc_run_once_requested_at = Some now,
                    wc_reason = redact reason, wc_requested_by = by, wc_updated_at = now\<rparr>])\<rparr>)"

definition consume_run_once :: "string \<Rightarrow> int \<Rightarrow> int \<Rightarrow> leadership_store \<Rightarrow> bool \<times> leadership_store" where
  "consume_run_once inst requested_at now s =
     (let hit = (\<lambda>r. wc_instance_id r = inst \<and> wc_run_once_requested_at r = Some requested_at) in
      (rowcount hit (lw_controls s) = 1,
       s\<lparr>lw_controls := upd_where hit
          (\<lambda>r. r\<lparr>wc_run_once_requested_at := None, wc_updated_at := now\<rparr>) (lw_controls s)\<rparr>))"

section \<open>Fencing\<close>

text \<open>
  The contract of a fencing token, for a system whose states expose the current token and its
  owner: a token persists or grows, and the same token never changes hands.
\<close>

locale fencing =
  fixes token :: "'s \<Rightarrow> int option"
    and owner :: "'s \<Rightarrow> string option"
    and step :: "'s \<Rightarrow> 's \<Rightarrow> bool"
  assumes token_grows: "step s t \<Longrightarrow> token s = Some k \<Longrightarrow> \<exists>k' \<ge> k. token t = Some k'"
    and owner_kept: "step s t \<Longrightarrow> token s = Some k \<Longrightarrow> token t = Some k \<Longrightarrow> owner t = owner s"
begin

lemma token_mono: "step\<^sup>*\<^sup>* s t \<Longrightarrow> token s = Some k \<Longrightarrow> \<exists>k' \<ge> k. token t = Some k'"
proof (induction rule: rtranclp_induct)
  case (step t u)
  then obtain k' where "k \<le> k'" "token t = Some k'" by blast
  then show ?case using token_grows [OF step.hyps(2)] order_trans by blast
qed simp

lemma owner_of_token:
  "step\<^sup>*\<^sup>* s t \<Longrightarrow> token s = Some k \<Longrightarrow> token t = Some k \<Longrightarrow> owner t = owner s"
proof (induction rule: rtranclp_induct)
  case (step t u)
  from token_mono [OF step.hyps(1) step.prems(1)] obtain k' where k': "k \<le> k'" "token t = Some k'" by blast
  with token_grows [OF step.hyps(2)] step.prems(2) have "k' = k" by force
  with k' step show ?case using owner_kept [OF step.hyps(2)] by simp
qed simp

lemma superseded: "step\<^sup>*\<^sup>* s t \<Longrightarrow> token s = Some k' \<Longrightarrow> k < k' \<Longrightarrow> token t \<noteq> Some k"
  using token_mono by fastforce

lemma takeover_grows:
  "step\<^sup>*\<^sup>* s t \<Longrightarrow> token s = Some k \<Longrightarrow> token t = Some k' \<Longrightarrow> owner s \<noteq> owner t \<Longrightarrow> k < k'"
  using token_mono owner_of_token by (metis option.inject order_le_less)

end

definition fence_token :: "string \<Rightarrow> leadership_store \<Rightarrow> int option" where
  "fence_token inst s = map_option ll_fencing_token (lease_of inst s)"

definition fence_owner :: "string \<Rightarrow> leadership_store \<Rightarrow> string option" where
  "fence_owner inst s = map_option ll_owner_id (lease_of inst s)"

text \<open>The check the users of the lease make: owner, token and a lease that has not expired.\<close>

definition fence_active :: "string \<Rightarrow> string \<Rightarrow> int \<Rightarrow> int \<Rightarrow> leadership_store \<Rightarrow> bool" where
  "fence_active inst owner token now s =
     (\<exists>r \<in> set (lw_leases s). ll_instance_id r = inst \<and> ll_owner_id r = owner \<and>
        ll_fencing_token r = token \<and> now < ll_expires_at r)"

inductive lease_step :: "leadership_store \<Rightarrow> leadership_store \<Rightarrow> bool" where
  step_acquire: "acquire inst owner secs now s = (r, t) \<Longrightarrow> lease_step s t"
| step_renew: "renew inst owner token secs status now s = (r', t) \<Longrightarrow> lease_step s t"
| step_release: "release redact inst owner token reason now s = (b, t) \<Longrightarrow> lease_step s t"
| step_request_state: "request_state redact inst state reason by now s = (c, t) \<Longrightarrow> lease_step s t"
| step_run_once: "request_run_once redact inst reason by now s = (c', t) \<Longrightarrow> lease_step s t"
| step_consume: "consume_run_once inst at' now s = (b, t) \<Longrightarrow> lease_step s t"
| step_control_get: "control_get redact inst now s = (c', t) \<Longrightarrow> lease_step s t"

lemma leases_heartbeat [simp]:
  "lw_leases (upsert_heartbeat inst owner token role status stamp md s) = lw_leases s"
  by (simp add: upsert_heartbeat_def)

lemma leases_put_state [simp]: "lw_leases (put_state inst state reason by now s) = lw_leases s"
  by (simp add: put_state_def)

lemma leases_control_get: "control_get redact inst now s = (c, t) \<Longrightarrow> lw_leases t = lw_leases s"
  by (auto simp: control_get_def Let_def split: option.splits)

lemma lease_of_heartbeat [simp]:
  "lease_of i (upsert_heartbeat inst owner token role status stamp md s) = lease_of i s"
  by (simp add: lease_of_def)

text \<open>What an operation may do to a lease row that exists.\<close>

definition row_evolves :: "leader_lease \<Rightarrow> leader_lease \<Rightarrow> bool" where
  "row_evolves r r' =
     (ll_fencing_token r' = ll_fencing_token r \<and> ll_owner_id r' = ll_owner_id r \<or>
      ll_fencing_token r < ll_fencing_token r')"

lemma row_evolves_refl [simp]: "row_evolves r r"
  by (simp add: row_evolves_def)

lemma evolves_same:
  "lw_leases t = lw_leases s \<Longrightarrow> lease_of i s = Some q \<Longrightarrow> \<exists>q'. lease_of i t = Some q' \<and> row_evolves q q'"
  by (simp add: lease_of_def)

lemma lease_of_upd:
  assumes "\<And>r. ll_instance_id (f r) = ll_instance_id r"
  shows "lease_of i (s\<lparr>lw_leases := upd_where P f (lw_leases s)\<rparr>) =
    map_option (\<lambda>r. if P r then f r else r) (lease_of i s)"
  unfolding lease_of_def using select_one_key_upd [of ll_instance_id f i P "lw_leases s"] assms by simp

lemma acquire_evolves:
  assumes "acquire inst owner secs now s = (r, t)" "lease_of i s = Some q"
  shows "\<exists>q'. lease_of i t = Some q' \<and> row_evolves q q'"
proof (cases "lw_leases t = lw_leases s")
  case True
  then show ?thesis using assms(2) by (rule evolves_same)
next
  case False
  have new: "lease_of i (s\<lparr>lw_leases := lw_leases s @ [n]\<rparr>) = Some q" for n
    using assms(2) by (simp add: lease_of_def select_one_append)
  from False assms(1) obtain expires where "lease_expiry now secs = Inr expires" "py_strip owner \<noteq> []"
    by (auto simp: acquire_def Let_def split: if_splits sum.splits)
  moreover have iq: "ll_instance_id q = i" using assms(2) by (auto simp: lease_of_def dest: select_one_SomeD)
  ultimately show ?thesis using assms
    by (auto simp: iq acquire_def Let_def new grant_lease_def extend_lease_def lease_of_upd row_evolves_def
        split: option.splits if_splits)
qed

lemma lease_step_evolves:
  assumes "lease_step s t" "lease_of i s = Some q"
  shows "\<exists>q'. lease_of i t = Some q' \<and> row_evolves q q'"
  using assms(1)
proof (cases rule: lease_step.cases)
  case (step_acquire inst owner secs now r)
  then show ?thesis using acquire_evolves assms(2) by blast
next
  case (step_renew inst owner token secs status now r')
  from step_renew assms(2) show ?thesis
    by (auto simp: renew_def Let_def lease_of_upd row_evolves_def split: sum.splits)
next
  case (step_release redact inst owner token reason now b)
  from step_release assms(2) show ?thesis
    by (auto simp: release_def extend_lease_def lease_of_upd row_evolves_def)
next
  case (step_request_state redact inst state reason "by" now c)
  then have "lw_leases t = lw_leases s"
    by (auto simp: request_state_def Let_def split: if_splits prod.splits dest: leases_control_get)
  then show ?thesis using assms(2) by (rule evolves_same)
next
  case (step_run_once redact inst reason "by" now c')
  then have "lw_leases t = lw_leases s"
    unfolding request_run_once_def by (auto dest: leases_control_get)
  then show ?thesis using assms(2) by (rule evolves_same)
next
  case (step_consume inst at' now b)
  then have "lw_leases t = lw_leases s" by (auto simp: consume_run_once_def Let_def)
  then show ?thesis using assms(2) by (rule evolves_same)
next
  case (step_control_get redact inst now c')
  then show ?thesis using assms(2) leases_control_get by (metis evolves_same)
qed

interpretation leader: fencing "fence_token inst" "fence_owner inst" lease_step for inst
proof unfold_locales
  fix s t :: leadership_store and k :: int
  assume step: "lease_step s t" and k: "fence_token inst s = Some k"
  then obtain q q' where q: "lease_of inst s = Some q" "lease_of inst t = Some q'" "row_evolves q q'"
    using lease_step_evolves [OF step] by (force simp: fence_token_def)
  then show "\<exists>k' \<ge> k. fence_token inst t = Some k'"
    using k by (auto simp: fence_token_def row_evolves_def)
  show "fence_owner inst t = fence_owner inst s" if "fence_token inst t = Some k"
    using that k q by (auto simp: fence_token_def fence_owner_def row_evolves_def)
qed

section \<open>Properties\<close>

lemma lease_of_instance: "lease_of i s = Some q \<Longrightarrow> ll_instance_id q = i \<and> q \<in> set (lw_leases s)"
  by (auto simp: lease_of_def dest: select_one_SomeD)

lemma fence_active_row:
  assumes "distinct (map ll_instance_id (lw_leases s))"
  shows "fence_active i owner token now s \<longleftrightarrow>
    (\<exists>q. lease_of i s = Some q \<and> ll_owner_id q = owner \<and> ll_fencing_token q = token \<and> now < ll_expires_at q)"
proof
  assume "fence_active i owner token now s"
  then obtain r where r: "r \<in> set (lw_leases s)" "ll_instance_id r = i" "ll_owner_id r = owner"
    "ll_fencing_token r = token" "now < ll_expires_at r" by (auto simp: fence_active_def)
  then show "\<exists>q. lease_of i s = Some q \<and> ll_owner_id q = owner \<and> ll_fencing_token q = token \<and> now < ll_expires_at q"
    using select_one_distinct [OF assms r(1,2)] by (auto simp: lease_of_def)
next
  assume "\<exists>q. lease_of i s = Some q \<and> ll_owner_id q = owner \<and> ll_fencing_token q = token \<and> now < ll_expires_at q"
  then show "fence_active i owner token now s"
    using lease_of_instance by (fastforce simp: fence_active_def)
qed

definition one_lease :: "leadership_store \<Rightarrow> bool" where
  "one_lease s = distinct (map ll_instance_id (lw_leases s))"

lemma lease_step_one_lease: "lease_step s t \<Longrightarrow> one_lease s \<Longrightarrow> one_lease t"
proof (induction rule: lease_step.induct)
  case (step_acquire inst owner secs now s r t)
  have "inst \<notin> ll_instance_id ` set (lw_leases s)" if "lease_of inst s = None"
    using that select_one_NoneD by (fastforce simp: lease_of_def)
  with step_acquire show ?case
    by (auto simp: acquire_def one_lease_def Let_def grant_lease_def extend_lease_def map_upd_where_key
        split: if_splits sum.splits option.splits)
next
  case (step_renew inst owner token secs status now s r' t)
  then show ?case by (auto simp: renew_def one_lease_def Let_def map_upd_where_key split: sum.splits)
next
  case (step_release redact inst owner token reason now s b t)
  then show ?case by (auto simp: release_def one_lease_def extend_lease_def map_upd_where_key)
next
  case (step_request_state redact inst state reason "by" now s c t)
  then have "lw_leases t = lw_leases s"
    by (auto simp: request_state_def Let_def split: if_splits prod.splits dest: leases_control_get)
  with step_request_state show ?case by (simp add: one_lease_def)
next
  case (step_run_once redact inst reason "by" now s c' t)
  then have "lw_leases t = lw_leases s"
    unfolding request_run_once_def by (auto dest: leases_control_get)
  with step_run_once show ?case by (simp add: one_lease_def)
next
  case (step_consume inst at' now s b t)
  then show ?case by (auto simp: consume_run_once_def one_lease_def Let_def)
next
  case (step_control_get redact inst now s c' t)
  then show ?case using leases_control_get by (simp add: one_lease_def)
qed

interpretation leases: invariant_system "\<lambda>s. lw_leases s = []" lease_step one_lease
proof unfold_locales
  show "one_lease s" if "lw_leases s = []" for s using that by (simp add: one_lease_def)
qed (rule lease_step_one_lease)

definition lease_reachable :: "leadership_store \<Rightarrow> bool" where
  "lease_reachable = reach (\<lambda>s. lw_leases s = []) lease_step"

lemma lease_reachable_one: "lease_reachable s \<Longrightarrow> one_lease s"
  unfolding lease_reachable_def by (rule leases.inv_reach)

text \<open>C10. A token that was taken over is dead: when some worker held the lease with a token and later
  another owner holds it, then from there on, whatever operations follow, the fence of that token is
  not active at any instant, and every attempt to renew with it is refused and changes no lease. The
  worker may win the lease again, but only under a greater token.\<close>

theorem superseded_leader_is_fenced_out:
  assumes "lease_reachable s" "lease_step\<^sup>*\<^sup>* s t" "lease_step\<^sup>*\<^sup>* t u"
    and "fence_token i s = Some k" "fence_owner i s = Some o1"
    and "fence_owner i t = Some o2" "o1 \<noteq> o2"
  shows "\<not> fence_active i o1 k now u \<and>
    (case renew i o1 k secs status now u of (Inr renewed, v) \<Rightarrow> \<not> renewed \<and> lw_leases v = lw_leases u
     | (Inl _, v) \<Rightarrow> v = u) \<and>
    (\<forall>k'. fence_active i o1 k' now u \<longrightarrow> k < k')"
proof -
  obtain k2 where k2: "fence_token i t = Some k2" using assms(6) by (auto simp: fence_token_def fence_owner_def)
  have "k < k2" using leader.takeover_grows [OF assms(2,4) k2] assms(5-7) by simp
  then have no: "fence_token i u \<noteq> Some k" using leader.superseded [OF assms(3) k2] by blast
  have "one_lease u"
    using lease_reachable_one [OF assms(1)] leases.inv_rtranclp assms(2,3) by blast
  then have active: "fence_active i o1 k' now u \<Longrightarrow> fence_token i u = Some k'" for k'
    by (auto simp: one_lease_def fence_active_row fence_token_def)
  have inactive: "\<not> fence_active i o1 k now u" using no active by blast
  have greater: "k < k'" if "fence_active i o1 k' now u" for k'
    using leader.token_mono [OF assms(3) k2] active [OF that] \<open>k < k2\<close> by fastforce
  have "rowcount (\<lambda>r. ll_instance_id r = i \<and> ll_owner_id r = o1 \<and> ll_fencing_token r = k \<and>
      now < ll_expires_at r) (lw_leases u) = 0"
    using inactive by (auto simp: rowcount_def filter_empty_conv fence_active_def)
  then show ?thesis using inactive upd_where_no_match greater
    by (auto simp: renew_def Let_def split: sum.splits)
qed

text \<open>C11. The outcome of competing for the lease: it is acquired exactly when there is none, it has
  expired or the caller owns it; the caller then holds an active fence until it expires, under the
  same token when it owned a live lease and under the next one when it took over. A refused caller
  leaves every lease as it was.\<close>

theorem acquire_outcome:
  assumes "one_lease s" and "acquire i owner secs now s = (Inr d, t)"
  shows "(ld_acquired d \<longleftrightarrow>
      (case lease_of i s of None \<Rightarrow> True
       | Some q \<Rightarrow> ll_expires_at q \<le> now \<or> ll_owner_id q = py_strip owner)) \<and>
    (ld_acquired d \<longrightarrow>
      fence_token i t = Some (ld_fencing_token d) \<and> fence_owner i t = Some (py_strip owner) \<and>
      now < ld_expires_at d \<and>
      (\<forall>n < ld_expires_at d. fence_active i (py_strip owner) (ld_fencing_token d) n t) \<and>
      ld_fencing_token d =
        (case lease_of i s of None \<Rightarrow> 1
         | Some q \<Rightarrow> if ll_expires_at q \<le> now then ll_fencing_token q + 1 else ll_fencing_token q)) \<and>
    (\<not> ld_acquired d \<longrightarrow> lw_leases t = lw_leases s)"
proof -
  have "lease_step s t" using assms(2) by (rule step_acquire)
  then have one: "one_lease t" using assms(1) by (rule lease_step_one_lease)
  obtain expires where e: "lease_expiry now secs = Inr expires" and own: "py_strip owner \<noteq> []"
    using assms(2) by (auto simp: acquire_def Let_def split: if_splits sum.splits)
  have "1 / 10 \<le> max (1 / 10) secs" by simp
  then have later: "now < expires"
    using e seconds_ms_pos by (auto simp: lease_expiry_def shift_instant_def split: if_splits)
  show ?thesis
  proof (cases "lease_of i s")
    case None
    then show ?thesis using assms(2) e own later one
      by (auto simp: acquire_def Let_def fence_token_def fence_owner_def one_lease_def fence_active_row lease_of_def
          select_one_append)
  next
    case (Some q)
    then show ?thesis using assms(2) e own later one lease_of_instance [OF Some]
      by (auto simp: acquire_def Let_def fence_token_def fence_owner_def one_lease_def fence_active_row
          grant_lease_def extend_lease_def lease_of_upd split: if_splits)
  qed
qed

text \<open>A request to run one batch is consumed at most once: after a consumption that succeeded, no
  further attempt for the same request succeeds, whoever makes it.\<close>

theorem run_once_consumed_once:
  assumes "consume_run_once inst requested_at now s = (True, t)"
  shows "\<not> fst (consume_run_once inst requested_at now' t)"
proof -
  let ?hit = "\<lambda>r. wc_instance_id r = inst \<and> wc_run_once_requested_at r = Some requested_at"
  have "lw_controls t = upd_where ?hit (\<lambda>r. r\<lparr>wc_run_once_requested_at := None, wc_updated_at := now\<rparr>) (lw_controls s)"
    using assms by (auto simp: consume_run_once_def Let_def)
  then have "rowcount ?hit (lw_controls t) = 0" by (simp add: rowcount_consumed)
  then show ?thesis by (simp add: consume_run_once_def Let_def)
qed

section \<open>Witnesses\<close>

definition no_workers :: leadership_store where
  "no_workers = \<lparr>lw_leases = [], lw_heartbeats = [], lw_controls = []\<rparr>"

definition led_by_a :: leadership_store where
  "led_by_a = snd (acquire ''local'' ''a'' 10 0 no_workers)"

definition led_by_b :: leadership_store where
  "led_by_b = snd (acquire ''local'' ''b'' 10 20000 led_by_a)"

lemma lease_expiry_10:
  "0 \<le> now \<Longrightarrow> now < 1000000000 \<Longrightarrow> lease_expiry now 10 = Inr (now + 10000)"
  using seconds_ms_of_int [of 10]
  by (simp add: lease_expiry_def shift_instant_def valid_instant_def max_instant_def days_through_def day_ms_def)

lemma strip_owner: "py_strip ''a'' = ''a''" "py_strip ''b'' = ''b''"
  by code_simp+

lemma acquire_a: "acquire ''local'' ''a'' 10 0 no_workers =
  (Inr \<lparr>ld_acquired = True, ld_role = ''leader'', ld_owner_id = ''a'', ld_fencing_token = 1, ld_acquired_at = 0,
     ld_heartbeat_at = 0, ld_expires_at = 10000, ld_reason = ''Leadership lease acquired.''\<rparr>, led_by_a)"
  "lw_leases led_by_a = [\<lparr>ll_instance_id = ''local'', ll_owner_id = ''a'', ll_acquired_at = 0,
     ll_heartbeat_at = 0, ll_expires_at = 10000, ll_fencing_token = 1\<rparr>]"
  by (simp_all add: acquire_def led_by_a_def Let_def strip_owner lease_expiry_10 lease_of_def no_workers_def)

lemma leases_b:
  "lw_leases led_by_b = [\<lparr>ll_instance_id = ''local'', ll_owner_id = ''b'', ll_acquired_at = 20000,
     ll_heartbeat_at = 20000, ll_expires_at = 30000, ll_fencing_token = 2\<rparr>]"
  by (simp add: acquire_def led_by_b_def Let_def strip_owner lease_expiry_10 lease_of_def acquire_a(2) grant_lease_def)

lemma reachable_a: "lease_reachable led_by_a"
proof -
  have "lease_step no_workers led_by_a" using acquire_a(1) by (rule step_acquire)
  moreover have "lease_reachable no_workers"
    unfolding lease_reachable_def by (rule reach_init) (simp add: no_workers_def)
  ultimately show ?thesis unfolding lease_reachable_def by (rule reach_step [rotated])
qed

theorem superseded_leader_is_fenced_out_witness:
  "\<not> fence_active ''local'' ''a'' 1 25000 led_by_b"
proof -
  have "lease_step led_by_a led_by_b"
    unfolding led_by_b_def by (rule step_acquire, rule prod.collapse [symmetric])
  from superseded_leader_is_fenced_out [OF reachable_a r_into_rtranclp [of lease_step, OF this] rtranclp.rtrancl_refl, of "''local''" 1 "''a''" "''b''" 25000]
  show ?thesis by (simp add: fence_token_def fence_owner_def lease_of_def acquire_a(2) leases_b)
qed

theorem acquire_outcome_witness:
  "one_lease no_workers \<and> fence_active ''local'' ''a'' 1 9999 led_by_a"
  using acquire_outcome [OF _ acquire_a(1)]
  by (simp add: one_lease_def no_workers_def lease_of_def strip_owner)

definition run_once_pending :: leadership_store where
  "run_once_pending = no_workers\<lparr>lw_controls := [\<lparr>wc_instance_id = ''local'', wc_desired_state = ''paused'',
       wc_run_once_requested_at = Some 5, wc_reason = ''r'', wc_requested_by = ''o'', wc_updated_at = 5\<rparr>]\<rparr>"

theorem run_once_consumed_once_witness:
  "\<exists>t. consume_run_once ''local'' 5 6 run_once_pending = (True, t) \<and> \<not> fst (consume_run_once ''local'' 5 7 t)"
proof -
  obtain b t where c: "consume_run_once ''local'' 5 6 run_once_pending = (b, t)" by (rule prod.exhaust)
  have "fst (consume_run_once ''local'' 5 6 run_once_pending)" by code_simp
  with c have "consume_run_once ''local'' 5 6 run_once_pending = (True, t)" by simp
  then show ?thesis using run_once_consumed_once by blast
qed

end
