(* ===== verification/Redaction.thy ===== *)
theory Redaction
  imports Py_Values "HOL-Library.Sublist"
begin

text \<open>
  \<open>shared/redaction.py: redact_secrets\<close> over Python values. What the regular expressions do to one
  text (\<open>SECRET_VALUE_PATTERN.sub\<close> after \<open>_sanitize_git_remote_lines\<close>) is the argument \<open>scrub\<close>; the
  treatment of keys, counters, status fields, lists and dicts is the code's.
\<close>

definition contains :: "string \<Rightarrow> string \<Rightarrow> bool" where
  "contains pat s = list_ex (prefix pat) (suffixes s)"

definition ends_with :: "string \<Rightarrow> string \<Rightarrow> bool" where
  "ends_with pat s = suffix pat s"

definition secret_key_words :: "string list" where
  "secret_key_words =
     [''apikey'', ''api_key'', ''api-key'', ''authorization'', ''credential'', ''secret'', ''token'']"

text \<open>\<open>SECRET_KEY_PATTERN.search(key)\<close>, which ignores case.\<close>

definition secret_key :: "string \<Rightarrow> bool" where
  "secret_key key = list_ex (\<lambda>w. contains w (py_lower key)) secret_key_words"

definition status_keys :: "string list" where
  "status_keys = [''token_status'', ''tokenstatus'', ''cost_status'', ''coststatus'']"

definition counter_key :: "string \<Rightarrow> bool" where
  "counter_key key =
     (let k = py_lower key in ends_with ''tokens'' k \<or> ends_with ''_tokens'' k \<or> ends_with ''token_count'' k)"

definition redacted :: pyval where
  "redacted = PStr ''[redacted]''"

fun redact_secrets :: "(string \<Rightarrow> string) \<Rightarrow> string \<Rightarrow> pyval \<Rightarrow> pyval" where
  "redact_secrets scrub key v =
     (if py_lower key \<in> set status_keys then v
      else if counter_key key \<and> is_number v then v
      else if secret_key key then redacted
      else (case v of
          PDict d \<Rightarrow> PDict (map (\<lambda>(k, x). (k, redact_secrets scrub k x)) d)
        | PList xs \<Rightarrow> PList (map (\<lambda>x. redact_secrets scrub [] x) xs)
        | PStr s \<Rightarrow> PStr (scrub s)
        | _ \<Rightarrow> v))"

declare redact_secrets.simps [simp del]

definition redact_dict :: "(string \<Rightarrow> string) \<Rightarrow> pydict \<Rightarrow> pydict" where
  "redact_dict scrub d = map (\<lambda>(k, x). (k, redact_secrets scrub k x)) d"

lemma contains_iff: "contains pat s \<longleftrightarrow> (\<exists>u v. s = u @ pat @ v)"
proof
  assume "contains pat s"
  then obtain t where "suffix t s" "prefix pat t"
    by (auto simp: contains_def list_ex_iff)
  then show "\<exists>u v. s = u @ pat @ v" by (auto simp: suffix_def prefix_def)
next
  assume "\<exists>u v. s = u @ pat @ v"
  then obtain u v where "s = u @ (pat @ v)" by auto
  then have "suffix (pat @ v) s" "prefix pat (pat @ v)" by (auto simp: suffix_def)
  then show "contains pat s" unfolding contains_def list_ex_iff by (intro bexI [of _ "pat @ v"]) simp_all
qed

lemma empty_key_plain [simp]: "\<not> secret_key []" "\<not> counter_key []" "py_lower [] \<notin> set status_keys"
  by (simp_all add: secret_key_def secret_key_words_def contains_iff counter_key_def ends_with_def
      py_lower_def status_keys_def)

lemma redact_top:
  "redact_secrets scrub [] (PDict d) = PDict (redact_dict scrub d)"
  "redact_secrets scrub [] (PStr s) = PStr (scrub s)"
  by (simp_all add: redact_secrets.simps redact_dict_def)

lemma dget_redact_dict:
  "dget (redact_dict scrub d) k =
     (case map_of d k of None \<Rightarrow> PNone | Some x \<Rightarrow> redact_secrets scrub k x)"
  unfolding redact_dict_def by (induction d) auto

lemma keys_redact_dict [simp]: "map fst (redact_dict scrub d) = map fst d"
  by (induction d) (auto simp: redact_dict_def)

section \<open>What redaction guarantees\<close>

text \<open>
  Every value inside a value, with the key it is stored under; elements of lists have the empty key.
  The contents of status fields, which the code passes through, are not entered.
\<close>

fun entries :: "string \<Rightarrow> pyval \<Rightarrow> (string \<times> pyval) list" where
  "entries key v =
     (key, v) #
     (if py_lower key \<in> set status_keys then []
      else (case v of
          PDict d \<Rightarrow> concat (map (\<lambda>(k, x). entries k x) d)
        | PList xs \<Rightarrow> concat (map (\<lambda>x. entries [] x) xs)
        | _ \<Rightarrow> []))"

declare entries.simps [simp del]

definition safe_entry :: "(string \<Rightarrow> string) \<Rightarrow> string \<times> pyval \<Rightarrow> bool" where
  "safe_entry scrub = (\<lambda>(k, x).
     py_lower k \<in> set status_keys \<or>
     (secret_key k \<and> \<not> (counter_key k \<and> is_number x) \<longrightarrow> x = redacted) \<and>
     (\<forall>t. x = PStr t \<longrightarrow> t = ''[redacted]'' \<or> t \<in> range scrub))"

lemma entries_leaf: "\<not> is_list v \<Longrightarrow> \<not> is_dict v \<Longrightarrow> entries k v = [(k, v)]"
  by (cases v) (simp_all add: entries.simps)

lemma safe_entry_container:
  "\<not> secret_key k \<Longrightarrow> \<not> is_str v \<Longrightarrow> safe_entry scrub (k, v)"
  by (auto simp: safe_entry_def)

lemma entries_safe: "list_all (safe_entry scrub) (entries key (redact_secrets scrub key v))"
proof (induction scrub key v rule: redact_secrets.induct)
  case (1 scrub key v)
  consider "py_lower key \<in> set status_keys"
    | "py_lower key \<notin> set status_keys" "counter_key key" "is_number v"
    | "py_lower key \<notin> set status_keys" "\<not> (counter_key key \<and> is_number v)" "secret_key key"
    | "py_lower key \<notin> set status_keys" "\<not> (counter_key key \<and> is_number v)" "\<not> secret_key key" by blast
  then show ?case
  proof cases
    case 1
    then show ?thesis by (simp add: redact_secrets.simps entries.simps safe_entry_def)
  next
    case 2
    then show ?thesis by (cases v) (simp_all add: redact_secrets.simps entries_leaf safe_entry_def)
  next
    case 3
    then have "redact_secrets scrub key v = redacted" by (auto simp: redact_secrets.simps)
    then show ?thesis by (simp add: redacted_def entries_leaf safe_entry_def)
  next
    case 4
    show ?thesis
    proof (cases v)
      case (PList xs)
      then have "redact_secrets scrub key v = PList (map (redact_secrets scrub []) xs)"
        using 4 by (auto simp: redact_secrets.simps [of scrub key])
      then show ?thesis using 4 "1.IH"(1) [OF 4(1) 4(2) 4(3) PList]
        by (fastforce simp: entries.simps [of key] list_all_iff intro: safe_entry_container)
    next
      case (PDict d)
      then have "redact_secrets scrub key v = PDict (map (\<lambda>(k, x). (k, redact_secrets scrub k x)) d)"
        using 4 by (auto simp: redact_secrets.simps [of scrub key])
      then show ?thesis using 4 "1.IH"(2) [OF 4(1) 4(2) 4(3) PDict]
        by (fastforce simp: entries.simps [of key] list_all_iff intro: safe_entry_container)
    qed (use 4 in \<open>auto simp: redact_secrets.simps entries_leaf safe_entry_def\<close>)
  qed
qed

text \<open>C24. Redaction reaches every depth: in a redacted value, outside the status fields, whatever is
  stored under a key that names a secret is the placeholder, unless it is the number of a counter,
  and every text is the placeholder or the output of the pattern replacement.\<close>

theorem redaction_reaches_every_entry:
  assumes "(k, x) \<in> set (entries key (redact_secrets scrub key v))" "py_lower k \<notin> set status_keys"
  shows "(secret_key k \<and> \<not> (counter_key k \<and> is_number x) \<longrightarrow> x = redacted) \<and>
    (\<forall>t. x = PStr t \<longrightarrow> t = ''[redacted]'' \<or> t \<in> range scrub)"
  using entries_safe [of scrub key v] assms by (auto simp: list_all_iff safe_entry_def)

text \<open>Fields named \<open>token_status\<close>, \<open>tokenStatus\<close>, \<open>cost_status\<close> or \<open>costStatus\<close> are passed through
  as they are, so a text inside them is not put through the secret patterns, whatever it holds.\<close>

theorem status_field_is_not_scrubbed:
  "\<exists>k. secret_key k \<and> (\<forall>scrub v. redact_secrets scrub [] (PDict [(k, v)]) = PDict [(k, v)])"
proof -
  have "secret_key ''token_status'' \<and> py_lower ''token_status'' \<in> set status_keys" by code_simp
  then show ?thesis by (intro exI [of _ "''token_status''"]) (simp add: redact_top redact_dict_def redact_secrets.simps)
qed

definition mask_all :: "string \<Rightarrow> string" where
  "mask_all s = ''***''"

theorem redaction_reaches_every_entry_witness:
  "redact_secrets mask_all [] (PDict [(''a'', PList [PDict [(''Api_Key'', PInt 7)]])]) =
   PDict [(''a'', PList [PDict [(''Api_Key'', PStr ''[redacted]'')]])]"
proof -
  let ?v = "PDict [(''a'', PList [PDict [(''Api_Key'', PInt 7)]])]"
  have e: "redact_secrets mask_all [] ?v = PDict [(''a'', PList [PDict [(''Api_Key'', redacted)]])]" by code_simp
  have "(''Api_Key'', redacted) \<in> set (entries [] (redact_secrets mask_all [] ?v))" by code_simp
  moreover have "py_lower ''Api_Key'' \<notin> set status_keys" "secret_key ''Api_Key''" "\<not> counter_key ''Api_Key''"
    by code_simp+
  ultimately have "redacted = PStr ''[redacted]''"
    using redaction_reaches_every_entry [of "''Api_Key''" redacted "[]" mask_all ?v] by (simp add: redacted_def)
  then show ?thesis using e by simp
qed

end
