(* ===== verification/Evidence.thy ===== *)
theory Evidence
  imports Py_Values
begin

text \<open>
  \<open>evidence/quality.py\<close> and the evidence packages of \<open>evidence/repository.py\<close>. A package is the dict
  that \<open>row_to_evidence_package\<close> reads back. \<open>str\<close> of floats and containers is the argument
  \<open>other\<close>, and \<open>redact_secrets\<close> the argument \<open>redact\<close>. \<open>real_qa_evidence\<close> says what a passed
  verdict stands for; the error lists of the code are empty exactly on it.
\<close>

section \<open>Rules for a passed verdict\<close>

definition failed_test_statuses :: "string list" where
  "failed_test_statuses = [''blocked'', ''denied'', ''error'', ''failed'', ''timeout'', ''timed_out'']"

definition real_qa_evidence_sources :: "string list" where
  "real_qa_evidence_sources = [''qa_passed_by_command'', ''verified_completion'']"

definition qa_execution_modes :: "string list" where
  "qa_execution_modes = [''restricted_subprocess'', ''docker'']"

definition required_evidence_package_keys :: "string list" where
  "required_evidence_package_keys =
     [''workflowRunId'', ''jobId'', ''agentRunId'', ''workspaceId'', ''runtimeId'', ''runtimeHealth'',
      ''modelCalls'', ''toolCalls'', ''policyDecisions'', ''approvals'', ''qaVerdict'', ''artifacts'',
      ''diffSummary'', ''hashes'', ''createdAt'']"

definition policy_decision_allows :: "(pyval \<Rightarrow> string) \<Rightarrow> pydict \<Rightarrow> bool" where
  "policy_decision_allows other d =
     (py_lower (py_strip (py_str other (py_or (dget d ''decision'') (PStr [])))) = ''allow'')"

text \<open>The identifiers of the dicts of a list that satisfy a condition.\<close>

definition ids_where :: "(pyval \<Rightarrow> string) \<Rightarrow> (pydict \<Rightarrow> bool) \<Rightarrow> pyval list \<Rightarrow> string list" where
  "ids_where other P xs =
     map (\<lambda>x. py_str other (dget (dict_or_empty x) ''id''))
       (filter (\<lambda>x. is_dict x \<and> truthy (dget (dict_or_empty x) ''id'') \<and> P (dict_or_empty x)) xs)"

definition tool_call_ids :: "(pyval \<Rightarrow> string) \<Rightarrow> pydict \<Rightarrow> string list" where
  "tool_call_ids other e = ids_where other (\<lambda>_. True) (list_or_empty (dget e ''toolCalls''))"

definition allowed_policy_ids :: "(pyval \<Rightarrow> string) \<Rightarrow> pydict \<Rightarrow> string list" where
  "allowed_policy_ids other e =
     ids_where other (policy_decision_allows other) (list_or_empty (dget e ''policyDecisions''))"

definition tag :: "nat \<Rightarrow> string \<Rightarrow> string" where
  "tag i msg = ''testResults['' @ nat_str i @ '']'' @ msg"

definition when_err :: "bool \<Rightarrow> string \<Rightarrow> string list" where
  "when_err b msg = (if b then [msg] else [])"

definition policy_reference :: "(pyval \<Rightarrow> string) \<Rightarrow> pydict \<Rightarrow> string" where
  "policy_reference other r =
     (let md = dict_or_empty (dget r ''metadata'') in
      py_str other (py_or (py_or (dget md ''permissionDecisionId'') (dget md ''policyDecisionId'')) (PStr [])))"

text \<open>The errors of one test result; a list or dict as execution mode is not hashable and raises.\<close>

definition result_errors ::
  "(pyval \<Rightarrow> string) \<Rightarrow> string list \<Rightarrow> string list \<Rightarrow> nat \<Rightarrow> pyval \<Rightarrow> py_error + string list" where
  "result_errors other tools allowed i x =
     (case x of
        PDict r \<Rightarrow>
          if \<not> hashable (dget r ''execution'') then Inl TypeError
          else
            let tool = py_str other (py_or (dget r ''toolCallId'') (PStr []));
                hs = dict_or_empty (dget r ''artifactHashes'');
                pol = policy_reference other r
            in Inr (when_err (dget r ''status'' \<noteq> PStr ''passed'') (tag i '' must have status=passed.'') @
                    when_err (\<not> eq_zero (dget r ''exitCode'')) (tag i '' must have exitCode=0.'') @
                    when_err (dget r ''execution'' \<notin> PStr ` set qa_execution_modes)
                      (tag i '' must record a real command execution mode.'') @
                    (if tool = [] then [tag i '' requires toolCallId.'']
                     else when_err (tool \<notin> set tools) (tag i '' toolCallId is not linked in toolCalls.'')) @
                    map (\<lambda>h. tag i ('' requires artifactHashes.'' @ h @ ''.''))
                      (filter (\<lambda>h. \<not> truthy (dget hs h)) [''stdoutHash'', ''stderrHash'', ''outputArtifactHash'']) @
                    (if pol = [] then [tag i '' requires a policy decision reference.'']
                     else when_err (allowed \<noteq> [] \<and> pol \<notin> set allowed)
                            (tag i '' policy decision is not an allow decision.'')))
      | _ \<Rightarrow> Inr [tag i '' must be an object.''])"

fun all_result_errors ::
  "(pyval \<Rightarrow> string) \<Rightarrow> string list \<Rightarrow> string list \<Rightarrow> nat \<Rightarrow> pyval list \<Rightarrow> py_error + string list" where
  "all_result_errors other tools allowed i [] = Inr []"
| "all_result_errors other tools allowed i (x # xs) =
     try_then (result_errors other tools allowed i x) (\<lambda>es.
       try_then (all_result_errors other tools allowed (Suc i) xs) (\<lambda>fs. Inr (es @ fs)))"

definition real_qa_command_errors :: "(pyval \<Rightarrow> string) \<Rightarrow> pydict \<Rightarrow> py_error + string list" where
  "real_qa_command_errors other e =
     (let tools = tool_call_ids other e;
          allowed = allowed_policy_ids other e
      in case py_or (dget e ''testResults'') (PList []) of
           PList (x # xs) \<Rightarrow>
             try_then (all_result_errors other tools allowed 0 (x # xs)) (\<lambda>es.
               Inr (when_err (tools = []) ''QA passed requires linked toolCalls.'' @
                    when_err (dict_or_empty (dget e ''hashes'') = [])
                      ''QA passed requires evidence package hashes.'' @
                    when_err (allowed = []) ''QA passed requires an allow policy decision.'' @ es))
         | _ \<Rightarrow> Inr [''QA passed requires at least one command test result.''])"

definition lower_of :: "(pyval \<Rightarrow> string) \<Rightarrow> pyval \<Rightarrow> string" where
  "lower_of other v = py_lower (py_str other (py_or v (PStr [])))"

definition evidence_has_real_qa_pass :: "(pyval \<Rightarrow> string) \<Rightarrow> pydict \<Rightarrow> py_error + bool" where
  "evidence_has_real_qa_pass other e =
     (if lower_of other (dget e ''qaVerdict'') = ''passed'' \<and>
         py_str other (py_or (dget e ''evidenceSource'') (PStr [])) \<in> set real_qa_evidence_sources
      then try_then (real_qa_command_errors other e) (\<lambda>es. Inr (es = []))
      else Inr False)"

definition failed_test_results :: "(pyval \<Rightarrow> string) \<Rightarrow> pyval list \<Rightarrow> pyval list" where
  "failed_test_results other xs =
     filter (\<lambda>x. is_dict x \<and>
       py_lower (py_strip (py_str other (py_or (dget (dict_or_empty x) ''status'') (PStr []))))
         \<in> set failed_test_statuses) xs"

section \<open>Contract of a package\<close>

definition atag :: "nat \<Rightarrow> string \<Rightarrow> string" where
  "atag i msg = ''Evidence package artifacts['' @ nat_str i @ '']'' @ msg"

fun artifact_errors :: "nat \<Rightarrow> pyval list \<Rightarrow> string list" where
  "artifact_errors i [] = []"
| "artifact_errors i (x # xs) =
     (case x of
        PDict a \<Rightarrow> when_err (\<not> truthy (dget a ''id'')) (atag i '' requires id.'') @
                   when_err (\<not> truthy (dget a ''kind'')) (atag i '' requires kind.'') @
                   when_err (\<not> truthy (dget a ''hash'')) (atag i '' requires hash.'')
      | _ \<Rightarrow> [atag i '' must be an object.'']) @ artifact_errors (Suc i) xs"

definition join :: "string \<Rightarrow> string list \<Rightarrow> string" where
  "join sep xs = concat (case xs of [] \<Rightarrow> [] | y # ys \<Rightarrow> y # map (\<lambda>z. sep @ z) ys)"

definition evidence_package_contract_errors ::
  "(pyval \<Rightarrow> string) \<Rightarrow> pydict \<Rightarrow> bool \<Rightarrow> bool option \<Rightarrow> string list" where
  "evidence_package_contract_errors other e links workflow =
     (let require_workflow = (case workflow of None \<Rightarrow> links | Some b \<Rightarrow> b);
          present = (\<lambda>k. k \<in> fst ` set e);
          missing = filter (\<lambda>k. \<not> present k) (sort required_evidence_package_keys);
          link_keys = (if require_workflow then [''workflowRunId''] else []) @
                      [''jobId'', ''agentRunId'', ''workspaceId'', ''runtimeId''];
          artifacts = py_or (dget e ''artifacts'') (PList [])
      in when_err (missing \<noteq> []) (''Evidence package contract is missing fields: '' @ join '', '' missing @ ''.'') @
         (if links
          then map (\<lambda>k. ''Evidence package contract requires '' @ k @ ''.'')
                 (filter (\<lambda>k. \<not> truthy (dget e k)) link_keys) @
               when_err (\<not> is_dict (dget e ''runtimeHealth'') \<or> \<not> truthy (dget e ''runtimeHealth''))
                 ''Evidence package contract requires runtimeHealth.''
          else []) @
         when_err (lower_of other (dget e ''qaVerdict'') = ''passed'' \<and>
                   \<not> truthy (py_or (dget e ''testResults'') (PList [])))
           ''Evidence package cannot pass without testResults.'' @
         map (\<lambda>k. ''Evidence package '' @ k @ '' must be a list.'')
           (filter (\<lambda>k. present k \<and> \<not> is_list (dget e k))
             [''modelCalls'', ''toolCalls'', ''policyDecisions'', ''approvals'', ''artifacts'']) @
         when_err (present ''hashes'' \<and> \<not> is_dict (dget e ''hashes''))
           ''Evidence package hashes must be an object.'' @
         when_err (links \<and> \<not> truthy (dget e ''hashes'')) ''Evidence package contract requires artifact hashes.'' @
         when_err (links \<and> \<not> truthy artifacts) ''Evidence package contract requires artifact refs.'' @
         artifact_errors 0 (list_or_empty artifacts))"

section \<open>Updating a package\<close>

text \<open>
  \<open>EvidenceRepository.update_evidence_links\<close> on the dict of a package: \<open>patch\<close> holds the arguments
  that are not \<open>None\<close>, under the names of the fields they replace. Fields kept are redacted and
  stored again with the new ones.
\<close>

definition next_field :: "pydict \<Rightarrow> pydict \<Rightarrow> string \<Rightarrow> pyval" where
  "next_field patch e k = (if dget patch k = PNone then dget e k else dget patch k)"

definition stored_json :: "(pyval \<Rightarrow> pyval) \<Rightarrow> pyval \<Rightarrow> pyval \<Rightarrow> pyval" where
  "stored_json redact dflt v = json_store (redact (py_or v dflt))"

definition updated_evidence :: "(pyval \<Rightarrow> pyval) \<Rightarrow> pydict \<Rightarrow> pydict \<Rightarrow> pydict" where
  "updated_evidence redact patch e =
     (let nx = next_field patch e;
          listy = (\<lambda>k d. dset d k (stored_json redact (PList []) (nx k)));
          dicty = (\<lambda>k d. dset d k (stored_json redact (PDict []) (nx k)))
      in dset (dset (dset (dset (dset
           (fold listy [''modelCalls'', ''toolCalls'', ''policyDecisions'', ''approvals'', ''artifacts'', ''riskNotes'']
             (fold dicty [''diffSummary'', ''runtimeHealth''] e))
           ''agentRunId'' (nx ''agentRunId''))
           ''artifactIds'' (PList (filter is_str (list_or_empty (nx ''artifactIds'')))))
           ''hashes'' (PDict (json_dict (filter (\<lambda>p. is_str (snd p)) (dict_or_empty (nx ''hashes''))))))
           ''qaVerdict'' (nx ''qaVerdict''))
           ''evidenceSource'' (nx ''evidenceSource''))"

definition get_evidence_package :: "string \<Rightarrow> pydict list \<Rightarrow> pydict option" where
  "get_evidence_package i rows = select_one (\<lambda>e. dget e ''id'' = PStr i) rows"

definition update_evidence_links :: "(pyval \<Rightarrow> pyval) \<Rightarrow> string \<Rightarrow> pydict \<Rightarrow> pydict list \<Rightarrow> pydict list option" where
  "update_evidence_links redact i patch rows =
     (case get_evidence_package i rows of
        None \<Rightarrow> None
      | Some e \<Rightarrow> Some (upd_where (\<lambda>r. dget r ''id'' = PStr i) (\<lambda>_. updated_evidence redact patch e) rows))"

section \<open>What a passed verdict stands for\<close>

text \<open>
  A test result that counts: it passed with exit code 0 in a real execution mode, it refers to a
  recorded tool call and to a decision that allowed it, and the hashes of its outputs are there.
\<close>

definition real_result :: "(pyval \<Rightarrow> string) \<Rightarrow> pydict \<Rightarrow> pydict \<Rightarrow> bool" where
  "real_result other e r =
     (dget r ''status'' = PStr ''passed'' \<and> eq_zero (dget r ''exitCode'') \<and>
      dget r ''execution'' \<in> PStr ` set qa_execution_modes \<and>
      (let tool = py_str other (py_or (dget r ''toolCallId'') (PStr [])) in
         tool \<noteq> [] \<and> tool \<in> set (tool_call_ids other e)) \<and>
      (\<forall>h \<in> {''stdoutHash'', ''stderrHash'', ''outputArtifactHash''}.
         truthy (dget (dict_or_empty (dget r ''artifactHashes'')) h)) \<and>
      policy_reference other r \<noteq> [] \<and> policy_reference other r \<in> set (allowed_policy_ids other e))"

definition real_qa_evidence :: "(pyval \<Rightarrow> string) \<Rightarrow> pydict \<Rightarrow> bool" where
  "real_qa_evidence other e =
     (dict_or_empty (dget e ''hashes'') \<noteq> [] \<and>
      (case dget e ''testResults'' of
         PList xs \<Rightarrow> xs \<noteq> [] \<and>
           (\<forall>x \<in> set xs. case x of PDict r \<Rightarrow> real_result other e r | _ \<Rightarrow> False)
       | _ \<Rightarrow> False))"

lemma when_err_Nil [simp]: "when_err b msg = [] \<longleftrightarrow> \<not> b"
  by (simp add: when_err_def)

lemma execution_mode_hashable: "v \<in> PStr ` set qa_execution_modes \<Longrightarrow> hashable v"
  by (auto simp: hashable_def)

lemma result_errors_Nil_iff:
  assumes "tool_call_ids other e \<noteq> []" "allowed_policy_ids other e \<noteq> []"
  shows "result_errors other (tool_call_ids other e) (allowed_policy_ids other e) i x = Inr [] \<longleftrightarrow>
    (case x of PDict r \<Rightarrow> real_result other e r | _ \<Rightarrow> False)"
proof (cases x)
  case (PDict r)
  show ?thesis
  proof (cases "hashable (dget r ''execution'')")
    case True
    then show ?thesis using assms
      by (simp add: PDict result_errors_def real_result_def Let_def filter_empty_conv conj_ac)
  next
    case False
    then have "dget r ''execution'' \<notin> PStr ` set qa_execution_modes" using execution_mode_hashable by blast
    then show ?thesis using False by (simp add: PDict result_errors_def real_result_def)
  qed
qed (simp_all add: result_errors_def)

lemma all_result_errors_Nil_iff:
  "all_result_errors other tools allowed i xs = Inr [] \<longleftrightarrow>
   (\<forall>j < length xs. result_errors other tools allowed (i + j) (xs ! j) = Inr [])"
proof (induction xs arbitrary: i)
  case (Cons x xs)
  have "all_result_errors other tools allowed i (x # xs) = Inr [] \<longleftrightarrow>
    result_errors other tools allowed i x = Inr [] \<and> all_result_errors other tools allowed (Suc i) xs = Inr []"
    by (auto simp: try_then_Inr_iff)
  then show ?case by (simp add: Cons.IH All_less_Suc2)
qed simp

lemma real_result_links:
  "real_result other e r \<Longrightarrow> tool_call_ids other e \<noteq> [] \<and> allowed_policy_ids other e \<noteq> []"
  by (auto simp: real_result_def Let_def)

lemma real_qa_errors_iff:
  "real_qa_command_errors other e = Inr [] \<longleftrightarrow> real_qa_evidence other e"
proof (cases "\<exists>x xs. dget e ''testResults'' = PList (x # xs)")
  case True
  then obtain x xs where t: "dget e ''testResults'' = PList (x # xs)" by blast
  let ?tools = "tool_call_ids other e" and ?pols = "allowed_policy_ids other e"
  have "real_qa_command_errors other e = Inr [] \<longleftrightarrow>
      ?tools \<noteq> [] \<and> ?pols \<noteq> [] \<and> dict_or_empty (dget e ''hashes'') \<noteq> [] \<and>
      (\<forall>j < length (x # xs). result_errors other ?tools ?pols j ((x # xs) ! j) = Inr [])"
    using all_result_errors_Nil_iff [of other ?tools ?pols 0 "x # xs"]
    by (auto simp: real_qa_command_errors_def t py_or_def Let_def try_then_Inr_iff simp del: all_result_errors.simps)
  also have "\<dots> \<longleftrightarrow> ?tools \<noteq> [] \<and> ?pols \<noteq> [] \<and> dict_or_empty (dget e ''hashes'') \<noteq> [] \<and>
      (\<forall>y \<in> set (x # xs). case y of PDict r \<Rightarrow> real_result other e r | _ \<Rightarrow> False)"
    using result_errors_Nil_iff [of other e] unfolding all_set_conv_all_nth by blast
  also have "\<dots> \<longleftrightarrow> dict_or_empty (dget e ''hashes'') \<noteq> [] \<and>
      (\<forall>y \<in> set (x # xs). case y of PDict r \<Rightarrow> real_result other e r | _ \<Rightarrow> False)"
    using real_result_links [of other e] by (cases x) auto
  finally show ?thesis by (simp add: real_qa_evidence_def t)
next
  case False
  have "real_qa_command_errors other e = Inr [''QA passed requires at least one command test result.'']"
    using False by (auto simp: real_qa_command_errors_def Let_def py_or_def split: pyval.split list.split)
  moreover have "\<not> real_qa_evidence other e"
    using False by (auto simp: real_qa_evidence_def neq_Nil_conv split: pyval.splits)
  ultimately show ?thesis by simp
qed

text \<open>C23. The anti-false-positive rules are sound and complete: the list of errors that keep a package
  from counting as passed is empty exactly for evidence whose test results, at least one, all passed
  with exit code 0 in a real execution mode, each linked to a recorded tool call, to an allowing
  policy decision and to its output hashes.\<close>

theorem real_qa_errors_empty_iff:
  "real_qa_command_errors other e = Inr [] \<longleftrightarrow> real_qa_evidence other e"
  by (rule real_qa_errors_iff)

end
