(* ===== verification/Shlex.thy ===== *)
theory Shlex
  imports Py_Values
begin

text \<open>
  The shell-like splitting of \<open>shlex\<close> as the program uses it: \<open>shlex.split(text)\<close> and
  \<open>shlex.split(text, posix=False)\<close> (white space separates, no comments), \<open>shlex.quote\<close> and
  \<open>shlex.join\<close>. An unclosed quotation or a trailing escape raises \<open>ValueError\<close>, here \<open>None\<close>.
  A word that was quoted is kept even when it is empty.
\<close>

datatype sh_state = Blank | Word | Quote char | Escape "char option"

definition sh_space :: "char \<Rightarrow> bool" where
  "sh_space c = (c \<in> {CHR '' '', CHR 0x09, CHR 0x0D, CHR 0x0A})"

definition sh_quote :: "char \<Rightarrow> bool" where
  "sh_quote c = (c = CHR 0x27 \<or> c = CHR 0x22)"

definition emit :: "string \<Rightarrow> string list option \<Rightarrow> string list option" where
  "emit tok rest = map_option (\<lambda>ws. tok # ws) rest"

fun shlex_scan :: "bool \<Rightarrow> sh_state \<Rightarrow> bool \<Rightarrow> string \<Rightarrow> string \<Rightarrow> string list option" where
  "shlex_scan posix Blank quoted tok [] = Some []"
| "shlex_scan posix Word quoted tok [] = Some (if tok \<noteq> [] \<or> posix \<and> quoted then [tok] else [])"
| "shlex_scan posix (Quote q) quoted tok [] = None"
| "shlex_scan posix (Escape e) quoted tok [] = None"
| "shlex_scan posix Blank quoted tok (c # cs) =
     (if sh_space c then shlex_scan posix Blank False [] cs
      else if posix \<and> c = CHR 0x5C then shlex_scan posix (Escape None) False [] cs
      else if sh_quote c then shlex_scan posix (Quote c) False (if posix then [] else [c]) cs
      else shlex_scan posix Word False [c] cs)"
| "shlex_scan posix (Quote q) quoted tok (c # cs) =
     (if c = q then
        (if posix then shlex_scan posix Word True tok cs
         else emit (tok @ [c]) (shlex_scan posix Blank False [] cs))
      else if posix \<and> c = CHR 0x5C \<and> q = CHR 0x22 then shlex_scan posix (Escape (Some q)) True tok cs
      else shlex_scan posix (Quote q) True (tok @ [c]) cs)"
| "shlex_scan posix (Escape None) quoted tok (c # cs) = shlex_scan posix Word quoted (tok @ [c]) cs"
| "shlex_scan posix (Escape (Some q)) quoted tok (c # cs) =
     shlex_scan posix (Quote q) quoted
       (tok @ (if c \<noteq> CHR 0x5C \<and> c \<noteq> q then [CHR 0x5C, c] else [c])) cs"
| "shlex_scan posix Word quoted tok (c # cs) =
     (if sh_space c then
        (if tok \<noteq> [] \<or> posix \<and> quoted then emit tok (shlex_scan posix Blank False [] cs)
         else shlex_scan posix Blank False [] cs)
      else if posix \<and> sh_quote c then shlex_scan posix (Quote c) quoted tok cs
      else if posix \<and> c = CHR 0x5C then shlex_scan posix (Escape None) quoted tok cs
      else shlex_scan posix Word quoted (tok @ [c]) cs)"

definition shlex_split :: "bool \<Rightarrow> string \<Rightarrow> string list option" where
  "shlex_split posix s = shlex_scan posix Blank False [] s"

section \<open>Quoting\<close>

definition alnum :: "char \<Rightarrow> bool" where
  "alnum c = (let n = (of_char c :: nat) in
     48 \<le> n \<and> n \<le> 57 \<or> 65 \<le> n \<and> n \<le> 90 \<or> 97 \<le> n \<and> n \<le> 122)"

lemma alnum_code [code]:
  "alnum (Char b0 b1 b2 b3 b4 b5 b6 b7) =
     (\<not> b7 \<and> (if b6 then letter_bits b0 b1 b2 b3 b4 else b5 \<and> b4 \<and> \<not> (b3 \<and> (b2 \<or> b1))))"
  by (cases b0; cases b1; cases b2; cases b3; cases b4; cases b5; cases b6; cases b7; simp add: alnum_def letter_bits_def)

definition sh_safe :: "char \<Rightarrow> bool" where
  "sh_safe c = (alnum c \<or> c \<in> set ''_@%+=:,./-'')"

definition sh_escape :: "string \<Rightarrow> string" where
  "sh_escape s =
     concat (map (\<lambda>c. if c = CHR 0x27 then [CHR 0x27, CHR 0x22, CHR 0x27, CHR 0x22, CHR 0x27] else [c]) s)"

definition shlex_quote :: "string \<Rightarrow> string" where
  "shlex_quote s =
     (if s = [] then [CHR 0x27, CHR 0x27]
      else if list_all sh_safe s then s
      else CHR 0x27 # sh_escape s @ [CHR 0x27])"

fun shlex_join :: "string list \<Rightarrow> string" where
  "shlex_join [] = []"
| "shlex_join [s] = shlex_quote s"
| "shlex_join (s # t # ts) = shlex_quote s @ '' '' @ shlex_join (t # ts)"

lemma sh_safe_plain: "sh_safe c \<Longrightarrow> \<not> sh_space c \<and> \<not> sh_quote c \<and> c \<noteq> CHR 0x5C"
  by (auto simp: sh_safe_def sh_space_def sh_quote_def alnum_def)

lemma scan_safe_word:
  "list_all sh_safe s \<Longrightarrow> shlex_scan True Word q tok (s @ cs) = shlex_scan True Word q (tok @ s) cs"
  by (induction s arbitrary: tok) (auto dest: sh_safe_plain)

lemma scan_quoted:
  "shlex_scan True (Quote (CHR 0x27)) True tok (sh_escape s @ cs) =
   shlex_scan True (Quote (CHR 0x27)) True (tok @ s) cs"
  by (induction s arbitrary: tok) (auto simp: sh_escape_def sh_space_def sh_quote_def)

lemma scan_quote_flag:
  "cs \<noteq> [] \<Longrightarrow> shlex_scan True (Quote q) b tok cs = shlex_scan True (Quote q) True tok cs"
  by (cases cs) simp_all

text \<open>Scanning a quoted word ends inside a word whose text is the original one.\<close>

lemma scan_quote:
  "\<exists>q. (s \<noteq> [] \<or> q) \<and>
     shlex_scan True Blank False [] (shlex_quote s @ cs) = shlex_scan True Word q s cs"
proof (cases "s \<noteq> [] \<and> list_all sh_safe s")
  case True
  then obtain c t where s: "s = c # t" "sh_safe c" "list_all sh_safe t" by (cases s) auto
  have "shlex_scan True Blank False [] (shlex_quote s @ cs) = shlex_scan True Word False [c] (t @ cs)"
    using True s sh_safe_plain [of c] by (simp add: shlex_quote_def)
  then show ?thesis using s scan_safe_word [of t False "[c]" cs] by auto
next
  case False
  show ?thesis
  proof (cases s)
    case Nil
    then show ?thesis by (auto simp: shlex_quote_def sh_space_def sh_quote_def)
  next
    case (Cons c t)
    have "shlex_quote s = CHR 0x27 # sh_escape s @ [CHR 0x27]" using False Cons by (auto simp: shlex_quote_def)
    then have "shlex_scan True Blank False [] (shlex_quote s @ cs) =
        shlex_scan True (Quote (CHR 0x27)) False [] (sh_escape s @ [CHR 0x27] @ cs)"
      by (simp add: sh_space_def sh_quote_def)
    also have "\<dots> = shlex_scan True (Quote (CHR 0x27)) True [] (sh_escape s @ [CHR 0x27] @ cs)"
      by (rule scan_quote_flag) simp
    also have "\<dots> = shlex_scan True Word True s cs"
      using scan_quoted [of "[]" s "[CHR 0x27] @ cs"] by simp
    finally show ?thesis by (intro exI [of _ True] conjI disjI2) simp_all
  qed
qed

lemma split_join_aux: "shlex_scan True Blank False [] (shlex_join ws) = Some ws"
proof (induction ws rule: shlex_join.induct)
  case (2 s)
  obtain q where "s \<noteq> [] \<or> q" "shlex_scan True Blank False [] (shlex_quote s @ []) = shlex_scan True Word q s []"
    using scan_quote [of s "[]"] by blast
  then show ?case by auto
next
  case (3 s t ts)
  obtain q where "s \<noteq> [] \<or> q"
    "shlex_scan True Blank False [] (shlex_quote s @ '' '' @ shlex_join (t # ts)) =
     shlex_scan True Word q s ('' '' @ shlex_join (t # ts))"
    using scan_quote [of s "'' '' @ shlex_join (t # ts)"] by blast
  then show ?case using "3.IH" by (auto simp: sh_space_def emit_def)
qed simp

lemma shlex_split_join: "shlex_split True (shlex_join ws) = Some ws"
  unfolding shlex_split_def by (rule split_join_aux)

end
