(* ===== verification/Jobs_Store.thy ===== *)
theory Jobs_Store
  imports Worker_Leadership Redaction Evidence Shlex
begin

text \<open>
  The tables the job queue, the approvals, the permission grants and the operational executions share
  (\<open>jobs_approvals/repository.py\<close>, \<open>security_policy/repository.py\<close>, \<open>executions/repository.py\<close>,
  \<open>process_supervision/repository.py\<close>, \<open>shared/event_bus.py\<close>), with the leadership tables of
  \<open>Worker_Leadership\<close>. Every \<open>utc_now()\<close> of one operation reads the argument \<open>now\<close>; generated
  identifiers are arguments. An event keeps its type, job and project, an audit entry its action, actor
  and target; their payload texts are left out. Identifier columns hold texts or \<open>None\<close>.
  The record \<open>job_env\<close> holds what is taken as given: the replacement of secret patterns in one text
  (\<open>Redaction\<close>), \<open>str\<close> of floats and containers, the SHA-256 binding of a command, the stem of a
  path, the summary of a command line and the comparison of resolved paths.
\<close>

record job =
  jb_id :: string
  jb_project_id :: string
  jb_workflow_run_id :: pyval
  jb_workflow_step_id :: pyval
  jb_kind :: string
  jb_status :: string
  jb_payload :: pydict
  jb_lease_owner :: "string option"
  jb_lease_expires_at :: "int option"
  jb_idempotency_key :: "string option"
  jb_created_at :: int
  jb_updated_at :: int

record job_run =
  jr_id :: string
  jr_job_id :: string
  jr_provider_id :: string
  jr_status :: string
  jr_started_at :: int
  jr_completed_at :: "int option"
  jr_summary :: string
  jr_metadata :: pydict
  jr_worker_owner_id :: "string option"
  jr_leader_fencing_token :: "int option"

record action_request =
  ar_id :: string
  ar_job_id :: string
  ar_project_id :: string
  ar_action_type :: string
  ar_status :: string
  ar_risk_level :: string
  ar_command :: string
  ar_payload :: pydict
  ar_reason :: string
  ar_requested_at :: int
  ar_expires_at :: int
  ar_decided_at :: "int option"
  ar_decided_by :: "string option"

record permission_grant =
  pg_id :: string
  pg_project_id :: string
  pg_job_id :: "string option"
  pg_action_request_id :: string
  pg_permission_decision_id :: pyval
  pg_agent_id :: pyval
  pg_tool :: string
  pg_command :: string
  pg_path :: pyval
  pg_command_argv :: "string list"
  pg_workspace_id :: pyval
  pg_runtime_id :: pyval
  pg_expires_at :: int
  pg_status :: string
  pg_reason :: string
  pg_granted_by :: string
  pg_granted_at :: int
  pg_consumed_at :: "int option"
  pg_consumed_by :: "string option"
  pg_revoked_at :: "int option"
  pg_revoked_by :: "string option"
  pg_revoke_reason :: "string option"
  pg_payload :: pydict

record execution_row =
  ex_id :: string
  ex_job_id :: string
  ex_project_id :: "string option"
  ex_operation :: string
  ex_workload_class :: string
  ex_cwd :: string
  ex_status :: string
  ex_created_at :: int
  ex_started_at :: "int option"
  ex_finished_at :: "int option"
  ex_cancel_requested_at :: "int option"
  ex_reason :: string
  ex_result :: "pyval option"
  ex_result_status_code :: "int option"
  ex_owner_id :: "string option"
  ex_fencing_token :: "int option"

record managed_process =
  mp_execution_id :: string
  mp_finished_at :: "int option"
  mp_released_at :: "int option"
  mp_cancel_requested_at :: "int option"
  mp_termination_reason :: string

record execution_control =
  ec_execution_id :: string
  ec_cancel_requested_at :: int
  ec_reason :: string

record resource_violation =
  rv_execution_id :: string
  rv_reason :: string
  rv_action :: string
  rv_resolved_at :: "int option"
  rv_lease_released_at :: "int option"

record agent_run_row =
  ag_id :: string
  ag_project_id :: "string option"
  ag_job_id :: "string option"
  ag_status :: string
  ag_output :: pydict
  ag_updated_at :: int

record job_event =
  ev_type :: string
  ev_job_id :: "string option"
  ev_project_id :: "string option"
  ev_created_at :: int

record audit_event =
  au_action :: string
  au_actor :: string
  au_target :: string
  au_project_id :: "string option"
  au_created_at :: int

record ops_store =
  os_jobs :: "job list"
  os_runs :: "job_run list"
  os_actions :: "action_request list"
  os_grants :: "permission_grant list"
  os_attention :: "(string \<times> int) list"
  os_executions :: "execution_row list"
  os_processes :: "managed_process list"
  os_controls :: "execution_control list"
  os_violations :: "resource_violation list"
  os_agent_runs :: "agent_run_row list"
  os_evidence :: "pydict list"
  os_admission_reasons :: "(string \<times> string) list"
  os_events :: "job_event list"
  os_audits :: "audit_event list"
  os_leadership :: leadership_store

datatype job_error =
    JobNotFound string
  | ActionNotFound string
  | ActionOfOtherJob string string
  | ActionAlready string
  | ReasonMissing
  | ActionExpired
  | CannotCancel string string
  | StillRunning
  | StaleWorkerFence
  | FencePairRequired
  | RunNotFound string
  | ExecutionNotFound
  | RunnerActive
  | TerminalStatusRequired
  | DuplicateRow
  | PatchDecisionError string
  | GrantNotFound string
  | JobClockError py_error
  | PyRaised py_error

record job_env =
  je_scrub :: "string \<Rightarrow> string"
  je_other :: "pyval \<Rightarrow> string"
  je_binding :: "pyval \<Rightarrow> pyval list \<Rightarrow> string"
  je_stem :: "string \<Rightarrow> string"
  je_summary :: "pyval list \<Rightarrow> string list"
  je_same_path :: "string \<Rightarrow> string \<Rightarrow> bool"

definition je_redact :: "job_env \<Rightarrow> string \<Rightarrow> string" where
  "je_redact env = je_scrub env"

definition je_redact_val :: "job_env \<Rightarrow> pyval \<Rightarrow> pyval" where
  "je_redact_val env = redact_secrets (je_scrub env) []"

definition je_redact_dict :: "job_env \<Rightarrow> pydict \<Rightarrow> pydict" where
  "je_redact_dict env = redact_dict (je_scrub env)"

definition je_str :: "job_env \<Rightarrow> pyval \<Rightarrow> string" where
  "je_str env = py_str (je_other env)"

section \<open>Reads and the event bus\<close>

definition find_job :: "string \<Rightarrow> ops_store \<Rightarrow> job option" where
  "find_job i s = select_one (\<lambda>j. jb_id j = i) (os_jobs s)"

definition get_job :: "string \<Rightarrow> ops_store \<Rightarrow> job_error + job" where
  "get_job i s = (case find_job i s of None \<Rightarrow> Inl (JobNotFound i) | Some j \<Rightarrow> Inr j)"

definition get_action_request :: "string \<Rightarrow> ops_store \<Rightarrow> job_error + action_request" where
  "get_action_request i s = (case select_one (\<lambda>a. ar_id a = i) (os_actions s) of
     None \<Rightarrow> Inl (ActionNotFound i) | Some a \<Rightarrow> Inr a)"

definition pending_actions :: "string \<Rightarrow> ops_store \<Rightarrow> action_request list" where
  "pending_actions i s = filter (\<lambda>a. ar_job_id a = i \<and> ar_status a = ''pending'') (os_actions s)"

definition record_event :: "string \<Rightarrow> string option \<Rightarrow> string option \<Rightarrow> int \<Rightarrow> ops_store \<Rightarrow> ops_store" where
  "record_event ty jid pid now s =
     s\<lparr>os_events := os_events s @ [\<lparr>ev_type = ty, ev_job_id = jid, ev_project_id = pid, ev_created_at = now\<rparr>]\<rparr>"

definition record_audit :: "string \<Rightarrow> string \<Rightarrow> string \<Rightarrow> string option \<Rightarrow> int \<Rightarrow> ops_store \<Rightarrow> ops_store" where
  "record_audit action actor target pid now s =
     s\<lparr>os_audits := os_audits s @
        [\<lparr>au_action = action, au_actor = actor, au_target = target, au_project_id = pid, au_created_at = now\<rparr>]\<rparr>"

definition upd_job :: "(job \<Rightarrow> bool) \<Rightarrow> (job \<Rightarrow> job) \<Rightarrow> ops_store \<Rightarrow> ops_store" where
  "upd_job P f s = s\<lparr>os_jobs := upd_where P f (os_jobs s)\<rparr>"

definition upd_run :: "(job_run \<Rightarrow> bool) \<Rightarrow> (job_run \<Rightarrow> job_run) \<Rightarrow> ops_store \<Rightarrow> ops_store" where
  "upd_run P f s = s\<lparr>os_runs := upd_where P f (os_runs s)\<rparr>"

definition upd_action :: "(action_request \<Rightarrow> bool) \<Rightarrow> (action_request \<Rightarrow> action_request) \<Rightarrow> ops_store \<Rightarrow> ops_store" where
  "upd_action P f s = s\<lparr>os_actions := upd_where P f (os_actions s)\<rparr>"

definition upd_execution :: "(execution_row \<Rightarrow> bool) \<Rightarrow> (execution_row \<Rightarrow> execution_row) \<Rightarrow> ops_store \<Rightarrow> ops_store" where
  "upd_execution P f s = s\<lparr>os_executions := upd_where P f (os_executions s)\<rparr>"

text \<open>\<open>JobsRepository._worker_fence_is_active\<close>.\<close>

definition worker_fence_is_active :: "string \<Rightarrow> int \<Rightarrow> int \<Rightarrow> ops_store \<Rightarrow> bool" where
  "worker_fence_is_active worker token now s = fence_active ''local'' worker token now (os_leadership s)"

section \<open>Cancellation of executions\<close>

text \<open>\<open>ManagedProcessRepository.request_execution_cancel\<close> and \<open>cancellation_reason\<close>.\<close>

definition request_execution_cancel ::
  "job_env \<Rightarrow> string \<Rightarrow> string \<Rightarrow> int \<Rightarrow> (ops_store, job_error, unit) op" where
  "request_execution_cancel env i reason now s =
     (let clean = py_strip (je_redact env reason) in
      if clean = [] then (Inl ReasonMissing, s)
      else let fresh = (i \<notin> ec_execution_id ` set (os_controls s));
               s1 = (if fresh
                     then s\<lparr>os_controls := os_controls s @
                            [\<lparr>ec_execution_id = i, ec_cancel_requested_at = now, ec_reason = clean\<rparr>]\<rparr>
                     else s);
               s2 = s1\<lparr>os_processes := upd_where
                        (\<lambda>p. mp_execution_id p = i \<and> mp_finished_at p = None)
                        (\<lambda>p. p\<lparr>mp_cancel_requested_at :=
                                 (case mp_cancel_requested_at p of None \<Rightarrow> Some now | Some t \<Rightarrow> Some t),
                               mp_termination_reason :=
                                 (if mp_termination_reason p = [] then clean else mp_termination_reason p)\<rparr>)
                        (os_processes s1)\<rparr>
           in (Inr (),
               if fresh
               then record_audit ''execution.cancel'' ''operator'' i None now
                      (record_event ''execution.cancel_requested'' None None now s2)
               else s2))"

definition cancellation_reason :: "string \<Rightarrow> ops_store \<Rightarrow> string option" where
  "cancellation_reason i s =
     (case select_one (\<lambda>c. ec_execution_id c = i) (os_controls s) of
        Some c \<Rightarrow> Some (ec_reason c)
      | None \<Rightarrow>
          (case control_of ''local'' (os_leadership s) of
             Some w \<Rightarrow>
               if wc_desired_state w = ''emergency_stopped''
               then Some (if wc_reason w = [] then ''emergency_stop'' else wc_reason w)
               else map_option rv_reason (select_one
                 (\<lambda>v. rv_execution_id v = i \<and> rv_resolved_at v = None \<and>
                      rv_action v = ''cancel_non_essential_workload'' \<and> rv_lease_released_at v = None)
                 (os_violations s))
           | None \<Rightarrow> map_option rv_reason (select_one
                 (\<lambda>v. rv_execution_id v = i \<and> rv_resolved_at v = None \<and>
                      rv_action v = ''cancel_non_essential_workload'' \<and> rv_lease_released_at v = None)
                 (os_violations s))))"

section \<open>Frames\<close>

text \<open>What the primitive changes leave alone.\<close>

lemma record_event_frame [simp]:
  "os_jobs (record_event ty jid pid now s) = os_jobs s"
  "os_runs (record_event ty jid pid now s) = os_runs s"
  "os_actions (record_event ty jid pid now s) = os_actions s"
  "os_grants (record_event ty jid pid now s) = os_grants s"
  "os_attention (record_event ty jid pid now s) = os_attention s"
  "os_executions (record_event ty jid pid now s) = os_executions s"
  "os_processes (record_event ty jid pid now s) = os_processes s"
  "os_controls (record_event ty jid pid now s) = os_controls s"
  "os_violations (record_event ty jid pid now s) = os_violations s"
  "os_agent_runs (record_event ty jid pid now s) = os_agent_runs s"
  "os_evidence (record_event ty jid pid now s) = os_evidence s"
  "os_admission_reasons (record_event ty jid pid now s) = os_admission_reasons s"
  "os_audits (record_event ty jid pid now s) = os_audits s"
  "os_leadership (record_event ty jid pid now s) = os_leadership s"
  by (simp_all add: record_event_def)

lemma record_audit_frame [simp]:
  "os_jobs (record_audit ac actor target pid now s) = os_jobs s"
  "os_runs (record_audit ac actor target pid now s) = os_runs s"
  "os_actions (record_audit ac actor target pid now s) = os_actions s"
  "os_grants (record_audit ac actor target pid now s) = os_grants s"
  "os_attention (record_audit ac actor target pid now s) = os_attention s"
  "os_executions (record_audit ac actor target pid now s) = os_executions s"
  "os_processes (record_audit ac actor target pid now s) = os_processes s"
  "os_controls (record_audit ac actor target pid now s) = os_controls s"
  "os_violations (record_audit ac actor target pid now s) = os_violations s"
  "os_agent_runs (record_audit ac actor target pid now s) = os_agent_runs s"
  "os_evidence (record_audit ac actor target pid now s) = os_evidence s"
  "os_admission_reasons (record_audit ac actor target pid now s) = os_admission_reasons s"
  "os_events (record_audit ac actor target pid now s) = os_events s"
  "os_leadership (record_audit ac actor target pid now s) = os_leadership s"
  by (simp_all add: record_audit_def)

lemma upd_job_frame [simp]:
  "os_runs (upd_job P f s) = os_runs s"
  "os_actions (upd_job P f s) = os_actions s"
  "os_grants (upd_job P f s) = os_grants s"
  "os_attention (upd_job P f s) = os_attention s"
  "os_executions (upd_job P f s) = os_executions s"
  "os_processes (upd_job P f s) = os_processes s"
  "os_controls (upd_job P f s) = os_controls s"
  "os_violations (upd_job P f s) = os_violations s"
  "os_agent_runs (upd_job P f s) = os_agent_runs s"
  "os_evidence (upd_job P f s) = os_evidence s"
  "os_admission_reasons (upd_job P f s) = os_admission_reasons s"
  "os_events (upd_job P f s) = os_events s"
  "os_audits (upd_job P f s) = os_audits s"
  "os_leadership (upd_job P f s) = os_leadership s"
  by (simp_all add: upd_job_def)

lemma upd_run_frame [simp]:
  "os_jobs (upd_run P f s) = os_jobs s"
  "os_actions (upd_run P f s) = os_actions s"
  "os_grants (upd_run P f s) = os_grants s"
  "os_attention (upd_run P f s) = os_attention s"
  "os_executions (upd_run P f s) = os_executions s"
  "os_processes (upd_run P f s) = os_processes s"
  "os_controls (upd_run P f s) = os_controls s"
  "os_violations (upd_run P f s) = os_violations s"
  "os_agent_runs (upd_run P f s) = os_agent_runs s"
  "os_evidence (upd_run P f s) = os_evidence s"
  "os_admission_reasons (upd_run P f s) = os_admission_reasons s"
  "os_events (upd_run P f s) = os_events s"
  "os_audits (upd_run P f s) = os_audits s"
  "os_leadership (upd_run P f s) = os_leadership s"
  by (simp_all add: upd_run_def)

lemma upd_action_frame [simp]:
  "os_jobs (upd_action P f s) = os_jobs s"
  "os_runs (upd_action P f s) = os_runs s"
  "os_grants (upd_action P f s) = os_grants s"
  "os_attention (upd_action P f s) = os_attention s"
  "os_executions (upd_action P f s) = os_executions s"
  "os_processes (upd_action P f s) = os_processes s"
  "os_controls (upd_action P f s) = os_controls s"
  "os_violations (upd_action P f s) = os_violations s"
  "os_agent_runs (upd_action P f s) = os_agent_runs s"
  "os_evidence (upd_action P f s) = os_evidence s"
  "os_admission_reasons (upd_action P f s) = os_admission_reasons s"
  "os_events (upd_action P f s) = os_events s"
  "os_audits (upd_action P f s) = os_audits s"
  "os_leadership (upd_action P f s) = os_leadership s"
  by (simp_all add: upd_action_def)

lemma upd_execution_frame [simp]:
  "os_jobs (upd_execution P f s) = os_jobs s"
  "os_runs (upd_execution P f s) = os_runs s"
  "os_actions (upd_execution P f s) = os_actions s"
  "os_grants (upd_execution P f s) = os_grants s"
  "os_attention (upd_execution P f s) = os_attention s"
  "os_processes (upd_execution P f s) = os_processes s"
  "os_controls (upd_execution P f s) = os_controls s"
  "os_violations (upd_execution P f s) = os_violations s"
  "os_agent_runs (upd_execution P f s) = os_agent_runs s"
  "os_evidence (upd_execution P f s) = os_evidence s"
  "os_admission_reasons (upd_execution P f s) = os_admission_reasons s"
  "os_events (upd_execution P f s) = os_events s"
  "os_audits (upd_execution P f s) = os_audits s"
  "os_leadership (upd_execution P f s) = os_leadership s"
  by (simp_all add: upd_execution_def)

lemma upd_tables [simp]:
  "os_jobs (upd_job P1 f1 s) = upd_where P1 f1 (os_jobs s)"
  "os_runs (upd_run P2 f2 s) = upd_where P2 f2 (os_runs s)"
  "os_actions (upd_action P3 f3 s) = upd_where P3 f3 (os_actions s)"
  "os_executions (upd_execution P4 f4 s) = upd_where P4 f4 (os_executions s)"
  by (simp_all add: upd_job_def upd_run_def upd_action_def upd_execution_def)

lemma find_job_cong: "os_jobs s = os_jobs t \<Longrightarrow> find_job i s = find_job i t"
  by (simp add: find_job_def)

lemma reads_of_tables [simp]:
  "find_job i (record_event ty jid pid now s) = find_job i s"
  "find_job i (record_audit ac actor target pid now s) = find_job i s"
  "get_job i (record_event ty jid pid now s) = get_job i s"
  "get_job i (record_audit ac actor target pid now s) = get_job i s"
  "get_action_request i (record_event ty jid pid now s) = get_action_request i s"
  "get_action_request i (record_audit ac actor target pid now s) = get_action_request i s"
  "pending_actions i (record_event ty jid pid now s) = pending_actions i s"
  "pending_actions i (record_audit ac actor target pid now s) = pending_actions i s"
  by (simp_all add: find_job_def get_job_def get_action_request_def pending_actions_def)

end
