(* ===== verification/Permission_Grants.thy ===== *)
theory Permission_Grants
  imports Jobs_Store
begin

text \<open>
  The permission grants of \<open>security_policy/repository.py\<close>: a grant copies the exact scope of an
  approved action request and is consumed by one execution that matches it, or revoked by the
  operator; a grant that has left the active state never returns to it.
\<close>

section \<open>Projection of action requests\<close>

definition list_payload_value :: "pydict \<Rightarrow> string list \<Rightarrow> pyval list" where
  "list_payload_value p keys = (case find (\<lambda>k. is_list (dget p k)) keys of None \<Rightarrow> [] | Some k \<Rightarrow> list_or_empty (dget p k))"

definition dict_payload_value :: "pydict \<Rightarrow> string list \<Rightarrow> pydict" where
  "dict_payload_value p keys = (case find (\<lambda>k. is_dict (dget p k)) keys of None \<Rightarrow> [] | Some k \<Rightarrow> dict_or_empty (dget p k))"

definition opt_str :: "string option \<Rightarrow> pyval" where
  "opt_str x = (case x of None \<Rightarrow> PNone | Some s \<Rightarrow> PStr s)"

definition opt_iso :: "int option \<Rightarrow> pyval" where
  "opt_iso x = (case x of None \<Rightarrow> PNone | Some t \<Rightarrow> PStr (iso_of t))"

definition action_command_argv :: "job_env \<Rightarrow> action_request \<Rightarrow> string list" where
  "action_command_argv env a = map (je_str env) (list_payload_value (ar_payload a) [''commandArgv'', ''argv''])"

definition action_request_dict :: "job_env \<Rightarrow> action_request \<Rightarrow> pydict" where
  "action_request_dict env a =
     [(''id'', PStr (ar_id a)), (''jobId'', PStr (ar_job_id a)), (''projectId'', PStr (ar_project_id a)),
      (''actionType'', PStr (ar_action_type a)), (''status'', PStr (ar_status a)),
      (''riskLevel'', PStr (ar_risk_level a)), (''command'', PStr (ar_command a)),
      (''commandArgv'', PList (map PStr (action_command_argv env a))),
      (''workspaceId'', dget (ar_payload a) ''workspaceId''),
      (''workspacePath'', dget (ar_payload a) ''workspacePath''),
      (''workspace'', PDict (dict_payload_value (ar_payload a) [''workspace''])),
      (''runtimeId'', dget (ar_payload a) ''runtimeId''),
      (''runtime'', PDict (dict_payload_value (ar_payload a) [''runtime''])),
      (''evidenceRefs'', PList (map (PStr \<circ> je_str env) (list_payload_value (ar_payload a) [''evidenceRefs'']))),
      (''diffRefs'', PList (list_payload_value (ar_payload a) [''diffRefs''])),
      (''payload'', PDict (ar_payload a)), (''reason'', PStr (ar_reason a)),
      (''requestedAt'', PStr (iso_of (ar_requested_at a))), (''expiresAt'', PStr (iso_of (ar_expires_at a))),
      (''decidedAt'', opt_iso (ar_decided_at a)), (''decidedBy'', opt_str (ar_decided_by a))]"

section \<open>Creation\<close>

definition new_grant :: "job_env \<Rightarrow> string \<Rightarrow> action_request \<Rightarrow> string \<Rightarrow> string \<Rightarrow> int \<Rightarrow> permission_grant" where
  "new_grant env new_id a clean_reason granted_by now =
     (let payload = je_redact_dict env (ar_payload a);
          argv = action_command_argv env a;
          command_argv = (if argv \<noteq> [] then argv else map (je_str env) (list_or_empty (dget payload ''commandArgv'')));
          workspace = py_or (dget (ar_payload a) ''workspaceId'') (dget payload ''workspaceId'');
          runtime = py_or (dget (ar_payload a) ''runtimeId'') (dget payload ''runtimeId'');
          path = py_or (py_or (dget payload ''path'') (dget (ar_payload a) ''workspacePath'')) (dget payload ''workspacePath'')
      in \<lparr>pg_id = new_id, pg_project_id = ar_project_id a, pg_job_id = Some (ar_job_id a),
          pg_action_request_id = ar_id a,
          pg_permission_decision_id = dget payload ''permissionDecisionId'',
          pg_agent_id = dget payload ''agentId'',
          pg_tool = je_str env (py_or (dget payload ''tool'') (PStr (ar_action_type a))),
          pg_command = je_redact env (ar_command a), pg_path = path,
          pg_command_argv = command_argv, pg_workspace_id = workspace, pg_runtime_id = runtime,
          pg_expires_at = ar_expires_at a, pg_status = ''active'', pg_reason = clean_reason,
          pg_granted_by = granted_by, pg_granted_at = now, pg_consumed_at = None,
          pg_consumed_by = None, pg_revoked_at = None, pg_revoked_by = None, pg_revoke_reason = None,
          pg_payload = json_dict (je_redact_dict env (dmerge payload
            [(''actionType'', PStr (ar_action_type a)), (''riskLevel'', PStr (ar_risk_level a)),
             (''commandArgv'', PList (map PStr command_argv)), (''workspaceId'', workspace),
             (''runtimeId'', runtime), (''expiresAt'', PStr (iso_of (ar_expires_at a)))]))\<rparr>)"

definition create_grant_from_action_request ::
  "job_env \<Rightarrow> string \<Rightarrow> action_request \<Rightarrow> string \<Rightarrow> string \<Rightarrow> int \<Rightarrow> (ops_store, job_error, permission_grant) op" where
  "create_grant_from_action_request env new_id a reason granted_by now s =
     (let clean_reason = je_redact env reason;
          g = new_grant env new_id a clean_reason granted_by now
      in if py_strip clean_reason = [] then (Inl ReasonMissing, s)
         else if new_id \<in> pg_id ` set (os_grants s) then (Inl DuplicateRow, s)
         else (Inr g, s\<lparr>os_grants := os_grants s @ [g]\<rparr>))"

lemma new_grant_simps [simp]:
  "pg_id (new_grant env new_id a r by' now) = new_id"
  "pg_project_id (new_grant env new_id a r by' now) = ar_project_id a"
  "pg_job_id (new_grant env new_id a r by' now) = Some (ar_job_id a)"
  "pg_action_request_id (new_grant env new_id a r by' now) = ar_id a"
  "pg_status (new_grant env new_id a r by' now) = ''active''"
  "pg_expires_at (new_grant env new_id a r by' now) = ar_expires_at a"
  by (simp_all add: new_grant_def Let_def)

definition get_grant :: "string \<Rightarrow> ops_store \<Rightarrow> job_error + permission_grant" where
  "get_grant i s = (case select_one (\<lambda>g. pg_id g = i) (os_grants s) of
     None \<Rightarrow> Inl (GrantNotFound i) | Some g \<Rightarrow> Inr g)"

section \<open>Consumption and revocation\<close>

record grant_use =
  gu_project_id :: string
  gu_job_id :: "string option"
  gu_agent_id :: "string option"
  gu_tool :: string
  gu_command :: string
  gu_command_argv :: "string list"
  gu_workspace_id :: "string option"
  gu_runtime_id :: "string option"
  gu_path :: "string option"
  gu_agent_run_id :: string

definition paths_match :: "job_env \<Rightarrow> pyval \<Rightarrow> string option \<Rightarrow> bool" where
  "paths_match env left right =
     (if \<not> truthy left then True
      else (case right of Some (c # cs) \<Rightarrow> je_same_path env (je_str env left) (c # cs) | _ \<Rightarrow> False))"

definition binding_key :: string where "binding_key = ''executionBindingSha256''"

text \<open>The reason a use is refused, in the order the code checks; \<open>None\<close> when the scope matches.\<close>

definition scope_mismatch :: "job_env \<Rightarrow> permission_grant \<Rightarrow> grant_use \<Rightarrow> string option" where
  "scope_mismatch env g u =
     (let binding = dget (pg_payload g) binding_key in
      if pg_project_id g \<noteq> gu_project_id u then Some ''Permission grant project mismatch.''
      else if pg_job_id g \<noteq> gu_job_id u then Some ''Permission grant job mismatch.''
      else if pg_agent_id g \<noteq> opt_str (gu_agent_id u) then Some ''Permission grant agent mismatch.''
      else if pg_tool g \<noteq> gu_tool u then Some ''Permission grant tool mismatch.''
      else if truthy binding \<and>
        je_str env binding \<noteq> je_binding env (PStr (gu_command u)) (map PStr (gu_command_argv u))
      then Some ''Permission grant exact execution binding mismatch.''
      else if \<not> truthy binding \<and> pg_command g \<noteq> gu_command u then Some ''Permission grant command mismatch.''
      else if \<not> truthy binding \<and> pg_command_argv g \<noteq> gu_command_argv u then Some ''Permission grant argv mismatch.''
      else if truthy (pg_workspace_id g) \<and> pg_workspace_id g \<noteq> opt_str (gu_workspace_id u)
      then Some ''Permission grant workspace mismatch.''
      else if truthy (pg_runtime_id g) \<and> pg_runtime_id g \<noteq> opt_str (gu_runtime_id u)
      then Some ''Permission grant runtime mismatch.''
      else if \<not> paths_match env (pg_path g) (gu_path u) then Some ''Permission grant path mismatch.''
      else None)"

definition upd_grant :: "(permission_grant \<Rightarrow> bool) \<Rightarrow> (permission_grant \<Rightarrow> permission_grant) \<Rightarrow> ops_store \<Rightarrow> ops_store" where
  "upd_grant P f s = s\<lparr>os_grants := upd_where P f (os_grants s)\<rparr>"

type_synonym grant_answer = "bool \<times> string \<times> permission_grant option"

definition found_grant :: "string \<Rightarrow> ops_store \<Rightarrow> permission_grant option" where
  "found_grant i s = select_one (\<lambda>g. pg_id g = i) (os_grants s)"

definition validate_and_consume_grant ::
  "job_env \<Rightarrow> string \<Rightarrow> grant_use \<Rightarrow> int \<Rightarrow> ops_store \<Rightarrow> grant_answer \<times> ops_store" where
  "validate_and_consume_grant env i u now s =
     (case found_grant i s of
        None \<Rightarrow> ((False, ''Permission grant not found.'', None), s)
      | Some g \<Rightarrow>
          if pg_status g \<noteq> ''active'' then
            ((False, ''Permission grant is already '' @ pg_status g @ ''.'', Some g), s)
          else if pg_expires_at g \<le> now then
            (let t = upd_grant (\<lambda>h. pg_id h = i \<and> pg_status h = ''active'') (\<lambda>h. h\<lparr>pg_status := ''expired''\<rparr>) s
             in ((False, ''Permission grant expired.'', found_grant i t), t))
          else (case scope_mismatch env g u of
            Some why \<Rightarrow> ((False, why, Some g), s)
          | None \<Rightarrow>
              let hit = (\<lambda>h. pg_id h = i \<and> pg_status h = ''active'');
                  t = upd_grant hit (\<lambda>h. h\<lparr>pg_status := ''consumed'', pg_consumed_at := Some now,
                                          pg_consumed_by := Some (gu_agent_run_id u)\<rparr>) s
              in if rowcount hit (os_grants s) \<noteq> 1
                 then ((False, ''Permission grant is already '' @
                          (case found_grant i t of None \<Rightarrow> [] | Some h \<Rightarrow> pg_status h) @ ''.'', found_grant i t), t)
                 else ((True, ''Permission grant consumed.'', found_grant i t), t)))"

definition revoke_grant :: "string \<Rightarrow> string \<Rightarrow> string \<Rightarrow> int \<Rightarrow> (ops_store, job_error, permission_grant) op" where
  "revoke_grant i reason actor now s =
     (case get_grant i s of
        Inl e \<Rightarrow> (Inl e, s)
      | Inr g \<Rightarrow>
          let t = (if pg_status g = ''active''
                   then upd_grant (\<lambda>h. pg_id h = i \<and> pg_status h = ''active'')
                          (\<lambda>h. h\<lparr>pg_status := ''revoked'', pg_revoked_at := Some now, pg_revoked_by := Some actor,
                                 pg_revoke_reason := Some reason\<rparr>) s
                   else s)
          in (get_grant i t, t))"

end
