(* ===== verification/Jobs_Queue.thy ===== *)
theory Jobs_Queue
  imports Permission_Grants "HOL-Library.Product_Lexorder" "HOL-Library.Option_ord"
begin

text \<open>
  \<open>jobs_approvals/repository.py\<close>: the life cycle of jobs, their runs and their action requests.
  Operations that the code runs in the caller's autocommit connection keep what they wrote before
  an exception; \<open>claim_next_job\<close>, \<open>complete_job_run\<close> and \<open>_decide_developer_patch\<close> open their own
  transaction and roll back. A \<open>parentJobId\<close> that is not a text is outside the model.
\<close>

section \<open>Creation and approval\<close>

definition sensitive_job_kinds :: "string list" where
  "sensitive_job_kinds = [''pipeline.start'', ''pipeline.retry'', ''pipeline.stage.retry'']"

definition nested_agent_job_kinds :: "string list" where
  "nested_agent_job_kinds =
     [''agent.product_owner'', ''agent.architect'', ''agent.devops'', ''agent.developer'',
      ''agent.project_assessment'']"

definition cancellable_job_statuses :: "string list" where
  "cancellable_job_statuses = [''queued'', ''resource_wait'', ''running'', ''approval_required'']"

definition action_request_ttl_ms :: int where
  "action_request_ttl_ms = 24 * 60 * 60 * 1000"

record action_args =
  aa_job_id :: string
  aa_project_id :: string
  aa_action_type :: string
  aa_risk_level :: string
  aa_command :: pyval
  aa_command_argv :: "string list option"
  aa_payload :: pydict
  aa_reason :: string
  aa_expires_at :: "int option"

text \<open>The words of a command, or the command itself when its quotations do not close.\<close>

definition command_argv :: "string \<Rightarrow> string list" where
  "command_argv command =
     (let c = py_strip command in
      if c = [] then [] else (case shlex_split True c of Some ws \<Rightarrow> ws | None \<Rightarrow> [c]))"

definition payload_requests_execution :: "pydict \<Rightarrow> bool" where
  "payload_requests_execution p =
     (dget p ''execute'' = PBool True \<or> dget (dict_or_empty (dget p ''runtime'')) ''execute'' = PBool True)"

text \<open>\<open>shared/command_privacy.py\<close>: the command line of an agent CLI is replaced by a summary and a binding.\<close>

definition cli_executables :: "string list" where
  "cli_executables = [''codex'', ''claude'', ''openhands'', ''swe-agent'', ''sweagent'']"

definition is_cli_argv :: "job_env \<Rightarrow> pyval \<Rightarrow> bool" where
  "is_cli_argv env v =
     (case v of PList (PStr exe # _) \<Rightarrow> py_lower (je_stem env exe) \<in> set cli_executables | _ \<Rightarrow> False)"

definition private_command_evidence :: "job_env \<Rightarrow> pyval \<Rightarrow> pyval \<Rightarrow> pydict \<Rightarrow> pyval \<times> pydict" where
  "private_command_evidence env command argv payload =
     (let clean = filter (\<lambda>p. fst p \<noteq> binding_key) payload in
      if \<not> is_cli_argv env argv then (command, clean)
      else
        let summary = je_summary env (list_or_empty argv);
            words = PList (map PStr summary);
            text = PStr (join '' '' summary);
            c1 = dset (dset clean binding_key (PStr (je_binding env command (list_or_empty argv)))) ''commandArgv'' words;
            c2 = (if ''argv'' \<in> fst ` set c1 then dset c1 ''argv'' words else c1);
            c3 = (if ''command'' \<in> fst ` set c2 then dset c2 ''command'' text else c2)
        in (text, c3))"

definition with_command_argv :: "job_env \<Rightarrow> string list option \<Rightarrow> string \<Rightarrow> pydict \<Rightarrow> pydict" where
  "with_command_argv env argv clean_command p =
     (case argv of
        Some ws \<Rightarrow> dset p ''commandArgv'' (PList (map PStr ws))
      | None \<Rightarrow>
          if is_list (dget p ''commandArgv'') then p
          else dset p ''commandArgv''
            (case dget p ''argv'' of
               PList xs \<Rightarrow> PList (map (PStr \<circ> je_str env) xs)
             | _ \<Rightarrow> if payload_requests_execution p then PList []
                    else PList (map PStr (command_argv clean_command))))"

definition create_action_request ::
  "job_env \<Rightarrow> string \<Rightarrow> action_args \<Rightarrow> int \<Rightarrow> (ops_store, job_error, action_request) op" where
  "create_action_request env new_id a now s =
     (let command = py_or (aa_command a) (PStr []);
          clean_command = je_str env (je_redact_val env command);
          clean_reason = je_redact env (aa_reason a)
      in if py_strip clean_reason = [] then (Inl ReasonMissing, s)
      else (case (case aa_expires_at a of Some t \<Rightarrow> Inr t | None \<Rightarrow> shift_instant now action_request_ttl_ms) of
        Inl e \<Rightarrow> (Inl (JobClockError e), s)
      | Inr expires \<Rightarrow>
          if new_id \<in> ar_id ` set (os_actions s) then (Inl DuplicateRow, s)
          else let p = with_command_argv env (aa_command_argv a) clean_command (je_redact_dict env (aa_payload a));
                   given = (case aa_command_argv a of None \<Rightarrow> PNone | Some ws \<Rightarrow> PList (map PStr ws));
                   raw_argv = py_or (py_or (py_or given (dget (aa_payload a) ''commandArgv''))
                                (dget (aa_payload a) ''argv'')) (dget p ''commandArgv'');
                   (shown, q) = private_command_evidence env (aa_command a) raw_argv p;
                   row = \<lparr>ar_id = new_id, ar_job_id = aa_job_id a, ar_project_id = aa_project_id a,
                          ar_action_type = aa_action_type a, ar_status = ''pending'',
                          ar_risk_level = aa_risk_level a,
                          ar_command = je_str env (je_redact_val env shown),
                          ar_payload = json_dict (je_redact_dict env q), ar_reason = clean_reason,
                          ar_requested_at = now, ar_expires_at = expires,
                          ar_decided_at = None, ar_decided_by = None\<rparr>
               in (Inr row,
                   record_event ''action.requested'' (Some (aa_job_id a)) (Some (aa_project_id a)) now
                     (s\<lparr>os_actions := os_actions s @ [row]\<rparr>))))"

record job_args =
  ja_project_id :: string
  ja_kind :: string
  ja_payload :: pydict
  ja_status :: "string option"
  ja_idempotency_key :: "string option"
  ja_workflow_run_id :: "string option"
  ja_workflow_step_id :: "string option"
  ja_diagnostic_context :: pydict
  ja_parent_job_id :: "string option"

definition str_or :: "string option \<Rightarrow> pyval \<Rightarrow> pyval" where
  "str_or x dflt = (case x of Some (c # cs) \<Rightarrow> PStr (c # cs) | _ \<Rightarrow> dflt)"

definition job_payload :: "job_env \<Rightarrow> job_args \<Rightarrow> pydict" where
  "job_payload env a =
     dset (je_redact_dict env (ja_payload a)) ''diagnosticContext'' (PDict (ja_diagnostic_context a))"

definition needs_approval :: "job_env \<Rightarrow> job_args \<Rightarrow> bool" where
  "needs_approval env a =
     (ja_kind a \<in> set sensitive_job_kinds \<or> dget (job_payload env a) ''approvalRequired'' = PBool True)"

definition resolved_status :: "job_env \<Rightarrow> job_args \<Rightarrow> string" where
  "resolved_status env a =
     (case ja_status a of
        Some (c # cs) \<Rightarrow> c # cs
      | _ \<Rightarrow> if needs_approval env a then ''approval_required'' else ''queued'')"

text \<open>A job created running inside another one is linked to it when that one is a stored job.\<close>

definition linked_payload :: "job_env \<Rightarrow> job_args \<Rightarrow> ops_store \<Rightarrow> pydict" where
  "linked_payload env a s =
     (case ja_parent_job_id a of
        Some (c # cs) \<Rightarrow>
          if resolved_status env a = ''running'' \<and> ''parentJobId'' \<notin> fst ` set (job_payload env a) \<and>
             find_job (c # cs) s \<noteq> None
          then dset (job_payload env a) ''parentJobId'' (PStr (c # cs)) else job_payload env a
      | _ \<Rightarrow> job_payload env a)"

definition new_job_row :: "job_env \<Rightarrow> string \<Rightarrow> job_args \<Rightarrow> int \<Rightarrow> ops_store \<Rightarrow> job" where
  "new_job_row env new_id a now s =
     \<lparr>jb_id = new_id, jb_project_id = ja_project_id a,
      jb_workflow_run_id = str_or (ja_workflow_run_id a) (dget (linked_payload env a s) ''workflowRunId''),
      jb_workflow_step_id = str_or (ja_workflow_step_id a) (dget (linked_payload env a s) ''workflowStepId''),
      jb_kind = ja_kind a, jb_status = resolved_status env a,
      jb_payload = json_dict (linked_payload env a s), jb_lease_owner = None, jb_lease_expires_at = None,
      jb_idempotency_key = ja_idempotency_key a, jb_created_at = now, jb_updated_at = now\<rparr>"

definition approval_request :: "job_env \<Rightarrow> string \<Rightarrow> job_args \<Rightarrow> ops_store \<Rightarrow> action_args" where
  "approval_request env new_id a s =
     \<lparr>aa_job_id = new_id, aa_project_id = ja_project_id a, aa_action_type = ''job.'' @ ja_kind a,
      aa_risk_level = ''high'',
      aa_command = py_or (dget (linked_payload env a s) ''command'') (PStr (ja_kind a)),
      aa_command_argv = None, aa_payload = linked_payload env a s,
      aa_reason = ''Sensitive job requires granular approval before execution.'', aa_expires_at = None\<rparr>"

definition create_job ::
  "job_env \<Rightarrow> string \<Rightarrow> string \<Rightarrow> job_args \<Rightarrow> int \<Rightarrow> (ops_store, job_error, job) op" where
  "create_job env new_id new_action_id a now s =
     (if new_id \<in> jb_id ` set (os_jobs s) then (Inl DuplicateRow, s)
      else
        let s1 = record_event ''job.created'' (Some new_id) (Some (ja_project_id a)) now
                   (s\<lparr>os_jobs := os_jobs s @ [new_job_row env new_id a now s]\<rparr>)
        in if needs_approval env a
           then (case create_action_request env new_action_id (approval_request env new_id a s) now s1 of
                   (Inl e, s2) \<Rightarrow> (Inl e, s2)
                 | (Inr _, s2) \<Rightarrow>
                     (Inr (new_job_row env new_id a now s),
                      record_event ''job.approval_required'' (Some new_id) (Some (ja_project_id a)) now s2))
           else (Inr (new_job_row env new_id a now s), s1))"

definition queue_job :: "string \<Rightarrow> int \<Rightarrow> ops_store \<Rightarrow> ops_store" where
  "queue_job i now = upd_job (\<lambda>j. jb_id j = i) (\<lambda>j. j\<lparr>jb_status := ''queued'', jb_updated_at := now\<rparr>)"

definition approve_job :: "string \<Rightarrow> string \<Rightarrow> int \<Rightarrow> (ops_store, job_error, job) op" where
  "approve_job i actor now s =
     (case get_job i s of
        Inl e \<Rightarrow> (Inl e, s)
      | Inr j \<Rightarrow>
          let s1 = record_audit ''job.approve'' actor i (Some (jb_project_id j)) now s;
              s2 = (if pending_actions i s1 = [] \<and> jb_status j = ''approval_required''
                    then record_event ''job.approved'' (Some i) (Some (jb_project_id j)) now (queue_job i now s1)
                    else s1)
          in (get_job i s2, s2))"

definition decide_action ::
  "string \<Rightarrow> string \<Rightarrow> string \<Rightarrow> string \<Rightarrow> int \<Rightarrow> ops_store \<Rightarrow> ops_store" where
  "decide_action action_id decision reason actor now =
     upd_action (\<lambda>a. ar_id a = action_id)
       (\<lambda>a. a\<lparr>ar_status := decision, ar_reason := reason, ar_decided_at := Some now, ar_decided_by := Some actor\<rparr>)"

definition update_job_status ::
  "job_env \<Rightarrow> string \<Rightarrow> string \<Rightarrow> pydict option \<Rightarrow> int \<Rightarrow> (ops_store, job_error, job) op" where
  "update_job_status env i status metadata now s =
     (case get_job i s of
        Inl e \<Rightarrow> (Inl e, s)
      | Inr j \<Rightarrow>
          let payload = (case metadata of
                  None \<Rightarrow> jb_payload j
                | Some m \<Rightarrow> dset (jb_payload j) ''result'' (PDict (je_redact_dict env m)));
              s1 = upd_job (\<lambda>k. jb_id k = i)
                     (\<lambda>k. k\<lparr>jb_status := status, jb_payload := json_dict (je_redact_dict env payload),
                            jb_lease_owner := None, jb_lease_expires_at := None, jb_updated_at := now\<rparr>) s;
              s2 = record_event (''job.'' @ status) (Some i) (Some (jb_project_id j)) now s1
          in (get_job i s2, s2))"

text \<open>
  \<open>JobsRepository._decide_developer_patch\<close>: the decision about a patch that was already executed. The
  evidence has to satisfy its contract and the rules for a passed verdict before it is accepted.
\<close>

definition dict_attr :: "pyval \<Rightarrow> py_error + pydict" where
  "dict_attr v = (case v of PDict d \<Rightarrow> Inr d | _ \<Rightarrow> if truthy v then Inl AttributeError else Inr [])"

definition patch_in_scope :: "job \<Rightarrow> action_request \<Rightarrow> agent_run_row \<Rightarrow> pydict \<Rightarrow> bool" where
  "patch_in_scope j a run e =
     (ag_job_id run = Some (jb_id j) \<and> ag_project_id run = Some (jb_project_id j) \<and>
      ag_status run = ''awaiting_permission'' \<and> dget e ''jobId'' = PStr (jb_id j) \<and>
      dget e ''agentRunId'' = PStr (ag_id run) \<and> dget e ''projectId'' = PStr (jb_project_id j) \<and>
      dget e ''workspaceId'' = dget (ar_payload a) ''workspaceId'')"

definition patch_errors :: "job_env \<Rightarrow> action_request \<Rightarrow> agent_run_row \<Rightarrow> pydict \<Rightarrow> job_error + string list" where
  "patch_errors env a run e =
     try_then (lift_error PyRaised (dict_attr (dget (ag_output run) ''runtimeResult''))) (\<lambda>runtime.
       if dget runtime ''status'' \<noteq> PStr ''completed'' \<or> \<not> eq_zero (dget runtime ''returnCode'')
       then Inl (PatchDecisionError ''Patch approval requires successful native execution.'')
       else try_then (lift_error PyRaised (real_qa_command_errors (je_other env) e)) (\<lambda>qa.
         try_then (lift_error PyRaised (dict_attr (dget (ar_payload a) ''diffSummary''))) (\<lambda>diff.
           let patch = dget diff ''patchArtifactId'';
               linked = (\<exists>k \<in> fst ` set (dict_or_empty (dget e ''hashes'')). patch = PStr k)
           in if truthy patch \<and> \<not> hashable patch then Inl (PyRaised TypeError)
              else Inr (evidence_package_contract_errors (je_other env) e True (Some (truthy (dget e ''workflowRunId''))) @
                        qa @ when_err (\<not> (truthy patch \<and> linked)) ''Patch approval requires its hashed diff artifact.''))))"

definition patch_decision ::
  "job_env \<Rightarrow> string \<Rightarrow> string \<Rightarrow> bool \<Rightarrow> ops_store \<Rightarrow> job_error + (action_request \<times> job \<times> agent_run_row \<times> pydict)" where
  "patch_decision env i action_id accepted s =
     try_then (get_action_request action_id s) (\<lambda>a.
     try_then (get_job i s) (\<lambda>j.
       if ar_job_id a \<noteq> i \<or> ar_status a \<noteq> ''pending''
       then Inl (PatchDecisionError ''Patch approval is no longer pending for this job.'')
       else if jb_kind j \<noteq> ''agent.developer'' \<or> jb_status j \<noteq> ''approval_required''
       then Inl (PatchDecisionError ''Patch approval requires an existing DeveloperAgent delivery.'')
       else if accepted \<and> length (pending_actions i s) \<noteq> 1
       then Inl (PatchDecisionError ''Other pending actions must be resolved before accepting this patch.'')
       else
         (case (select_one (\<lambda>r. ag_id r = je_str env (py_or (dget (ar_payload a) ''agentRunId'') (PStr []))) (os_agent_runs s),
                get_evidence_package (je_str env (py_or (dget (ar_payload a) ''evidencePackageId'') (PStr []))) (os_evidence s)) of
            (Some run, Some e) \<Rightarrow>
              if \<not> patch_in_scope j a run e
              then Inl (PatchDecisionError ''Patch approval execution/evidence scope does not match.'')
              else if \<not> accepted then Inr (a, j, run, e)
              else try_then (patch_errors env a run e) (\<lambda>errors.
                if errors \<noteq> []
                then Inl (PatchDecisionError (''Patch acceptance evidence is invalid: '' @ join '' '' errors))
                else Inr (a, j, run, e))
          | _ \<Rightarrow> Inl (PatchDecisionError ''Patch approval is missing its execution or evidence.''))))"

definition approval_dict :: "string \<Rightarrow> string \<Rightarrow> string \<Rightarrow> int \<Rightarrow> string \<Rightarrow> pydict" where
  "approval_dict action_id actor reason now decision =
     [(''actionRequestId'', PStr action_id), (''actor'', PStr actor), (''reason'', PStr reason),
      (''decidedAt'', PStr (iso_of now)), (''status'', PStr decision)]"

definition write_patch_decision ::
  "job_env \<Rightarrow> string \<Rightarrow> string \<Rightarrow> string \<Rightarrow> bool \<Rightarrow> int \<Rightarrow> action_request \<Rightarrow> agent_run_row \<Rightarrow> pydict \<Rightarrow> ops_store \<Rightarrow> ops_store" where
  "write_patch_decision env action_id reason actor accepted now a run ev s =
     (let status = (if accepted then ''completed'' else ''cancelled'');
          decision = (if accepted then ''approved'' else ''denied'');
          approval = PDict (approval_dict action_id actor reason now decision);
          s1 = decide_action action_id decision reason actor now s;
          s2 = s1\<lparr>os_agent_runs := upd_where (\<lambda>r. ag_id r = ag_id run)
                 (\<lambda>r. r\<lparr>ag_status := status, ag_updated_at := now,
                        ag_output := json_dict (je_redact_dict env (dmerge (ag_output run)
                          [(''verdict'', PStr status), (''approval'', approval)]))\<rparr>) (os_agent_runs s1)\<rparr>;
          decided = (case get_action_request action_id s2 of Inl _ \<Rightarrow> a | Inr b \<Rightarrow> b);
          links = (''approvals'', PList (list_or_empty (dget ev ''approvals'') @ [PDict (action_request_dict env decided)])) #
                  (if accepted then [(''qaVerdict'', PStr ''passed''), (''evidenceSource'', PStr ''verified_completion'')] else [])
      in s2\<lparr>os_evidence :=
           (case update_evidence_links (je_redact_val env) (je_str env (dget ev ''id'')) links (os_evidence s2) of
              None \<Rightarrow> os_evidence s2 | Some rows \<Rightarrow> rows)\<rparr>)"

definition decide_developer_patch ::
  "job_env \<Rightarrow> string \<Rightarrow> string \<Rightarrow> string \<Rightarrow> string \<Rightarrow> bool \<Rightarrow> int \<Rightarrow> (ops_store, job_error, unit) op" where
  "decide_developer_patch env i action_id reason actor accepted now =
     immediate_transaction (\<lambda>s.
       case patch_decision env i action_id accepted s of
         Inl e \<Rightarrow> (Inl e, s)
       | Inr (a, j, run, ev) \<Rightarrow>
           let status = (if accepted then ''completed'' else ''cancelled'');
               decision = (if accepted then ''approved'' else ''denied'');
               approval = PDict (approval_dict action_id actor reason now decision)
           in (case update_job_status env i status (Some [(''status'', PStr status), (''approval'', approval)]) now
                      (write_patch_decision env action_id reason actor accepted now a run ev s) of
                 (Inl e, s4) \<Rightarrow> (Inl e, s4)
               | (Inr _, s4) \<Rightarrow>
                   (Inr (), record_audit (if accepted then ''action.approve'' else ''action.deny'') actor action_id
                       (Some (jb_project_id j)) now
                      (record_event (''action.'' @ decision) (Some i) (Some (jb_project_id j)) now s4))))"

text \<open>The tail of an approval: event, audit, the grant, and the queueing of a job with nothing left to decide.\<close>

definition grant_approved_action ::
  "job_env \<Rightarrow> string \<Rightarrow> string \<Rightarrow> string \<Rightarrow> string \<Rightarrow> string \<Rightarrow> int \<Rightarrow> job \<Rightarrow> (ops_store, job_error, unit) op" where
  "grant_approved_action env new_grant_id i action_id clean actor now j s1 =
     (let s3 = record_audit ''action.approve'' actor action_id (Some (jb_project_id j)) now
                 (record_event ''action.approved'' (Some i) (Some (jb_project_id j)) now s1)
      in (case and_then (run_pure (get_action_request action_id s3))
                 (\<lambda>a. create_grant_from_action_request env new_grant_id a clean actor now) s3 of
            (Inl e, s4) \<Rightarrow> (Inl e, s4)
          | (Inr _, s4) \<Rightarrow>
              let s5 = record_event ''permission.grant.created'' (Some i) (Some (jb_project_id j)) now s4
              in if jb_status j = ''approval_required'' \<and> pending_actions i s5 = []
                 then (Inr (), record_event ''job.approved'' (Some i) (Some (jb_project_id j)) now (queue_job i now s5))
                 else (Inr (), s5)))"

definition approve_action ::
  "job_env \<Rightarrow> string \<Rightarrow> string \<Rightarrow> string \<Rightarrow> string \<Rightarrow> string \<Rightarrow> int \<Rightarrow> (ops_store, job_error, unit) op" where
  "approve_action env new_grant_id i action_id reason actor now s =
     (case get_action_request action_id s of
        Inl e \<Rightarrow> (Inl e, s)
      | Inr a \<Rightarrow>
          if ar_job_id a \<noteq> i then (Inl (ActionOfOtherJob action_id i), s)
          else if ar_status a \<noteq> ''pending'' then (Inl (ActionAlready (ar_status a)), s)
          else let clean = py_strip (je_redact env reason) in
            if clean = [] then (Inl ReasonMissing, s)
            else if ar_expires_at a \<le> now then
              (Inl ActionExpired,
               upd_action (\<lambda>b. ar_id b = action_id \<and> ar_status b = ''pending'')
                 (\<lambda>b. b\<lparr>ar_status := ''expired'', ar_decided_at := Some now, ar_decided_by := Some ''system''\<rparr>) s)
            else if ar_action_type a = ''agent.developer.approve_patch'' then
              decide_developer_patch env i action_id clean actor True now s
            else let s1 = decide_action action_id ''approved'' clean actor now s in
              (case get_job i s1 of
                 Inl e \<Rightarrow> (Inl e, s1)
               | Inr j \<Rightarrow> grant_approved_action env new_grant_id i action_id clean actor now j s1))"

definition release_job_as :: "string \<Rightarrow> string \<Rightarrow> int \<Rightarrow> ops_store \<Rightarrow> ops_store" where
  "release_job_as status i now =
     upd_job (\<lambda>j. jb_id j = i)
       (\<lambda>j. j\<lparr>jb_status := status, jb_lease_owner := None, jb_lease_expires_at := None, jb_updated_at := now\<rparr>)"

definition deny_action ::
  "job_env \<Rightarrow> string \<Rightarrow> string \<Rightarrow> string \<Rightarrow> string \<Rightarrow> int \<Rightarrow> (ops_store, job_error, unit) op" where
  "deny_action env i action_id reason actor now s =
     (case get_action_request action_id s of
        Inl e \<Rightarrow> (Inl e, s)
      | Inr a \<Rightarrow>
          if ar_job_id a \<noteq> i then (Inl (ActionOfOtherJob action_id i), s)
          else if ar_status a \<noteq> ''pending'' then (Inl (ActionAlready (ar_status a)), s)
          else let clean = py_strip (je_redact env reason) in
            if clean = [] then (Inl ReasonMissing, s)
            else if ar_action_type a = ''agent.developer.approve_patch'' then
              decide_developer_patch env i action_id clean actor False now s
            else let s1 = release_job_as ''cancelled'' i now (decide_action action_id ''denied'' clean actor now s) in
              (case get_job i s1 of
                 Inl e \<Rightarrow> (Inl e, s1)
               | Inr j \<Rightarrow>
                   (Inr (), record_audit ''action.deny'' actor action_id (Some (jb_project_id j)) now
                      (record_event ''action.denied'' (Some i) (Some (jb_project_id j)) now s1))))"

section \<open>Cancelling and retrying\<close>

definition is_cancellable :: "string \<Rightarrow> ops_store \<Rightarrow> job_error + bool" where
  "is_cancellable i s = try_then (get_job i s) (\<lambda>j. Inr (jb_status j \<in> set cancellable_job_statuses))"

definition cancel_job :: "job_env \<Rightarrow> string \<Rightarrow> string \<Rightarrow> string \<Rightarrow> int \<Rightarrow> (ops_store, job_error, job) op" where
  "cancel_job env i reason actor now s =
     (case get_job i s of
        Inl e \<Rightarrow> (Inl e, s)
      | Inr j \<Rightarrow>
          (case request_execution_cancel env i (if reason = [] then ''cancelled_by_operator'' else reason) now s of
             (Inl e, s1) \<Rightarrow> (Inl e, s1)
           | (Inr _, s1) \<Rightarrow>
               let hit = (\<lambda>k. jb_id k = i \<and> jb_status k \<in> set cancellable_job_statuses);
                   s2 = upd_job hit
                     (\<lambda>k. k\<lparr>jb_status := ''cancelled'',
                            jb_lease_owner := (if jb_status k = ''running'' then jb_lease_owner k else None),
                            jb_lease_expires_at := (if jb_status k = ''running'' then jb_lease_expires_at k else None),
                            jb_updated_at := now\<rparr>) s1
               in if rowcount hit (os_jobs s1) \<noteq> 1 then (Inl (CannotCancel i (jb_status j)), s2)
                  else let s3 = record_audit ''job.cancel'' actor i (Some (jb_project_id j)) now
                                  (record_event ''job.cancelled'' (Some i) (Some (jb_project_id j)) now s2)
                       in (get_job i s3, s3)))"

definition execution_kinds :: "string list" where
  "execution_kinds = [''operation.execute'', ''thread.product_loop.run'', ''thread.research.run'']"

definition retry_job :: "string \<Rightarrow> string \<Rightarrow> int \<Rightarrow> (ops_store, job_error, job) op" where
  "retry_job i actor now s =
     (case get_job i s of
        Inl e \<Rightarrow> (Inl e, s)
      | Inr j \<Rightarrow>
          if (\<exists>p \<in> set (os_processes s). mp_execution_id p = i \<and> mp_finished_at p = None) \<or>
             (jb_lease_owner j \<notin> {None, Some []} \<and>
              (case jb_lease_expires_at j of None \<Rightarrow> False | Some t \<Rightarrow> now < t))
          then (Inl StillRunning, s)
          else
            let s1 = s\<lparr>os_controls := filter (\<lambda>c. ec_execution_id c \<noteq> i) (os_controls s)\<rparr>;
                s2 = (if jb_kind j \<in> set execution_kinds
                      then upd_execution (\<lambda>x. ex_id x = i)
                             (\<lambda>x. x\<lparr>ex_status := ''queued'', ex_started_at := None, ex_finished_at := None,
                                    ex_cancel_requested_at := None, ex_reason := [], ex_result := None,
                                    ex_owner_id := None, ex_fencing_token := None\<rparr>) s1
                      else s1);
                status = (if pending_actions i s2 = [] then ''queued'' else ''approval_required'');
                s3 = record_audit ''job.retry'' actor i (Some (jb_project_id j)) now
                       (record_event ''job.retried'' (Some i) (Some (jb_project_id j)) now
                         (release_job_as status i now s2))
            in (get_job i s3, s3))"

section \<open>Claiming\<close>

definition queued_jobs :: "ops_store \<Rightarrow> job list" where
  "queued_jobs s = filter (\<lambda>j. jb_status j = ''queued'') (os_jobs s)"

text \<open>\<^verbatim>\<open>project_job_attention\<close> keeps the latest start per project.\<close>

definition note_attention :: "string \<Rightarrow> int \<Rightarrow> (string \<times> int) list \<Rightarrow> (string \<times> int) list" where
  "note_attention project now rows =
     (if project \<in> fst ` set rows
      then upd_where (\<lambda>r. fst r = project \<and> snd r < now) (\<lambda>r. (project, now)) rows
      else rows @ [(project, now)])"

definition claim_next_job ::
  "string \<Rightarrow> string \<Rightarrow> int \<Rightarrow> int option \<Rightarrow> string option \<Rightarrow> int \<Rightarrow>
   (ops_store, job_error, (job \<times> job_run) option) op" where
  "claim_next_job new_run_id worker lease_ms token job_id now s =
     (case immediate_transaction (\<lambda>s.
        if (case token of Some t \<Rightarrow> \<not> worker_fence_is_active worker t now s | None \<Rightarrow> False)
        then (Inl StaleWorkerFence, s)
        else
          (case (case job_id of
                   None \<Rightarrow> first_by jb_created_at (queued_jobs s)
                 | Some i \<Rightarrow> select_one (\<lambda>j. jb_id j = i) (queued_jobs s)) of
             None \<Rightarrow> (Inr None, s)
           | Some j \<Rightarrow>
               (case shift_instant now lease_ms of
                  Inl e \<Rightarrow> (Inl (JobClockError e), s)
                | Inr expires \<Rightarrow>
                    if new_run_id \<in> jr_id ` set (os_runs s) then (Inl DuplicateRow, s)
                    else
                      let run = \<lparr>jr_id = new_run_id, jr_job_id = jb_id j, jr_provider_id = worker,
                                 jr_status = ''running'', jr_started_at = now, jr_completed_at = None,
                                 jr_summary = [], jr_metadata = [], jr_worker_owner_id = Some worker,
                                 jr_leader_fencing_token = token\<rparr>;
                          s1 = upd_job (\<lambda>k. jb_id k = jb_id j \<and> jb_status k = ''queued'')
                                 (\<lambda>k. k\<lparr>jb_status := ''running'', jb_lease_owner := Some worker,
                                        jb_lease_expires_at := Some expires, jb_updated_at := now\<rparr>) s;
                          s2 = s1\<lparr>os_runs := os_runs s1 @ [run],
                                  os_attention := note_attention (jb_project_id j) now (os_attention s1)\<rparr>
                      in (Inr (Some (j, run)), s2)))) s of
        (Inl e, t) \<Rightarrow> (Inl e, t)
      | (Inr None, t) \<Rightarrow> (Inr None, t)
      | (Inr (Some (j, run)), t) \<Rightarrow>
          (case get_job (jb_id j) t of
             Inl e \<Rightarrow> (Inl e, t)
           | Inr k \<Rightarrow> (Inr (Some (k, run)),
                record_event ''job.claimed'' (Some (jb_id k)) (Some (jb_project_id k)) now t)))"

definition repair_workloads :: "string list" where
  "repair_workloads = [''control_plane'', ''ops_light'', ''qa_light'', ''remote_llm_light'']"

definition queue_key :: "ops_store \<Rightarrow> job \<Rightarrow> nat \<times> int option \<times> int" where
  "queue_key s j =
     ((if jb_kind j = ''operation.execute'' \<and>
          (case select_one (\<lambda>x. ex_id x = jb_id j) (os_executions s) of
             None \<Rightarrow> False | Some x \<Rightarrow> ex_workload_class x \<in> set repair_workloads)
       then 0 else 1),
      map_of (os_attention s) (jb_project_id j),
      jb_created_at j)"

definition peek_next_job :: "ops_store \<Rightarrow> job option" where
  "peek_next_job s = first_by (queue_key s) (queued_jobs s)"

definition peek_oldest_queued_job :: "string list \<Rightarrow> ops_store \<Rightarrow> job option" where
  "peek_oldest_queued_job kinds s =
     first_by jb_created_at (filter (\<lambda>j. jb_kind j \<in> set kinds) (queued_jobs s))"

section \<open>Recovery\<close>

definition close_runs :: "string \<Rightarrow> string \<Rightarrow> string \<Rightarrow> int \<Rightarrow> ops_store \<Rightarrow> ops_store" where
  "close_runs i status summary now =
     upd_run (\<lambda>r. jr_job_id r = i \<and> jr_status r = ''running'')
       (\<lambda>r. r\<lparr>jr_status := status, jr_completed_at := Some now, jr_summary := summary\<rparr>)"

definition fail_orphan_child :: "job_env \<Rightarrow> string \<Rightarrow> int \<Rightarrow> ops_store \<Rightarrow> ops_store" where
  "fail_orphan_child env i now s =
     (let s1 = snd (update_job_status env i ''failed'' (Some [(''reason'', PStr ''parent_lease_expired'')]) now s);
          s2 = s1\<lparr>os_agent_runs := upd_where (\<lambda>r. ag_job_id r = Some i \<and> ag_status r = ''running'')
                 (\<lambda>r. r\<lparr>ag_status := ''failed'', ag_updated_at := now\<rparr>) (os_agent_runs s1)\<rparr>
      in close_runs i ''failed'' ''parent_lease_expired'' now s2)"

definition is_orphan :: "string option \<Rightarrow> ops_store \<Rightarrow> job \<Rightarrow> bool" where
  "is_orphan parent s c =
     (jb_status c = ''running'' \<and> jb_lease_expires_at c = None \<and> jb_kind c \<in> set nested_agent_job_kinds \<and>
      (case dget (jb_payload c) ''parentJobId'' of
         PStr p \<Rightarrow>
           (case parent of None \<Rightarrow> True | Some q \<Rightarrow> p = q) \<and>
           (case find_job p s of None \<Rightarrow> True | Some j \<Rightarrow> jb_status j \<noteq> ''running'')
       | _ \<Rightarrow> False))"

definition fail_orphaned_child_jobs ::
  "job_env \<Rightarrow> string option \<Rightarrow> int \<Rightarrow> ops_store \<Rightarrow> string list \<times> ops_store" where
  "fail_orphaned_child_jobs env parent now s =
     (let ids = map jb_id (sort_key jb_created_at (filter (is_orphan parent s) (os_jobs s)))
      in (ids, fold (\<lambda>i. fail_orphan_child env i now) ids s))"

definition fail_legacy_orphan_child_jobs ::
  "job_env \<Rightarrow> string list \<Rightarrow> int \<Rightarrow> ops_store \<Rightarrow> string list \<times> ops_store" where
  "fail_legacy_orphan_child_jobs env job_ids now s =
     (let requested = filter (\<lambda>i. py_strip i \<noteq> []) job_ids;
          ids = map jb_id (sort_key jb_created_at (filter
            (\<lambda>c. jb_id c \<in> set requested \<and> jb_status c = ''running'' \<and> jb_lease_expires_at c = None \<and>
                 jb_kind c \<in> set nested_agent_job_kinds \<and> dget (jb_payload c) ''parentJobId'' = PNone)
            (os_jobs s)))
      in if requested = [] then ([], s) else (ids, fold (\<lambda>i. fail_orphan_child env i now) ids s))"

definition lease_expired :: "int \<Rightarrow> ops_store \<Rightarrow> job \<Rightarrow> bool" where
  "lease_expired now s j =
     (jb_status j = ''running'' \<and> (case jb_lease_expires_at j of None \<Rightarrow> False | Some t \<Rightarrow> t \<le> now) \<and>
      \<not> (\<exists>p \<in> set (os_processes s). mp_execution_id p = jb_id j \<and>
            (mp_finished_at p = None \<or> mp_released_at p = None)))"

definition terminal_execution_statuses :: "string list" where
  "terminal_execution_statuses = [''completed'', ''failed'', ''blocked'', ''cancelled'', ''interrupted'']"

definition recover_job :: "int \<Rightarrow> job \<Rightarrow> ops_store \<Rightarrow> ops_store" where
  "recover_job now row s =
     (let i = jb_id row;
          outcome = (if jb_kind row \<in> set execution_kinds
                     then (case select_one (\<lambda>x. ex_id x = i) (os_executions s) of
                             None \<Rightarrow> None
                           | Some x \<Rightarrow> if ex_status x \<noteq> ''queued'' then Some (ex_status x) else None)
                     else None)
      in case outcome of
           Some status \<Rightarrow>
             let final = (if status \<in> {''completed'', ''cancelled''} then status else ''failed'');
                 s1 = (if status \<notin> set terminal_execution_statuses
                       then upd_execution (\<lambda>x. ex_id x = i)
                              (\<lambda>x. x\<lparr>ex_status := ''interrupted'', ex_finished_at := Some now,
                                     ex_reason := ''Worker lost: external effects require review before retry.''\<rparr>) s
                       else s)
             in record_event ''job.recovered'' (Some i) (Some (jb_project_id row)) now
                  (close_runs i final ''Recovered durable execution outcome after worker lease expiry.'' now
                    (release_job_as final i now s1))
         | None \<Rightarrow>
             record_event ''job.requeued'' (Some i) (Some (jb_project_id row)) now
               (close_runs i ''failed'' ''Lease expired before completion'' now (release_job_as ''queued'' i now s)))"

definition requeue_expired_jobs :: "job_env \<Rightarrow> int \<Rightarrow> ops_store \<Rightarrow> string list \<times> ops_store" where
  "requeue_expired_jobs env now s =
     (let rows = sort_key jb_updated_at (filter (lease_expired now s) (os_jobs s));
          s1 = fold (recover_job now) rows s
      in (map jb_id rows, snd (fail_orphaned_child_jobs env None now s1)))"

section \<open>Closing a run\<close>

text \<open>A cancelled job stays cancelled; otherwise a run that did not complete fails its job.\<close>

definition final_job_status :: "job \<Rightarrow> string \<Rightarrow> string" where
  "final_job_status j status =
     (if jb_status j = ''cancelled'' then ''cancelled''
      else if status \<in> {''completed'', ''cancelled''} then status else ''failed'')"

definition final_run_status :: "job \<Rightarrow> string \<Rightarrow> string" where
  "final_run_status j status = (if jb_status j = ''cancelled'' then ''cancelled'' else status)"

definition closed_run_store ::
  "job_env \<Rightarrow> string \<Rightarrow> string \<Rightarrow> string \<Rightarrow> string \<Rightarrow> string \<Rightarrow> pydict \<Rightarrow> int \<Rightarrow> ops_store \<Rightarrow> ops_store" where
  "closed_run_store env i run_id job_status run_status summary metadata now s =
     release_job_as job_status i now
       (upd_run (\<lambda>r. jr_id r = run_id)
          (\<lambda>r. r\<lparr>jr_status := run_status, jr_completed_at := Some now, jr_summary := je_redact env summary,
                 jr_metadata := json_dict (je_redact_dict env metadata)\<rparr>) s)"

definition complete_in_transaction ::
  "job_env \<Rightarrow> string \<Rightarrow> string \<Rightarrow> string \<Rightarrow> string \<Rightarrow> pydict \<Rightarrow> int \<Rightarrow> (ops_store, job_error, job) op" where
  "complete_in_transaction env i run_id status summary metadata now s =
     (case get_job i s of
        Inl e \<Rightarrow> (Inl e, s)
      | Inr j \<Rightarrow>
          let s2 = closed_run_store env i run_id (final_job_status j status) (final_run_status j status) summary metadata now s
          in (case get_job i s2 of
                Inl e \<Rightarrow> (Inl e, s2)
              | Inr k \<Rightarrow>
                  let s3 = record_event (''job.'' @ final_job_status j status) (Some i) (Some (jb_project_id k)) now s2
                  in (Inr k, snd (fail_orphaned_child_jobs env (Some i) now s3))))"

definition complete_job_run ::
  "job_env \<Rightarrow> string \<Rightarrow> string \<Rightarrow> string \<Rightarrow> string \<Rightarrow> pydict \<Rightarrow> string option \<Rightarrow> int option \<Rightarrow> int \<Rightarrow>
   (ops_store, job_error, job) op" where
  "complete_job_run env i run_id status summary metadata worker token now s =
     (let fenced = (worker \<noteq> None \<or> token \<noteq> None) in
      if fenced \<and> (worker \<in> {None, Some []} \<or> token = None) then (Inl FencePairRequired, s)
      else immediate_transaction (\<lambda>s.
        if fenced \<and> \<not> worker_fence_is_active (the worker) (the token) now s then (Inl StaleWorkerFence, s)
        else (case get_job i s of
          Inl e \<Rightarrow> (Inl e, s)
        | Inr j \<Rightarrow>
            if fenced \<and> jb_lease_owner j \<noteq> worker then (Inl StaleWorkerFence, s)
            else (case select_one (\<lambda>r. jr_id r = run_id \<and> jr_job_id r = i) (os_runs s) of
              None \<Rightarrow> (Inl (RunNotFound run_id), s)
            | Some r \<Rightarrow>
                if fenced \<and> (jr_worker_owner_id r \<noteq> worker \<or> jr_leader_fencing_token r \<noteq> token)
                then (Inl StaleWorkerFence, s)
                else complete_in_transaction env i run_id status summary metadata now s))) s)"

definition heartbeat_job_lease ::
  "string \<Rightarrow> string \<Rightarrow> int \<Rightarrow> int \<Rightarrow> int \<Rightarrow> (ops_store, job_error, bool) op" where
  "heartbeat_job_lease i worker token lease_ms now s =
     (if \<not> worker_fence_is_active worker token now s then (Inr False, s)
      else (case shift_instant now lease_ms of
        Inl e \<Rightarrow> (Inl (JobClockError e), s)
      | Inr expires \<Rightarrow>
          let hit = (\<lambda>j. jb_id j = i \<and> jb_status j = ''running'' \<and> jb_lease_owner j = Some worker)
          in (Inr (rowcount hit (os_jobs s) = 1),
              upd_job hit (\<lambda>j. j\<lparr>jb_lease_expires_at := Some expires, jb_updated_at := now\<rparr>) s)))"

end
