(* ===== verification/Executions.thy ===== *)
theory Executions
  imports Jobs_Queue
begin

text \<open>
  \<open>executions/repository.py\<close>: operational executions, which share their identity with a job. A
  runner may change an execution only under the worker's leader fence and the lease of its job.
\<close>

definition terminal_statuses :: "string list" where
  "terminal_statuses = [''cancelled'', ''completed'', ''failed'', ''blocked'', ''interrupted'']"

record execution_view =
  ev_execution_id :: string
  ev_row :: execution_row
  ev_status :: string
  ev_reason :: string
  ev_can_cancel :: bool

text \<open>\<open>ExecutionRepository.get\<close>: the effective status, with the reason of the last admission decision while waiting.\<close>

definition execution_get :: "string \<Rightarrow> ops_store \<Rightarrow> job_error + execution_view" where
  "execution_get i s =
     (case select_one (\<lambda>x. ex_id x = i) (os_executions s) of
        None \<Rightarrow> Inl ExecutionNotFound
      | Some x \<Rightarrow>
     (case find_job (ex_job_id x) s of
        None \<Rightarrow> Inl ExecutionNotFound
      | Some j \<Rightarrow>
          let status = (if ex_status x = ''queued'' \<and> jb_status j = ''resource_wait''
                        then ''resource_wait'' else ex_status x);
              reason = (if status = ''resource_wait''
                        then (case map_of (rev (os_admission_reasons s)) (ex_job_id x) of
                                None \<Rightarrow> ex_reason x | Some r \<Rightarrow> r)
                        else ex_reason x)
          in Inr \<lparr>ev_execution_id = i, ev_row = x, ev_status = status, ev_reason = reason,
                  ev_can_cancel = (status \<notin> set terminal_statuses \<and> status \<noteq> ''cancel_requested'')\<rparr>))"

definition execution_event :: "string \<Rightarrow> string \<Rightarrow> int \<Rightarrow> ops_store \<Rightarrow> ops_store" where
  "execution_event i ty now = record_event ty (Some i) None now"

definition enqueue ::
  "job_env \<Rightarrow> string \<Rightarrow> string \<Rightarrow> string \<Rightarrow> string \<Rightarrow> string option \<Rightarrow> string \<Rightarrow> int \<Rightarrow> pydict \<Rightarrow> int \<Rightarrow>
   (ops_store, job_error, execution_view) op" where
  "enqueue env new_id new_action_id operation workload project cwd status_code diagnostic now s =
     (case immediate_transaction (\<lambda>s.
        case create_job env new_id new_action_id
          \<lparr>ja_project_id = (case project of Some (c # cs) \<Rightarrow> c # cs | _ \<Rightarrow> ''local-operations''),
           ja_kind = ''operation.execute'',
           ja_payload = [(''operation'', PStr operation), (''workloadClass'', PStr workload)],
           ja_status = None, ja_idempotency_key = None, ja_workflow_run_id = None,
           ja_workflow_step_id = None, ja_diagnostic_context = diagnostic, ja_parent_job_id = None\<rparr> now s of
          (Inl e, s1) \<Rightarrow> (Inl e, s1)
        | (Inr j, s1) \<Rightarrow>
            if jb_id j \<in> ex_id ` set (os_executions s1) then (Inl DuplicateRow, s1)
            else (Inr (), execution_event (jb_id j) ''execution.queued'' now
              (s1\<lparr>os_executions := os_executions s1 @
                 [\<lparr>ex_id = jb_id j, ex_job_id = jb_id j, ex_project_id = project, ex_operation = operation,
                   ex_workload_class = workload, ex_cwd = cwd, ex_status = ''queued'', ex_created_at = now,
                   ex_started_at = None, ex_finished_at = None, ex_cancel_requested_at = None,
                   ex_reason = [], ex_result = None, ex_result_status_code = Some status_code,
                   ex_owner_id = None, ex_fencing_token = None\<rparr>]\<rparr>))) s of
        (Inl e, t) \<Rightarrow> (Inl e, t)
      | (Inr _, t) \<Rightarrow> (execution_get new_id t, t))"

definition fence_ok :: "string \<Rightarrow> string \<Rightarrow> int \<Rightarrow> int \<Rightarrow> ops_store \<Rightarrow> bool" where
  "fence_ok i owner token now s =
     (fence_active ''local'' owner token now (os_leadership s) \<and>
      (\<exists>j \<in> set (os_jobs s). jb_id j = i \<and> jb_lease_owner j = Some owner \<and>
         (case jb_lease_expires_at j of None \<Rightarrow> False | Some t \<Rightarrow> now < t) \<and>
         jb_status j \<in> {''running'', ''cancelled''}))"

definition require_fence :: "string \<Rightarrow> string \<Rightarrow> int \<Rightarrow> int \<Rightarrow> (ops_store, job_error, unit) op" where
  "require_fence i owner token now s =
     (if fence_ok i owner token now s then (Inr (), s) else (Inl StaleWorkerFence, s))"

text \<open>\<^verbatim>\<open>INSERT OR IGNORE\<close> of the execution of a legacy job, and the refresh of its workload class.\<close>

definition ensure_execution :: "job \<Rightarrow> string \<Rightarrow> string \<Rightarrow> int \<Rightarrow> ops_store \<Rightarrow> ops_store" where
  "ensure_execution j workload cwd now s =
     (if jb_id j \<in> ex_id ` set (os_executions s) \<or> jb_id j \<in> ex_job_id ` set (os_executions s) then s
      else s\<lparr>os_executions := os_executions s @
        [\<lparr>ex_id = jb_id j, ex_job_id = jb_id j, ex_project_id = Some (jb_project_id j),
          ex_operation = ''legacy_job:'' @ jb_kind j, ex_workload_class = workload, ex_cwd = cwd,
          ex_status = ''queued'', ex_created_at = now, ex_started_at = None,
          ex_finished_at = None, ex_cancel_requested_at = None, ex_reason = [],
          ex_result = None, ex_result_status_code = Some 200, ex_owner_id = None,
          ex_fencing_token = None\<rparr>]\<rparr>)"

definition waiting_legacy :: "job \<Rightarrow> ops_store \<Rightarrow> execution_row \<Rightarrow> bool" where
  "waiting_legacy j s x =
     (ex_id x = jb_id j \<and> ex_job_id x = jb_id j \<and> ex_project_id x = Some (jb_project_id j) \<and>
      ex_operation x = ''legacy_job:'' @ jb_kind j \<and> ex_status x \<in> {''queued'', ''resource_wait''} \<and>
      ex_started_at x = None \<and> ex_finished_at x = None \<and> ex_cancel_requested_at x = None \<and>
      (\<exists>k \<in> set (os_jobs s). jb_id k = ex_job_id x \<and> jb_status k = ''running'' \<and> jb_kind k = jb_kind j))"

definition attach_claimed_job ::
  "job \<Rightarrow> string \<Rightarrow> string \<Rightarrow> string \<Rightarrow> int \<Rightarrow> int \<Rightarrow> (ops_store, job_error, execution_view) op" where
  "attach_claimed_job j workload cwd owner token now s =
     (case immediate_transaction (and_then (require_fence (jb_id j) owner token now) (\<lambda>_ s.
        let s1 = ensure_execution j workload cwd now s
        in (Inr (),
            if jb_kind j \<noteq> ''operation.execute'' \<and> cancellation_reason (jb_id j) s1 = None
            then upd_execution (waiting_legacy j s1) (\<lambda>x. x\<lparr>ex_workload_class := workload\<rparr>) s1
            else s1))) s of
        (Inl e, t) \<Rightarrow> (Inl e, t)
      | (Inr _, t) \<Rightarrow> (execution_get (jb_id j) t, t))"

definition execution_start :: "string \<Rightarrow> string \<Rightarrow> int \<Rightarrow> int \<Rightarrow> (ops_store, job_error, bool) op" where
  "execution_start i owner token now =
     immediate_transaction (and_then (require_fence i owner token now) (\<lambda>_ s.
       case execution_get i s of
         Inl e \<Rightarrow> (Inl e, s)
       | Inr v \<Rightarrow>
           if ev_status v \<in> set terminal_statuses then (Inr False, s)
           else (case cancellation_reason i s of
             Some (c # cs) \<Rightarrow>
               (Inr False, execution_event i ''execution.cancelled'' now
                  (upd_execution (\<lambda>x. ex_id x = i)
                     (\<lambda>x. x\<lparr>ex_status := ''cancelled'', ex_finished_at := Some now, ex_reason := c # cs\<rparr>) s))
           | _ \<Rightarrow>
               if ev_status v = ''running'' then (Inl RunnerActive, s)
               else (Inr True, execution_event i ''execution.running'' now
                  (upd_execution (\<lambda>x. ex_id x = i)
                     (\<lambda>x. x\<lparr>ex_status := ''running'', ex_started_at := Some now,
                            ex_owner_id := Some owner, ex_fencing_token := Some token\<rparr>) s)))))"

text \<open>\<open>json_dumps\<close> writes \<open>None\<close> as an empty object.\<close>

definition je_stored :: "job_env \<Rightarrow> pyval \<Rightarrow> pyval" where
  "je_stored env v = (let r = je_redact_val env v in if r = PNone then PDict [] else json_store r)"

definition execution_finish ::
  "job_env \<Rightarrow> string \<Rightarrow> string \<Rightarrow> int \<Rightarrow> string \<Rightarrow> pyval \<Rightarrow> string \<Rightarrow> int option \<Rightarrow> int \<Rightarrow>
   (ops_store, job_error, execution_view) op" where
  "execution_finish env i owner token status result reason status_code now s =
     (if status \<notin> set terminal_statuses then (Inl TerminalStatusRequired, s)
      else (case immediate_transaction (and_then (require_fence i owner token now) (\<lambda>_ s.
        case execution_get i s of
          Inl e \<Rightarrow> (Inl e, s)
        | Inr v \<Rightarrow>
            if ev_status v \<in> set terminal_statuses then (Inr (), s)
            else let (st, rs) = (case cancellation_reason i s of
                      Some (c # cs) \<Rightarrow> (''cancelled'', c # cs) | _ \<Rightarrow> (status, reason))
                 in (Inr (), execution_event i (''execution.'' @ st) now
                      (upd_execution (\<lambda>x. ex_id x = i)
                         (\<lambda>x. x\<lparr>ex_status := st, ex_finished_at := Some now, ex_result := Some (je_stored env result),
                                ex_reason := je_redact env rs,
                                ex_result_status_code :=
                                  (case status_code of None \<Rightarrow> ex_result_status_code x | Some n \<Rightarrow> Some n)\<rparr>) s)))) s of
         (Inl e, t) \<Rightarrow> (Inl e, t)
       | (Inr _, t) \<Rightarrow> (execution_get i t, t)))"

definition request_cancel ::
  "job_env \<Rightarrow> string \<Rightarrow> string \<Rightarrow> int \<Rightarrow> (ops_store, job_error, execution_view) op" where
  "request_cancel env i reason now s =
     (case immediate_transaction (\<lambda>s.
        case execution_get i s of
          Inl e \<Rightarrow> (Inl e, s)
        | Inr v \<Rightarrow>
            if ev_status v \<in> set terminal_statuses then (Inr (), s)
            else if ex_cancel_requested_at (ev_row v) \<noteq> None then (Inr (), s)
            else
              let st = (if ev_status v \<in> {''queued'', ''resource_wait''} then ''cancelled'' else ''cancel_requested'');
                  s1 = upd_execution (\<lambda>x. ex_id x = i)
                         (\<lambda>x. x\<lparr>ex_status := st, ex_cancel_requested_at := Some now,
                                ex_reason := je_redact env reason,
                                ex_finished_at := (if st = ''cancelled'' then Some now else None)\<rparr>) s
              in (case is_cancellable i s1 of
                    Inl e \<Rightarrow> (Inl e, s1)
                  | Inr ok \<Rightarrow>
                      (case (if ok then cancel_job env i reason ''operator'' now s1 else (run_pure (get_job i s1) s1)) of
                         (Inl e, s2) \<Rightarrow> (Inl e, s2)
                       | (Inr _, s2) \<Rightarrow> (Inr (), execution_event i (''execution.'' @ st) now s2)))) s of
        (Inl e, t) \<Rightarrow> (Inl e, t)
      | (Inr _, t) \<Rightarrow> (execution_get i t, t))"

text \<open>A page of the event log of an execution: \<open>seq\<close> is the row number from 1.\<close>

definition execution_events ::
  "string \<Rightarrow> nat \<Rightarrow> nat \<Rightarrow> ops_store \<Rightarrow> job_error + ((nat \<times> job_event) list \<times> nat)" where
  "execution_events i after_seq limit s =
     try_then (execution_get i s) (\<lambda>_.
       let rows = take limit (filter (\<lambda>(n, e). ev_job_id e = Some i \<and> after_seq < n)
                    (zip [1..<Suc (length (os_events s))] (os_events s)))
       in Inr (rows, if rows = [] then after_seq else fst (last rows)))"

end
