(* ===== verification/Jobs_Invariants.thy ===== *)
theory Jobs_Invariants
  imports Executions
begin

text \<open>
  The well-formedness of the operational tables and that every operation of \<open>Jobs_Queue\<close>,
  \<open>Permission_Grants\<close> and \<open>Executions\<close> keeps it: identifiers are unique; a job has a lease owner exactly
  when it has a lease expiry, and only while it runs or was cancelled while running; runs and executions belong
  to stored jobs, an execution under the identifier of its job; and every grant comes from an action
  request that was approved, for the same job and project.
\<close>

definition lease_wf :: "job \<Rightarrow> bool" where
  "lease_wf j =
     ((jb_lease_owner j = None \<longleftrightarrow> jb_lease_expires_at j = None) \<and>
      (jb_lease_owner j \<noteq> None \<longrightarrow> jb_status j \<in> {''running'', ''cancelled''}))"

definition grant_backed :: "action_request list \<Rightarrow> permission_grant \<Rightarrow> bool" where
  "grant_backed actions g =
     (\<exists>a \<in> set actions. ar_id a = pg_action_request_id g \<and> ar_status a = ''approved'' \<and>
        pg_job_id g = Some (ar_job_id a) \<and> pg_project_id g = ar_project_id a)"

definition unique_ids :: "ops_store \<Rightarrow> bool" where
  "unique_ids s =
     (distinct (map jb_id (os_jobs s)) \<and> distinct (map jr_id (os_runs s)) \<and>
      distinct (map ar_id (os_actions s)) \<and> distinct (map pg_id (os_grants s)) \<and>
      distinct (map ex_id (os_executions s)))"

definition linked :: "ops_store \<Rightarrow> bool" where
  "linked s =
     (jr_job_id ` set (os_runs s) \<subseteq> jb_id ` set (os_jobs s) \<and>
      (\<forall>x \<in> set (os_executions s). ex_job_id x = ex_id x \<and> ex_id x \<in> jb_id ` set (os_jobs s)) \<and>
      (\<forall>g \<in> set (os_grants s). grant_backed (os_actions s) g))"

definition ops_inv :: "ops_store \<Rightarrow> bool" where
  "ops_inv s = (unique_ids s \<and> (\<forall>j \<in> set (os_jobs s). lease_wf j) \<and> linked s)"

lemmas ops_inv_defs = ops_inv_def unique_ids_def linked_def

section \<open>Primitive changes\<close>

named_theorems inv_simps \<open>changes outside the tables of the invariant\<close>

lemma inv_record_event [inv_simps]: "ops_inv (record_event ty i p now s) = ops_inv s"
  by (simp add: ops_inv_defs record_event_def)

lemma inv_record_audit [inv_simps]: "ops_inv (record_audit ac by' i p now s) = ops_inv s"
  by (simp add: ops_inv_defs record_audit_def)

lemma inv_other_tables [inv_simps]:
  "ops_inv (s\<lparr>os_controls := c\<rparr>) = ops_inv s" "ops_inv (s\<lparr>os_processes := ps\<rparr>) = ops_inv s"
  "ops_inv (s\<lparr>os_attention := at'\<rparr>) = ops_inv s" "ops_inv (s\<lparr>os_agent_runs := rs\<rparr>) = ops_inv s"
  "ops_inv (s\<lparr>os_evidence := es\<rparr>) = ops_inv s"
  by (simp_all add: ops_inv_defs)

lemma inv_upd_job:
  assumes "\<And>j. jb_id (f j) = jb_id j"
    and "\<And>j. j \<in> set (os_jobs s) \<Longrightarrow> P j \<Longrightarrow> lease_wf j \<Longrightarrow> lease_wf (f j)" and "ops_inv s"
  shows "ops_inv (upd_job P f s)"
proof -
  have "map jb_id (upd_where P f (os_jobs s)) = map jb_id (os_jobs s)"
    using assms(1) by (rule map_upd_where_key)
  moreover have "jb_id ` set (upd_where P f (os_jobs s)) = jb_id ` set (os_jobs s)"
    using assms(1) by (rule key_set_upd_where)
  moreover have "\<forall>j \<in> set (upd_where P f (os_jobs s)). lease_wf j"
    using assms(2,3) by (auto simp: in_upd_where_iff ops_inv_def)
  ultimately show ?thesis using assms(3) by (simp add: ops_inv_defs upd_job_def)
qed

lemma inv_upd_run:
  assumes "\<And>r. jr_id (f r) = jr_id r" "\<And>r. jr_job_id (f r) = jr_job_id r" "ops_inv s"
  shows "ops_inv (upd_run P f s)"
proof -
  have "map jr_id (upd_where P f (os_runs s)) = map jr_id (os_runs s)"
    using assms(1) by (rule map_upd_where_key)
  moreover have "jr_job_id ` set (upd_where P f (os_runs s)) = jr_job_id ` set (os_runs s)"
    using assms(2) by (rule key_set_upd_where)
  ultimately show ?thesis using assms(3) by (simp add: ops_inv_defs upd_run_def)
qed

lemma inv_upd_execution:
  assumes "\<And>x. ex_id (f x) = ex_id x" "\<And>x. ex_job_id (f x) = ex_job_id x" "ops_inv s"
  shows "ops_inv (upd_execution P f s)"
proof -
  have "map ex_id (upd_where P f (os_executions s)) = map ex_id (os_executions s)"
    using assms(1) by (rule map_upd_where_key)
  then show ?thesis using assms by (auto simp: ops_inv_defs upd_execution_def in_upd_where_iff)
qed

lemma grant_backed_upd:
  assumes "\<And>a. ar_id (f a) = ar_id a \<and> ar_job_id (f a) = ar_job_id a \<and> ar_project_id (f a) = ar_project_id a"
    and "\<And>a. a \<in> set rows \<Longrightarrow> P a \<Longrightarrow> ar_status a = ''approved'' \<Longrightarrow> ar_status (f a) = ''approved''"
    and "grant_backed rows g"
  shows "grant_backed (upd_where P f rows) g"
proof -
  from assms(3) obtain a where a: "a \<in> set rows" "ar_id a = pg_action_request_id g" "ar_status a = ''approved''"
    "pg_job_id g = Some (ar_job_id a)" "pg_project_id g = ar_project_id a" by (auto simp: grant_backed_def)
  let ?b = "if P a then f a else a"
  have "?b \<in> set (upd_where P f rows)" using a(1) by (auto simp: in_upd_where_iff)
  then show ?thesis unfolding grant_backed_def using a assms(1) [of a] assms(2) [OF a(1)] by (intro bexI [of _ ?b]) auto
qed

lemma inv_upd_action:
  assumes "\<And>a. ar_id (f a) = ar_id a \<and> ar_job_id (f a) = ar_job_id a \<and> ar_project_id (f a) = ar_project_id a"
    and "\<And>a. a \<in> set (os_actions s) \<Longrightarrow> P a \<Longrightarrow> ar_status a = ''approved'' \<Longrightarrow> ar_status (f a) = ''approved''"
    and "ops_inv s"
  shows "ops_inv (upd_action P f s)"
proof -
  have "map ar_id (upd_where P f (os_actions s)) = map ar_id (os_actions s)"
    using assms(1) by (intro map_upd_where_key) simp
  moreover have "\<forall>g \<in> set (os_grants s). grant_backed (upd_where P f (os_actions s)) g"
    using assms grant_backed_upd [of f "os_actions s" P] by (auto simp: ops_inv_defs)
  ultimately show ?thesis using assms(3) by (simp add: ops_inv_defs upd_action_def)
qed

lemma inv_upd_grant:
  assumes "\<And>g. pg_id (f g) = pg_id g \<and> pg_action_request_id (f g) = pg_action_request_id g \<and>
      pg_job_id (f g) = pg_job_id g \<and> pg_project_id (f g) = pg_project_id g" "ops_inv s"
  shows "ops_inv (upd_grant P f s)"
proof -
  have "map pg_id (upd_where P f (os_grants s)) = map pg_id (os_grants s)"
    using assms(1) by (intro map_upd_where_key) simp
  then show ?thesis using assms by (auto simp: ops_inv_defs upd_grant_def in_upd_where_iff grant_backed_def)
qed

lemma inv_add_job:
  assumes "ops_inv s" "jb_id j \<notin> jb_id ` set (os_jobs s)" "lease_wf j"
  shows "ops_inv (s\<lparr>os_jobs := os_jobs s @ [j]\<rparr>)"
  using assms by (auto simp: ops_inv_defs)

lemma inv_add_action:
  assumes "ops_inv s" "ar_id a \<notin> ar_id ` set (os_actions s)"
  shows "ops_inv (s\<lparr>os_actions := os_actions s @ [a]\<rparr>)"
  using assms by (auto simp: ops_inv_defs grant_backed_def)

lemma inv_add_run:
  assumes "ops_inv s" "jr_id r \<notin> jr_id ` set (os_runs s)" "jr_job_id r \<in> jb_id ` set (os_jobs s)"
  shows "ops_inv (s\<lparr>os_runs := os_runs s @ [r]\<rparr>)"
  using assms by (auto simp: ops_inv_defs)

lemma inv_add_execution:
  assumes "ops_inv s" "ex_id x \<notin> ex_id ` set (os_executions s)" "ex_job_id x = ex_id x" "ex_id x \<in> jb_id ` set (os_jobs s)"
  shows "ops_inv (s\<lparr>os_executions := os_executions s @ [x]\<rparr>)"
  using assms by (auto simp: ops_inv_defs)

lemma inv_add_grant:
  assumes "ops_inv s" "pg_id g \<notin> pg_id ` set (os_grants s)" "grant_backed (os_actions s) g"
  shows "ops_inv (s\<lparr>os_grants := os_grants s @ [g]\<rparr>)"
  using assms by (auto simp: ops_inv_defs)

lemma inv_release_job_as: "ops_inv s \<Longrightarrow> ops_inv (release_job_as status i now s)"
  unfolding release_job_as_def by (rule inv_upd_job) (auto simp: lease_wf_def)

lemma inv_close_runs: "ops_inv s \<Longrightarrow> ops_inv (close_runs i status summary now s)"
  unfolding close_runs_def by (rule inv_upd_run) auto

section \<open>Operations\<close>

lemma get_job_Inr: "get_job i s = Inr j \<Longrightarrow> j \<in> set (os_jobs s) \<and> jb_id j = i"
  by (auto simp: get_job_def find_job_def split: option.splits dest: select_one_SomeD)

lemma get_action_Inr: "get_action_request i s = Inr a \<Longrightarrow> a \<in> set (os_actions s) \<and> ar_id a = i"
  by (auto simp: get_action_request_def split: option.splits dest: select_one_SomeD)

lemma job_unique: "ops_inv s \<Longrightarrow> j \<in> set (os_jobs s) \<Longrightarrow> k \<in> set (os_jobs s) \<Longrightarrow> jb_id j = jb_id k \<Longrightarrow> j = k"
  by (auto simp: ops_inv_defs dest: distinct_key_unique)

lemma action_unique:
  "ops_inv s \<Longrightarrow> a \<in> set (os_actions s) \<Longrightarrow> b \<in> set (os_actions s) \<Longrightarrow> ar_id a = ar_id b \<Longrightarrow> a = b"
  by (auto simp: ops_inv_defs dest: distinct_key_unique)

lemma inv_queue_job:
  assumes "ops_inv s" "j \<in> set (os_jobs s)" "jb_id j = i" "jb_status j = ''approval_required''"
  shows "ops_inv (queue_job i now s)"
  unfolding queue_job_def
proof (rule inv_upd_job)
  fix k assume k: "k \<in> set (os_jobs s)" "jb_id k = i" "lease_wf k"
  then have "k = j" using job_unique [OF assms(1) k(1) assms(2)] assms(3) by simp
  then show "lease_wf (k\<lparr>jb_status := ''queued'', jb_updated_at := now\<rparr>)"
    using k(3) assms(4) by (auto simp: lease_wf_def)
qed (use assms(1) in simp_all)

lemma inv_create_action_request: "ops_inv s \<Longrightarrow> ops_inv (snd (create_action_request env new_id a now s))"
  unfolding create_action_request_def Let_def
  by (auto simp: inv_simps split: sum.splits option.splits prod.splits intro!: inv_add_action)

lemma inv_create_job:
  assumes "ops_inv s"
  shows "ops_inv (snd (create_job env new_id new_action_id a now s))"
proof (cases "new_id \<in> jb_id ` set (os_jobs s)")
  case False
  let ?s = "s\<lparr>os_jobs := os_jobs s @ [new_job_row env new_id a now s]\<rparr>"
  have s1: "ops_inv ?s" using assms False by (intro inv_add_job) (simp_all add: new_job_row_def lease_wf_def)
  let ?r = "create_action_request env new_action_id (approval_request env new_id a s) now
    (record_event ''job.created'' (Some new_id) (Some (ja_project_id a)) now ?s)"
  have "ops_inv (snd ?r)" using s1 by (intro inv_create_action_request) (simp add: inv_simps)
  then show ?thesis using s1 False
    by (cases ?r) (auto simp: create_job_def Let_def inv_simps split: sum.split)
qed (use assms in \<open>simp add: create_job_def Let_def\<close>)

lemma inv_approve_job: "ops_inv s \<Longrightarrow> ops_inv (snd (approve_job i actor now s))"
  unfolding approve_job_def Let_def
  by (auto simp: inv_simps split: sum.split dest!: get_job_Inr intro!: inv_queue_job)

lemma inv_update_job_status: "ops_inv s \<Longrightarrow> ops_inv (snd (update_job_status env i status metadata now s))"
  unfolding update_job_status_def Let_def
  by (auto simp: inv_simps lease_wf_def split: sum.split option.split intro!: inv_upd_job)

text \<open>Only a pending request is decided, so a decision never undoes an approval.\<close>

lemma inv_decide_action:
  assumes "ops_inv s" "get_action_request i s = Inr a" "ar_status a = ''pending''"
  shows "ops_inv (decide_action i decision reason actor now s)"
  unfolding decide_action_def
proof (rule inv_upd_action)
  fix b assume "b \<in> set (os_actions s)" "ar_id b = i" "ar_status b = ''approved''"
  then show "ar_status (b\<lparr>ar_status := decision, ar_reason := reason, ar_decided_at := Some now,
      ar_decided_by := Some actor\<rparr>) = ''approved''"
    using action_unique [OF assms(1)] get_action_Inr [OF assms(2)] assms(3) by force
qed (use assms(1) in simp_all)

lemma patch_decision_pending:
  "patch_decision env i action_id accepted s = Inr (a, j, run, e) \<Longrightarrow>
   get_action_request action_id s = Inr a \<and> get_job i s = Inr j \<and> ar_status a = ''pending'' \<and>
   ar_job_id a = i \<and> jb_status j = ''approval_required''"
  by (auto simp: patch_decision_def try_then_Inr_iff split: if_splits option.splits)

lemma inv_write_patch_decision:
  assumes "ops_inv s" "get_action_request action_id s = Inr b" "ar_status b = ''pending''"
  shows "ops_inv (write_patch_decision env action_id reason actor accepted now a run ev s)"
  unfolding write_patch_decision_def Let_def
  using inv_decide_action [OF assms] by (simp add: inv_simps)

lemma inv_immediate: "ops_inv s \<Longrightarrow> ops_inv (snd (m s)) \<Longrightarrow> ops_inv (snd (immediate_transaction m s))"
  by (auto simp: immediate_transaction_def split: prod.split sum.split)

text \<open>The two branches after a call that may raise.\<close>

lemma inv_call:
  assumes "ops_inv (snd x)"
    and "\<And>e t. x = (Inl e, t) \<Longrightarrow> ops_inv t \<Longrightarrow> ops_inv (snd (f e t))"
    and "\<And>a t. x = (Inr a, t) \<Longrightarrow> ops_inv t \<Longrightarrow> ops_inv (snd (g a t))"
  shows "ops_inv (snd (case x of (r, t) \<Rightarrow> (case r of Inl e \<Rightarrow> f e t | Inr a \<Rightarrow> g a t)))"
  using assms by (cases x; cases "fst x") auto

lemma sum_branches:
  assumes "\<And>e. x = Inl e \<Longrightarrow> P (f e)" "\<And>a. x = Inr a \<Longrightarrow> P (g a)"
  shows "P (case x of Inl e \<Rightarrow> f e | Inr a \<Rightarrow> g a)"
  using assms by (cases x) auto

lemma inv_decide_developer_patch:
  assumes "ops_inv s"
  shows "ops_inv (snd (decide_developer_patch env i action_id reason actor accepted now s))"
  unfolding decide_developer_patch_def
proof (rule inv_immediate [OF assms], rule sum_branches, goal_cases)
  case (2 x)
  obtain a j run e where x: "x = (a, j, run, e)" by (cases x)
  have "ops_inv (write_patch_decision env action_id reason actor accepted now a run e s)"
    using patch_decision_pending [OF 2 [unfolded x]] assms by (intro inv_write_patch_decision) auto
  from inv_update_job_status [OF this] show ?case
    unfolding x Let_def prod.case by (intro inv_call) (simp_all add: inv_simps)
qed (use assms in simp)

lemma inv_create_grant:
  assumes "ops_inv s" "a \<in> set (os_actions s)" "ar_status a = ''approved''"
  shows "ops_inv (snd (create_grant_from_action_request env new_id a reason granted_by now s))"
proof -
  have "grant_backed (os_actions s) (new_grant env new_id a r granted_by now)" for r
    using assms(2,3) by (auto simp: grant_backed_def)
  note backed = this
  show ?thesis
  proof (cases "py_strip (je_redact env reason) = [] \<or> new_id \<in> pg_id ` set (os_grants s)")
    case True
    then show ?thesis using assms(1) unfolding create_grant_from_action_request_def Let_def by auto
  next
    case False
    have "ops_inv (s\<lparr>os_grants := os_grants s @ [new_grant env new_id a (je_redact env reason) granted_by now]\<rparr>)"
      by (rule inv_add_grant [OF assms(1) _ backed]) (use False in simp)
    then show ?thesis using False unfolding create_grant_from_action_request_def Let_def by simp
  qed
qed

text \<open>After a decision the request has the decided status.\<close>

lemma decided_status:
  assumes "get_action_request i (decide_action i decision reason actor now s) = Inr a"
  shows "a \<in> set (os_actions (decide_action i decision reason actor now s)) \<and> ar_status a = decision"
proof -
  let ?t = "decide_action i decision reason actor now s"
  have a: "a \<in> set (os_actions ?t)" "ar_id a = i" using get_action_Inr [OF assms] by auto
  then obtain b where "a = (if ar_id b = i then b\<lparr>ar_status := decision, ar_reason := reason,
      ar_decided_at := Some now, ar_decided_by := Some actor\<rparr> else b)"
    unfolding decide_action_def upd_tables in_upd_where_iff by blast
  with a show ?thesis by (cases "ar_id b = i") simp_all
qed

lemma decide_action_jobs [simp]: "os_jobs (decide_action i decision reason actor now s) = os_jobs s"
  by (simp add: decide_action_def)

lemma inv_expire_action:
  "ops_inv s \<Longrightarrow> ops_inv (upd_action (\<lambda>b. ar_id b = i \<and> ar_status b = ''pending'')
     (\<lambda>b. b\<lparr>ar_status := ''expired'', ar_decided_at := Some now, ar_decided_by := Some by'\<rparr>) s)"
  by (rule inv_upd_action) auto

lemma inv_and_then_pure:
  "ops_inv s \<Longrightarrow> (\<And>a. r = Inr a \<Longrightarrow> ops_inv (snd (f a s))) \<Longrightarrow> ops_inv (snd (and_then (run_pure r) f s))"
  by (cases r) (simp_all add: and_then_def run_pure_def)

lemma create_grant_frame:
  "os_jobs (snd (create_grant_from_action_request env new_id a reason granted_by now s)) = os_jobs s"
  "os_actions (snd (create_grant_from_action_request env new_id a reason granted_by now s)) = os_actions s"
  by (simp_all add: create_grant_from_action_request_def Let_def)

lemma snd_eq_os_jobs: "os_jobs (snd x) = js \<Longrightarrow> x = (r, t) \<Longrightarrow> os_jobs t = js"
  by simp

lemma inv_grant_approved_action:
  assumes "ops_inv s" "get_job i s = Inr j"
    and "\<And>a. get_action_request action_id s = Inr a \<Longrightarrow> a \<in> set (os_actions s) \<and> ar_status a = ''approved''"
  shows "ops_inv (snd (grant_approved_action env new_grant_id i action_id clean actor now j s))"
  unfolding grant_approved_action_def Let_def
proof (rule inv_call, goal_cases)
  case 1
  show ?case by (rule inv_and_then_pure) (auto simp: inv_simps assms intro!: inv_create_grant)
next
  case (3 u t)
  have "os_jobs t = os_jobs s"
    using 3(1) create_grant_frame(1) [THEN snd_eq_os_jobs] by (auto simp: and_then_Inr_iff)
  then have "ops_inv (queue_job i now (record_event ty p q now t))" if "jb_status j = ''approval_required''" for ty p q
    using that 3(2) get_job_Inr [OF assms(2)] by (intro inv_queue_job [of _ j]) (auto simp: inv_simps)
  then show ?case using 3(2) by (simp add: inv_simps)
qed simp

lemma inv_approve_action:
  assumes "ops_inv s"
  shows "ops_inv (snd (approve_action env new_grant_id i action_id reason actor now s))"
proof (cases "get_action_request action_id s")
  case (Inr a)
  show ?thesis
  proof (cases "ar_status a = ''pending''")
    case True
    show ?thesis
      using assms inv_expire_action inv_decide_developer_patch inv_decide_action [OF assms Inr True]
      by (auto simp: approve_action_def Inr True Let_def split: sum.split
          dest: decided_status intro!: inv_grant_approved_action)
  qed (use assms Inr in \<open>simp add: approve_action_def\<close>)
qed (use assms in \<open>simp add: approve_action_def\<close>)

lemma inv_deny_action:
  assumes "ops_inv s"
  shows "ops_inv (snd (deny_action env i action_id reason actor now s))"
proof (cases "get_action_request action_id s")
  case (Inr a)
  then show ?thesis
    using assms inv_decide_developer_patch inv_decide_action [OF assms Inr]
    by (auto simp: deny_action_def Let_def inv_simps split: sum.split intro!: inv_release_job_as)
qed (use assms in \<open>simp add: deny_action_def\<close>)

lemma inv_request_execution_cancel: "ops_inv s \<Longrightarrow> ops_inv (snd (request_execution_cancel env i reason now s))"
  by (simp add: request_execution_cancel_def Let_def inv_simps)

lemma inv_cancel_job:
  assumes "ops_inv s"
  shows "ops_inv (snd (cancel_job env i reason actor now s))"
  unfolding cancel_job_def
proof (rule sum_branches, goal_cases)
  case (2 j)
  show ?case
  proof (rule inv_call [OF inv_request_execution_cancel [OF assms]], goal_cases)
    case (2 u t)
    have "ops_inv (upd_job (\<lambda>k. jb_id k = i \<and> jb_status k \<in> set cancellable_job_statuses)
       (\<lambda>k. k\<lparr>jb_status := ''cancelled'',
              jb_lease_owner := (if jb_status k = ''running'' then jb_lease_owner k else None),
              jb_lease_expires_at := (if jb_status k = ''running'' then jb_lease_expires_at k else None),
              jb_updated_at := now\<rparr>) t)"
      using 2(2) by (intro inv_upd_job) (auto simp: lease_wf_def)
    then show ?case by (simp add: Let_def inv_simps)
  qed simp
qed (use assms in simp)

lemma inv_retry_job: "ops_inv s \<Longrightarrow> ops_inv (snd (retry_job i actor now s))"
  unfolding retry_job_def Let_def
  by (auto simp: inv_simps split: sum.split intro!: inv_release_job_as inv_upd_execution)

text \<open>The job a claim picks is a stored, queued one.\<close>

definition claim_target :: "string option \<Rightarrow> ops_store \<Rightarrow> job option" where
  "claim_target job_id s =
     (case job_id of
        None \<Rightarrow> first_by jb_created_at (queued_jobs s)
      | Some i \<Rightarrow> select_one (\<lambda>j. jb_id j = i) (queued_jobs s))"

lemma claim_target_queued:
  "claim_target job_id s = Some j \<Longrightarrow> j \<in> set (os_jobs s) \<and> jb_status j = ''queued''"
  by (auto simp: claim_target_def queued_jobs_def split: option.splits dest: first_by_SomeD select_one_SomeD)

definition claimed_store :: "string \<Rightarrow> string \<Rightarrow> int option \<Rightarrow> int \<Rightarrow> int \<Rightarrow> job \<Rightarrow> ops_store \<Rightarrow> ops_store" where
  "claimed_store run_id worker token expires now j s =
     (upd_job (\<lambda>k. jb_id k = jb_id j \<and> jb_status k = ''queued'')
        (\<lambda>k. k\<lparr>jb_status := ''running'', jb_lease_owner := Some worker, jb_lease_expires_at := Some expires,
               jb_updated_at := now\<rparr>) s)
     \<lparr>os_runs := os_runs s @
        [\<lparr>jr_id = run_id, jr_job_id = jb_id j, jr_provider_id = worker, jr_status = ''running'',
          jr_started_at = now, jr_completed_at = None, jr_summary = [], jr_metadata = [],
          jr_worker_owner_id = Some worker, jr_leader_fencing_token = token\<rparr>],
      os_attention := note_attention (jb_project_id j) now (os_attention s)\<rparr>"

lemma inv_claimed_store:
  assumes "ops_inv s" "j \<in> set (os_jobs s)" "run_id \<notin> jr_id ` set (os_runs s)"
  shows "ops_inv (claimed_store run_id worker token expires now j s)"
proof -
  let ?u = "upd_job (\<lambda>k. jb_id k = jb_id j \<and> jb_status k = ''queued'')
    (\<lambda>k. k\<lparr>jb_status := ''running'', jb_lease_owner := Some worker, jb_lease_expires_at := Some expires,
           jb_updated_at := now\<rparr>) s"
  have "ops_inv ?u" using assms(1) by (intro inv_upd_job) (auto simp: lease_wf_def)
  moreover have "jb_id j \<in> jb_id ` set (os_jobs ?u)"
    using assms(2) by (simp add: key_set_upd_where)
  ultimately show ?thesis using assms(3)
      inv_add_run [of ?u "\<lparr>jr_id = run_id, jr_job_id = jb_id j, jr_provider_id = worker, jr_status = ''running'',
          jr_started_at = now, jr_completed_at = None, jr_summary = [], jr_metadata = [],
          jr_worker_owner_id = Some worker, jr_leader_fencing_token = token\<rparr>"]
    by (simp add: claimed_store_def inv_simps)
qed

text \<open>A claim, case by case.\<close>

lemma claim_next_job_cases:
  "claim_next_job run_id worker lease_ms token job_id now s =
     (if (case token of Some t \<Rightarrow> \<not> worker_fence_is_active worker t now s | None \<Rightarrow> False)
      then (Inl StaleWorkerFence, s)
      else (case claim_target job_id s of
          None \<Rightarrow> (Inr None, s)
        | Some j \<Rightarrow>
            (case shift_instant now lease_ms of
               Inl e \<Rightarrow> (Inl (JobClockError e), s)
             | Inr expires \<Rightarrow>
                 if run_id \<in> jr_id ` set (os_runs s) then (Inl DuplicateRow, s)
                 else let t = claimed_store run_id worker token expires now j s in
                   (case get_job (jb_id j) t of
                      Inl e \<Rightarrow> (Inl e, t)
                    | Inr k \<Rightarrow> (Inr (Some (k, last (os_runs t))),
                        record_event ''job.claimed'' (Some (jb_id k)) (Some (jb_project_id k)) now t)))))"
  by (simp add: claim_next_job_def claim_target_def claimed_store_def immediate_transaction_def Let_def
      split: option.split sum.split)

lemma inv_claim_next_job: "ops_inv s \<Longrightarrow> ops_inv (snd (claim_next_job run_id worker lease_ms token job_id now s))"
  unfolding claim_next_job_cases Let_def
  by (auto simp: inv_simps split: option.split sum.split dest!: claim_target_queued intro!: inv_claimed_store)

lemma inv_fail_orphan_child:
  assumes "ops_inv s"
  shows "ops_inv (fail_orphan_child env i now s)"
  using inv_update_job_status [OF assms] by (simp add: fail_orphan_child_def Let_def inv_close_runs inv_simps)

lemma inv_fold: "(\<And>x s. ops_inv s \<Longrightarrow> ops_inv (f x s)) \<Longrightarrow> ops_inv s \<Longrightarrow> ops_inv (fold f xs s)"
  by (induction xs arbitrary: s) auto

lemma inv_fail_orphaned_child_jobs: "ops_inv s \<Longrightarrow> ops_inv (snd (fail_orphaned_child_jobs env parent now s))"
  by (simp add: fail_orphaned_child_jobs_def Let_def inv_fold inv_fail_orphan_child)

lemma inv_fail_legacy_orphan_child_jobs: "ops_inv s \<Longrightarrow> ops_inv (snd (fail_legacy_orphan_child_jobs env ids now s))"
  by (simp add: fail_legacy_orphan_child_jobs_def Let_def inv_fold inv_fail_orphan_child)

lemma inv_recover_job: "ops_inv s \<Longrightarrow> ops_inv (recover_job now row s)"
  unfolding recover_job_def Let_def
  by (auto simp: inv_simps split: option.split intro!: inv_close_runs inv_release_job_as inv_upd_execution)

lemma inv_requeue_expired_jobs: "ops_inv s \<Longrightarrow> ops_inv (snd (requeue_expired_jobs env now s))"
  by (simp add: requeue_expired_jobs_def Let_def inv_fail_orphaned_child_jobs inv_fold inv_recover_job)

lemma inv_closed_run_store: "ops_inv s \<Longrightarrow> ops_inv (closed_run_store env i run_id js rs summary md now s)"
  unfolding closed_run_store_def by (intro inv_release_job_as inv_upd_run) auto

lemma inv_complete_in_transaction:
  "ops_inv s \<Longrightarrow> ops_inv (snd (complete_in_transaction env i run_id status summary metadata now s))"
  unfolding complete_in_transaction_def Let_def
  by (auto simp: inv_simps split: sum.split intro!: inv_fail_orphaned_child_jobs inv_closed_run_store)

lemma inv_complete_job_run: 
  assumes "ops_inv s"
  shows "ops_inv (snd (complete_job_run env i run_id status summary metadata worker token now s))"
proof -
  have "ops_inv (snd (immediate_transaction m s))" if "ops_inv (snd (m s))"
    for m :: "(ops_store, job_error, job) op" using assms that by (rule inv_immediate)
  then show ?thesis using assms unfolding complete_job_run_def Let_def
    by (auto simp: inv_complete_in_transaction split: sum.split option.split)
qed

lemma inv_heartbeat_job_lease: "ops_inv s \<Longrightarrow> ops_inv (snd (heartbeat_job_lease i worker token lease_ms now s))"
  unfolding heartbeat_job_lease_def Let_def
  by (auto simp: lease_wf_def split: sum.split intro!: inv_upd_job)

text \<open>An operation that runs in a transaction and then reads its result.\<close>

lemma inv_then_read:
  assumes "ops_inv s" "ops_inv (snd (m s))"
  shows "ops_inv (snd (case immediate_transaction m s of (r, t) \<Rightarrow>
     (case r of Inl e \<Rightarrow> (Inl e, t) | Inr _ \<Rightarrow> (f t, t))))"
  using inv_immediate [where m = m, OF assms] by (rule inv_call) simp_all

lemma inv_execution_event [inv_simps]: "ops_inv (execution_event i ty now s) = ops_inv s"
  by (simp add: execution_event_def inv_simps)

lemma create_action_request_jobs: "os_jobs (snd (create_action_request env n b now u)) = os_jobs u"
  by (simp add: create_action_request_def Let_def split: sum.split prod.split)

lemma created_job_stored:
  assumes "create_job env new_id new_action_id a now s = (Inr j, t)"
  shows "jb_id j = new_id \<and> os_jobs t = os_jobs s @ [j]"
proof -
  let ?r = "create_action_request env new_action_id (approval_request env new_id a s) now
    (record_event ''job.created'' (Some new_id) (Some (ja_project_id a)) now
      (s\<lparr>os_jobs := os_jobs s @ [new_job_row env new_id a now s]\<rparr>))"
  have "os_jobs (snd ?r) = os_jobs s @ [new_job_row env new_id a now s]" by (simp add: create_action_request_jobs)
  moreover obtain r u where "?r = (r, u)" by (rule prod.exhaust)
  ultimately have "os_jobs t = os_jobs s @ [new_job_row env new_id a now s] \<and> j = new_job_row env new_id a now s"
    using assms by (auto simp: create_job_def Let_def split: if_splits sum.splits)
  then show ?thesis by (simp add: new_job_row_def)
qed

lemma inv_enqueue:
  assumes "ops_inv s"
  shows "ops_inv (snd (enqueue env new_id new_action_id operation workload project cwd code diagnostic now s))"
  unfolding enqueue_def
proof (rule inv_then_read [OF assms], rule inv_call [OF inv_create_job [OF assms]], goal_cases)
  case (2 j t)
  then show ?case using created_job_stored [OF 2(1)]
    by (auto simp: inv_simps intro!: inv_add_execution)
qed simp

lemma inv_require_fence:
  assumes "ops_inv s" "fence_ok i owner token now s \<Longrightarrow> ops_inv (snd (f () s))"
  shows "ops_inv (snd (and_then (require_fence i owner token now) f s))"
  using assms by (simp add: and_then_def require_fence_def)

lemma fence_ok_job: "fence_ok i owner token now s \<Longrightarrow> i \<in> jb_id ` set (os_jobs s)"
  by (auto simp: fence_ok_def)

lemma inv_attach_claimed_job:
  assumes "ops_inv s"
  shows "ops_inv (snd (attach_claimed_job j workload cwd owner token now s))"
  unfolding attach_claimed_job_def
proof (rule inv_then_read [OF assms], rule inv_require_fence [OF assms], goal_cases)
  case 1
  from fence_ok_job [OF 1] show ?case using assms
    unfolding Let_def ensure_execution_def by (auto intro!: inv_upd_execution inv_add_execution)
qed

lemma inv_execution_start:
  assumes "ops_inv s"
  shows "ops_inv (snd (execution_start i owner token now s))"
  unfolding execution_start_def
proof (rule inv_immediate [OF assms], rule inv_require_fence [OF assms], rule sum_branches, goal_cases)
  case (2 v)
  show ?case using assms
    by (auto simp: inv_simps split: option.split list.split intro!: inv_upd_execution)
qed (use assms in simp)

lemma inv_execution_finish:
  assumes "ops_inv s"
  shows "ops_inv (snd (execution_finish env i owner token status result reason code now s))"
proof -
  have "ops_inv (snd (case execution_get i s of
        Inl e \<Rightarrow> (Inl e, s)
      | Inr v \<Rightarrow>
          if ev_status v \<in> set terminal_statuses then (Inr (), s)
          else let (st, rs) = (case cancellation_reason i s of
                    Some (c # cs) \<Rightarrow> (''cancelled'', c # cs) | _ \<Rightarrow> (status, reason))
               in (Inr (), execution_event i (''execution.'' @ st) now
                    (upd_execution (\<lambda>x. ex_id x = i)
                       (\<lambda>x. x\<lparr>ex_status := st, ex_finished_at := Some now, ex_result := Some (je_stored env result),
                              ex_reason := je_redact env rs,
                              ex_result_status_code :=
                                (case code of None \<Rightarrow> ex_result_status_code x | Some n \<Rightarrow> Some n)\<rparr>) s))))"
    using assms by (auto simp: Let_def inv_simps split: sum.split prod.split intro!: inv_upd_execution)
  then show ?thesis unfolding execution_finish_def
    using assms by (auto intro!: inv_then_read inv_require_fence)
qed

lemma inv_request_cancel:
  assumes "ops_inv s"
  shows "ops_inv (snd (request_cancel env i reason now s))"
  unfolding request_cancel_def
proof (rule inv_then_read [OF assms], rule sum_branches, goal_cases)
  case (2 v)
  have u: "ops_inv (upd_execution (\<lambda>x. ex_id x = i)
      (\<lambda>x. x\<lparr>ex_status := st, ex_cancel_requested_at := Some now, ex_reason := rs, ex_finished_at := f\<rparr>) s)" for st rs f
    using assms by (intro inv_upd_execution) auto
  show ?case
    using assms u by (auto simp: Let_def run_pure_def inv_simps split: sum.split intro!: inv_call inv_cancel_job)
qed (use assms in simp)

lemma inv_validate_and_consume_grant: "ops_inv s \<Longrightarrow> ops_inv (snd (validate_and_consume_grant env i u now s))"
  unfolding validate_and_consume_grant_def Let_def
  by (auto split: option.split intro!: inv_upd_grant)

lemma inv_revoke_grant: "ops_inv s \<Longrightarrow> ops_inv (snd (revoke_grant i reason actor now s))"
  unfolding revoke_grant_def Let_def by (auto split: sum.split intro!: inv_upd_grant)

end
