(* ===== verification/Jobs_Frames.thy ===== *)
theory Jobs_Frames
  imports Jobs_Invariants
begin

text \<open>
  What the operations may do to grants and executions, shown once for every relation of a kind. The
  locale \<open>ops_frame\<close> collects the laws of a reflexive and transitive relation between stores that looks
  at grants and executions only, allows new rows, and allows an execution to be changed along
  \<open>exec_forward\<close>; its lemmas say that each operation but a retry, a consumption and a revocation
  relates the store before to the store after. It is interpreted on the life of grants
  (\<open>grants_kept\<close>) and on the progress of executions (\<open>executions_forward\<close>).
\<close>

definition exec_forward :: "execution_row \<Rightarrow> execution_row \<Rightarrow> bool" where
  "exec_forward x y =
     (ex_id y = ex_id x \<and> (ex_status x \<in> set terminal_statuses \<longrightarrow> y = x) \<and>
      (ex_status x = ''queued'' \<or> ex_status y \<noteq> ''queued''))"

locale ops_frame =
  fixes R :: "ops_store \<Rightarrow> ops_store \<Rightarrow> bool"
  assumes same: "os_grants t = os_grants s \<Longrightarrow> os_executions t = os_executions s \<Longrightarrow> R s t"
    and trans: "R s t \<Longrightarrow> R t u \<Longrightarrow> R s u"
    and grant_added: "os_grants t = os_grants s @ [g] \<Longrightarrow> os_executions t = os_executions s \<Longrightarrow> R s t"
    and execution_added: "os_grants t = os_grants s \<Longrightarrow> os_executions t = os_executions s @ [x] \<Longrightarrow> R s t"
    and execution_changed: "(\<And>x. x \<in> set (os_executions s) \<Longrightarrow> P x \<Longrightarrow> exec_forward x (f x)) \<Longrightarrow> R s (upd_execution P f s)"
begin

lemma refl: "R s s"
  by (rule same) simp_all

lemma event: "R s t \<Longrightarrow> R s (record_event ty i p now t)"
  by (rule trans, assumption) (rule same, simp_all)

lemma audit: "R s t \<Longrightarrow> R s (record_audit ac by' i p now t)"
  by (rule trans, assumption) (rule same, simp_all)

lemma exec_event: "R s t \<Longrightarrow> R s (execution_event i ty now t)"
  unfolding execution_event_def by (rule event)

lemma jobs: "R s t \<Longrightarrow> R s (upd_job P f t)"
  by (rule trans, assumption) (rule same, simp_all)

lemma runs: "R s t \<Longrightarrow> R s (upd_run P f t)"
  by (rule trans, assumption) (rule same, simp_all)

lemma actions: "R s t \<Longrightarrow> R s (upd_action P f t)"
  by (rule trans, assumption) (rule same, simp_all)

lemma released: "R s t \<Longrightarrow> R s (release_job_as st i now t)"
  unfolding release_job_as_def by (rule jobs)

lemma queued: "R s t \<Longrightarrow> R s (queue_job i now t)"
  unfolding queue_job_def by (rule jobs)

lemma decided: "R s t \<Longrightarrow> R s (decide_action i d r by' now t)"
  unfolding decide_action_def by (rule actions)

lemma closed: "R s t \<Longrightarrow> R s (close_runs i st sm now t)"
  unfolding close_runs_def by (rule runs)

lemma others:
  "R s t \<Longrightarrow> R s (t\<lparr>os_controls := c\<rparr>)" "R s t \<Longrightarrow> R s (t\<lparr>os_processes := ps\<rparr>)"
  "R s t \<Longrightarrow> R s (t\<lparr>os_agent_runs := rs\<rparr>)" "R s t \<Longrightarrow> R s (t\<lparr>os_evidence := es\<rparr>)"
  "R s t \<Longrightarrow> R s (t\<lparr>os_jobs := js\<rparr>)" "R s t \<Longrightarrow> R s (t\<lparr>os_actions := acts\<rparr>)"
  "R s t \<Longrightarrow> R s (t\<lparr>os_runs := rns, os_attention := att\<rparr>)" "R s t \<Longrightarrow> R s (t\<lparr>os_leadership := ld\<rparr>)"
  by (rule trans, assumption, rule same, simp_all)+

lemmas frame_intros = refl event audit exec_event jobs runs actions released queued decided closed others

lemma immediate: "R s (snd (m s)) \<Longrightarrow> R s (snd (immediate_transaction m s))"
  by (auto simp: immediate_transaction_def refl split: prod.split sum.split)

lemma call:
  assumes "R s (snd x)"
    and "\<And>e t. x = (Inl e, t) \<Longrightarrow> R s t \<Longrightarrow> R s (snd (f e t))"
    and "\<And>a t. x = (Inr a, t) \<Longrightarrow> R s t \<Longrightarrow> R s (snd (g a t))"
  shows "R s (snd (case x of (r, t) \<Rightarrow> (case r of Inl e \<Rightarrow> f e t | Inr a \<Rightarrow> g a t)))"
  using assms by (cases x; cases "fst x") auto

lemma then_read:
  "R s (snd (m s)) \<Longrightarrow>
   R s (snd (case immediate_transaction m s of (r, t) \<Rightarrow> (case r of Inl e \<Rightarrow> (Inl e, t) | Inr _ \<Rightarrow> (f t, t))))"
  by (rule call [OF immediate]) simp_all

lemma create_action_request: "R s t \<Longrightarrow> R s (snd (create_action_request env n a now t))"
  unfolding create_action_request_def Let_def
  by (auto split: sum.split option.split prod.split intro!: frame_intros)

lemma create_job: "R s (snd (create_job env n m a now s))"
  unfolding create_job_def Let_def
  by (auto split: if_split intro!: frame_intros call create_action_request)

lemma approve_job: "R s (snd (approve_job i actor now s))"
  unfolding approve_job_def Let_def by (auto split: sum.split intro!: frame_intros)

lemma update_job_status: "R s t \<Longrightarrow> R s (snd (update_job_status env i st md now t))"
  unfolding update_job_status_def Let_def by (auto split: sum.split intro!: frame_intros)

lemma decide_developer_patch: "R s (snd (decide_developer_patch env i a r by' acc now s))"
  unfolding decide_developer_patch_def write_patch_decision_def Let_def
  by (auto split: sum.split intro!: immediate frame_intros call update_job_status)

lemma grant_approved_action: "R s t \<Longrightarrow> R s (snd (grant_approved_action env n i a c by' now j t))"
  unfolding grant_approved_action_def Let_def
proof (rule call, goal_cases)
  case 1
  have "R u (snd (create_grant_from_action_request env n b c by' now u))" for u b
    unfolding create_grant_from_action_request_def Let_def by (auto intro: refl grant_added)
  then show ?case using 1 trans
    by (auto simp: and_then_def run_pure_def split: sum.split intro!: frame_intros) (meson audit event)
qed (auto intro!: frame_intros)

lemma approve_action: "R s (snd (approve_action env n i a r by' now s))"
  unfolding approve_action_def Let_def
  by (auto split: sum.split intro!: frame_intros decide_developer_patch grant_approved_action)

lemma deny_action: "R s (snd (deny_action env i a r by' now s))"
  unfolding deny_action_def Let_def
  by (auto split: sum.split intro!: frame_intros decide_developer_patch)

lemma request_execution_cancel: "R s t \<Longrightarrow> R s (snd (request_execution_cancel env i r now t))"
  unfolding request_execution_cancel_def Let_def by (auto intro!: frame_intros)

lemma cancel_job: "R s t \<Longrightarrow> R s (snd (cancel_job env i r by' now t))"
  unfolding cancel_job_def Let_def
  by (auto split: sum.split intro!: call request_execution_cancel frame_intros)

lemma claim_next_job: "R s (snd (claim_next_job n w ms tok i now s))"
  unfolding claim_next_job_cases claimed_store_def Let_def
  by (auto split: option.split sum.split intro!: frame_intros)

lemma fail_orphan_child: "R s t \<Longrightarrow> R s (fail_orphan_child env i now t)"
  unfolding fail_orphan_child_def Let_def by (intro frame_intros update_job_status)

lemma folded: "(\<And>x t. R s t \<Longrightarrow> R s (f x t)) \<Longrightarrow> R s t \<Longrightarrow> R s (fold f xs t)"
  by (induction xs arbitrary: t) auto

lemma fail_orphaned_child_jobs: "R s t \<Longrightarrow> R s (snd (fail_orphaned_child_jobs env parent now t))"
  unfolding fail_orphaned_child_jobs_def Let_def snd_conv by (rule folded [OF fail_orphan_child])

lemma fail_legacy_orphan_child_jobs: "R s (snd (fail_legacy_orphan_child_jobs env ids now s))"
  unfolding fail_legacy_orphan_child_jobs_def Let_def
  by (auto intro!: refl folded [OF fail_orphan_child])

lemma complete_job_run: "R s (snd (complete_job_run env i run st sm md w tok now s))"
proof -
  have "R s (snd (complete_in_transaction env i run st sm md now s))"
    unfolding complete_in_transaction_def closed_run_store_def Let_def
    by (auto split: sum.split intro!: frame_intros fail_orphaned_child_jobs)
  moreover have "R s (snd (immediate_transaction m s))" if "R s (snd (m s))"
    for m :: "(ops_store, job_error, job) op" using that by (rule immediate)
  ultimately show ?thesis unfolding complete_job_run_def Let_def
    by (auto simp: refl split: sum.split option.split)
qed

lemma heartbeat_job_lease: "R s (snd (heartbeat_job_lease i w tok ms now s))"
  unfolding heartbeat_job_lease_def Let_def by (auto split: sum.split intro!: frame_intros)

text \<open>Executions have unique identifiers, so a change by identifier changes the row that was read.\<close>

lemma execution_row_of:
  assumes "ops_inv s" "select_one (\<lambda>x. ex_id x = i) (os_executions s) = Some x" "y \<in> set (os_executions s)" "ex_id y = i"
  shows "y = x"
  using assms select_one_SomeD [OF assms(2)] by (auto simp: ops_inv_defs dest: distinct_key_unique)

lemma live_execution_changed:
  assumes "ops_inv s" "execution_get i s = Inr v" "ev_status v \<notin> set terminal_statuses"
    and "\<And>x. ex_id (f x) = ex_id x" "\<And>x. ex_status (f x) \<noteq> ''queued''"
  shows "R s (upd_execution (\<lambda>x. ex_id x = i) f s)"
proof (rule execution_changed)
  fix y assume y: "y \<in> set (os_executions s)" "ex_id y = i"
  from assms(2) obtain x where x: "select_one (\<lambda>x. ex_id x = i) (os_executions s) = Some x"
    by (auto simp: execution_get_def split: option.splits)
  have "y = x" using execution_row_of [OF assms(1) x y] .
  moreover have "ex_status x \<notin> set terminal_statuses"
    using assms(2,3) x by (auto simp: execution_get_def Let_def terminal_statuses_def split: option.splits if_splits)
  ultimately show "exec_forward y (f y)" using assms(4,5) by (simp add: exec_forward_def)
qed

lemma recover_job:
  assumes "ops_inv s"
  shows "R s (recover_job now row s)"
proof -
  have "R s (upd_execution (\<lambda>x. ex_id x = jb_id row)
      (\<lambda>x. x\<lparr>ex_status := ''interrupted'', ex_finished_at := Some now, ex_reason := r\<rparr>) s)"
    if x: "select_one (\<lambda>x. ex_id x = jb_id row) (os_executions s) = Some x"
      "ex_status x \<notin> set terminal_execution_statuses" for r x
  proof (rule execution_changed)
    fix y assume y: "y \<in> set (os_executions s)" "ex_id y = jb_id row"
    have "y = x" by (rule execution_row_of [OF assms x(1) y])
    then show "exec_forward y (y\<lparr>ex_status := ''interrupted'', ex_finished_at := Some now, ex_reason := r\<rparr>)"
      using x(2) by (auto simp: exec_forward_def terminal_execution_statuses_def terminal_statuses_def)
  qed
  then show ?thesis unfolding recover_job_def Let_def
    by (auto split: option.split intro!: frame_intros)
qed

lemma requeue_expired_jobs:
  assumes "ops_inv s"
  shows "R s (snd (requeue_expired_jobs env now s))"
proof -
  have "R s (fold (recover_job now) rows t)" if "R s t" "ops_inv t" for rows t
    using that
  proof (induction rows arbitrary: t)
    case (Cons row rows)
    have "R s (recover_job now row t)" using trans [OF Cons.prems(1) recover_job [OF Cons.prems(2)]] .
    then show ?case using Cons inv_recover_job by simp
  qed simp
  then show ?thesis using assms unfolding requeue_expired_jobs_def Let_def snd_conv
    by (intro fail_orphaned_child_jobs) (simp add: refl)
qed

lemma enqueue: "R s (snd (enqueue env n m op wl pr cwd code dg now s))"
  unfolding enqueue_def
proof (rule then_read, rule call [OF create_job], goal_cases)
  case (2 j t)
  have "R t (t\<lparr>os_executions := os_executions t @ [x]\<rparr>)" for x by (rule execution_added) simp_all
  then show ?case using 2(2) trans by (auto intro!: exec_event)
qed simp

lemma fenced: "(\<And>u. R s (snd (f u s))) \<Longrightarrow> R s (snd (and_then (require_fence i w tok now) f s))"
  by (simp add: and_then_def require_fence_def refl)

lemma attach_claimed_job: "R s (snd (attach_claimed_job j wl cwd w tok now s))"
proof -
  have "R t (upd_execution (waiting_legacy j t) (\<lambda>x. x\<lparr>ex_workload_class := wl\<rparr>) t)" for t
    by (rule execution_changed) (auto simp: exec_forward_def terminal_statuses_def waiting_legacy_def)
  moreover have "R s (ensure_execution j wl cwd now s)"
    unfolding ensure_execution_def by (auto intro: refl execution_added)
  ultimately show ?thesis unfolding attach_claimed_job_def
    by (intro then_read fenced) (auto simp: Let_def intro: trans)
qed

lemma execution_start:
  assumes "ops_inv s"
  shows "R s (snd (execution_start i w tok now s))"
  unfolding execution_start_def
proof (rule immediate, rule fenced, rule sum_branches, goal_cases)
  case (2 u v)
  then show ?case
    by (auto simp: refl split: option.split list.split intro!: exec_event live_execution_changed [OF assms 2])
qed (simp add: refl)

lemma execution_finish:
  assumes "ops_inv s"
  shows "R s (snd (execution_finish env i w tok st res rs code now s))"
proof (cases "st \<in> set terminal_statuses")
  case True
  then have q: "st \<noteq> ''queued''" by (auto simp: terminal_statuses_def)
  show ?thesis unfolding execution_finish_def if_not_P [OF not_not [THEN iffD2, OF True]]
  proof (rule then_read, rule fenced, rule sum_branches, goal_cases)
    case (2 u v)
    then show ?case using q
      by (auto simp: refl Let_def split: option.split list.split intro!: exec_event live_execution_changed [OF assms 2])
  qed (simp add: refl)
qed (simp add: execution_finish_def refl)

lemma request_cancel:
  assumes "ops_inv s"
  shows "R s (snd (request_cancel env i rs now s))"
  unfolding request_cancel_def
proof (rule then_read, rule sum_branches, goal_cases)
  case (2 v)
  let ?u = "\<lambda>st. upd_execution (\<lambda>x. ex_id x = i)
    (\<lambda>x. x\<lparr>ex_status := st, ex_cancel_requested_at := Some now, ex_reason := je_redact env rs,
           ex_finished_at := (if st = ''cancelled'' then Some now else None)\<rparr>) s"
  have u: "R s (?u ''cancelled'')" "R s (?u ''cancel_requested'')" if "ev_status v \<notin> set terminal_statuses"
    using that by (auto intro!: live_execution_changed [OF assms 2])
  then show ?case
    by (auto simp: Let_def run_pure_def refl split: sum.split intro!: call cancel_job exec_event)
qed (simp add: refl)

end

section \<open>Grants\<close>

definition grants_kept :: "ops_store \<Rightarrow> ops_store \<Rightarrow> bool" where
  "grants_kept s t =
     (\<forall>i g. found_grant i s = Some g \<longrightarrow> (\<exists>h. found_grant i t = Some h \<and> (pg_status g \<noteq> ''active'' \<longrightarrow> pg_status h = pg_status g)))"

lemma grants_keptD:
  "grants_kept s t \<Longrightarrow> found_grant i s = Some g \<Longrightarrow>
   \<exists>h. found_grant i t = Some h \<and> (pg_status g \<noteq> ''active'' \<longrightarrow> pg_status h = pg_status g)"
  by (simp add: grants_kept_def)

lemma grants_kept_trans: "grants_kept s t \<Longrightarrow> grants_kept t u \<Longrightarrow> grants_kept s u"
  unfolding grants_kept_def [of s u] by (fastforce dest: grants_keptD)

interpretation grants: ops_frame grants_kept
proof unfold_locales
  show "grants_kept s u" if "grants_kept s t" "grants_kept t u" for s t u
    using that by (rule grants_kept_trans)
qed (auto simp: grants_kept_def found_grant_def select_one_append split: option.split)

section \<open>Executions\<close>

definition executions_forward :: "ops_store \<Rightarrow> ops_store \<Rightarrow> bool" where
  "executions_forward s t = (\<forall>x \<in> set (os_executions s). \<exists>y \<in> set (os_executions t). exec_forward x y)"

lemma exec_forward_refl [simp]: "exec_forward x x"
  by (simp add: exec_forward_def)

lemma exec_forward_trans: "exec_forward x y \<Longrightarrow> exec_forward y z \<Longrightarrow> exec_forward x z"
  by (auto simp: exec_forward_def)

lemma executions_forward_super:
  assumes "set (os_executions s) \<subseteq> set (os_executions t)"
  shows "executions_forward s t"
  unfolding executions_forward_def
proof
  fix x assume "x \<in> set (os_executions s)"
  then have "x \<in> set (os_executions t)" using assms by blast
  then show "\<exists>y \<in> set (os_executions t). exec_forward x y" by (rule bexI [rotated]) simp
qed

interpretation executions: ops_frame executions_forward
proof unfold_locales
  show "executions_forward s u" if "executions_forward s t" "executions_forward t u" for s t u
    using that exec_forward_trans unfolding executions_forward_def by meson
  show "executions_forward s (upd_execution P f s)"
    if "\<And>x. x \<in> set (os_executions s) \<Longrightarrow> P x \<Longrightarrow> exec_forward x (f x)" for s P f
    unfolding executions_forward_def
  proof
    fix x assume x: "x \<in> set (os_executions s)"
    then have "(if P x then f x else x) \<in> set (os_executions (upd_execution P f s))" by (auto simp: in_upd_where_iff)
    moreover have "exec_forward x (if P x then f x else x)" using that [OF x] by simp
    ultimately show "\<exists>y \<in> set (os_executions (upd_execution P f s)). exec_forward x y" by blast
  qed
qed (auto intro!: executions_forward_super)

end
