(* ===== verification/Jobs_Properties.thy ===== *)
theory Jobs_Properties
  imports Jobs_Frames
begin

text \<open>
  Properties of the job queue, its approvals and grants, and of the executions, over every sequence of
  operations. \<open>forward_step\<close> is one operation other than a retry, or a change of leadership;
  \<open>ops_step\<close> adds the retry, which is the one operation that opens a closed execution again.
\<close>

inductive forward_step :: "job_env \<Rightarrow> ops_store \<Rightarrow> ops_store \<Rightarrow> bool" for env where
  f_create_job: "forward_step env s (snd (create_job env n m a now s))"
| f_create_action: "forward_step env s (snd (create_action_request env n b now s))"
| f_approve_job: "forward_step env s (snd (approve_job i actor now s))"
| f_approve_action: "forward_step env s (snd (approve_action env n i k reason actor now s))"
| f_deny_action: "forward_step env s (snd (deny_action env i k reason actor now s))"
| f_cancel_job: "forward_step env s (snd (cancel_job env i reason actor now s))"
| f_update_status: "forward_step env s (snd (update_job_status env i status md now s))"
| f_claim: "forward_step env s (snd (claim_next_job n worker ms tok j now s))"
| f_requeue: "forward_step env s (snd (requeue_expired_jobs env now s))"
| f_orphans: "forward_step env s (snd (fail_orphaned_child_jobs env parent now s))"
| f_legacy: "forward_step env s (snd (fail_legacy_orphan_child_jobs env ids now s))"
| f_complete: "forward_step env s (snd (complete_job_run env i n status summary md' w tok now s))"
| f_heartbeat: "forward_step env s (snd (heartbeat_job_lease i worker k' ms now s))"
| f_enqueue: "forward_step env s (snd (enqueue env n m oper wl pr cwd code dg now s))"
| f_attach: "forward_step env s (snd (attach_claimed_job jb wl cwd worker k' now s))"
| f_start: "forward_step env s (snd (execution_start i worker k' now s))"
| f_finish: "forward_step env s (snd (execution_finish env i worker k' status res reason code' now s))"
| f_request_cancel: "forward_step env s (snd (request_cancel env i reason now s))"
| f_consume: "forward_step env s (snd (validate_and_consume_grant env i u now s))"
| f_revoke: "forward_step env s (snd (revoke_grant i reason actor now s))"
| f_leadership: "lease_step (os_leadership s) ld \<Longrightarrow> forward_step env s (s\<lparr>os_leadership := ld\<rparr>)"

inductive ops_step :: "job_env \<Rightarrow> ops_store \<Rightarrow> ops_store \<Rightarrow> bool" for env where
  o_forward: "forward_step env s t \<Longrightarrow> ops_step env s t"
| o_retry: "ops_step env s (snd (retry_job i actor now s))"

lemmas inv_operations =
  inv_create_job inv_create_action_request inv_approve_job inv_approve_action inv_deny_action inv_cancel_job
  inv_update_job_status inv_claim_next_job inv_requeue_expired_jobs inv_fail_orphaned_child_jobs
  inv_fail_legacy_orphan_child_jobs inv_complete_job_run inv_heartbeat_job_lease inv_enqueue
  inv_attach_claimed_job inv_execution_start inv_execution_finish inv_request_cancel
  inv_validate_and_consume_grant inv_revoke_grant inv_retry_job

lemma inv_leadership: "ops_inv s \<Longrightarrow> ops_inv (s\<lparr>os_leadership := ld\<rparr>)"
  by (simp add: ops_inv_defs)

lemma forward_step_inv: "forward_step env s t \<Longrightarrow> ops_inv s \<Longrightarrow> ops_inv t"
  by (induction rule: forward_step.induct) (simp_all add: inv_operations inv_leadership)

lemma ops_step_inv: "ops_step env s t \<Longrightarrow> ops_inv s \<Longrightarrow> ops_inv t"
  by (induction rule: ops_step.induct) (simp_all add: forward_step_inv inv_operations)

definition empty_ops :: "ops_store \<Rightarrow> bool" where
  "empty_ops s = (os_jobs s = [] \<and> os_runs s = [] \<and> os_actions s = [] \<and> os_grants s = [] \<and> os_executions s = [])"

definition ops_reachable :: "job_env \<Rightarrow> ops_store \<Rightarrow> bool" where
  "ops_reachable env = reach empty_ops (ops_step env)"

interpretation ops: invariant_system empty_ops "ops_step env" ops_inv for env
proof unfold_locales
  show "ops_inv s" if "empty_ops s" for s using that by (simp add: empty_ops_def ops_inv_defs)
qed (rule ops_step_inv)

lemma ops_reachable_inv: "ops_reachable env s \<Longrightarrow> ops_inv s"
  unfolding ops_reachable_def by (rule ops.inv_reach)

text \<open>C12. After any sequence of operations the operational tables are well formed: job identifiers
  are unique, a job has a lease owner exactly when it has a lease expiry and only while it runs or was cancelled
  while running, every run and every execution belongs to a stored job, an execution under the
  identifier of its job, and every permission grant comes from an action request that an
  operator approved, for the same job and project.\<close>

theorem operational_tables_well_formed:
  assumes "ops_reachable env s"
  shows "distinct (map jb_id (os_jobs s)) \<and>
    (\<forall>j \<in> set (os_jobs s). (jb_lease_owner j = None \<longleftrightarrow> jb_lease_expires_at j = None) \<and>
       (jb_lease_owner j \<noteq> None \<longrightarrow> jb_status j = ''running'' \<or> jb_status j = ''cancelled'')) \<and>
    (\<forall>r \<in> set (os_runs s). \<exists>j \<in> set (os_jobs s). jb_id j = jr_job_id r) \<and>
    (\<forall>x \<in> set (os_executions s). ex_job_id x = ex_id x \<and> (\<exists>j \<in> set (os_jobs s). jb_id j = ex_id x)) \<and>
    (\<forall>g \<in> set (os_grants s). \<exists>a \<in> set (os_actions s). ar_id a = pg_action_request_id g \<and>
       ar_status a = ''approved'' \<and> pg_job_id g = Some (ar_job_id a) \<and> pg_project_id g = ar_project_id a)"
proof -
  have inv: "ops_inv s" using assms by (rule ops_reachable_inv)
  have "\<forall>r \<in> set (os_runs s). jr_job_id r \<in> jb_id ` set (os_jobs s)" using inv by (auto simp: ops_inv_defs)
  then have runs: "\<forall>r \<in> set (os_runs s). \<exists>j \<in> set (os_jobs s). jb_id j = jr_job_id r" by (metis imageE)
  have "\<forall>x \<in> set (os_executions s). ex_job_id x = ex_id x \<and> ex_id x \<in> jb_id ` set (os_jobs s)"
    using inv by (simp add: ops_inv_defs)
  then have execs: "\<forall>x \<in> set (os_executions s). ex_job_id x = ex_id x \<and> (\<exists>j \<in> set (os_jobs s). jb_id j = ex_id x)"
    by (metis imageE)
  have leases: "\<forall>j \<in> set (os_jobs s). (jb_lease_owner j = None \<longleftrightarrow> jb_lease_expires_at j = None) \<and>
      (jb_lease_owner j \<noteq> None \<longrightarrow> jb_status j = ''running'' \<or> jb_status j = ''cancelled'')"
    using inv unfolding ops_inv_def lease_wf_def by blast
  have "distinct (map jb_id (os_jobs s))" "\<forall>g \<in> set (os_grants s). grant_backed (os_actions s) g"
    using inv by (simp_all add: ops_inv_defs)
  then show ?thesis using leases runs execs unfolding grant_backed_def by blast
qed

section \<open>Grants\<close>

lemma grants_kept_upd:
  "(\<And>h. pg_id (f h) = pg_id h) \<Longrightarrow>
   grants_kept s (upd_grant (\<lambda>h. pg_id h = i \<and> pg_status h = ''active'') f s)"
  unfolding grants_kept_def found_grant_def upd_grant_def by (simp add: select_one_key_upd)

lemma grants_kept_consume: "grants_kept s (snd (validate_and_consume_grant env i u now s))"
  unfolding validate_and_consume_grant_def Let_def
  by (auto simp: grants.refl grants_kept_upd split: option.split)

lemma grants_kept_revoke: "grants_kept s (snd (revoke_grant i reason actor now s))"
  unfolding revoke_grant_def Let_def by (auto simp: grants.refl grants_kept_upd split: sum.split)

lemmas grants_kept_operations =
  grants.create_job grants.create_action_request [OF grants.refl] grants.approve_job grants.approve_action
  grants.deny_action grants.cancel_job [OF grants.refl] grants.update_job_status [OF grants.refl]
  grants.claim_next_job grants.requeue_expired_jobs grants.fail_orphaned_child_jobs [OF grants.refl]
  grants.fail_legacy_orphan_child_jobs grants.complete_job_run grants.heartbeat_job_lease grants.enqueue
  grants.attach_claimed_job grants.execution_start grants.execution_finish grants.request_cancel
  grants_kept_consume grants_kept_revoke grants.others(8) [OF grants.refl]

lemma grants_kept_forward: "forward_step env s t \<Longrightarrow> ops_inv s \<Longrightarrow> grants_kept s t"
  by (induction rule: forward_step.induct) (simp_all only: grants_kept_operations)

lemma grants_kept_retry: "grants_kept s (snd (retry_job i actor now s))"
proof -
  have "os_grants (snd (retry_job i actor now s)) = os_grants s"
    by (simp add: retry_job_def Let_def release_job_as_def split: sum.split)
  then show ?thesis by (simp add: grants_kept_def found_grant_def)
qed

lemma grants_kept_step: "ops_step env s t \<Longrightarrow> ops_inv s \<Longrightarrow> grants_kept s t"
  by (induction rule: ops_step.induct) (simp_all add: grants_kept_forward grants_kept_retry)

lemma grants_kept_steps: "(ops_step env)\<^sup>*\<^sup>* s t \<Longrightarrow> ops_inv s \<Longrightarrow> grants_kept s t"
proof (induction rule: rtranclp_induct)
  case (step t u)
  have "ops_inv t" using ops.inv_rtranclp [OF step.hyps(1)] step.prems by blast
  then show ?case using step grants_kept_step grants_kept_trans by blast
qed (rule grants.refl)

text \<open>A use that was granted, taken apart.\<close>

lemma consume_valid:
  assumes "validate_and_consume_grant env i u now s = ((True, why, g'), t)"
  obtains g where "found_grant i s = Some g" "pg_status g = ''active''" "now < pg_expires_at g"
    "scope_mismatch env g u = None"
    "found_grant i t = Some (g\<lparr>pg_status := ''consumed'', pg_consumed_at := Some now, pg_consumed_by := Some (gu_agent_run_id u)\<rparr>)"
proof -
  obtain g where g: "found_grant i s = Some g" "pg_status g = ''active''" "now < pg_expires_at g" "scope_mismatch env g u = None"
    and t: "t = upd_grant (\<lambda>h. pg_id h = i \<and> pg_status h = ''active'')
        (\<lambda>h. h\<lparr>pg_status := ''consumed'', pg_consumed_at := Some now, pg_consumed_by := Some (gu_agent_run_id u)\<rparr>) s"
    using assms by (auto simp: validate_and_consume_grant_def Let_def split: option.splits if_splits)
  have "pg_id g = i" using g(1) by (auto simp: found_grant_def dest: select_one_SomeD)
  then have "found_grant i t = Some (g\<lparr>pg_status := ''consumed'', pg_consumed_at := Some now, pg_consumed_by := Some (gu_agent_run_id u)\<rparr>)"
    using g(1,2) unfolding t found_grant_def upd_grant_def by (simp add: select_one_key_upd)
  with g show thesis by (rule that)
qed

text \<open>C14. A permission grant is used at most once: after a use that was granted, no sequence of
  operations makes any further use of the same grant valid, whoever asks and whatever the context.\<close>

theorem grant_used_at_most_once:
  assumes "ops_reachable env s" "validate_and_consume_grant env i u now s = ((True, why, g), t)"
    and "(ops_step env)\<^sup>*\<^sup>* t t'"
  shows "\<not> fst (fst (validate_and_consume_grant env i u' now' t'))"
proof -
  have inv: "ops_inv t"
    using inv_validate_and_consume_grant [OF ops_reachable_inv [OF assms(1)], of env i u now] assms(2) by simp
  obtain h where h: "found_grant i t =
      Some (h\<lparr>pg_status := ''consumed'', pg_consumed_at := Some now, pg_consumed_by := Some (gu_agent_run_id u)\<rparr>)"
    by (rule consume_valid [OF assms(2)])
  from grants_keptD [OF grants_kept_steps [OF assms(3) inv] h]
  obtain k where "found_grant i t' = Some k" "pg_status k = ''consumed''" by auto
  then show ?thesis by (simp add: validate_and_consume_grant_def)
qed

text \<open>C15. A use is granted only within what was approved: the grant is active and has not expired, its project,
  job, agent and tool are those of the use, the command and its words are the same or have the
  recorded binding, the workspace and runtime are the same when the grant names them, and the grant comes from an
  approved action request of the same job and project.\<close>

theorem grant_use_matches_approval:
  assumes "ops_reachable env s" "validate_and_consume_grant env i u now s = ((True, why, g'), t)"
  shows "\<exists>g a. found_grant i s = Some g \<and> pg_status g = ''active'' \<and> now < pg_expires_at g \<and>
    pg_project_id g = gu_project_id u \<and> pg_job_id g = gu_job_id u \<and> pg_agent_id g = opt_str (gu_agent_id u) \<and>
    pg_tool g = gu_tool u \<and>
    (let b = dget (pg_payload g) binding_key in
       if truthy b then je_str env b = je_binding env (PStr (gu_command u)) (map PStr (gu_command_argv u))
       else pg_command g = gu_command u \<and> pg_command_argv g = gu_command_argv u) \<and>
    (truthy (pg_workspace_id g) \<longrightarrow> pg_workspace_id g = opt_str (gu_workspace_id u)) \<and>
    (truthy (pg_runtime_id g) \<longrightarrow> pg_runtime_id g = opt_str (gu_runtime_id u)) \<and>
    a \<in> set (os_actions s) \<and> ar_id a = pg_action_request_id g \<and> ar_status a = ''approved'' \<and>
    gu_job_id u = Some (ar_job_id a) \<and> gu_project_id u = ar_project_id a"
proof -
  obtain g where g: "found_grant i s = Some g" "pg_status g = ''active''" "now < pg_expires_at g" "scope_mismatch env g u = None"
    by (rule consume_valid [OF assms(2)])
  have "g \<in> set (os_grants s)" using g(1) by (auto simp: found_grant_def dest: select_one_SomeD)
  then obtain a where a: "a \<in> set (os_actions s)" "ar_id a = pg_action_request_id g" "ar_status a = ''approved''"
    "pg_job_id g = Some (ar_job_id a)" "pg_project_id g = ar_project_id a"
    using ops_reachable_inv [OF assms(1)] by (auto simp: ops_inv_defs grant_backed_def)
  show ?thesis
    using g a by (intro exI [of _ g] exI [of _ a]) (auto simp: scope_mismatch_def Let_def split: if_splits)
qed

section \<open>Executions\<close>

text \<open>
  The abstract life of an execution: it waits, it is active (running, or asked to stop), it is
  closed. Closing is final.
\<close>

datatype exec_phase = Pending | Active | Closed

definition phase_of :: "execution_row \<Rightarrow> exec_phase" where
  "phase_of x =
     (if ex_status x \<in> set terminal_statuses then Closed else if ex_status x = ''queued'' then Pending else Active)"

inductive phase_step :: "exec_phase \<Rightarrow> exec_phase \<Rightarrow> bool" where
  "phase_step Pending Active"
| "phase_step Active Closed"
| "phase_step Pending Closed"

lemma executions_forward_revoke: "executions_forward s (snd (revoke_grant i reason actor now s))"
  by (intro executions_forward_super)
     (auto simp: revoke_grant_def Let_def upd_grant_def split: sum.split)

lemma executions_forward_consume: "executions_forward s (snd (validate_and_consume_grant env i u now s))"
  by (intro executions_forward_super)
     (auto simp: validate_and_consume_grant_def Let_def upd_grant_def split: option.split)

lemmas executions_forward_operations =
  executions.create_job executions.create_action_request [OF executions.refl] executions.approve_job
  executions.approve_action executions.deny_action executions.cancel_job [OF executions.refl]
  executions.update_job_status [OF executions.refl] executions.claim_next_job executions.requeue_expired_jobs
  executions.fail_orphaned_child_jobs [OF executions.refl] executions.fail_legacy_orphan_child_jobs
  executions.complete_job_run executions.heartbeat_job_lease executions.enqueue
  executions.attach_claimed_job executions.execution_start executions.execution_finish executions.request_cancel
  executions_forward_consume executions_forward_revoke executions.others(8) [OF executions.refl]

lemma executions_forward_step: "forward_step env s t \<Longrightarrow> ops_inv s \<Longrightarrow> executions_forward s t"
  by (induction rule: forward_step.induct) (simp_all only: executions_forward_operations)

lemma executions_forward_steps:
  "(forward_step env)\<^sup>*\<^sup>* s t \<Longrightarrow> ops_inv s \<Longrightarrow> ops_inv t \<and> executions_forward s t"
proof (induction rule: rtranclp_induct)
  case (step t u)
  then show ?case using executions_forward_step forward_step_inv executions.trans by blast
qed (simp add: executions.refl)

lemma exec_forward_phase: "exec_forward x y \<Longrightarrow> phase_step\<^sup>*\<^sup>* (phase_of x) (phase_of y)"
  by (auto simp: exec_forward_def phase_of_def intro: phase_step.intros)

text \<open>C13. The stored executions refine the abstract life of an execution: along any sequence of
  operations without a retry every execution keeps its identifier and its phase moves from pending to active to closed and
  never back, and an execution that is closed is left exactly as it is.\<close>

theorem executions_refine_phases:
  assumes "ops_reachable env s" "(forward_step env)\<^sup>*\<^sup>* s t" "x \<in> set (os_executions s)"
  shows "\<exists>y \<in> set (os_executions t). ex_id y = ex_id x \<and> phase_step\<^sup>*\<^sup>* (phase_of x) (phase_of y) \<and>
    (phase_of x = Closed \<longrightarrow> y = x)"
proof -
  from executions_forward_steps [OF assms(2) ops_reachable_inv [OF assms(1)]] assms(3)
  obtain y where y: "y \<in> set (os_executions t)" "exec_forward x y" unfolding executions_forward_def by blast
  moreover have "phase_of x = Closed \<longrightarrow> y = x"
    using y(2) by (auto simp: exec_forward_def phase_of_def split: if_splits)
  ultimately show ?thesis using exec_forward_phase [OF y(2)] by (intro bexI [of _ y]) (auto simp: exec_forward_def)
qed

text \<open>C21. A cancellation that was recorded wins over the result: when a runner holding the fence finishes an open
  execution whose cancellation was requested with a reason, the execution is closed as cancelled with that reason, whatever
  status the runner reports.\<close>

theorem cancellation_wins_over_result:
  assumes "status \<in> set terminal_statuses" "fence_ok i owner token now s"
    and "execution_get i s = Inr v" "ev_status v \<notin> set terminal_statuses"
    and "cancellation_reason i s = Some why" "why \<noteq> []"
    and "execution_finish env i owner token status result reason code now s = (r, t)"
  shows "\<exists>w. r = Inr w \<and> ev_status w = ''cancelled'' \<and> ev_reason w = je_redact env why \<and>
    ex_finished_at (ev_row w) = Some now"
proof -
  obtain x j where x: "select_one (\<lambda>x. ex_id x = i) (os_executions s) = Some x" "find_job (ex_job_id x) s = Some j"
    using assms(3) by (auto simp: execution_get_def split: option.splits)
  obtain c cs where why: "why = c # cs" using assms(6) by (cases why) auto
  let ?f = "\<lambda>x. x\<lparr>ex_status := ''cancelled'', ex_finished_at := Some now, ex_result := Some (je_stored env result),
     ex_reason := je_redact env why,
     ex_result_status_code := (case code of None \<Rightarrow> ex_result_status_code x | Some n \<Rightarrow> Some n)\<rparr>"
  let ?t = "execution_event i ''execution.cancelled'' now (upd_execution (\<lambda>x. ex_id x = i) ?f s)"
  have "execution_finish env i owner token status result reason code now s = (execution_get i ?t, ?t)"
    using assms(1-5) why by (simp add: execution_finish_def immediate_transaction_def and_then_def require_fence_def)
  moreover have id: "ex_id x = i" using x(1) by (auto dest: select_one_SomeD)
  have "select_one (\<lambda>x. ex_id x = i) (os_executions ?t) = Some (?f x)"
    using x(1) id by (simp add: execution_event_def select_one_key_upd)
  then have "execution_get i ?t = Inr \<lparr>ev_execution_id = i, ev_row = ?f x, ev_status = ''cancelled'',
      ev_reason = je_redact env why, ev_can_cancel = False\<rparr>"
    using x(2) by (simp add: execution_get_def Let_def terminal_statuses_def find_job_def execution_event_def)
  ultimately show ?thesis using assms(7) by auto
qed

section \<open>Fencing\<close>

text \<open>C16. A worker whose leader fence is not active writes nothing: claiming with its token, completing a
  run, renewing the lease of a job, attaching, starting and finishing an execution leave every table
  as it was, and none of them reports success.\<close>

theorem stale_worker_writes_nothing:
  assumes "\<not> worker_fence_is_active worker token now s"
  shows "claim_next_job run_id worker ms (Some token) job_id now s = (Inl StaleWorkerFence, s) \<and>
    (\<exists>e. complete_job_run env i run_id' status summary md (Some worker) (Some token) now s = (Inl e, s)) \<and>
    heartbeat_job_lease i worker token ms now s = (Inr False, s) \<and>
    attach_claimed_job j workload cwd worker token now s = (Inl StaleWorkerFence, s) \<and>
    execution_start i worker token now s = (Inl StaleWorkerFence, s) \<and>
    (\<exists>e. execution_finish env i worker token status' result reason code now s = (Inl e, s))"
proof -
  have "\<not> fence_ok k worker token now s" for k
    using assms by (simp add: fence_ok_def worker_fence_is_active_def)
  then show ?thesis using assms
    by (simp add: claim_next_job_cases complete_job_run_def heartbeat_job_lease_def attach_claimed_job_def
        execution_start_def execution_finish_def and_then_def require_fence_def immediate_transaction_def)
qed

section \<open>Claiming\<close>

lemma select_upd_hit:
  assumes "distinct (map key rows)" "r \<in> set rows" "\<And>r. key (f r) = key r" "P r"
  shows "select_one (\<lambda>q. key q = key r) (upd_where P f rows) = Some (f r)"
  using assms select_one_distinct [OF assms(1,2)] by (simp add: select_one_key_upd)

lemma claim_success:
  assumes "claim_next_job run_id worker ms token job_id now s = (Inr (Some (k, run)), t)" "ops_inv s"
  obtains j expires where "claim_target job_id s = Some j" "shift_instant now ms = Inr expires"
    "k = j\<lparr>jb_status := ''running'', jb_lease_owner := Some worker, jb_lease_expires_at := Some expires, jb_updated_at := now\<rparr>"
    "run_id \<notin> jr_id ` set (os_runs s)" "run = last (os_runs (claimed_store run_id worker token expires now j s))"
    "t = record_event ''job.claimed'' (Some (jb_id k)) (Some (jb_project_id k)) now
           (claimed_store run_id worker token expires now j s)"
proof -
  obtain j expires where j: "claim_target job_id s = Some j" "shift_instant now ms = Inr expires"
    "run_id \<notin> jr_id ` set (os_runs s)"
    "get_job (jb_id j) (claimed_store run_id worker token expires now j s) = Inr k"
    "run = last (os_runs (claimed_store run_id worker token expires now j s))"
    "t = record_event ''job.claimed'' (Some (jb_id k)) (Some (jb_project_id k)) now
           (claimed_store run_id worker token expires now j s)"
    using assms(1) by (auto simp: claim_next_job_cases Let_def split: if_splits option.splits sum.splits)
  let ?f = "\<lambda>k. k\<lparr>jb_status := ''running'', jb_lease_owner := Some worker, jb_lease_expires_at := Some expires, jb_updated_at := now\<rparr>"
  have "select_one (\<lambda>q. jb_id q = jb_id j)
      (upd_where (\<lambda>k. jb_id k = jb_id j \<and> jb_status k = ''queued'') ?f (os_jobs s)) = Some (?f j)"
    using assms(2) claim_target_queued [OF j(1)] by (intro select_upd_hit) (auto simp: ops_inv_defs)
  then have "k = ?f j" using j(4) by (simp add: get_job_def find_job_def claimed_store_def)
  with j show thesis using that by blast
qed

text \<open>C17. A claim is exclusive. When it returns a job, that job was queued, and of least age when no job
  was named; it is now running with a lease of the worker until the agreed instant; exactly one run, of that worker and token, was opened for it;
  every other job is unchanged; and a claim of the same job by whichever worker then finds nothing to claim.\<close>

theorem claim_is_exclusive:
  assumes "ops_reachable env s"
    and "claim_next_job run_id worker ms token job_id now s = (Inr (Some (k, run)), t)"
  shows "\<exists>j \<in> set (os_jobs s). jb_id j = jb_id k \<and> jb_status j = ''queued'' \<and>
      (job_id = None \<longrightarrow> (\<forall>q \<in> set (os_jobs s). jb_status q = ''queued'' \<longrightarrow> jb_created_at j \<le> jb_created_at q)) \<and>
      k = j\<lparr>jb_status := ''running'', jb_lease_owner := Some worker, jb_lease_expires_at := Some (now + ms), jb_updated_at := now\<rparr> \<and>
      k \<in> set (os_jobs t) \<and>
      (\<forall>q \<in> set (os_jobs s). jb_id q \<noteq> jb_id k \<longrightarrow> q \<in> set (os_jobs t)) \<and>
      os_runs t = os_runs s @ [run] \<and> jr_job_id run = jb_id k \<and> jr_worker_owner_id run = Some worker \<and>
      jr_leader_fencing_token run = token \<and> jr_status run = ''running'' \<and>
      claim_next_job run_id' worker' ms' None (Some (jb_id k)) now' t = (Inr None, t)"
proof -
  have inv: "ops_inv s" using assms(1) by (rule ops_reachable_inv)
  obtain j expires where j: "claim_target job_id s = Some j" "shift_instant now ms = Inr expires"
    "k = j\<lparr>jb_status := ''running'', jb_lease_owner := Some worker, jb_lease_expires_at := Some expires, jb_updated_at := now\<rparr>"
    "run = last (os_runs (claimed_store run_id worker token expires now j s))"
    "t = record_event ''job.claimed'' (Some (jb_id k)) (Some (jb_project_id k)) now
           (claimed_store run_id worker token expires now j s)"
    using claim_success [OF assms(2) inv] by metis
  let ?f = "\<lambda>q. q\<lparr>jb_status := ''running'', jb_lease_owner := Some worker, jb_lease_expires_at := Some expires, jb_updated_at := now\<rparr>"
  have mem: "j \<in> set (os_jobs s)" "jb_status j = ''queued''" using claim_target_queued [OF j(1)] by auto
  have jobs: "os_jobs t = upd_where (\<lambda>q. jb_id q = jb_id j \<and> jb_status q = ''queued'') ?f (os_jobs s)"
    by (simp add: j(5) claimed_store_def)
  have exp: "expires = now + ms" using j(2) by (auto simp: shift_instant_def split: if_splits)
  have oldest: "jb_created_at j \<le> jb_created_at q" if "job_id = None" "q \<in> set (os_jobs s)" "jb_status q = ''queued''" for q
    using j(1) that by (auto simp: claim_target_def queued_jobs_def dest!: first_by_SomeD)
  have k: "k \<in> set (os_jobs t)" unfolding jobs in_upd_where_iff using mem j(3) by (intro bexI [of _ j]) auto
  have rest: "q \<in> set (os_jobs t)" if "q \<in> set (os_jobs s)" "jb_id q \<noteq> jb_id k" for q
    unfolding jobs in_upd_where_iff using that j(3) by (intro bexI [of _ q]) auto
  have "jb_status q \<noteq> ''queued''" if q: "q \<in> set (os_jobs t)" "jb_id q = jb_id k" for q
  proof -
    obtain r where "q = (if jb_id r = jb_id j \<and> jb_status r = ''queued'' then ?f r else r)"
      using q(1) unfolding jobs in_upd_where_iff by blast
    then show ?thesis using q(2) j(3) by (cases "jb_id r = jb_id j \<and> jb_status r = ''queued''") auto
  qed
  then have "claim_target (Some (jb_id k)) t = None"
    by (auto simp: claim_target_def queued_jobs_def select_one_def find_None_iff)
  then have again: "claim_next_job run_id' worker' ms' None (Some (jb_id k)) now' t = (Inr None, t)"
    by (simp add: claim_next_job_cases)
  have runs: "os_runs t = os_runs s @ [run]" "jr_job_id run = jb_id k" "jr_worker_owner_id run = Some worker"
    "jr_leader_fencing_token run = token" "jr_status run = ''running''"
    by (simp_all add: j(3-5) claimed_store_def)
  show ?thesis using mem j(3) exp oldest k rest runs again by (intro bexI [of _ j]) auto
qed

section \<open>Completion and recovery\<close>

lemma orphan_pass_jobs:
  assumes "ops_inv s" "j \<in> set (os_jobs s)" "\<not> is_orphan parent s j"
  shows "j \<in> set (os_jobs (snd (fail_orphaned_child_jobs env parent now s)))"
proof -
  let ?ids = "map jb_id (sort_key jb_created_at (filter (is_orphan parent s) (os_jobs s)))"
  have notin: "jb_id j \<notin> set ?ids"
  proof
    assume "jb_id j \<in> set ?ids"
    then obtain q where "q \<in> set (os_jobs s)" "is_orphan parent s q" "jb_id q = jb_id j" by auto
    then show False using job_unique [OF assms(1) _ assms(2)] assms(3) by metis
  qed
  have one: "j \<in> set (os_jobs (fail_orphan_child env i now u))" if "j \<in> set (os_jobs u)" "jb_id j \<noteq> i" for i u
  proof -
    have "j \<in> set (os_jobs (snd (update_job_status env i st md now u)))" for st md
      using that by (auto simp: update_job_status_def Let_def in_upd_where_iff split: sum.split option.split)
    then show ?thesis by (simp add: fail_orphan_child_def Let_def close_runs_def)
  qed
  have "j \<in> set (os_jobs (fold (\<lambda>i. fail_orphan_child env i now) ids u))"
    if "j \<in> set (os_jobs u)" "jb_id j \<notin> set ids" for ids u
    using that by (induction ids arbitrary: u) (simp_all add: one)
  then show ?thesis using assms(2) notin unfolding fail_orphaned_child_jobs_def Let_def snd_conv by blast
qed

lemma orphan_pass_runs:
  assumes "r \<in> set (os_runs s)" "jr_status r \<noteq> ''running''"
  shows "r \<in> set (os_runs (snd (fail_orphaned_child_jobs env parent now s)))"
proof -
  have one: "r \<in> set (os_runs (fail_orphan_child env i now u))" if "r \<in> set (os_runs u)" for i u
  proof -
    have "os_runs (snd (update_job_status env i st md now u)) = os_runs u" for st md
      by (simp add: update_job_status_def Let_def split: sum.split)
    then show ?thesis using that assms(2)
      by (auto simp: fail_orphan_child_def Let_def close_runs_def in_upd_where_iff)
  qed
  have "r \<in> set (os_runs (fold (\<lambda>i. fail_orphan_child env i now) ids u))" if "r \<in> set (os_runs u)" for ids u
    using that by (induction ids arbitrary: u) (simp_all add: one)
  then show ?thesis using assms(1) unfolding fail_orphaned_child_jobs_def Let_def snd_conv by blast
qed

lemma complete_job_run_Inr:
  "complete_job_run env i run_id status summary md worker token now s = (Inr k, t) \<Longrightarrow>
   complete_in_transaction env i run_id status summary md now s = (Inr k, t)"
  by (auto simp: complete_job_run_def Let_def immediate_transaction_commit split: if_splits sum.splits option.splits)

lemma complete_in_transaction_Inr:
  assumes "complete_in_transaction env i run_id status summary md now s = (Inr k, t)" "get_job i s = Inr j"
  shows "get_job i (closed_run_store env i run_id (final_job_status j status) (final_run_status j status) summary md now s) = Inr k"
    and "t = snd (fail_orphaned_child_jobs env (Some i) now
       (record_event (''job.'' @ final_job_status j status) (Some i) (Some (jb_project_id k)) now
         (closed_run_store env i run_id (final_job_status j status) (final_run_status j status) summary md now s)))"
  using assms by (simp_all add: complete_in_transaction_def Let_def split: sum.splits)

lemma closed_run_store_run:
  assumes "r \<in> set (os_runs s)" "jr_id r = run_id"
  shows "\<exists>r' \<in> set (os_runs (closed_run_store env i run_id js rs summary md now s)). jr_id r' = run_id \<and> jr_status r' = rs"
  unfolding closed_run_store_def release_job_as_def upd_job_frame upd_tables
  by (rule bexI [OF _ upd_where_hitI [where r = r]]) (use assms in simp_all)

lemma released_row:
  assumes "k \<in> set (os_jobs (closed_run_store env i run_id js rs summary md now s))" "jb_id k = i"
  shows "jb_status k = js \<and> jb_lease_owner k = None"
proof -
  let ?f = "\<lambda>j. j\<lparr>jb_status := js, jb_lease_owner := None, jb_lease_expires_at := None, jb_updated_at := now\<rparr>"
  have "k \<in> set (upd_where (\<lambda>j. jb_id j = i) ?f (os_jobs s))"
    using assms(1) by (simp add: closed_run_store_def release_job_as_def)
  then show ?thesis by (rule upd_whereE) (use assms(2) in simp_all)
qed

text \<open>A cancelled job stays cancelled: closing its run, whatever status the late worker reports,
  leaves the job cancelled, without a lease, and its run cancelled.\<close>

theorem cancelled_job_stays_cancelled:
  assumes "ops_reachable env s" "get_job i s = Inr j" "jb_status j = ''cancelled''"
    and "complete_job_run env i run_id status summary md worker token now s = (Inr k, t)"
  shows "(\<exists>q \<in> set (os_jobs t). jb_id q = i \<and> jb_status q = ''cancelled'' \<and> jb_lease_owner q = None) \<and>
    (\<forall>r \<in> set (os_runs s). jr_id r = run_id \<longrightarrow>
       (\<exists>r' \<in> set (os_runs t). jr_id r' = run_id \<and> jr_status r' = ''cancelled''))"
proof -
  let ?u = "closed_run_store env i run_id ''cancelled'' ''cancelled'' summary md now s"
  let ?v = "record_event ''job.cancelled'' (Some i) (Some (jb_project_id k)) now ?u"
  have inv: "ops_inv ?v" using inv_closed_run_store [OF ops_reachable_inv [OF assms(1)]] by (simp add: inv_simps)
  have st: "final_job_status j status = ''cancelled''" "final_run_status j status = ''cancelled''"
    using assms(3) by (simp_all add: final_job_status_def final_run_status_def)
  have k: "get_job i ?u = Inr k" and t: "t = snd (fail_orphaned_child_jobs env (Some i) now ?v)"
    using complete_in_transaction_Inr [OF complete_job_run_Inr [OF assms(4)] assms(2)] unfolding st by simp_all
  have q: "k \<in> set (os_jobs ?u)" "jb_id k = i" "jb_status k = ''cancelled''" "jb_lease_owner k = None"
    using get_job_Inr [OF k] released_row by auto
  have "k \<in> set (os_jobs t)" unfolding t by (rule orphan_pass_jobs [OF inv]) (use q in \<open>simp_all add: is_orphan_def\<close>)
  moreover have "\<exists>r' \<in> set (os_runs t). jr_id r' = run_id \<and> jr_status r' = ''cancelled''"
    if r: "r \<in> set (os_runs s)" "jr_id r = run_id" for r
  proof -
    obtain r' where r': "r' \<in> set (os_runs ?v)" "jr_id r' = run_id" "jr_status r' = ''cancelled''"
      using closed_run_store_run [OF r] by (metis record_event_frame(2))
    then have "r' \<in> set (os_runs t)" unfolding t by (intro orphan_pass_runs) simp_all
    with r' show ?thesis by blast
  qed
  ultimately show ?thesis using q by blast
qed

text \<open>A job that was taken from its worker: no lease, and queued or closed.\<close>

definition taken_back :: "job \<Rightarrow> bool" where
  "taken_back j =
     (jb_lease_owner j = None \<and> jb_lease_expires_at j = None \<and>
      jb_status j \<in> {''queued'', ''completed'', ''cancelled'', ''failed''})"

lemma recover_job_jobs:
  "\<exists>st \<in> {''queued'', ''completed'', ''cancelled'', ''failed''}.
     os_jobs (recover_job now row s) = os_jobs (release_job_as st (jb_id row) now s)"
  unfolding recover_job_def Let_def close_runs_def release_job_as_def by (auto split: option.split)

lemma recover_job_processes: "os_processes (recover_job now row s) = os_processes s"
  unfolding recover_job_def Let_def close_runs_def release_job_as_def by (auto split: option.split)

lemma recovered_row:
  assumes "q \<in> set (os_jobs (recover_job now row s))"
  shows "q \<in> set (os_jobs s) \<and> jb_id q \<noteq> jb_id row \<or> jb_id q = jb_id row \<and> taken_back q"
proof -
  obtain st where st: "st \<in> {''queued'', ''completed'', ''cancelled'', ''failed''}"
    "q \<in> set (os_jobs (release_job_as st (jb_id row) now s))" using recover_job_jobs assms by metis
  from st(2) show ?thesis unfolding release_job_as_def upd_tables
    by (rule upd_whereE) (use st(1) in \<open>simp_all add: taken_back_def\<close>)
qed

lemma other_job_kept:
  assumes "j \<in> set (os_jobs s)" "jb_id j \<noteq> jb_id row"
  shows "j \<in> set (os_jobs (recover_job now row s))"
proof -
  obtain st where "os_jobs (recover_job now row s) = os_jobs (release_job_as st (jb_id row) now s)"
    using recover_job_jobs by metis
  then show ?thesis using assms unfolding release_job_as_def upd_tables by (simp add: upd_where_missI)
qed

lemma recover_fold:
  "os_processes (fold (recover_job now) rows s) = os_processes s"
  "q \<in> set (os_jobs (fold (recover_job now) rows s)) \<Longrightarrow>
     q \<in> set (os_jobs s) \<and> jb_id q \<notin> jb_id ` set rows \<or> jb_id q \<in> jb_id ` set rows \<and> taken_back q"
  "j \<in> set (os_jobs s) \<Longrightarrow> jb_id j \<notin> jb_id ` set rows \<Longrightarrow> j \<in> set (os_jobs (fold (recover_job now) rows s))"
proof (induction rows arbitrary: s)
  case (Cons row rows)
  {
    case 1
    show ?case using Cons.IH(1) by (simp add: recover_job_processes)
  next
    case 2
    then show ?case using Cons.IH(2) [of "recover_job now row s"] recovered_row [of q now row s] by auto
  next
    case 3
    then show ?case using Cons.IH(3) [of "recover_job now row s"] other_job_kept [of j s row now] by auto
  }
qed simp_all

lemma orphan_row:
  assumes "q \<in> set (os_jobs (fail_orphan_child env i now s))"
  shows "q \<in> set (os_jobs s) \<or> taken_back q"
proof -
  have "q \<in> set (os_jobs (snd (update_job_status env i ''failed'' (Some [(''reason'', PStr ''parent_lease_expired'')]) now s)))"
    using assms by (simp add: fail_orphan_child_def Let_def close_runs_def)
  then show ?thesis
    by (auto simp: update_job_status_def Let_def taken_back_def split: sum.splits elim!: upd_whereE)
qed

lemma orphan_fold_row:
  "q \<in> set (os_jobs (fold (\<lambda>i. fail_orphan_child env i now) ids s)) \<Longrightarrow> q \<in> set (os_jobs s) \<or> taken_back q"
proof (induction ids arbitrary: s)
  case (Cons i ids)
  then show ?case using orphan_row [of q env i now s] by auto
qed simp

lemma orphan_fold_processes: "os_processes (fold (\<lambda>i. fail_orphan_child env i now) ids s) = os_processes s"
proof (induction ids arbitrary: s)
  case (Cons i ids)
  have "os_processes (fail_orphan_child env i now s) = os_processes s"
    by (simp add: fail_orphan_child_def Let_def close_runs_def update_job_status_def split: sum.split)
  then show ?case by (simp add: Cons.IH)
qed simp

text \<open>C18. Recovery takes every expired lease back: the jobs it returns are exactly the running jobs
  whose lease expired and whose processes all ended; afterwards no such job is left; each of them has
  no lease and is queued again or closed; and a job that was not among them and is not a nested agent job is exactly as it was.\<close>

theorem requeue_recovers_expired_leases:
  assumes "ops_reachable env s" "requeue_expired_jobs env now s = (ids, t)"
  shows "set ids = jb_id ` {j \<in> set (os_jobs s). lease_expired now s j} \<and>
    (\<forall>q \<in> set (os_jobs t). \<not> lease_expired now t q \<and>
       (jb_id q \<in> set ids \<longrightarrow> jb_lease_owner q = None \<and> jb_status q \<in> {''queued'', ''completed'', ''cancelled'', ''failed''})) \<and>
    (\<forall>j \<in> set (os_jobs s). \<not> lease_expired now s j \<and> jb_kind j \<notin> set nested_agent_job_kinds \<longrightarrow> j \<in> set (os_jobs t))"
proof -
  have inv: "ops_inv s" using assms(1) by (rule ops_reachable_inv)
  let ?rows = "sort_key jb_updated_at (filter (lease_expired now s) (os_jobs s))"
  let ?u = "fold (recover_job now) ?rows s"
  have ids: "set ids = jb_id ` {j \<in> set (os_jobs s). lease_expired now s j}" "jb_id ` set ?rows = set ids"
    and t: "t = snd (fail_orphaned_child_jobs env None now ?u)"
    using assms(2) by (auto simp: requeue_expired_jobs_def Let_def)
  have procs: "os_processes t = os_processes s"
    unfolding t by (simp add: fail_orphaned_child_jobs_def Let_def orphan_fold_processes recover_fold)
  have expired: "lease_expired now t q = lease_expired now s q" for q by (simp add: lease_expired_def procs)
  have taken: "\<not> lease_expired now s q" if "taken_back q" for q using that by (auto simp: lease_expired_def taken_back_def)
  have after: "taken_back q \<or> q \<in> set (os_jobs s) \<and> jb_id q \<notin> set ids" if q: "q \<in> set (os_jobs t)" for q
  proof -
    have "q \<in> set (os_jobs ?u) \<or> taken_back q"
      using q orphan_fold_row unfolding t fail_orphaned_child_jobs_def Let_def snd_conv by blast
    then show ?thesis using recover_fold(2) ids(2) by blast
  qed
  have inv_u: "ops_inv ?u" by (rule inv_fold [OF inv_recover_job inv])
  have kept: "j \<in> set (os_jobs t)"
    if j: "j \<in> set (os_jobs s)" "\<not> lease_expired now s j" "jb_kind j \<notin> set nested_agent_job_kinds" for j
  proof -
    have "jb_id j \<notin> jb_id ` set ?rows" using j(1,2) job_unique [OF inv j(1)] by auto
    then have "j \<in> set (os_jobs ?u)" using j(1) by (rule recover_fold(3) [rotated])
    then show ?thesis unfolding t by (rule orphan_pass_jobs [OF inv_u]) (use j(3) in \<open>simp add: is_orphan_def\<close>)
  qed
  have "\<not> lease_expired now t q \<and> (jb_id q \<in> set ids \<longrightarrow> jb_lease_owner q = None \<and>
      jb_status q \<in> {''queued'', ''completed'', ''cancelled'', ''failed''})" if "q \<in> set (os_jobs t)" for q
    using after [OF that] taken ids(1) unfolding expired taken_back_def by auto
  then show ?thesis using ids(1) kept by blast
qed

section \<open>Approvals\<close>

lemma patch_error_keeps: "decide_developer_patch env i k r by' acc now s = (Inl e, t) \<Longrightarrow> t = s"
  unfolding decide_developer_patch_def by (rule immediate_transaction_rollback)

lemma create_grant_cases:
  "create_grant_from_action_request env n a reason by' now s = (r, t) \<Longrightarrow>
   (\<exists>e. r = Inl e \<and> t = s) \<or>
   r = Inr (new_grant env n a (je_redact env reason) by' now) \<and>
     t = s\<lparr>os_grants := os_grants s @ [new_grant env n a (je_redact env reason) by' now]\<rparr>"
  by (auto simp: create_grant_from_action_request_def Let_def split: if_splits)

text \<open>The request as it reads after its decision.\<close>

lemma decided_request:
  assumes "get_action_request k s = Inr a"
  shows "get_action_request k (decide_action k d reason actor now s) =
    Inr (a\<lparr>ar_status := d, ar_reason := reason, ar_decided_at := Some now, ar_decided_by := Some actor\<rparr>)"
proof -
  have a: "select_one (\<lambda>a. ar_id a = k) (os_actions s) = Some a" "ar_id a = k"
    using assms get_action_Inr [OF assms] by (auto simp: get_action_request_def split: option.splits)
  then show ?thesis by (simp add: get_action_request_def decide_action_def select_one_key_upd)
qed

lemma queue_job_row:
  "get_job i s = Inr j \<Longrightarrow> get_job i (queue_job i now s) = Inr (j\<lparr>jb_status := ''queued'', jb_updated_at := now\<rparr>)"
proof -
  assume j: "get_job i s = Inr j"
  then have "select_one (\<lambda>j. jb_id j = i) (os_jobs s) = Some j" "jb_id j = i"
    using get_job_Inr [OF j] by (auto simp: get_job_def find_job_def split: option.splits)
  then show ?thesis by (simp add: get_job_def find_job_def queue_job_def select_one_key_upd)
qed

lemma grant_approved_action_cases:
  assumes "grant_approved_action env n i k clean actor now j s = (r, t)" "get_action_request k s = Inr a" "get_job i s = Inr j"
  shows "(\<exists>e. r = Inl e) \<and> os_grants t = os_grants s \<and> os_jobs t = os_jobs s \<or>
    r = Inr () \<and> os_grants t = os_grants s @ [new_grant env n a (je_redact env clean) actor now] \<and>
    get_job i t = Inr (if jb_status j = ''approval_required'' \<and> pending_actions i s = []
      then j\<lparr>jb_status := ''queued'', jb_updated_at := now\<rparr> else j)"
proof -
  let ?s3 = "record_audit ''action.approve'' actor k (Some (jb_project_id j)) now
    (record_event ''action.approved'' (Some i) (Some (jb_project_id j)) now s)"
  obtain r' t' where c: "create_grant_from_action_request env n a clean actor now ?s3 = (r', t')" by (rule prod.exhaust)
  from create_grant_cases [OF c] show ?thesis
  proof (elim disjE exE conjE)
    fix e assume "r' = Inl e" "t' = ?s3"
    then show ?thesis using assms(1,2) c by (auto simp: grant_approved_action_def Let_def and_then_def run_pure_def)
  next
    let ?g = "new_grant env n a (je_redact env clean) actor now"
    assume r': "r' = Inr ?g" and t': "t' = ?s3\<lparr>os_grants := os_grants ?s3 @ [?g]\<rparr>"
    let ?s5 = "record_event ''permission.grant.created'' (Some i) (Some (jb_project_id j)) now t'"
    have s5: "get_job i ?s5 = Inr j" "pending_actions i ?s5 = pending_actions i s" "os_grants ?s5 = os_grants s @ [?g]"
      using assms(3) by (simp_all add: t' get_job_def find_job_def pending_actions_def)
    have "(r, t) = (if jb_status j = ''approval_required'' \<and> pending_actions i s = []
        then (Inr (), record_event ''job.approved'' (Some i) (Some (jb_project_id j)) now (queue_job i now ?s5))
        else (Inr (), ?s5))"
      using assms(1,2) c s5(2) by (simp add: grant_approved_action_def Let_def and_then_def run_pure_def r')
    moreover have "os_grants (queue_job i now ?s5) = os_grants ?s5" by (simp add: queue_job_def)
    ultimately show ?thesis using s5 queue_job_row [OF s5(1)] by (auto split: if_splits)
  qed
qed

text \<open>Deciding a pending request removes it, and nothing else, from what is pending.\<close>

lemma pending_after_decision:
  assumes "ops_inv s" "get_action_request k s = Inr a" "ar_status a = ''pending''" "ar_job_id a = i" "d \<noteq> ''pending''"
  shows "pending_actions i (decide_action k d reason actor now s) = [] \<longleftrightarrow> pending_actions i s = [a]"
proof -
  have a: "a \<in> set (os_actions s)" "ar_id a = k" using get_action_Inr [OF assms(2)] by auto
  have step: "pending_actions i (decide_action k d reason actor now s) = filter (\<lambda>b. ar_id b \<noteq> k) (pending_actions i s)"
  proof -
    have "filter (\<lambda>b. ar_job_id b = i \<and> ar_status b = ''pending'')
        (upd_where (\<lambda>b. ar_id b = k) (\<lambda>b. b\<lparr>ar_status := d, ar_reason := reason, ar_decided_at := Some now, ar_decided_by := Some actor\<rparr>) rows) =
      filter (\<lambda>b. ar_id b \<noteq> k) (filter (\<lambda>b. ar_job_id b = i \<and> ar_status b = ''pending'') rows)" for rows
      using assms(5) by (induction rows) auto
    then show ?thesis by (simp add: pending_actions_def decide_action_def)
  qed
  have mem: "a \<in> set (pending_actions i s)" using a assms(3,4) by (simp add: pending_actions_def)
  have dist: "distinct (map ar_id (pending_actions i s))"
    using assms(1) unfolding pending_actions_def ops_inv_defs by (simp add: distinct_map_filter)
  show ?thesis
  proof
    assume "pending_actions i (decide_action k d reason actor now s) = []"
    then have "\<forall>b \<in> set (pending_actions i s). ar_id b = k" unfolding step by (simp add: filter_empty_conv)
    then have all: "\<forall>b \<in> set (pending_actions i s). b = a"
      using distinct_key_unique [OF dist _ mem] a(2) by metis
    have "distinct (pending_actions i s)" using dist by (simp add: distinct_map)
    then show "pending_actions i s = [a]" using all mem
      by (cases "pending_actions i s"; cases "tl (pending_actions i s)") auto
  next
    assume "pending_actions i s = [a]"
    then show "pending_actions i (decide_action k d reason actor now s) = []" unfolding step by (simp add: a(2))
  qed
qed

lemma patch_grants: "os_grants (snd (decide_developer_patch env i k r by' acc now s)) = os_grants s"
proof -
  have "os_grants (snd (update_job_status env i st md now u)) = os_grants u" for st md u
    by (simp add: update_job_status_def Let_def split: sum.split)
  moreover have "os_grants (write_patch_decision env k r by' acc now a run ev s) = os_grants s" for a run ev
    by (simp add: write_patch_decision_def Let_def decide_action_def)
  ultimately have "os_grants u = os_grants s"
    if "update_job_status env i st md now (write_patch_decision env k r by' acc now a run ev s) = (x, u)"
    for st md a run ev x u using that by (metis snd_conv)
  then show ?thesis unfolding decide_developer_patch_def immediate_transaction_def Let_def
    by (simp split: sum.split prod.split)
qed

text \<open>C19. What an approval does. When it is refused no grant is created and no job changes. When it is accepted the
  request was pending, belongs to the job and had not expired; for the patch of an executed
  delivery no grant is created; otherwise exactly one grant is added, active, for that request and expiring with it, and the job
  is queued exactly when it was waiting for approval and nothing else of it is pending, and is left
  as it was otherwise.\<close>

theorem approval_outcome:
  assumes "ops_reachable env s" "get_action_request k s = Inr a" "get_job i s = Inr j"
    and "approve_action env n i k reason actor now s = (r, t)"
  shows "case r of
      Inl _ \<Rightarrow> os_grants t = os_grants s \<and> os_jobs t = os_jobs s
    | Inr _ \<Rightarrow> ar_job_id a = i \<and> ar_status a = ''pending'' \<and> now < ar_expires_at a \<and>
        (if ar_action_type a = ''agent.developer.approve_patch'' then os_grants t = os_grants s
         else (\<exists>g. os_grants t = os_grants s @ [g] \<and> pg_id g = n \<and> pg_status g = ''active'' \<and>
                 pg_action_request_id g = k \<and> pg_job_id g = Some i \<and> pg_expires_at g = ar_expires_at a) \<and>
              get_job i t = Inr (if jb_status j = ''approval_required'' \<and> pending_actions i s = [a]
                then j\<lparr>jb_status := ''queued'', jb_updated_at := now\<rparr> else j))"
proof -
  let ?clean = "py_strip (je_redact env reason)"
  let ?d = "decide_action k ''approved'' ?clean actor now s"
  let ?a = "a\<lparr>ar_status := ''approved'', ar_reason := ?clean, ar_decided_at := Some now, ar_decided_by := Some actor\<rparr>"
  have ida: "ar_id a = k" using get_action_Inr [OF assms(2)] by simp
  consider (refused) "ar_job_id a \<noteq> i \<or> ar_status a \<noteq> ''pending'' \<or> ?clean = [] \<or> ar_expires_at a \<le> now"
    | (patch) "ar_job_id a = i" "ar_status a = ''pending''" "?clean \<noteq> []" "now < ar_expires_at a"
        "ar_action_type a = ''agent.developer.approve_patch''"
    | (grant) "ar_job_id a = i" "ar_status a = ''pending''" "?clean \<noteq> []" "now < ar_expires_at a"
        "ar_action_type a \<noteq> ''agent.developer.approve_patch''" by fastforce
  then show ?thesis
  proof cases
    case refused
    then show ?thesis using assms(2,4) by (auto simp: approve_action_def Let_def split: if_splits)
  next
    case patch
    then have d: "decide_developer_patch env i k ?clean actor True now s = (r, t)"
      using assms(2,4) by (simp add: approve_action_def Let_def)
    then have "os_grants t = os_grants s" using patch_grants [of env i k ?clean actor True now s] by simp
    then show ?thesis using patch d by (cases r) (auto dest: patch_error_keeps)
  next
    case grant
    have j: "get_job i ?d = Inr j" using assms(3) by (simp add: get_job_def find_job_def)
    have g: "grant_approved_action env n i k ?clean actor now j ?d = (r, t)"
      using grant assms(2,4) j by (simp add: approve_action_def Let_def)
    have base: "os_grants ?d = os_grants s" by (simp add: decide_action_def)
    have pend: "pending_actions i ?d = [] \<longleftrightarrow> pending_actions i s = [a]"
      using grant(1,2) by (intro pending_after_decision [OF ops_reachable_inv [OF assms(1)] assms(2)]) auto
    from grant_approved_action_cases [OF g decided_request [OF assms(2)] j] show ?thesis
      using grant ida unfolding base pend by (cases r) (auto simp: decide_action_jobs)
  qed
qed

text \<open>C22. Cancelling a job that is already closed is refused, and yet it leaves traces: unless one is there already, a
  cancellation request for the identifier is recorded together with an event and an audit entry, while every job stays as it was.\<close>

theorem refused_cancel_leaves_a_request:
  assumes "ops_reachable env s" "get_job i s = Inr j" "jb_status j \<notin> set cancellable_job_statuses"
    and "i \<notin> ec_execution_id ` set (os_controls s)" "py_strip (je_redact env reason) \<noteq> []" "reason \<noteq> []"
    and "cancel_job env i reason actor now s = (r, t)"
  shows "r = Inl (CannotCancel i (jb_status j)) \<and> os_jobs t = os_jobs s \<and>
    cancellation_reason i t = Some (py_strip (je_redact env reason)) \<and>
    (\<exists>e. os_events t = os_events s @ [e] \<and> ev_type e = ''execution.cancel_requested'') \<and>
    (\<exists>a. os_audits t = os_audits s @ [a] \<and> au_action a = ''execution.cancel'' \<and> au_target a = i)"
proof -
  let ?clean = "py_strip (je_redact env reason)"
  let ?hit = "\<lambda>k. jb_id k = i \<and> jb_status k \<in> set cancellable_job_statuses"
  obtain u where u: "request_execution_cancel env i reason now s = (Inr (), u)" "os_jobs u = os_jobs s"
    "os_controls u = os_controls s @ [\<lparr>ec_execution_id = i, ec_cancel_requested_at = now, ec_reason = ?clean\<rparr>]"
    "\<exists>e. os_events u = os_events s @ [e] \<and> ev_type e = ''execution.cancel_requested''"
    "\<exists>a. os_audits u = os_audits s @ [a] \<and> au_action a = ''execution.cancel'' \<and> au_target a = i"
    using assms(4,5) by (simp add: request_execution_cancel_def Let_def record_event_def record_audit_def)
  have none: "rowcount ?hit (os_jobs s) = 0"
    using job_unique [OF ops_reachable_inv [OF assms(1)]] get_job_Inr [OF assms(2)] assms(3)
    by (auto simp: rowcount_def filter_empty_conv)
  then have same: "upd_where ?hit f (os_jobs s) = os_jobs s" for f by (rule upd_where_no_match)
  have "(r, t) = (Inl (CannotCancel i (jb_status j)), u\<lparr>os_jobs := os_jobs s\<rparr>)"
    using assms(2,6,7) u(1) none same u(2) by (simp add: cancel_job_def Let_def upd_job_def)
  moreover have "select_one (\<lambda>c. ec_execution_id c = i) (os_controls u) =
      Some \<lparr>ec_execution_id = i, ec_cancel_requested_at = now, ec_reason = ?clean\<rparr>"
    using assms(4) unfolding u(3) select_one_append by (auto simp: select_one_def find_None_iff split: option.split dest!: find_Some_iff [THEN iffD1])
  ultimately show ?thesis using u by (simp add: cancellation_reason_def)
qed

lemma restated_row:
  assumes "k \<in> set (upd_where (\<lambda>k. jb_id k = i) (\<lambda>k. k\<lparr>jb_status := st, jb_payload := p, jb_lease_owner := None,
      jb_lease_expires_at := None, jb_updated_at := now\<rparr>) rows)" "jb_id k = i"
  shows "jb_status k = st \<and> jb_lease_owner k = None"
  using assms(1) by (rule upd_whereE) (use assms(2) in simp_all)

lemma update_job_status_row:
  assumes "k \<in> set (os_jobs (snd (update_job_status env i status md now s)))" "jb_id k = i" "get_job i s = Inr j"
  shows "jb_status k = status \<and> jb_lease_owner k = None"
proof (rule restated_row [OF _ assms(2)])
  show "k \<in> set (upd_where (\<lambda>k. jb_id k = i) (\<lambda>k. k\<lparr>jb_status := status,
      jb_payload := json_dict (je_redact_dict env (case md of None \<Rightarrow> jb_payload j
        | Some m \<Rightarrow> dset (jb_payload j) ''result'' (PDict (je_redact_dict env m)))),
      jb_lease_owner := None, jb_lease_expires_at := None, jb_updated_at := now\<rparr>) (os_jobs s))"
    using assms(1,3) by (simp add: update_job_status_def Let_def)
qed

lemma update_job_status_Inr:
  assumes "update_job_status env i status md now s = (Inr x, t)"
  shows "get_job i t = Inr x \<and> jb_status x = status \<and> jb_lease_owner x = None"
proof -
  obtain j where j: "get_job i s = Inr j" using assms by (auto simp: update_job_status_def split: sum.splits)
  have x: "get_job i t = Inr x" using assms by (auto simp: update_job_status_def j Let_def)
  have "x \<in> set (os_jobs (snd (update_job_status env i status md now s)))" "jb_id x = i"
    using get_job_Inr [OF x] assms by simp_all
  from update_job_status_row [OF this j] x show ?thesis by simp
qed

text \<open>C20. A developer patch is accepted only on real evidence: the request is pending for a delivery of
  the developer agent that waits for approval and has no other pending request, the run that produced it waits for permission and
  belongs, like the evidence package, to that job and project, and the package shows a real passing
  command run with an empty list of contract errors. Accepting it completes the job and creates no grant.\<close>

theorem accepted_patch_has_real_evidence:
  assumes "decide_developer_patch env i k reason actor True now s = (Inr (), t)"
  shows "\<exists>a j run e. get_action_request k s = Inr a \<and> ar_status a = ''pending'' \<and> get_job i s = Inr j \<and>
      jb_kind j = ''agent.developer'' \<and> jb_status j = ''approval_required'' \<and> length (pending_actions i s) = 1 \<and>
      run \<in> set (os_agent_runs s) \<and> ag_job_id run = Some i \<and> ag_status run = ''awaiting_permission'' \<and>
      e \<in> set (os_evidence s) \<and> dget e ''jobId'' = PStr i \<and> dget e ''agentRunId'' = PStr (ag_id run) \<and>
      real_qa_evidence (je_other env) e \<and>
      evidence_package_contract_errors (je_other env) e True (Some (truthy (dget e ''workflowRunId''))) = [] \<and>
      os_grants t = os_grants s \<and> (\<exists>q. get_job i t = Inr q \<and> jb_status q = ''completed'' \<and> jb_lease_owner q = None)"
proof -
  have grants: "os_grants t = os_grants s" using patch_grants [of env i k reason actor True now s] assms by simp
  obtain a j run e where d: "patch_decision env i k True s = Inr (a, j, run, e)"
    using assms by (auto simp: decide_developer_patch_def immediate_transaction_commit split: sum.splits)
  let ?md = "Some [(''status'', PStr ''completed''), (''approval'', PDict (approval_dict k actor reason now ''approved''))]"
  let ?w = "write_patch_decision env k reason actor True now a run e s"
  obtain x st where u: "update_job_status env i ''completed'' ?md now ?w = (Inr x, st)" "get_job i t = get_job i st"
    using assms d by (auto simp: decide_developer_patch_def immediate_transaction_commit Let_def split: sum.splits prod.splits)
  have id: "jb_id j = i" using patch_decision_pending [OF d] get_job_Inr by blast
  obtain es where es: "patch_errors env a run e = Inr []" "patch_in_scope j a run e"
    "run \<in> set (os_agent_runs s)" "e \<in> set (os_evidence s)" "jb_kind j = ''agent.developer''" "length (pending_actions i s) = 1"
    using d by (auto simp: patch_decision_def try_then_Inr_iff get_evidence_package_def split: if_splits option.splits dest!: select_one_SomeD)
  have qa: "real_qa_command_errors (je_other env) e = Inr []"
    "evidence_package_contract_errors (je_other env) e True (Some (truthy (dget e ''workflowRunId''))) = []"
    using es(1) by (auto simp: patch_errors_def try_then_Inr_iff lift_error_Inr_iff Let_def split: if_splits)
  show ?thesis
    using patch_decision_pending [OF d] es qa real_qa_errors_iff [of "je_other env" e] id grants u(2) update_job_status_Inr [OF u(1)]
    by (intro exI [of _ a] exI [of _ j] exI [of _ run] exI [of _ e]) (auto simp: patch_in_scope_def)
qed

end
