(* ===== verification/Jobs_Witnesses.thy ===== *)
theory Jobs_Witnesses
  imports Jobs_Properties
begin

text \<open>
  Concrete stores on which the properties of \<open>Jobs_Properties\<close> apply: a job, an action request that is
  approved, the use of its grant, a claim, its cancellation and its recovery, an execution.
\<close>

definition demo_env :: job_env where
  "demo_env = \<lparr>je_scrub = (\<lambda>s. s), je_other = (\<lambda>_. []), je_binding = (\<lambda>_ _. ''h''), je_stem = (\<lambda>s. s),
     je_summary = (\<lambda>_. []), je_same_path = (=)\<rparr>"

definition demo0 :: ops_store where
  "demo0 = \<lparr>os_jobs = [], os_runs = [], os_actions = [], os_grants = [], os_attention = [], os_executions = [],
     os_processes = [], os_controls = [], os_violations = [], os_agent_runs = [], os_evidence = [],
     os_admission_reasons = [], os_events = [], os_audits = [],
     os_leadership = \<lparr>lw_leases = [], lw_heartbeats = [], lw_controls = []\<rparr>\<rparr>"

definition demo_job_args :: job_args where
  "demo_job_args = \<lparr>ja_project_id = ''p'', ja_kind = ''chat.route'', ja_payload = [], ja_status = None,
     ja_idempotency_key = None, ja_workflow_run_id = None, ja_workflow_step_id = None,
     ja_diagnostic_context = [], ja_parent_job_id = None\<rparr>"

definition demo1 :: ops_store where
  "demo1 = snd (create_job demo_env ''j'' ''a0'' demo_job_args 0 demo0)"

definition demo_action_args :: action_args where
  "demo_action_args = \<lparr>aa_job_id = ''j'', aa_project_id = ''p'', aa_action_type = ''tool'', aa_risk_level = ''low'',
     aa_command = PStr ''ls'', aa_command_argv = Some [''ls''], aa_payload = [], aa_reason = ''r'',
     aa_expires_at = Some 1000\<rparr>"

definition demo2 :: ops_store where
  "demo2 = snd (create_action_request demo_env ''a'' demo_action_args 0 demo1)"

definition demo3 :: ops_store where
  "demo3 = snd (approve_action demo_env ''g'' ''j'' ''a'' ''ok'' ''op'' 10 demo2)"

lemma ops_reachable_step: "ops_reachable env s \<Longrightarrow> forward_step env s t \<Longrightarrow> ops_reachable env t"
  unfolding ops_reachable_def by (blast intro: reach_step o_forward)

lemma reachable0: "ops_reachable env demo0"
  unfolding ops_reachable_def by (rule reach_init) (simp add: empty_ops_def demo0_def)

lemma reachable1: "ops_reachable demo_env demo1"
  unfolding demo1_def by (rule ops_reachable_step [OF reachable0 f_create_job])

lemma reachable2: "ops_reachable demo_env demo2"
  unfolding demo2_def by (rule ops_reachable_step [OF reachable1 f_create_action])

lemma reachable3: "ops_reachable demo_env demo3"
  unfolding demo3_def by (rule ops_reachable_step [OF reachable2 f_approve_action])

definition demo_job :: job where
  "demo_job = \<lparr>jb_id = ''j'', jb_project_id = ''p'', jb_workflow_run_id = PNone, jb_workflow_step_id = PNone,
     jb_kind = ''chat.route'', jb_status = ''queued'', jb_payload = [(''diagnosticContext'', PDict [])],
     jb_lease_owner = None, jb_lease_expires_at = None, jb_idempotency_key = None, jb_created_at = 0, jb_updated_at = 0\<rparr>"

definition demo_action :: action_request where
  "demo_action = \<lparr>ar_id = ''a'', ar_job_id = ''j'', ar_project_id = ''p'', ar_action_type = ''tool'', ar_status = ''pending'',
     ar_risk_level = ''low'', ar_command = ''ls'', ar_payload = [(''commandArgv'', PList [PStr ''ls''])],
     ar_reason = ''r'', ar_requested_at = 0, ar_expires_at = 1000, ar_decided_at = None, ar_decided_by = None\<rparr>"

lemma demo1_tables: "os_jobs demo1 = [demo_job]" "os_runs demo1 = []" "os_controls demo1 = []" "os_processes demo1 = []"
  by code_simp+

lemma demo2_tables: "os_jobs demo2 = [demo_job]" "os_actions demo2 = [demo_action]" "os_grants demo2 = []"
  by code_simp+

lemma demo2_reads: "get_job ''j'' demo2 = Inr demo_job" "get_action_request ''a'' demo2 = Inr demo_action"
  by (simp_all add: get_job_def find_job_def get_action_request_def demo2_tables demo_job_def demo_action_def)

theorem operational_tables_well_formed_witness:
  "os_jobs demo2 = [demo_job] \<and> distinct (map jb_id (os_jobs demo2)) \<and>
   (jb_lease_owner demo_job = None \<longleftrightarrow> jb_lease_expires_at demo_job = None)"
proof -
  have "distinct (map jb_id (os_jobs demo2))"
    "\<forall>j \<in> set (os_jobs demo2). jb_lease_owner j = None \<longleftrightarrow> jb_lease_expires_at j = None"
    using operational_tables_well_formed [OF reachable2] by blast+
  then show ?thesis by (simp add: demo2_tables)
qed

lemma strip_ok: "py_strip ''ok'' = ''ok''" "je_redact demo_env x = x"
  by code_simp (simp add: je_redact_def demo_env_def)

definition demo_approved :: action_request where
  "demo_approved = demo_action\<lparr>ar_status := ''approved'', ar_reason := ''ok'', ar_decided_at := Some 10, ar_decided_by := Some ''op''\<rparr>"

lemma demo3_step: "approve_action demo_env ''g'' ''j'' ''a'' ''ok'' ''op'' 10 demo2 = (Inr (), demo3)"
  and demo3_grants: "os_grants demo3 = [new_grant demo_env ''g'' demo_approved ''ok'' ''op'' 10]"
proof -
  let ?d = "decide_action ''a'' ''approved'' ''ok'' ''op'' 10 demo2"
  have d: "get_action_request ''a'' ?d = Inr demo_approved"
    using decided_request [OF demo2_reads(2)] by (simp add: demo_approved_def)
  have j: "get_job ''j'' ?d = Inr demo_job" using demo2_reads(1) by (simp add: get_job_def find_job_def)
  have ap: "approve_action demo_env ''g'' ''j'' ''a'' ''ok'' ''op'' 10 demo2 =
      grant_approved_action demo_env ''g'' ''j'' ''a'' ''ok'' ''op'' 10 demo_job ?d"
    by (simp add: approve_action_def demo2_reads strip_ok j demo_action_def Let_def)
  have "os_grants ?d = []" by (simp add: decide_action_def demo2_tables)
  then have ok: "fst (grant_approved_action demo_env ''g'' ''j'' ''a'' ''ok'' ''op'' 10 demo_job ?d) = Inr ()"
    by (simp add: grant_approved_action_def and_then_def run_pure_def d create_grant_from_action_request_def strip_ok demo_job_def Let_def)
  then have g: "grant_approved_action demo_env ''g'' ''j'' ''a'' ''ok'' ''op'' 10 demo_job ?d = (Inr (), demo3)"
    by (metis ap demo3_def prod.collapse)
  then show "approve_action demo_env ''g'' ''j'' ''a'' ''ok'' ''op'' 10 demo2 = (Inr (), demo3)" by (simp add: ap)
  from grant_approved_action_cases [OF g d j]
  show "os_grants demo3 = [new_grant demo_env ''g'' demo_approved ''ok'' ''op'' 10]"
    using \<open>os_grants ?d = []\<close> by (simp add: strip_ok)
qed

theorem approval_outcome_witness:
  "\<exists>g. os_grants demo3 = [g] \<and> pg_id g = ''g'' \<and> pg_action_request_id g = ''a'' \<and> pg_expires_at g = 1000"
  using approval_outcome [OF reachable2 demo2_reads(2,1) demo3_step] by (auto simp: demo_action_def demo2_tables)

definition demo_use :: grant_use where
  "demo_use = \<lparr>gu_project_id = ''p'', gu_job_id = Some ''j'', gu_agent_id = None, gu_tool = ''tool'', gu_command = ''ls'',
     gu_command_argv = [''ls''], gu_workspace_id = None, gu_runtime_id = None, gu_path = None, gu_agent_run_id = ''run''\<rparr>"

definition demo4 :: ops_store where
  "demo4 = snd (validate_and_consume_grant demo_env ''g'' demo_use 20 demo3)"

lemma demo_redact_payload:
  "je_redact_dict demo_env (ar_payload demo_approved) = [(''commandArgv'', PList [PStr ''ls''])]"
  by code_simp

lemma demo_approved_fields:
  "ar_payload demo_approved = [(''commandArgv'', PList [PStr ''ls''])]" "ar_command demo_approved = ''ls''"
  "ar_action_type demo_approved = ''tool''"
  by (simp_all add: demo_approved_def demo_action_def)

lemma demo_scope: "scope_mismatch demo_env (new_grant demo_env ''g'' demo_approved ''ok'' ''op'' 10) demo_use = None"
proof -
  let ?g = "new_grant demo_env ''g'' demo_approved ''ok'' ''op'' 10"
  have argv: "action_command_argv demo_env demo_approved = [''ls'']" by code_simp
  have b: "dget (pg_payload ?g) binding_key = PNone"
    unfolding new_grant_def Let_def demo_redact_payload
    by (simp add: je_redact_dict_def dget_redact_dict dmerge_Cons binding_key_def)
  have "pg_tool ?g = ''tool''" "pg_command ?g = ''ls''" "pg_path ?g = PNone" "pg_agent_id ?g = PNone"
    "pg_workspace_id ?g = PNone" "pg_runtime_id ?g = PNone" "pg_command_argv ?g = [''ls'']"
    unfolding new_grant_def Let_def demo_redact_payload argv
    by (simp_all add: py_or_def je_str_def strip_ok demo_approved_fields)
  then show ?thesis
    by (simp add: scope_mismatch_def Let_def b demo_use_def opt_str_def paths_match_def)
       (simp add: demo_approved_def demo_action_def)
qed

lemma demo4_step: "\<exists>why g. validate_and_consume_grant demo_env ''g'' demo_use 20 demo3 = ((True, why, g), demo4)"
proof -
  have f: "found_grant ''g'' demo3 = Some (new_grant demo_env ''g'' demo_approved ''ok'' ''op'' 10)"
    by (simp add: found_grant_def demo3_grants)
  have "ar_expires_at demo_approved = 1000" by (simp add: demo_approved_def demo_action_def)
  then have "fst (fst (validate_and_consume_grant demo_env ''g'' demo_use 20 demo3))"
    by (simp add: validate_and_consume_grant_def f demo_scope Let_def rowcount_def demo3_grants)
  then show ?thesis unfolding demo4_def by (metis prod.collapse)
qed

theorem grant_used_at_most_once_witness:
  "fst (fst (validate_and_consume_grant demo_env ''g'' demo_use 20 demo3)) \<and>
   \<not> fst (fst (validate_and_consume_grant demo_env ''g'' demo_use 21 demo4))"
proof -
  obtain why g where c: "validate_and_consume_grant demo_env ''g'' demo_use 20 demo3 = ((True, why, g), demo4)"
    using demo4_step by blast
  show ?thesis using grant_used_at_most_once [OF reachable3 c rtranclp.rtrancl_refl] c by simp
qed

theorem grant_use_matches_approval_witness:
  "\<exists>a \<in> set (os_actions demo3). ar_id a = ''a'' \<and> ar_status a = ''approved''"
proof -
  obtain why g where c: "validate_and_consume_grant demo_env ''g'' demo_use 20 demo3 = ((True, why, g), demo4)"
    using demo4_step by blast
  from grant_use_matches_approval [OF reachable3 c]
  obtain h a where "found_grant ''g'' demo3 = Some h" "a \<in> set (os_actions demo3)"
    "ar_id a = pg_action_request_id h" "ar_status a = ''approved''" by blast
  then show ?thesis by (intro bexI [of _ a]) (auto simp: found_grant_def demo3_grants demo_approved_def demo_action_def)
qed

section \<open>Claims\<close>

lemma shift_small: "0 \<le> t + d \<Longrightarrow> t + d < 1000000000 \<Longrightarrow> shift_instant t d = Inr (t + d)"
  by (simp add: shift_instant_def valid_instant_def max_instant_def days_through_def day_ms_def)

definition claimed_job :: job where
  "claimed_job = demo_job\<lparr>jb_status := ''running'', jb_lease_owner := Some ''w'', jb_lease_expires_at := Some 105, jb_updated_at := 5\<rparr>"

definition demo_run :: job_run where
  "demo_run = \<lparr>jr_id = ''r'', jr_job_id = ''j'', jr_provider_id = ''w'', jr_status = ''running'', jr_started_at = 5,
     jr_completed_at = None, jr_summary = [], jr_metadata = [], jr_worker_owner_id = Some ''w'', jr_leader_fencing_token = None\<rparr>"

definition demo5 :: ops_store where
  "demo5 = snd (claim_next_job ''r'' ''w'' 100 None None 5 demo1)"

lemma demo5_step: "claim_next_job ''r'' ''w'' 100 None None 5 demo1 = (Inr (Some (claimed_job, demo_run)), demo5)"
  and demo5_tables: "os_jobs demo5 = [claimed_job]" "os_runs demo5 = [demo_run]" "os_controls demo5 = []" "os_processes demo5 = []"
  by (simp_all add: demo5_def claim_next_job_cases claim_target_def queued_jobs_def demo1_tables demo_job_def shift_small
      claimed_store_def get_job_def find_job_def claimed_job_def demo_run_def)

lemma reachable5: "ops_reachable demo_env demo5"
  unfolding demo5_def by (rule ops_reachable_step [OF reachable1 f_claim])

theorem claim_is_exclusive_witness:
  "claim_next_job ''r2'' ''w2'' 100 None (Some ''j'') 6 demo5 = (Inr None, demo5)"
  using claim_is_exclusive [OF reachable1 demo5_step, of "''r2''" "''w2''" 100 6]
  by (auto simp: claimed_job_def demo_job_def)

theorem stale_worker_writes_nothing_witness:
  "execution_start ''j'' ''w'' 1 5 demo0 = (Inl StaleWorkerFence, demo0)"
  using stale_worker_writes_nothing [of "''w''" 1 5 demo0]
  by (simp add: worker_fence_is_active_def fence_active_def demo0_def)

definition demo6 :: ops_store where
  "demo6 = snd (cancel_job demo_env ''j'' ''stop'' ''op'' 6 demo5)"

definition cancelled_job :: job where
  "cancelled_job = claimed_job\<lparr>jb_status := ''cancelled'', jb_updated_at := 6\<rparr>"

lemma demo6_tables: "os_jobs demo6 = [cancelled_job]" "os_runs demo6 = [demo_run]"
proof -
  have st: "py_strip ''stop'' = ''stop''" by code_simp
  show "os_jobs demo6 = [cancelled_job]" "os_runs demo6 = [demo_run]"
    by (simp_all add: demo6_def cancel_job_def get_job_def find_job_def demo5_tables request_execution_cancel_def strip_ok st
        Let_def rowcount_def claimed_job_def demo_job_def cancellable_job_statuses_def cancelled_job_def)
qed

lemma reachable6: "ops_reachable demo_env demo6"
  unfolding demo6_def by (rule ops_reachable_step [OF reachable5 f_cancel_job])

theorem cancelled_job_stays_cancelled_witness:
  "\<exists>k t. complete_job_run demo_env ''j'' ''r'' ''completed'' [] [] None None 7 demo6 = (Inr k, t) \<and>
     (\<exists>q \<in> set (os_jobs t). jb_id q = ''j'' \<and> jb_status q = ''cancelled'')"
proof -
  have j: "get_job ''j'' demo6 = Inr cancelled_job" "jb_status cancelled_job = ''cancelled''"
    by (simp_all add: get_job_def find_job_def demo6_tables cancelled_job_def claimed_job_def demo_job_def)
  have "\<exists>k t. complete_job_run demo_env ''j'' ''r'' ''completed'' [] [] None None 7 demo6 = (Inr k, t)"
    by (simp add: complete_job_run_def immediate_transaction_def j demo6_tables demo_run_def complete_in_transaction_def
        closed_run_store_def release_job_as_def get_job_def find_job_def cancelled_job_def claimed_job_def demo_job_def Let_def)
  then obtain k t where c: "complete_job_run demo_env ''j'' ''r'' ''completed'' [] [] None None 7 demo6 = (Inr k, t)" by blast
  show ?thesis using cancelled_job_stays_cancelled [OF reachable6 j c] c by blast
qed

theorem requeue_recovers_expired_leases_witness:
  "lease_expired 200 demo5 claimed_job \<and> set (fst (requeue_expired_jobs demo_env 200 demo5)) = {''j''}"
proof -
  have e: "lease_expired 200 demo5 claimed_job"
    by (simp add: lease_expired_def demo5_tables claimed_job_def demo_job_def)
  obtain ids t where r: "requeue_expired_jobs demo_env 200 demo5 = (ids, t)" by (rule prod.exhaust)
  have "set ids = jb_id ` {j \<in> set (os_jobs demo5). lease_expired 200 demo5 j}"
    using requeue_recovers_expired_leases [OF reachable5 r] by blast
  also have "{j \<in> set (os_jobs demo5). lease_expired 200 demo5 j} = {claimed_job}" using e by (auto simp: demo5_tables)
  finally show ?thesis using e r by (simp add: claimed_job_def demo_job_def)
qed

theorem refused_cancel_leaves_a_request_witness:
  "\<exists>r t. cancel_job demo_env ''j'' ''late'' ''op'' 8 (snd (update_job_status demo_env ''j'' ''completed'' None 7 demo1)) = (r, t) \<and>
     r = Inl (CannotCancel ''j'' ''completed'') \<and> cancellation_reason ''j'' t = Some ''late''"
proof -
  let ?s = "snd (update_job_status demo_env ''j'' ''completed'' None 7 demo1)"
  have reach: "ops_reachable demo_env ?s" by (rule ops_reachable_step [OF reachable1 f_update_status])
  have l: "py_strip (je_redact demo_env ''late'') = ''late''" by code_simp
  obtain j where j: "get_job ''j'' ?s = Inr j" "jb_status j = ''completed''" "os_controls ?s = []"
    by (simp add: update_job_status_def get_job_def find_job_def demo1_tables demo_job_def Let_def)
  obtain r t where c: "cancel_job demo_env ''j'' ''late'' ''op'' 8 ?s = (r, t)" by (rule prod.exhaust)
  have "jb_status j \<notin> set cancellable_job_statuses" using j(2) by (simp add: cancellable_job_statuses_def)
  from refused_cancel_leaves_a_request [OF reach j(1) this _ _ _ c] show ?thesis using c j l by simp
qed

section \<open>Executions\<close>

definition demo7 :: ops_store where
  "demo7 = snd (enqueue demo_env ''e'' ''a0'' ''op.x'' ''agent_cli'' None ''/'' 200 [] 3 demo0)"

lemma reachable7: "ops_reachable demo_env demo7"
  unfolding demo7_def by (rule ops_reachable_step [OF reachable0 f_enqueue])

theorem executions_refine_phases_witness:
  "\<exists>x \<in> set (os_executions demo7). phase_of x = Pending \<and>
     (\<exists>y \<in> set (os_executions (snd (request_cancel demo_env ''e'' ''stop'' 4 demo7))). ex_id y = ''e'' \<and>
        phase_step\<^sup>*\<^sup>* Pending (phase_of y))"
proof -
  obtain x where x: "x \<in> set (os_executions demo7)" "phase_of x = Pending" "ex_id x = ''e''"
  proof -
    have "\<exists>x. os_executions demo7 = [x] \<and> ex_status x = ''queued'' \<and> ex_id x = ''e''"
      by (simp add: demo7_def enqueue_def create_job_def immediate_transaction_def demo0_def needs_approval_def
          sensitive_job_kinds_def job_payload_def je_redact_dict_def redact_dict_def new_job_row_def Let_def execution_event_def
          record_event_def)
    then show thesis using that by (auto simp: phase_of_def terminal_statuses_def)
  qed
  have "forward_step demo_env demo7 (snd (request_cancel demo_env ''e'' ''stop'' 4 demo7))" by (rule f_request_cancel)
  from executions_refine_phases [OF reachable7 r_into_rtranclp [of "forward_step demo_env", OF this] x(1)]
  show ?thesis using x by (intro bexI [OF _ x(1)]) auto
qed

definition demo8 :: ops_store where
  "demo8 = demo0\<lparr>os_jobs := [claimed_job],
     os_executions := [\<lparr>ex_id = ''j'', ex_job_id = ''j'', ex_project_id = None, ex_operation = ''op'', ex_workload_class = ''w'',
       ex_cwd = [], ex_status = ''running'', ex_created_at = 0, ex_started_at = Some 5, ex_finished_at = None,
       ex_cancel_requested_at = None, ex_reason = [], ex_result = None, ex_result_status_code = None,
       ex_owner_id = Some ''w'', ex_fencing_token = Some 1\<rparr>],
     os_controls := [\<lparr>ec_execution_id = ''j'', ec_cancel_requested_at = 6, ec_reason = ''stop''\<rparr>],
     os_leadership := \<lparr>lw_leases = [\<lparr>ll_instance_id = ''local'', ll_owner_id = ''w'', ll_acquired_at = 0, ll_heartbeat_at = 0,
       ll_expires_at = 50, ll_fencing_token = 1\<rparr>], lw_heartbeats = [], lw_controls = []\<rparr>\<rparr>"

theorem cancellation_wins_over_result_witness:
  "\<exists>w t. execution_finish demo_env ''j'' ''w'' 1 ''completed'' PNone [] None 7 demo8 = (Inr w, t) \<and>
     ev_status w = ''cancelled'' \<and> ev_reason w = ''stop''"
proof -
  have f: "fence_ok ''j'' ''w'' 1 7 demo8" "''completed'' \<in> set terminal_statuses" "cancellation_reason ''j'' demo8 = Some ''stop''"
    by code_simp+
  obtain v where v: "execution_get ''j'' demo8 = Inr v" "ev_status v \<notin> set terminal_statuses"
    by (simp add: execution_get_def demo8_def find_job_def claimed_job_def demo_job_def terminal_statuses_def Let_def)
  obtain r t where c: "execution_finish demo_env ''j'' ''w'' 1 ''completed'' PNone [] None 7 demo8 = (r, t)" by (rule prod.exhaust)
  from cancellation_wins_over_result [OF f(2,1) v f(3) _ c] show ?thesis using c by (auto simp: strip_ok)
qed

section \<open>Patches\<close>

definition demo_evidence :: pydict where
  "demo_evidence =
     [(''id'', PStr ''ev''), (''projectId'', PStr ''p''), (''jobId'', PStr ''j''), (''agentRunId'', PStr ''ar''),
      (''workflowRunId'', PNone), (''workspaceId'', PStr ''ws''), (''runtimeId'', PStr ''rt''),
      (''runtimeHealth'', PDict [(''ok'', PBool True)]), (''modelCalls'', PList []),
      (''toolCalls'', PList [PDict [(''id'', PStr ''t1'')]]),
      (''policyDecisions'', PList [PDict [(''id'', PStr ''d1''), (''decision'', PStr ''Allow'')]]),
      (''approvals'', PList []), (''qaVerdict'', PStr ''not_started''), (''diffSummary'', PDict []),
      (''artifacts'', PList [PDict [(''id'', PStr ''f''), (''kind'', PStr ''diff''), (''hash'', PStr ''x'')]]),
      (''hashes'', PDict [(''f'', PStr ''x'')]), (''createdAt'', PStr ''now''),
      (''testResults'', PList [PDict
         [(''status'', PStr ''passed''), (''exitCode'', PInt 0), (''execution'', PStr ''docker''), (''toolCallId'', PStr ''t1''),
          (''artifactHashes'', PDict [(''stdoutHash'', PStr ''a''), (''stderrHash'', PStr ''b''), (''outputArtifactHash'', PStr ''c'')]),
          (''metadata'', PDict [(''policyDecisionId'', PStr ''d1'')])]])]"

definition demo_patch_store :: ops_store where
  "demo_patch_store = demo0
     \<lparr>os_jobs := [demo_job\<lparr>jb_kind := ''agent.developer'', jb_status := ''approval_required''\<rparr>],
      os_actions := [demo_action\<lparr>ar_action_type := ''agent.developer.approve_patch'',
        ar_payload := [(''agentRunId'', PStr ''ar''), (''evidencePackageId'', PStr ''ev''), (''workspaceId'', PStr ''ws''),
          (''diffSummary'', PDict [(''patchArtifactId'', PStr ''f'')])]\<rparr>],
      os_agent_runs := [\<lparr>ag_id = ''ar'', ag_project_id = Some ''p'', ag_job_id = Some ''j'', ag_status = ''awaiting_permission'',
        ag_output = [(''runtimeResult'', PDict [(''status'', PStr ''completed''), (''returnCode'', PInt 0)])], ag_updated_at = 0\<rparr>],
      os_evidence := [demo_evidence]\<rparr>"

theorem accepted_patch_has_real_evidence_witness:
  "\<exists>t. decide_developer_patch demo_env ''j'' ''a'' ''ok'' ''op'' True 10 demo_patch_store = (Inr (), t) \<and>
     (\<exists>e \<in> set (os_evidence demo_patch_store). real_qa_evidence (je_other demo_env) e)"
proof -
  have "\<not> isl (patch_decision demo_env ''j'' ''a'' True demo_patch_store)" by code_simp
  then obtain a j run e where d: "patch_decision demo_env ''j'' ''a'' True demo_patch_store = Inr (a, j, run, e)"
    by (cases "patch_decision demo_env ''j'' ''a'' True demo_patch_store") auto
  have j: "\<exists>q. os_jobs demo_patch_store = [q] \<and> jb_id q = ''j''"
    by (simp add: demo_patch_store_def demo_job_def)
  have "os_jobs (write_patch_decision demo_env ''a'' ''ok'' ''op'' True 10 a run e demo_patch_store) = os_jobs demo_patch_store"
    by (simp add: write_patch_decision_def Let_def)
  then have "\<exists>q st. update_job_status demo_env ''j'' ''completed'' md 10
      (write_patch_decision demo_env ''a'' ''ok'' ''op'' True 10 a run e demo_patch_store) = (Inr q, st)" for md
    using j by (auto simp: update_job_status_def get_job_def find_job_def Let_def)
  then obtain q st where "update_job_status demo_env ''j'' ''completed''
      (Some [(''status'', PStr ''completed''), (''approval'', PDict (approval_dict ''a'' ''op'' ''ok'' 10 ''approved''))]) 10
      (write_patch_decision demo_env ''a'' ''ok'' ''op'' True 10 a run e demo_patch_store) = (Inr q, st)" by blast
  then obtain t where t: "decide_developer_patch demo_env ''j'' ''a'' ''ok'' ''op'' True 10 demo_patch_store = (Inr (), t)"
    by (simp add: decide_developer_patch_def immediate_transaction_def d Let_def)
  show ?thesis using accepted_patch_has_real_evidence [OF t] t by blast
qed

end
