(* ===== verification/Team_Catalog.thy ===== *)
theory Team_Catalog
  imports Py_Values
begin

text \<open>
  The constant tables of \<open>team_scheduler/scheduler.py\<close> and the default permission profiles of
  \<open>security_policy/policy_engine.py\<close>. A dict is an association list in its source order, a set
  literal a set, the amounts in dollars are rationals.
\<close>

section \<open>Roles, modes and risks\<close>

definition core_roles :: "string list" where
  "core_roles =
     [''product_owner'', ''technical_lead'']"

definition all_roles :: "string list" where
  "all_roles =
     [''aido_lead'', ''product_owner'', ''project_manager'', ''scrum_master'', ''architect'',
      ''technical_lead'', ''backend_engineer'', ''frontend_engineer'', ''mobile_engineer'',
      ''database_engineer'', ''data_engineer'', ''qa_engineer'', ''security_engineer'', ''pentester'',
      ''devops_engineer'', ''researcher'', ''release_manager'']"

definition modes :: "string list" where
  "modes =
     [''economy'', ''balanced'', ''critical'', ''maximum'']"

definition risks :: "string list" where
  "risks =
     [''low'', ''medium'', ''high'', ''critical'']"

definition risk_order :: "(string \<times> nat) list" where
  "risk_order = map (\<lambda>(index, risk). (risk, index)) (enumerate 0 risks)"

definition build_roles :: "string set" where
  "build_roles =
     {''backend_engineer'', ''frontend_engineer'', ''mobile_engineer'', ''data_engineer'',
      ''database_engineer'', ''devops_engineer'', ''pentester''}"

definition review_roles :: "string set" where
  "review_roles =
     {''qa_engineer'', ''security_engineer''}"

definition scope_roles :: "(string \<times> string) list" where
  "scope_roles =
     [(''backend'', ''backend_engineer''), (''api'', ''backend_engineer''),
      (''frontend'', ''frontend_engineer''), (''ui'', ''frontend_engineer''),
      (''web'', ''frontend_engineer''), (''mobile'', ''mobile_engineer''),
      (''data'', ''data_engineer''), (''ml'', ''data_engineer''), (''analytics'', ''data_engineer''),
      (''database'', ''database_engineer''), (''schema'', ''database_engineer''),
      (''migration'', ''database_engineer''), (''infra'', ''devops_engineer''),
      (''deploy'', ''devops_engineer''), (''ci'', ''devops_engineer''),
      (''devops'', ''devops_engineer''), (''research'', ''researcher''), (''spike'', ''researcher''),
      (''unknown'', ''researcher'')]"

definition security_scopes :: "string set" where
  "security_scopes =
     {''security'', ''auth'', ''data'', ''external'', ''payments'', ''compliance'', ''pii''}"

definition security_sensitive_scopes :: "string set" where
  "security_sensitive_scopes =
     {''payments'', ''auth'', ''security'', ''compliance'', ''pii''}"

definition architecture_scopes :: "string set" where
  "architecture_scopes =
     {''architecture'', ''new_system'', ''integration''}"

definition coordination_scopes :: "string set" where
  "coordination_scopes =
     {''coordination'', ''program'', ''portfolio'', ''roadmap'', ''planning'', ''release''}"

section \<open>Profiles of the roles\<close>

definition role_reviewers :: "(string \<times> string option) list" where
  "role_reviewers =
     [(''aido_lead'', None), (''product_owner'', None), (''project_manager'', Some ''product_owner''),
      (''scrum_master'', Some ''product_owner''), (''architect'', Some ''technical_lead''),
      (''technical_lead'', Some ''product_owner''), (''backend_engineer'', Some ''technical_lead''),
      (''frontend_engineer'', Some ''technical_lead''), (''mobile_engineer'', Some ''technical_lead''),
      (''data_engineer'', Some ''architect''), (''database_engineer'', Some ''architect''),
      (''qa_engineer'', Some ''technical_lead''), (''security_engineer'', Some ''technical_lead''),
      (''pentester'', Some ''security_engineer''), (''devops_engineer'', Some ''technical_lead''),
      (''release_manager'', Some ''technical_lead''), (''researcher'', Some ''technical_lead'')]"

definition role_skills :: "(string \<times> string list) list" where
  "role_skills =
     [(''aido_lead'', [''engineering-standards'', ''planning'']),
      (''product_owner'', [''brainstorming'', ''product-spec'']), (''project_manager'', [''planning'']),
      (''scrum_master'', [''planning'']), (''architect'', [''architecture-software'']),
      (''technical_lead'', [''engineering-standards'']),
      (''backend_engineer'', [''engineering-standards'']), (''frontend_engineer'', [''ui-ux-pro-max'']),
      (''mobile_engineer'', [''engineering-standards'']),
      (''data_engineer'', [''architecture-software'']),
      (''database_engineer'', [''architecture-software'']),
      (''qa_engineer'', [''systematic-debugging'', ''test-driven-development'']),
      (''security_engineer'', [''security-review'']), (''pentester'', [''security-review'']),
      (''devops_engineer'', [''devops'']), (''release_manager'', [''git-workflow'']),
      (''researcher'', [''deep-research''])]"

definition role_names :: "(string \<times> string) list" where
  "role_names =
     [(''aido_lead'', ''AIDO Lead / Coordinator''), (''product_owner'', ''Product Owner''),
      (''project_manager'', ''Project Manager''), (''scrum_master'', ''Scrum Master''),
      (''architect'', ''Architect''), (''technical_lead'', ''Technical Lead''),
      (''backend_engineer'', ''Backend Engineer''), (''frontend_engineer'', ''Frontend Engineer''),
      (''mobile_engineer'', ''Mobile Engineer''), (''database_engineer'', ''Database Engineer''),
      (''data_engineer'', ''Data Engineer''), (''qa_engineer'', ''QA Engineer''),
      (''security_engineer'', ''Security Engineer''), (''pentester'', ''Pentester''),
      (''devops_engineer'', ''DevOps Engineer''), (''researcher'', ''Researcher''),
      (''release_manager'', ''Release Manager'')]"

definition role_capabilities :: "(string \<times> string list) list" where
  "role_capabilities =
     [(''aido_lead'', [''team_orchestration'', ''risk_triage'', ''handoff_review'']),
      (''product_owner'', [''product_discovery'', ''brief_authoring'', ''acceptance_criteria'']),
      (''project_manager'', [''delivery_planning'', ''dependency_tracking'', ''schedule_review'']),
      (''scrum_master'', [''flow_facilitation'', ''blocker_tracking'', ''cadence_review'']),
      (''architect'', [''system_design'', ''contract_review'', ''adr_authoring'']),
      (''technical_lead'', [''task_decomposition'', ''code_review'', ''quality_strategy'']),
      (''backend_engineer'', [''code_edit'', ''api_design'', ''service_implementation'']),
      (''frontend_engineer'', [''code_edit'', ''ui_implementation'', ''accessibility'']),
      (''mobile_engineer'', [''code_edit'', ''mobile_implementation'', ''device_validation'']),
      (''database_engineer'', [''schema_design'', ''migration_authoring'', ''data_integrity'']),
      (''data_engineer'', [''pipeline_design'', ''analytics_modeling'', ''data_quality'']),
      (''qa_engineer'', [''test_design'', ''regression'', ''evidence_review'']),
      (''security_engineer'', [''security_review'', ''threat_modeling'', ''secret_scanning'']),
      (''pentester'', [''adversarial_testing'', ''exploit_validation'', ''abuse_case_review'']),
      (''devops_engineer'', [''ci_cd'', ''deployment'', ''runtime_operations'']),
      (''researcher'', [''source_research'', ''citation_review'', ''option_analysis'']),
      (''release_manager'', [''release_readiness'', ''rollback_planning'', ''change_control''])]"

definition role_required_input_artifacts :: "(string \<times> string list) list" where
  "role_required_input_artifacts =
     [(''aido_lead'', [''team_schedule'', ''risk_register'', ''handoff_log'']),
      (''product_owner'', [''user_message'', ''project_assessment'']),
      (''project_manager'', [''team_schedule'', ''delivery_plan'']),
      (''scrum_master'', [''team_schedule'', ''blocker_log'']),
      (''architect'', [''product_brief'', ''project_assessment'', ''constraints'']),
      (''technical_lead'', [''product_owner_output'', ''product_backlog'']),
      (''backend_engineer'', [''agent_task'', ''acceptance_criteria'', ''product_backlog'']),
      (''frontend_engineer'', [''agent_task'', ''acceptance_criteria'', ''product_backlog'']),
      (''mobile_engineer'', [''agent_task'', ''acceptance_criteria'', ''product_backlog'']),
      (''database_engineer'', [''agent_task'', ''schema_context'', ''migration_plan'']),
      (''data_engineer'', [''agent_task'', ''data_context'', ''quality_requirements'']),
      (''qa_engineer'', [''agent_task'', ''acceptance_criteria'', ''implementation_artifact'']),
      (''security_engineer'', [''agent_task'', ''threat_context'', ''implementation_artifact'']),
      (''pentester'', [''security_review'', ''target_scope'', ''authorization_context'']),
      (''devops_engineer'', [''agent_task'', ''runtime_context'', ''deployment_constraints'']),
      (''researcher'', [''research_question'', ''source_policy'']),
      (''release_manager'', [''release_candidate'', ''quality_evidence'', ''rollback_plan''])]"

definition base_role_provider_preference :: "(string \<times> string list) list" where
  "base_role_provider_preference =
     [(''aido_lead'', [''claude_code_cli'', ''codex_cli'', ''openai_compatible'']),
      (''product_owner'', [''gemini'', ''ollama'', ''codex_cli'', ''claude_code_cli'', ''openai_compatible'', ''openrouter'', ''nvidia_nim'', ''anthropic_api'']),
      (''project_manager'', [''openai_compatible'', ''ollama'']),
      (''scrum_master'', [''openai_compatible'', ''ollama'']),
      (''architect'', [''claude_code_cli'', ''openai_compatible'', ''nvidia_nim'']),
      (''technical_lead'', [''codex_cli'', ''claude_code_cli'', ''openai_compatible'']),
      (''backend_engineer'', [''codex_cli'', ''claude_code_cli'', ''openhands'', ''swe_agent'']),
      (''frontend_engineer'', [''codex_cli'', ''claude_code_cli'', ''openhands'', ''swe_agent'']),
      (''mobile_engineer'', [''codex_cli'', ''claude_code_cli'']),
      (''database_engineer'', [''codex_cli'', ''claude_code_cli'', ''openai_compatible'']),
      (''data_engineer'', [''codex_cli'', ''openai_compatible'', ''nvidia_nim'']),
      (''qa_engineer'', [''codex_cli'', ''claude_code_cli'', ''openai_compatible'']),
      (''security_engineer'', [''claude_code_cli'', ''openai_compatible'']),
      (''pentester'', [''claude_code_cli'', ''openai_compatible'']),
      (''devops_engineer'', [''codex_cli'', ''claude_code_cli'']),
      (''researcher'', [''openai_compatible'', ''openrouter'', ''nvidia_nim'', ''anthropic_api'']),
      (''release_manager'', [''claude_code_cli'', ''codex_cli''])]"

text \<open>The identifiers of \<open>agents/provider_catalog.py: PROVIDER_CATALOG\<close>, in its order.\<close>

definition provider_catalog_ids :: "string list" where
  "provider_catalog_ids =
     [''openai_api'', ''anthropic_api'', ''openrouter'', ''litellm'', ''omniroute'', ''nvidia_nim'',
      ''deepseek'', ''kimi'', ''mistral'', ''groq'', ''gemini'', ''azure_openai'', ''ollama'',
      ''ollama_remote'', ''llama_cpp'', ''lm_studio'', ''vllm'', ''local_openai_compatible'',
      ''openai_compatible'']"

definition technical_provider_ids :: "string list" where
  "technical_provider_ids =
     [''codex_cli'', ''claude_code_cli'', ''openhands'', ''swe_agent'', ''manual'']"

text \<open>\<open>list(dict.fromkeys(xs))\<close> keeps the first occurrence of each element.\<close>

definition from_keys :: "'a list \<Rightarrow> 'a list" where
  "from_keys xs = rev (fold List.insert xs [])"

definition known_provider_ids :: "string list" where
  "known_provider_ids = from_keys (provider_catalog_ids @ technical_provider_ids)"

definition role_provider_preference :: "(string \<times> string list) list" where
  "role_provider_preference =
     map (\<lambda>(role, preference). (role, from_keys (preference @ known_provider_ids)))
       base_role_provider_preference"

definition runtime_preference_overrides :: "(string \<times> string list) list" where
  "runtime_preference_overrides =
     [(''project_manager'', [''api'', ''ollama'']), (''scrum_master'', [''api'', ''ollama'']),
      (''backend_engineer'', [''cli'']), (''frontend_engineer'', [''cli'']),
      (''mobile_engineer'', [''cli'']), (''devops_engineer'', [''cli'']), (''researcher'', [''api'']),
      (''release_manager'', [''cli''])]"

definition role_runtime_preference :: "(string \<times> string list) list" where
  "role_runtime_preference =
     fold (\<lambda>(role, v). AList.update role v) runtime_preference_overrides
       (map (\<lambda>role. (role, [''cli'', ''api''])) all_roles)"

section \<open>Tools, gates, budgets and modes\<close>

definition build_tools :: "string list" where
  "build_tools = [''shell'', ''workspace_patch'']"

definition review_tools :: "string list" where
  "review_tools = [''shell'']"

definition reason_tools :: "string list" where
  "reason_tools = []"

definition role_extra_tools :: "(string \<times> string list) list" where
  "role_extra_tools =
     [(''aido_lead'', [''policy.evaluate'', ''evidence.create'', ''mcp'']),
      (''product_owner'', [''evidence.create'', ''mcp'']), (''project_manager'', [''evidence.create'']),
      (''scrum_master'', [''evidence.create'']),
      (''architect'', [''policy.evaluate'', ''evidence.create'', ''mcp'']),
      (''technical_lead'', [''policy.evaluate'', ''evidence.create'']),
      (''qa_engineer'', [''evidence.create'']),
      (''security_engineer'', [''policy.evaluate'', ''evidence.create'']),
      (''pentester'', [''policy.evaluate'', ''evidence.create'']),
      (''devops_engineer'', [''evidence.create'']), (''researcher'', [''mcp'', ''evidence.create'']),
      (''release_manager'', [''policy.evaluate'', ''evidence.create''])]"

definition role_extra_gates :: "(string \<times> string list) list" where
  "role_extra_gates =
     [(''security_engineer'', [''gitleaks'', ''semgrep'']),
      (''pentester'', [''pentest'', ''exploit_validation'']),
      (''database_engineer'', [''migration_check'', ''schema_review'']),
      (''release_manager'', [''release_checklist'', ''rollback_plan'']),
      (''qa_engineer'', [''regression'']), (''devops_engineer'', [''deploy_dry_run''])]"

definition review_gates :: "string set" where
  "review_gates =
     {''test'', ''security_scan'', ''coverage'', ''e2e'', ''regression''}"

definition budget_weight :: "(string \<times> rat) list" where
  "budget_weight =
     [(''build'', 1), (''review'', 3 / 4), (''reason'', 1 / 2)]"

definition permission_profile_by_role :: "(string \<times> string) list" where
  "permission_profile_by_role =
     [(''qa_engineer'', ''qa''), (''security_engineer'', ''qa''), (''pentester'', ''qa''),
      (''release_manager'', ''release'')]"

text \<open>Cost, tokens, seconds and the cost above which an approval is required.\<close>

definition role_cost_limits :: "(string \<times> rat \<times> int \<times> int \<times> rat) list" where
  "role_cost_limits =
     [(''aido_lead'', (6, 120000, 900, 3)), (''product_owner'', (4, 100000, 900, 2)),
      (''project_manager'', (3 / 2, 60000, 600, 1)), (''scrum_master'', (1, 50000, 600, 1)),
      (''architect'', (8, 160000, 900, 4)), (''technical_lead'', (6, 140000, 900, 3)),
      (''backend_engineer'', (5, 120000, 1200, 2)), (''frontend_engineer'', (5, 120000, 1200, 2)),
      (''mobile_engineer'', (5, 120000, 1200, 2)), (''database_engineer'', (4, 100000, 900, 2)),
      (''data_engineer'', (4, 100000, 900, 2)), (''qa_engineer'', (3, 80000, 900, 3 / 2)),
      (''security_engineer'', (5, 120000, 900, 2)), (''pentester'', (5, 100000, 900, 2)),
      (''devops_engineer'', (4, 90000, 900, 2)), (''researcher'', (4, 100000, 900, 2)),
      (''release_manager'', (3, 80000, 900, 3 / 2))]"

record mode_tier =
  mt_model_tier :: string
  mt_budget_usd :: rat
  mt_base_gates :: "string list"
  mt_review_depth :: string

definition mode_tiers :: "(string \<times> mode_tier) list" where
  "mode_tiers =
     [(''economy'', \<lparr>mt_model_tier = ''economy'', mt_budget_usd = 1,
       mt_base_gates = [''lint'', ''test''],
       mt_review_depth = ''self''\<rparr>),
      (''balanced'', \<lparr>mt_model_tier = ''standard'', mt_budget_usd = 4,
       mt_base_gates = [''lint'', ''test'', ''typecheck'', ''build''],
       mt_review_depth = ''peer''\<rparr>),
      (''critical'', \<lparr>mt_model_tier = ''high'', mt_budget_usd = 10,
       mt_base_gates = [''lint'', ''test'', ''typecheck'', ''build'', ''security_scan'', ''coverage''],
       mt_review_depth = ''gated''\<rparr>),
      (''maximum'', \<lparr>mt_model_tier = ''frontier'', mt_budget_usd = 25,
       mt_base_gates = [''lint'', ''test'', ''typecheck'', ''build'', ''security_scan'', ''coverage'', ''e2e'', ''performance'', ''pentest''],
       mt_review_depth = ''panel''\<rparr>)]"

definition provider_kinds :: "(string \<times> (string \<times> string) list) list" where
  "provider_kinds =
     [(''economy'', [(''build'', ''local''), (''review'', ''local''), (''reason'', ''local'')]),
      (''balanced'', [(''build'', ''openai_compatible''), (''review'', ''openai_compatible''), (''reason'', ''openai_compatible'')]),
      (''critical'', [(''build'', ''cli''), (''review'', ''cli''), (''reason'', ''openai_compatible'')]),
      (''maximum'', [(''build'', ''cli''), (''review'', ''cli''), (''reason'', ''cli'')])]"

definition runtime_by_provider_kind :: "(string \<times> string) list" where
  "runtime_by_provider_kind =
     [(''local'', ''ollama''), (''openai_compatible'', ''openai_compatible''),
      (''cli'', ''claude_code_cli'')]"

definition reviewer_model_tier :: "(string \<times> string) list" where
  "reviewer_model_tier =
     [(''economy'', ''standard''), (''balanced'', ''high''), (''critical'', ''frontier''),
      (''maximum'', ''frontier'')]"

section \<open>Permission profiles\<close>

definition profile_defaults :: "(string \<times> string) list" where
  "profile_defaults =
     [(''product_owner'', ''plan''), (''project_manager'', ''plan''), (''scrum_master'', ''plan''),
      (''architect'', ''plan''), (''technical_lead'', ''plan''), (''technical_lead_shadow'', ''plan''),
      (''researcher'', ''plan''), (''implementer'', ''dev_safe''), (''backend_engineer'', ''dev_safe''),
      (''frontend_engineer'', ''dev_safe''), (''mobile_engineer'', ''dev_safe''),
      (''data_engineer'', ''dev_safe''), (''database_engineer'', ''dev_safe''), (''devops'', ''qa''),
      (''devops_engineer'', ''qa''), (''qa_reviewer'', ''qa''), (''qa_engineer'', ''qa''),
      (''security_reviewer'', ''qa''), (''security_engineer'', ''qa''), (''pentester'', ''qa''),
      (''release_manager'', ''release'')]"

text \<open>An explicit profile of the payload wins; an unknown role falls back to the plan profile.\<close>

definition permission_profile_for :: "(pyval \<Rightarrow> string) \<Rightarrow> pydict \<Rightarrow> string" where
  "permission_profile_for other payload =
     (let explicit = py_or (dget payload ''permissionProfile'') (dget payload ''permission_profile'') in
      if truthy explicit then py_str other explicit
      else (case map_of profile_defaults (py_str other (py_or (dget payload ''role'') (PStr []))) of
              None \<Rightarrow> ''plan'' | Some profile \<Rightarrow> profile))"

lemmas team_tables = core_roles_def all_roles_def modes_def risks_def risk_order_def build_roles_def
  review_roles_def scope_roles_def security_scopes_def security_sensitive_scopes_def
  architecture_scopes_def coordination_scopes_def role_reviewers_def role_skills_def role_names_def
  role_capabilities_def role_required_input_artifacts_def role_runtime_preference_def
  runtime_preference_overrides_def role_extra_tools_def role_extra_gates_def review_gates_def
  budget_weight_def permission_profile_by_role_def role_cost_limits_def mode_tiers_def
  provider_kinds_def runtime_by_provider_kind_def reviewer_model_tier_def profile_defaults_def

lemma set_from_keys [simp]: "set (from_keys xs) = set xs"
proof -
  have "set (fold List.insert xs acc) = set xs \<union> set acc" for acc by (induction xs arbitrary: acc) auto
  then show ?thesis by (simp add: from_keys_def)
qed

lemma distinct_from_keys [simp]: "distinct (from_keys xs)"
proof -
  have "distinct acc \<Longrightarrow> distinct (fold List.insert xs acc)" for acc
    by (induction xs arbitrary: acc) auto
  then show ?thesis by (simp add: from_keys_def)
qed

lemma from_keys_distinct: "distinct xs \<Longrightarrow> from_keys xs = xs"
proof -
  have "distinct xs \<Longrightarrow> set xs \<inter> set acc = {} \<Longrightarrow> fold List.insert xs acc = rev xs @ acc" for acc
    by (induction xs arbitrary: acc) auto
  then show "distinct xs \<Longrightarrow> from_keys xs = xs" by (simp add: from_keys_def)
qed

end
