(* ===== verification/Team_Scheduler.thy ===== *)
theory Team_Scheduler
  imports Team_Catalog
begin

text \<open>
  \<open>team_scheduler/scheduler.py\<close>: from the scope, the risk and the mode of a task to a plan of
  the team. Roles are selected in two passes and each one is resolved to its execution profile.
  \<open>d[k]\<close> on a table is \<open>look\<close>, which raises \<open>KeyError\<close>; \<open>str(tag)\<close> of a value that
  is neither a text nor a number is the argument \<open>other\<close>. Dollars are exact: every budget of the
  tables is a multiple of a quarter, which a binary float holds without rounding.
\<close>

section \<open>Errors and tables\<close>

datatype team_error = TeamScheduleError string | KeyError string

definition look :: "(string \<times> 'a) list \<Rightarrow> string \<Rightarrow> team_error + 'a" where
  "look d k = (case map_of d k of None \<Rightarrow> Inl (KeyError k) | Some v \<Rightarrow> Inr v)"

definition get_or :: "(string \<times> 'a) list \<Rightarrow> string \<Rightarrow> 'a \<Rightarrow> 'a" where
  "get_or d k v = (case map_of d k of None \<Rightarrow> v | Some x \<Rightarrow> x)"

text \<open>\<open>str(list)\<close> of a list of plain texts, \<open>s.replace('_', '-')\<close> and \<open>round(x, 2)\<close>, which
  breaks ties to the even neighbour.\<close>

fun join_with :: "string \<Rightarrow> string list \<Rightarrow> string" where
  "join_with sep [] = []"
| "join_with sep [x] = x"
| "join_with sep (x # xs) = x @ sep @ join_with sep xs"

definition list_repr :: "string list \<Rightarrow> string" where
  "list_repr xs = ''['' @ join_with '', '' (map (\<lambda>x. [CHR 39] @ x @ [CHR 39]) xs) @ '']''"

definition dashed :: "string \<Rightarrow> string" where
  "dashed s = map (\<lambda>c. if c = CHR ''_'' then CHR ''-'' else c) s"

definition round_cents :: "rat \<Rightarrow> rat" where
  "round_cents x =
     (let n = \<lfloor>x * 100\<rfloor>; d = x * 100 - of_int n in
      of_int (if d < 1 / 2 \<or> d = 1 / 2 \<and> even n then n else n + 1) / 100)"

definition high_risk :: nat where
  "high_risk = get_or risk_order ''high'' 0"

section \<open>Selection of the roles\<close>

definition normalize_scope :: "(pyval \<Rightarrow> string) \<Rightarrow> pyval list \<Rightarrow> string set" where
  "normalize_scope other scope =
     (\<lambda>tag. py_lower (py_strip (py_str other tag))) ` {tag \<in> set scope. py_strip (py_str other tag) \<noteq> []}"

text \<open>\<open>if condition: base.add(role)\<close>.\<close>

definition add_when :: "bool \<Rightarrow> 'a \<Rightarrow> 'a set \<Rightarrow> 'a set" where
  "add_when condition role base = (if condition then insert role base else base)"

definition scoped_team :: "string set \<Rightarrow> string set" where
  "scoped_team scope = set core_roles \<union>
     (\<lambda>tag. get_or scope_roles tag []) ` {tag \<in> scope. map_of scope_roles tag \<noteq> None}"

definition base_team :: "string set \<Rightarrow> nat \<Rightarrow> string \<Rightarrow> string \<Rightarrow> string set" where
  "base_team scope risk_level risk mode =
     (let base = scoped_team scope;
          has_engineer = (base \<inter> build_roles \<noteq> {});
          base = add_when (has_engineer \<and> \<not> (mode = ''economy'' \<and> risk = ''low'')) ''qa_engineer'' base;
          base = add_when (scope \<inter> architecture_scopes \<noteq> {} \<or> risk_level \<ge> high_risk \<or>
                           mode \<in> {''critical'', ''maximum''}) ''architect'' base;
          base = add_when (scope \<inter> security_scopes \<noteq> {} \<or> risk_level \<ge> high_risk \<or> mode = ''maximum'')
                   ''security_engineer'' base;
          base = add_when (scope \<inter> {''security'', ''pentest'', ''pentester''} \<noteq> {} \<or>
                           (risk = ''critical'' \<and> mode \<in> {''critical'', ''maximum''})) ''pentester'' base
      in add_when (scope \<inter> {''release'', ''deploy''} \<noteq> {} \<or> mode = ''maximum'') ''release_manager'' base)"

definition coordination :: "string set \<Rightarrow> nat \<Rightarrow> string \<Rightarrow> string \<Rightarrow> string set \<Rightarrow> string set" where
  "coordination scope risk_level risk mode base =
     (let base = add_when (scope \<inter> coordination_scopes \<noteq> {} \<or> risk_level \<ge> high_risk \<or>
                           mode \<in> {''critical'', ''maximum''} \<or> card base \<ge> 5) ''aido_lead'' base;
          large = (mode = ''maximum'' \<or> risk = ''critical'' \<and> card base \<ge> 5)
      in add_when large ''scrum_master'' (add_when large ''project_manager'' base))"

definition select_roles :: "string set \<Rightarrow> string \<Rightarrow> string \<Rightarrow> team_error + string set" where
  "select_roles scope risk mode = try_then (look risk_order risk)
     (\<lambda>risk_level. Inr (coordination scope risk_level risk mode (base_team scope risk_level risk mode)))"

section \<open>Profile of one role\<close>

definition role_kind :: "string \<Rightarrow> string" where
  "role_kind role = (if role \<in> build_roles then ''build''
     else if role \<in> review_roles then ''review'' else ''reason'')"

definition output_artifact_schema :: "string \<Rightarrow> pyval" where
  "output_artifact_schema role =
     (let text_list = PDict [(''type'', PStr ''array''), (''items'', PDict [(''type'', PStr ''string'')])] in
      PDict [(''type'', PStr ''object''),
        (''required'', PList (map PStr [''artifactId'', ''summary'', ''status'', ''evidenceRefs'', ''qualityGates''])),
        (''properties'', PDict [
          (''artifactId'', PDict [(''type'', PStr ''string'')]),
          (''summary'', PDict [(''type'', PStr ''string'')]),
          (''status'', PDict [(''type'', PStr ''string''),
             (''enum'', PList (map PStr [''completed'', ''blocked'', ''failed'']))]),
          (''role'', PDict [(''type'', PStr ''string''), (''const'', PStr role)]),
          (''qualityGates'', text_list), (''quality_gates'', text_list),
          (''evidenceRefs'', text_list), (''riskNotes'', text_list)]),
        (''additionalProperties'', PBool False)])"

definition reviewer :: "string \<Rightarrow> string set \<Rightarrow> string \<Rightarrow> string \<Rightarrow> team_error + string option" where
  "reviewer role scope risk mode =
     (case get_or role_reviewers role None of
        None \<Rightarrow> Inr None
      | Some base \<Rightarrow>
          try_then (if scope \<inter> security_sensitive_scopes \<noteq> {} then Inr True
                    else try_then (look risk_order risk) (\<lambda>level. Inr (level \<ge> high_risk \<or>
                           role \<in> {''security_engineer'', ''pentester''})))
            (\<lambda>security_sensitive.
               Inr (if mode = ''economy'' \<and> risk = ''low'' \<and> \<not> security_sensitive then None else Some base)))"

record reviewer_policy =
  rp_mode :: string
  rp_reviewer_role :: "string option"
  rp_requires_different_model :: bool
  rp_reviewer_model_tier :: "string option"

definition role_reviewer_policy :: "string \<Rightarrow> string set \<Rightarrow> string \<Rightarrow> string \<Rightarrow> team_error + reviewer_policy" where
  "role_reviewer_policy role scope risk mode = try_then (reviewer role scope risk mode) (\<lambda>found.
     case found of
       None \<Rightarrow> try_then (if mode = ''economy'' \<and> risk = ''low'' then Inr ''none''
                   else try_then (look mode_tiers mode) (\<lambda>tier. Inr (mt_review_depth tier)))
         (\<lambda>depth. Inr \<lparr>rp_mode = depth, rp_reviewer_role = None, rp_requires_different_model = False,
                        rp_reviewer_model_tier = None\<rparr>)
     | Some by \<Rightarrow>
         try_then (if mode \<in> {''balanced'', ''critical'', ''maximum''} then Inr True
                   else try_then (look risk_order risk) (\<lambda>level. Inr (level \<ge> high_risk))) (\<lambda>different.
         try_then (look mode_tiers mode) (\<lambda>tier.
         try_then (if different then look reviewer_model_tier mode else Inr (mt_model_tier tier)) (\<lambda>model_tier.
           Inr \<lparr>rp_mode = mt_review_depth tier, rp_reviewer_role = Some by,
                rp_requires_different_model = different, rp_reviewer_model_tier = Some model_tier\<rparr>))))"

definition permission_profile :: "string \<Rightarrow> string" where
  "permission_profile role = (case map_of permission_profile_by_role role of
     Some profile \<Rightarrow> profile
   | None \<Rightarrow> permission_profile_for (\<lambda>_. []) [(''role'', PStr role)])"

definition quality_gates :: "string \<Rightarrow> string \<Rightarrow> mode_tier \<Rightarrow> string list" where
  "quality_gates role kind tier =
     (let extras = get_or role_extra_gates role [];
          base = (if kind = ''build'' then mt_base_gates tier
                  else if kind = ''review'' then filter (\<lambda>gate. gate \<in> review_gates) (mt_base_gates tier)
                  else [''review''])
      in from_keys (base @ extras))"

definition tools_for :: "string \<Rightarrow> string \<Rightarrow> string list" where
  "tools_for kind role =
     get_or [(''build'', build_tools), (''review'', review_tools)] kind reason_tools @ get_or role_extra_tools role []"

definition enabled_runtime :: "string \<Rightarrow> string list \<Rightarrow> string set \<Rightarrow> team_error + string option" where
  "enabled_runtime provider_kind preference disabled =
     try_then (look runtime_by_provider_kind provider_kind) (\<lambda>dflt.
       Inr (if dflt \<notin> disabled then Some dflt else find (\<lambda>provider. provider \<notin> disabled) preference))"

record role_plan =
  rl_role :: string
  rl_name :: string
  rl_kind :: string
  rl_capabilities :: "string list"
  rl_permission_profile :: string
  rl_provider_kind :: string
  rl_provider_preference :: "string list"
  rl_model_tier :: string
  rl_runtime :: "string option"
  rl_runtime_preference :: "string list"
  rl_skills :: "string list"
  rl_tools :: "string list"
  rl_tools_allowed :: "string list"
  rl_required_input_artifacts :: "string list"
  rl_output_artifact_schema :: pyval
  rl_budget_usd :: rat
  rl_reviewer :: "string option"
  rl_reviewer_policy :: reviewer_policy
  rl_quality_gates :: "string list"

definition resolve_role :: "string \<Rightarrow> string set \<Rightarrow> string \<Rightarrow> string \<Rightarrow> string set \<Rightarrow> team_error + role_plan" where
  "resolve_role role scope risk mode disabled =
     try_then (look mode_tiers mode) (\<lambda>tier.
     let kind = role_kind role; tools = tools_for kind role in
     try_then (try_then (look provider_kinds mode) (\<lambda>kinds. look kinds kind)) (\<lambda>provider_kind.
     try_then (look role_provider_preference role) (\<lambda>preferred.
     let provider_preference = filter (\<lambda>provider. provider \<notin> disabled) preferred in
     try_then (role_reviewer_policy role scope risk mode) (\<lambda>policy.
     try_then (look role_names role) (\<lambda>name.
     try_then (look role_capabilities role) (\<lambda>capabilities.
     try_then (enabled_runtime provider_kind provider_preference disabled) (\<lambda>runtime.
     try_then (look role_runtime_preference role) (\<lambda>runtime_preference.
     try_then (look role_required_input_artifacts role) (\<lambda>artifacts.
     try_then (look budget_weight kind) (\<lambda>weight.
     try_then (reviewer role scope risk mode) (\<lambda>found.
       Inr \<lparr>rl_role = role, rl_name = name, rl_kind = kind, rl_capabilities = capabilities,
            rl_permission_profile = permission_profile role, rl_provider_kind = provider_kind,
            rl_provider_preference = provider_preference, rl_model_tier = mt_model_tier tier,
            rl_runtime = runtime, rl_runtime_preference = runtime_preference,
            rl_skills = get_or role_skills role [], rl_tools = tools, rl_tools_allowed = tools,
            rl_required_input_artifacts = artifacts,
            rl_output_artifact_schema = output_artifact_schema role,
            rl_budget_usd = round_cents (mt_budget_usd tier * weight), rl_reviewer = found,
            rl_reviewer_policy = policy, rl_quality_gates = quality_gates role kind tier\<rparr>)))))))))))"

section \<open>The plan\<close>

fun collect :: "('a \<Rightarrow> 'e + 'b) \<Rightarrow> 'a list \<Rightarrow> 'e + 'b list" where
  "collect f [] = Inr []"
| "collect f (x # xs) = try_then (f x) (\<lambda>y. try_then (collect f xs) (\<lambda>ys. Inr (y # ys)))"

record team_plan =
  tp_scheduler_version :: nat
  tp_mode :: string
  tp_risk :: string
  tp_scope :: "string list"
  tp_model_tier :: string
  tp_review_depth :: string
  tp_roles :: "role_plan list"
  tp_role_count :: nat
  tp_role_names :: "string list"
  tp_reviewed_roles :: nat
  tp_total_budget_usd :: rat

definition scheduler_version :: nat where
  "scheduler_version = 2"

definition schedule_team ::
    "(pyval \<Rightarrow> string) \<Rightarrow> pyval list \<Rightarrow> string \<Rightarrow> string \<Rightarrow> string set \<Rightarrow> team_error + team_plan" where
  "schedule_team other scope risk mode disabled =
     (if map_of mode_tiers mode = None then
        Inl (TeamScheduleError (''Unknown team mode: '' @ mode @ ''. Expected one of '' @ list_repr modes @ ''.''))
      else if map_of risk_order risk = None then
        Inl (TeamScheduleError (''Unknown task risk: '' @ risk @ ''. Expected one of '' @ list_repr risks @ ''.''))
      else let normalized = normalize_scope other scope in
        try_then (select_roles normalized risk mode) (\<lambda>roles.
        try_then (collect (\<lambda>role. resolve_role role normalized risk mode disabled) (sorted_list_of_set roles))
          (\<lambda>assignments.
        try_then (look mode_tiers mode) (\<lambda>tier.
          Inr \<lparr>tp_scheduler_version = scheduler_version, tp_mode = mode, tp_risk = risk,
               tp_scope = sorted_list_of_set normalized, tp_model_tier = mt_model_tier tier,
               tp_review_depth = mt_review_depth tier, tp_roles = assignments,
               tp_role_count = length assignments, tp_role_names = map rl_role assignments,
               tp_reviewed_roles = length (filter (\<lambda>a. rl_reviewer a \<noteq> None) assignments),
               tp_total_budget_usd = round_cents (sum_list (map rl_budget_usd assignments))\<rparr>))))"

section \<open>The catalogue of profiles\<close>

definition provider_catalog_version :: string where
  "provider_catalog_version = ''2026-07-25''"

record runtime_policy =
  dp_provider_candidates :: "string list"
  dp_required_capabilities :: "string list"
  dp_selection :: string
  dp_fallback :: string

definition default_runtime_policy :: "string \<Rightarrow> string set \<Rightarrow> team_error + runtime_policy" where
  "default_runtime_policy role disabled =
     try_then (look role_capabilities role) (\<lambda>capabilities.
     try_then (look role_provider_preference role) (\<lambda>preferred.
       Inr \<lparr>dp_provider_candidates = filter (\<lambda>provider. provider \<notin> disabled) preferred,
            dp_required_capabilities = (if ''code_edit'' \<in> set capabilities then [''code_edit''] else [''chat'']),
            dp_selection = ''first_executable'', dp_fallback = ''blocked_with_reason''\<rparr>))"

record role_record =
  rr_id :: string
  rr_scheduler_version :: nat
  rr_provider_catalog_version :: string
  rr_name :: string
  rr_role :: string
  rr_runtime_mode :: string
  rr_allowed_providers :: "string list"
  rr_allowed_runtimes :: "string list"
  rr_allowed_tools :: "string list"
  rr_allowed_skills :: "string list"
  rr_permission_profile :: string
  rr_max_cost_per_run :: rat
  rr_max_tokens_per_run :: int
  rr_max_runtime_seconds :: int
  rr_requires_approval_over_usd :: rat
  rr_quality_gates :: "string list"
  rr_default_runtime_policy :: runtime_policy
  rr_reviewer_policy :: reviewer_policy
  rr_output_schema :: pyval
  rr_capabilities :: "string list"
  rr_required_input_artifacts :: "string list"
  rr_provider_preference :: "string list"
  rr_runtime_preference :: "string list"

definition default_role_record :: "string \<Rightarrow> string set \<Rightarrow> team_error + role_record" where
  "default_role_record role disabled =
     try_then (look role_cost_limits role) (\<lambda>(max_cost, max_tokens, max_seconds, approval_usd).
     try_then (resolve_role role {} ''medium'' ''balanced'' disabled) (\<lambda>profile.
     try_then (look role_names role) (\<lambda>name.
     try_then (look role_runtime_preference role) (\<lambda>runtimes.
     try_then (default_runtime_policy role disabled) (\<lambda>policy.
     try_then (look role_capabilities role) (\<lambda>capabilities.
     try_then (look role_required_input_artifacts role) (\<lambda>artifacts.
       Inr \<lparr>rr_id = ''base-'' @ dashed role, rr_scheduler_version = scheduler_version,
            rr_provider_catalog_version = provider_catalog_version, rr_name = name, rr_role = role, rr_runtime_mode = runtimes ! 0,
            rr_allowed_providers = [''*''], rr_allowed_runtimes = [''*''],
            rr_allowed_tools = rl_tools_allowed profile, rr_allowed_skills = rl_skills profile,
            rr_permission_profile = permission_profile role, rr_max_cost_per_run = max_cost,
            rr_max_tokens_per_run = max_tokens, rr_max_runtime_seconds = max_seconds,
            rr_requires_approval_over_usd = approval_usd, rr_quality_gates = rl_quality_gates profile,
            rr_default_runtime_policy = policy, rr_reviewer_policy = rl_reviewer_policy profile,
            rr_output_schema = rl_output_artifact_schema profile, rr_capabilities = capabilities,
            rr_required_input_artifacts = artifacts,
            rr_provider_preference = rl_provider_preference profile,
            rr_runtime_preference = runtimes\<rparr>)))))))"

definition team_member_defaults :: "string set \<Rightarrow> team_error + role_record list" where
  "team_member_defaults disabled = collect (\<lambda>role. default_role_record role disabled) all_roles"

record team_profile =
  tf_id :: string
  tf_role :: string
  tf_name :: string
  tf_capabilities :: "string list"
  tf_runtime_preference :: "string list"
  tf_provider_preference :: "string list"
  tf_tools_allowed :: "string list"
  tf_required_input_artifacts :: "string list"
  tf_output_artifact_schema :: pyval
  tf_reviewer_policy :: reviewer_policy
  tf_quality_gates :: "string list"
  tf_scheduler_version :: nat
  tf_agent_profile_id :: string

definition team_profile_row :: "string \<Rightarrow> role_record \<Rightarrow> team_profile" where
  "team_profile_row role r =
     \<lparr>tf_id = ''team-profile-'' @ dashed role, tf_role = role, tf_name = rr_name r,
      tf_capabilities = rr_capabilities r, tf_runtime_preference = rr_runtime_preference r,
      tf_provider_preference = rr_provider_preference r, tf_tools_allowed = rr_allowed_tools r,
      tf_required_input_artifacts = rr_required_input_artifacts r,
      tf_output_artifact_schema = rr_output_schema r, tf_reviewer_policy = rr_reviewer_policy r,
      tf_quality_gates = rr_quality_gates r, tf_scheduler_version = scheduler_version,
      tf_agent_profile_id = rr_id r\<rparr>"

definition team_profiles :: "string set \<Rightarrow> team_error + team_profile list" where
  "team_profiles disabled =
     collect (\<lambda>role. try_then (default_role_record role disabled) (\<lambda>r. Inr (team_profile_row role r))) all_roles"

end
