(* ===== verification/Team_Properties.thy ===== *)
theory Team_Properties
  imports Team_Scheduler
begin

text \<open>
  What the plan of a team guarantees: every lookup of the catalogue succeeds, the selection is
  monotone, reviewers are independent, disabled providers are never used, the budget is bounded.
\<close>

section \<open>The tables cover the roles\<close>

lemma look_Inr_iff [simp]: "look d k = Inr v \<longleftrightarrow> map_of d k = Some v"
  by (auto simp: look_def split: option.splits)

lemma lookE: "map_of d k \<noteq> None \<Longrightarrow> (\<And>v. map_of d k = Some v \<Longrightarrow> look d k = Inr v \<Longrightarrow> P) \<Longrightarrow> P"
  by (cases "map_of d k") (auto simp: look_def)

definition covers :: "(string \<times> 'a) list \<Rightarrow> bool" where
  "covers d = list_all (\<lambda>role. map_of d role \<noteq> None) all_roles"

lemma coversD: "covers d \<Longrightarrow> role \<in> set all_roles \<Longrightarrow> map_of d role \<noteq> None"
  by (simp add: covers_def list_all_iff)

lemma tables_cover:
  "covers role_names" "covers role_capabilities" "covers role_required_input_artifacts"
  "covers role_runtime_preference" "covers role_cost_limits" "covers base_role_provider_preference"
  by code_simp+

lemma provider_preference_covers: "covers role_provider_preference"
proof -
  have "map_of role_provider_preference r = map_option (\<lambda>p. from_keys (p @ known_provider_ids))
      (map_of base_role_provider_preference r)" for r
    unfolding role_provider_preference_def by (simp add: map_of_map)
  with tables_cover(6) show ?thesis by (simp add: covers_def)
qed

lemma mode_cases:
  assumes "mode \<in> set modes"
  obtains "mode = ''economy''" | "mode = ''balanced''" | "mode = ''critical''" | "mode = ''maximum''"
  using assms by (auto simp: modes_def)

lemma risk_cases:
  assumes "risk \<in> set risks"
  obtains "risk = ''low''" | "risk = ''medium''" | "risk = ''high''" | "risk = ''critical''"
  using assms by (auto simp: risks_def)

lemma risk_order_simps [simp]:
  "map_of risk_order ''low'' = Some 0" "map_of risk_order ''medium'' = Some 1"
  "map_of risk_order ''high'' = Some 2" "map_of risk_order ''critical'' = Some 3" "high_risk = 2"
  by (simp_all add: high_risk_def risk_order_def risks_def get_or_def)

lemma risk_known: "map_of risk_order risk \<noteq> None \<longleftrightarrow> risk \<in> set risks"
  by (auto simp: risk_order_def risks_def)

lemma mode_known: "map_of mode_tiers mode \<noteq> None \<longleftrightarrow> mode \<in> set modes"
  by (auto simp: mode_tiers_def modes_def)

definition tier_of :: "string \<Rightarrow> mode_tier" where
  "tier_of mode = the (map_of mode_tiers mode)"

definition level_of :: "string \<Rightarrow> nat" where
  "level_of risk = the (map_of risk_order risk)"

lemma look_tier: "mode \<in> set modes \<Longrightarrow> look mode_tiers mode = Inr (tier_of mode)"
  using mode_known [of mode] by (auto simp: tier_of_def)

lemma look_level: "risk \<in> set risks \<Longrightarrow> look risk_order risk = Inr (level_of risk)"
  using risk_known [of risk] by (auto simp: level_of_def)

lemma level_of_simps [simp]: "level_of ''low'' = 0" "level_of ''medium'' = 1" "level_of ''high'' = 2"
  "level_of ''critical'' = 3"
  by (simp_all add: level_of_def)

section \<open>Selected roles\<close>

lemma select_roles_valid:
  "risk \<in> set risks \<Longrightarrow> select_roles scope risk mode =
     Inr (coordination scope (level_of risk) risk mode (base_team scope (level_of risk) risk mode))"
  by (simp add: select_roles_def look_level)

lemma scope_role_known: "map_of scope_roles tag = Some r \<Longrightarrow> r \<in> set all_roles"
  by (auto simp: scope_roles_def all_roles_def split: if_splits)

lemma add_when_subset: "base \<subseteq> R \<Longrightarrow> r \<in> R \<Longrightarrow> add_when c r base \<subseteq> R"
  by (simp add: add_when_def)

lemma add_when_superset: "R \<subseteq> base \<Longrightarrow> R \<subseteq> add_when c r base"
  by (auto simp: add_when_def)

lemma add_when_hit: "c \<Longrightarrow> r \<in> add_when c r base"
  by (simp add: add_when_def)

lemma add_when_mono: "base \<subseteq> base' \<Longrightarrow> (c \<Longrightarrow> c') \<Longrightarrow> add_when c r base \<subseteq> add_when c' r base'"
  by (auto simp: add_when_def)

lemma scoped_team_subset: "scoped_team scope \<subseteq> set all_roles"
proof -
  have "set core_roles \<subseteq> set all_roles" by (simp add: core_roles_def all_roles_def)
  then show ?thesis using scope_role_known by (auto simp: scoped_team_def get_or_def)
qed

lemma scoped_team_mono: "scope \<subseteq> scope' \<Longrightarrow> scoped_team scope \<subseteq> scoped_team scope'"
  unfolding scoped_team_def by blast

lemma role_in_catalogue:
  "''qa_engineer'' \<in> set all_roles" "''architect'' \<in> set all_roles" "''security_engineer'' \<in> set all_roles"
  "''pentester'' \<in> set all_roles" "''release_manager'' \<in> set all_roles" "''aido_lead'' \<in> set all_roles"
  "''project_manager'' \<in> set all_roles" "''scrum_master'' \<in> set all_roles"
  by code_simp+

lemma base_team_subset: "base_team scope level risk mode \<subseteq> set all_roles"
  unfolding base_team_def Let_def by (intro add_when_subset scoped_team_subset role_in_catalogue)

lemma base_team_core: "set core_roles \<subseteq> base_team scope level risk mode"
proof -
  have "set core_roles \<subseteq> scoped_team scope" by (auto simp: scoped_team_def)
  then show ?thesis unfolding base_team_def Let_def by (intro add_when_superset)
qed

lemma coordination_superset: "base \<subseteq> coordination scope level risk mode base"
  unfolding coordination_def Let_def by (intro add_when_superset) simp

lemma coordination_subset:
  "base \<subseteq> set all_roles \<Longrightarrow> coordination scope level risk mode base \<subseteq> set all_roles"
  unfolding coordination_def Let_def by (intro add_when_subset role_in_catalogue)

lemma select_roles_bounds:
  assumes "select_roles scope risk mode = Inr roles"
  shows "set core_roles \<subseteq> roles" "roles \<subseteq> set all_roles" "finite roles"
proof -
  obtain level where r: "roles = coordination scope level risk mode (base_team scope level risk mode)"
    using assms by (auto simp: select_roles_def try_then_Inr_iff)
  show "set core_roles \<subseteq> roles" unfolding r using base_team_core coordination_superset by blast
  show "roles \<subseteq> set all_roles" unfolding r using coordination_subset [OF base_team_subset] by blast
  then show "finite roles" by (rule finite_subset) simp
qed

definition rank_of :: "string \<Rightarrow> nat" where
  "rank_of mode = length (takeWhile (\<lambda>m. m \<noteq> mode) modes)"

lemma rank_of_simps [simp]:
  "rank_of ''economy'' = 0" "rank_of ''balanced'' = 1" "rank_of ''critical'' = 2" "rank_of ''maximum'' = 3"
  by (simp_all add: rank_of_def modes_def)

lemma mode_by_rank:
  assumes "mode \<in> set modes"
  shows "mode = ''economy'' \<longleftrightarrow> rank_of mode = 0" "mode = ''maximum'' \<longleftrightarrow> rank_of mode \<ge> 3"
    "mode \<in> {''critical'', ''maximum''} \<longleftrightarrow> rank_of mode \<ge> 2"
  by (cases rule: mode_cases [OF assms]; simp)+

lemma risk_by_level:
  assumes "risk \<in> set risks"
  shows "risk = ''low'' \<longleftrightarrow> level_of risk = 0" "risk = ''critical'' \<longleftrightarrow> level_of risk \<ge> 3"
    "high_risk \<le> level_of risk \<longleftrightarrow> level_of risk \<ge> 2"
  by (cases rule: risk_cases [OF assms]; simp)+

lemma conditions_mono:
  assumes "mode \<in> set modes" "mode' \<in> set modes" "rank_of mode \<le> rank_of mode'"
    and "risk \<in> set risks" "risk' \<in> set risks" "level_of risk \<le> level_of risk'"
  shows "mode' = ''economy'' \<and> risk' = ''low'' \<Longrightarrow> mode = ''economy'' \<and> risk = ''low''"
    and "mode \<in> {''critical'', ''maximum''} \<Longrightarrow> mode' \<in> {''critical'', ''maximum''}"
    and "mode = ''maximum'' \<Longrightarrow> mode' = ''maximum''"
    and "risk = ''critical'' \<Longrightarrow> risk' = ''critical''"
    and "level_of risk \<ge> high_risk \<Longrightarrow> level_of risk' \<ge> high_risk"
  using assms(3,6)
  unfolding mode_by_rank [OF assms(1)] mode_by_rank [OF assms(2)] risk_by_level [OF assms(4)]
    risk_by_level [OF assms(5)] by simp_all

lemma meets_mono: "scope \<subseteq> scope' \<Longrightarrow> scope \<inter> A \<noteq> {} \<Longrightarrow> scope' \<inter> A \<noteq> {}"
  by blast

lemma base_team_mono:
  assumes "scope \<subseteq> scope'" "mode \<in> set modes" "mode' \<in> set modes" "rank_of mode \<le> rank_of mode'"
    and "risk \<in> set risks" "risk' \<in> set risks" "level_of risk \<le> level_of risk'"
  shows "base_team scope (level_of risk) risk mode \<subseteq> base_team scope' (level_of risk') risk' mode'"
proof -
  note c = conditions_mono [OF assms(2-7)] and m = meets_mono [OF assms(1)]
  have t: "scoped_team scope \<subseteq> scoped_team scope'" using assms(1) by (rule scoped_team_mono)
  then have e: "scoped_team scope \<inter> build_roles \<noteq> {} \<Longrightarrow> scoped_team scope' \<inter> build_roles \<noteq> {}" by blast
  show ?thesis unfolding base_team_def Let_def
    by (intro add_when_mono t)
      (assumption | erule disj_forward conj_forward c(2-5) m e | erule contrapos_nn, erule c(1))+
qed

text \<open>The selection of roles is monotone: more scope, a higher risk and a higher mode never drop
  a role from the team.\<close>

theorem select_roles_monotone:
  assumes "scope \<subseteq> scope'" "mode \<in> set modes" "mode' \<in> set modes" "rank_of mode \<le> rank_of mode'"
    and "risk \<in> set risks" "risk' \<in> set risks" "level_of risk \<le> level_of risk'"
    and "select_roles scope risk mode = Inr roles" "select_roles scope' risk' mode' = Inr roles'"
  shows "roles \<subseteq> roles'"
proof -
  let ?b = "base_team scope (level_of risk) risk mode" and ?b' = "base_team scope' (level_of risk') risk' mode'"
  note c = conditions_mono [OF assms(2-7)] and m = meets_mono [OF assms(1)]
  have b: "?b \<subseteq> ?b'" using base_team_mono [OF assms(1-7)] .
  have fin: "finite X" if "X \<subseteq> set all_roles" for X using that by (rule finite_subset) simp
  have card_mono': "card X \<ge> 5 \<Longrightarrow> card Y \<ge> 5" if "X \<subseteq> Y" "Y \<subseteq> set all_roles" for X Y :: "string set"
    using card_mono [OF fin [OF that(2)] that(1)] by linarith
  have b5: "card ?b \<ge> 5 \<Longrightarrow> card ?b' \<ge> 5" using b base_team_subset by (rule card_mono')
  have lead: "add_when k ''aido_lead'' ?b \<subseteq> add_when k' ''aido_lead'' ?b'" if "k \<Longrightarrow> k'" for k k'
    using b that by (rule add_when_mono)
  have lead5: "card (add_when k ''aido_lead'' ?b) \<ge> 5 \<Longrightarrow> card (add_when k' ''aido_lead'' ?b') \<ge> 5"
    if "k \<Longrightarrow> k'" for k k'
  proof -
    have "add_when k' ''aido_lead'' ?b' \<subseteq> set all_roles"
      by (intro add_when_subset base_team_subset role_in_catalogue)
    with lead [OF that] show "card (add_when k ''aido_lead'' ?b) \<ge> 5 \<Longrightarrow> card (add_when k' ''aido_lead'' ?b') \<ge> 5"
      by (rule card_mono')
  qed
  have "coordination scope (level_of risk) risk mode ?b \<subseteq> coordination scope' (level_of risk') risk' mode' ?b'"
    unfolding coordination_def Let_def
    by (intro add_when_mono b)
      (assumption | erule disj_forward conj_forward c(2-5) m b5 lead5 [rotated])+
  then show ?thesis using assms(8,9) by (simp add: select_roles_valid assms(5,6))
qed

section \<open>Resolved roles\<close>

definition sensitive :: "string \<Rightarrow> string set \<Rightarrow> string \<Rightarrow> bool" where
  "sensitive role scope risk = (scope \<inter> security_sensitive_scopes \<noteq> {} \<or> level_of risk \<ge> high_risk \<or>
     role \<in> {''security_engineer'', ''pentester''})"

definition reviewer_of :: "string \<Rightarrow> string set \<Rightarrow> string \<Rightarrow> string \<Rightarrow> string option" where
  "reviewer_of role scope risk mode =
     (if mode = ''economy'' \<and> risk = ''low'' \<and> \<not> sensitive role scope risk then None
      else get_or role_reviewers role None)"

lemma reviewer_valid:
  "risk \<in> set risks \<Longrightarrow> reviewer role scope risk mode = Inr (reviewer_of role scope risk mode)"
  unfolding reviewer_def reviewer_of_def sensitive_def
  by (simp only: look_level try_then_simps if_True if_False split: option.split if_split) auto

lemma reviewer_model_tier_known: "mode \<in> set modes \<Longrightarrow> map_of reviewer_model_tier mode \<noteq> None"
  by (auto simp: modes_def reviewer_model_tier_def)

lemma role_reviewer_policy_valid:
  assumes "mode \<in> set modes" "risk \<in> set risks"
  obtains policy where "role_reviewer_policy role scope risk mode = Inr policy"
    "rp_reviewer_role policy = reviewer_of role scope risk mode"
    "rp_requires_different_model policy \<longleftrightarrow> reviewer_of role scope risk mode \<noteq> None \<and>
       (mode \<noteq> ''economy'' \<or> level_of risk \<ge> high_risk)"
proof (cases "reviewer_of role scope risk mode")
  case None
  then show ?thesis using that assms
    by (cases "mode = ''economy'' \<and> risk = ''low''")
      (simp_all add: role_reviewer_policy_def reviewer_valid look_tier)
next
  case (Some by_role)
  let ?different = "mode \<in> {''balanced'', ''critical'', ''maximum''} \<or> level_of risk \<ge> high_risk"
  have m: "mode \<in> {''balanced'', ''critical'', ''maximum''} \<longleftrightarrow> mode \<noteq> ''economy''"
    using assms(1) by (auto simp: modes_def)
  obtain tier where tier: "look reviewer_model_tier mode = Inr tier"
    using reviewer_model_tier_known [OF assms(1)] by (rule lookE)
  have d: "(if mode \<in> {''balanced'', ''critical'', ''maximum''} then Inr True
      else try_then (look risk_order risk) (\<lambda>level. Inr (level \<ge> high_risk))) = Inr ?different"
    using assms(2) by (simp only: look_level try_then_simps split: if_split) simp
  have "role_reviewer_policy role scope risk mode = Inr \<lparr>rp_mode = mt_review_depth (tier_of mode),
      rp_reviewer_role = Some by_role, rp_requires_different_model = ?different,
      rp_reviewer_model_tier = Some (if ?different then tier else mt_model_tier (tier_of mode))\<rparr>"
    unfolding role_reviewer_policy_def reviewer_valid [OF assms(2)] Some try_then_simps option.case d
      look_tier [OF assms(1)] tier
    by (simp split: if_split)
  then show ?thesis by (rule that) (simp_all add: Some m del: insert_iff)
qed

lemma kind_tables:
  "map_of budget_weight (role_kind role) \<in> {Some 1, Some (3/4), Some (1/2)}"
  "mode \<in> set modes \<Longrightarrow> map_of provider_kinds mode \<noteq> None"
  "map_of provider_kinds mode = Some kinds \<Longrightarrow> map_of kinds (role_kind role) \<noteq> None"
  "map_of provider_kinds mode = Some kinds \<Longrightarrow> map_of kinds kind = Some provider \<Longrightarrow>
     map_of runtime_by_provider_kind provider \<noteq> None"
  by (auto simp: budget_weight_def role_kind_def modes_def provider_kinds_def runtime_by_provider_kind_def
      split: if_splits)

lemma enabled_runtime_total:
  "map_of runtime_by_provider_kind kind \<noteq> None \<Longrightarrow> \<exists>r. enabled_runtime kind preference disabled = Inr r"
  by (auto simp: enabled_runtime_def try_then_Inr_iff)

lemma resolve_role_total:
  assumes "role \<in> set all_roles" "mode \<in> set modes" "risk \<in> set risks"
  shows "\<exists>p. resolve_role role scope risk mode disabled = Inr p"
proof -
  note c = tables_cover [THEN coversD, OF assms(1)] coversD [OF provider_preference_covers assms(1)]
  obtain kinds where k: "map_of provider_kinds mode = Some kinds"
    using kind_tables(2) [OF assms(2)] by blast
  obtain provider where v: "map_of kinds (role_kind role) = Some provider"
    using kind_tables(3) [OF k] by blast
  obtain preferred where pr: "map_of role_provider_preference role = Some preferred" using c by blast
  obtain policy where po: "role_reviewer_policy role scope risk mode = Inr policy"
    using role_reviewer_policy_valid [OF assms(2,3)] by blast
  obtain r where r: "enabled_runtime provider (filter (\<lambda>provider. provider \<notin> disabled) preferred) disabled = Inr r"
    using enabled_runtime_total [OF kind_tables(4) [OF k v]] by blast
  have weight: "map_of budget_weight (role_kind role) \<noteq> None" using kind_tables(1) [of role] by auto
  show ?thesis
    unfolding resolve_role_def Let_def try_then_Inr_iff look_Inr_iff
    using c weight mode_known [of mode] assms(2) k v pr po r reviewer_valid [OF assms(3)]
    by (auto simp: try_then_Inr_iff)
qed

lemma resolve_role_facts:
  assumes "resolve_role role scope risk mode disabled = Inr p" "mode \<in> set modes" "risk \<in> set risks"
  shows "rl_role p = role"
    and "set (rl_provider_preference p) \<inter> disabled = {}"
    and "rl_runtime p = Some provider \<Longrightarrow> provider \<notin> disabled"
    and "rl_reviewer p = reviewer_of role scope risk mode"
    and "rp_reviewer_role (rl_reviewer_policy p) = rl_reviewer p"
    and "rp_requires_different_model (rl_reviewer_policy p) \<longleftrightarrow> rl_reviewer p \<noteq> None \<and>
       (mode \<noteq> ''economy'' \<or> level_of risk \<ge> high_risk)"
    and "rl_model_tier p = mt_model_tier (tier_of mode)"
    and "distinct (rl_quality_gates p)"
    and "\<exists>w. map_of budget_weight (role_kind role) = Some w \<and> rl_budget_usd p = round_cents (mt_budget_usd (tier_of mode) * w)"
    and "rl_permission_profile p = permission_profile role"
    and "rl_quality_gates p = quality_gates role (role_kind role) (tier_of mode)"
proof -
  obtain policy where po: "role_reviewer_policy role scope risk mode = Inr policy"
      "rp_reviewer_role policy = reviewer_of role scope risk mode"
      "rp_requires_different_model policy \<longleftrightarrow> reviewer_of role scope risk mode \<noteq> None \<and>
         (mode \<noteq> ''economy'' \<or> level_of risk \<ge> high_risk)"
    using role_reviewer_policy_valid [OF assms(2,3)] by blast
  obtain kind preferred r w where *: "map_of role_provider_preference role = Some preferred"
     "enabled_runtime kind (filter (\<lambda>provider. provider \<notin> disabled) preferred) disabled = Inr r"
     "map_of budget_weight (role_kind role) = Some w"
     "rl_role p = role" "rl_provider_preference p = filter (\<lambda>provider. provider \<notin> disabled) preferred"
     "rl_runtime p = r" "rl_reviewer p = reviewer_of role scope risk mode" "rl_reviewer_policy p = policy"
     "rl_model_tier p = mt_model_tier (tier_of mode)"
     "rl_quality_gates p = quality_gates role (role_kind role) (tier_of mode)"
     "rl_budget_usd p = round_cents (mt_budget_usd (tier_of mode) * w)"
     "rl_permission_profile p = permission_profile role"
    using assms(1) unfolding resolve_role_def Let_def look_tier [OF assms(2)] reviewer_valid [OF assms(3)] po(1)
      try_then_simps by (auto simp: try_then_Inr_iff)
  show "rl_role p = role" "rl_reviewer p = reviewer_of role scope risk mode"
    "rl_model_tier p = mt_model_tier (tier_of mode)" "rl_permission_profile p = permission_profile role"
    "rl_quality_gates p = quality_gates role (role_kind role) (tier_of mode)"
    by (fact *)+
  show "set (rl_provider_preference p) \<inter> disabled = {}" unfolding * by auto
  show "provider \<notin> disabled" if "rl_runtime p = Some provider"
    using *(2) that unfolding *(6) by (auto simp: enabled_runtime_def try_then_Inr_iff find_Some_iff split: if_splits)
  show "rp_reviewer_role (rl_reviewer_policy p) = rl_reviewer p" unfolding * po(2) ..
  show "rp_requires_different_model (rl_reviewer_policy p) \<longleftrightarrow> rl_reviewer p \<noteq> None \<and>
       (mode \<noteq> ''economy'' \<or> level_of risk \<ge> high_risk)" unfolding * po(3) ..
  show "distinct (rl_quality_gates p)" unfolding * by (simp add: quality_gates_def Let_def)
  show "\<exists>w. map_of budget_weight (role_kind role) = Some w \<and> rl_budget_usd p = round_cents (mt_budget_usd (tier_of mode) * w)"
    using * by blast
qed

section \<open>Plans\<close>

lemma collect_Inr_iff: "collect f xs = Inr ys \<longleftrightarrow> list_all2 (\<lambda>x y. f x = Inr y) xs ys"
  by (induction xs arbitrary: ys) (auto simp: try_then_Inr_iff list_all2_Cons1)

lemma collect_total: "\<forall>x \<in> set xs. \<exists>y. f x = Inr y \<Longrightarrow> \<exists>ys. collect f xs = Inr ys"
  by (induction xs) (auto simp: try_then_Inr_iff)

lemma collect_setD: "collect f xs = Inr ys \<Longrightarrow> y \<in> set ys \<Longrightarrow> \<exists>x \<in> set xs. f x = Inr y"
  by (induction xs arbitrary: ys) (auto simp: try_then_Inr_iff)

lemma schedule_teamE:
  assumes "schedule_team other scope risk mode disabled = Inr plan"
  obtains roles assignments where "mode \<in> set modes" "risk \<in> set risks"
    "select_roles (normalize_scope other scope) risk mode = Inr roles"
    "collect (\<lambda>role. resolve_role role (normalize_scope other scope) risk mode disabled) (sorted_list_of_set roles) = Inr assignments"
    "tp_roles plan = assignments" "tp_role_names plan = map rl_role assignments"
    "tp_role_count plan = length assignments" "tp_mode plan = mode" "tp_risk plan = risk"
    "tp_total_budget_usd plan = round_cents (sum_list (map rl_budget_usd assignments))"
    "tp_role_names plan = sorted_list_of_set roles"
proof -
  from assms have m: "mode \<in> set modes" and r: "risk \<in> set risks"
    using mode_known [of mode] risk_known [of risk] by (auto simp: schedule_team_def split: if_splits)
  from assms m r obtain roles assignments where *:
    "select_roles (normalize_scope other scope) risk mode = Inr roles"
    "collect (\<lambda>role. resolve_role role (normalize_scope other scope) risk mode disabled) (sorted_list_of_set roles) = Inr assignments"
    "tp_roles plan = assignments" "tp_role_names plan = map rl_role assignments"
    "tp_role_count plan = length assignments" "tp_mode plan = mode" "tp_risk plan = risk"
    "tp_total_budget_usd plan = round_cents (sum_list (map rl_budget_usd assignments))"
    unfolding schedule_team_def Let_def by (auto simp: try_then_Inr_iff split: if_splits)
  have "list_all2 (\<lambda>role p. rl_role p = role) (sorted_list_of_set roles) assignments"
    using *(2) unfolding collect_Inr_iff
    by (rule list_all2_mono) (rule resolve_role_facts(1) [OF _ m r])
  then have "map rl_role assignments = sorted_list_of_set roles"
    by (induction rule: list_all2_induct) auto
  with * m r show ?thesis by (intro that) auto
qed

lemma plan_roleD:
  assumes "schedule_team other scope risk mode disabled = Inr plan" "a \<in> set (tp_roles plan)"
  obtains "resolve_role (rl_role a) (normalize_scope other scope) risk mode disabled = Inr a"
    "rl_role a \<in> set all_roles" "mode \<in> set modes" "risk \<in> set risks"
proof -
  obtain roles assignments where *: "mode \<in> set modes" "risk \<in> set risks"
    "select_roles (normalize_scope other scope) risk mode = Inr roles"
    "collect (\<lambda>role. resolve_role role (normalize_scope other scope) risk mode disabled) (sorted_list_of_set roles) = Inr assignments"
    "tp_roles plan = assignments"
    using assms(1) by (rule schedule_teamE)
  obtain role where r: "role \<in> set (sorted_list_of_set roles)"
      "resolve_role role (normalize_scope other scope) risk mode disabled = Inr a"
    using collect_setD [OF *(4)] assms(2) *(5) by blast
  have "role \<in> set all_roles" using r(1) select_roles_bounds [OF *(3)] by auto
  with r(2) resolve_role_facts(1) [OF r(2) *(1,2)] *(1,2) show ?thesis by (intro that) auto
qed

text \<open>C25. The scheduler returns a plan exactly when the mode and the risk belong to its catalogue and
  raises its own error otherwise, never a lookup error; a plan lists its roles sorted and once,
  the core roles among them, all of the catalogue, with one resolved assignment each.\<close>

theorem schedule_team_outcome:
  "case schedule_team other scope risk mode disabled of
     Inl e \<Rightarrow> (mode \<notin> set modes \<or> risk \<notin> set risks) \<and> (\<exists>message. e = TeamScheduleError message)
   | Inr plan \<Rightarrow> mode \<in> set modes \<and> risk \<in> set risks \<and> sorted (tp_role_names plan) \<and>
       distinct (tp_role_names plan) \<and> set core_roles \<subseteq> set (tp_role_names plan) \<and>
       set (tp_role_names plan) \<subseteq> set all_roles \<and> tp_role_names plan = map rl_role (tp_roles plan) \<and>
       tp_role_count plan = card (set (tp_role_names plan))"
proof (cases "mode \<in> set modes \<and> risk \<in> set risks")
  case False
  then show ?thesis using mode_known [of mode] risk_known [of risk] by (auto simp: schedule_team_def)
next
  case True
  let ?scope = "normalize_scope other scope"
  let ?roles = "coordination ?scope (level_of risk) risk mode (base_team ?scope (level_of risk) risk mode)"
  have sel: "select_roles ?scope risk mode = Inr ?roles" using True by (simp add: select_roles_valid)
  note bounds = select_roles_bounds [OF sel]
  have "\<exists>ps. collect (\<lambda>role. resolve_role role ?scope risk mode disabled) (sorted_list_of_set ?roles) = Inr ps"
    by (rule collect_total) (use bounds True resolve_role_total in auto)
  then obtain plan where plan: "schedule_team other scope risk mode disabled = Inr plan"
    using True mode_known [of mode] risk_known [of risk]
    by (auto simp: schedule_team_def Let_def sel look_tier)
  obtain roles assignments where *: "select_roles ?scope risk mode = Inr roles" "tp_roles plan = assignments"
    "tp_role_names plan = map rl_role assignments" "tp_role_count plan = length assignments"
    "tp_role_names plan = sorted_list_of_set roles"
    using plan by (rule schedule_teamE)
  have roles: "roles = ?roles" using *(1) sel by simp
  have d: "distinct (tp_role_names plan)" using *(5) by simp
  have "tp_role_count plan = card (set (tp_role_names plan))"
    unfolding distinct_card [OF d] using *(3,4) by simp
  moreover have "set (tp_role_names plan) = ?roles" using *(5) bounds(3) by (simp add: roles)
  moreover have "sorted (tp_role_names plan)" using *(5) by simp
  ultimately show ?thesis using True bounds(1,2) d *(2,3) by (simp add: plan)
qed

text \<open>C3. Reviews are independent: no role of a plan reviews itself; a role that touches security,
  or any role under a sensitive scope or a high risk, has a reviewer unless it is one of the two
  leading roles; and under a high risk the reviewer is a role of the same plan and must use another model.\<close>

lemma reviewer_table:
  "list_all (\<lambda>(role, r). case r of None \<Rightarrow> role \<in> {''aido_lead'', ''product_owner''}
     | Some by_role \<Rightarrow> by_role \<noteq> role \<and>
         by_role \<in> {''product_owner'', ''technical_lead'', ''architect'', ''security_engineer''}) role_reviewers"
  "covers role_reviewers"
  by code_simp+

lemma reviewer_entry:
  assumes "role \<in> set all_roles"
  obtains (none) "get_or role_reviewers role None = None" "role \<in> {''aido_lead'', ''product_owner''}"
  | (some) by_role where "get_or role_reviewers role None = Some by_role" "by_role \<noteq> role"
      "by_role \<in> {''product_owner'', ''technical_lead'', ''architect'', ''security_engineer''}"
proof -
  obtain r where r: "map_of role_reviewers role = Some r"
    using coversD [OF reviewer_table(2) assms] by blast
  have *: "case r of None \<Rightarrow> role \<in> {''aido_lead'', ''product_owner''} | Some by_role \<Rightarrow> by_role \<noteq> role \<and>
      by_role \<in> {''product_owner'', ''technical_lead'', ''architect'', ''security_engineer''}"
    using bspec [OF reviewer_table(1) [unfolded list_all_iff] map_of_SomeD [OF r]]
    by (simp only: prod.case)
  have g: "get_or role_reviewers role None = r" by (simp add: get_or_def r)
  show ?thesis
  proof (cases r)
    case None
    with * g show ?thesis by (intro none) auto
  next
    case (Some who)
    with * g show ?thesis by (intro some [of who]) auto
  qed
qed

lemma high_risk_team:
  assumes "select_roles scope risk mode = Inr roles" "risk \<in> set risks" "level_of risk \<ge> high_risk"
  shows "{''product_owner'', ''technical_lead'', ''architect'', ''security_engineer''} \<subseteq> roles"
proof -
  let ?b = "base_team scope (level_of risk) risk mode"
  have "''architect'' \<in> ?b" "''security_engineer'' \<in> ?b"
    using assms(3) by (simp_all add: base_team_def Let_def add_when_def)
  moreover have "?b \<subseteq> roles"
    using assms(1) coordination_superset [of ?b scope "level_of risk" risk mode]
    by (simp add: select_roles_valid [OF assms(2)])
  moreover have "{''product_owner'', ''technical_lead''} \<subseteq> roles"
    using select_roles_bounds(1) [OF assms(1)] by (simp add: core_roles_def)
  ultimately show ?thesis by blast
qed

text \<open>C26. Reviews are independent: no role of a plan reviews itself; a role that touches security,
  or any role under a sensitive scope or a high risk, has a reviewer unless it is one of the two
  leading roles; and under a high risk the reviewer is a role of the same plan and must use another model.\<close>

theorem reviewers_are_independent:
  assumes "schedule_team other scope risk mode disabled = Inr plan" "a \<in> set (tp_roles plan)"
  shows "rl_reviewer a \<noteq> Some (rl_role a) \<and>
    (sensitive (rl_role a) (normalize_scope other scope) risk \<longrightarrow>
       rl_role a \<in> {''aido_lead'', ''product_owner''} \<or> rl_reviewer a \<noteq> None) \<and>
    (risk \<in> {''high'', ''critical''} \<longrightarrow> rl_reviewer a = Some by_role \<longrightarrow>
       by_role \<in> set (tp_role_names plan) \<and> rp_requires_different_model (rl_reviewer_policy a))"
proof -
  obtain r: "resolve_role (rl_role a) (normalize_scope other scope) risk mode disabled = Inr a"
    and role: "rl_role a \<in> set all_roles" and m: "mode \<in> set modes" and k: "risk \<in> set risks"
    using assms by (rule plan_roleD)
  note f = resolve_role_facts [OF r m k]
  have high: "level_of risk \<ge> high_risk" if "risk \<in> {''high'', ''critical''}" using that by auto
  have team: "{''product_owner'', ''technical_lead'', ''architect'', ''security_engineer''} \<subseteq> set (tp_role_names plan)"
    if h: "risk \<in> {''high'', ''critical''}"
  proof -
    obtain roles where "select_roles (normalize_scope other scope) risk mode = Inr roles"
        "tp_role_names plan = sorted_list_of_set roles"
      using assms(1) by (rule schedule_teamE)
    with high_risk_team [OF _ k high [OF h]] select_roles_bounds(3) show ?thesis by (metis set_sorted_list_of_set)
  qed
  show ?thesis
  proof (cases rule: reviewer_entry [OF role, case_names none some])
    case none
    then show ?thesis using f(4) by (auto simp: reviewer_of_def)
  next
    case (some who)
    have rev: "rl_reviewer a = (if mode = ''economy'' \<and> risk = ''low'' \<and>
        \<not> sensitive (rl_role a) (normalize_scope other scope) risk then None else Some who)"
      unfolding f(4) reviewer_of_def some(1) ..
    have "who \<in> set (tp_role_names plan)" if "risk \<in> {''high'', ''critical''}"
      using team [OF that] some(3) by blast
    moreover have "rp_requires_different_model (rl_reviewer_policy a)"
      if "risk \<in> {''high'', ''critical''}" "rl_reviewer a = Some by_role"
      unfolding f(6) using high [OF that(1)] that(2) by simp
    ultimately show ?thesis using rev some(2) by (auto split: if_splits)
  qed
qed

text \<open>C27. A provider the operator has switched off is neither preferred by a role of a plan nor its
  runtime.\<close>

theorem disabled_providers_are_unused:
  assumes "schedule_team other scope risk mode disabled = Inr plan" "a \<in> set (tp_roles plan)"
  shows "set (rl_provider_preference a) \<inter> disabled = {} \<and> rl_runtime a \<notin> Some ` disabled"
proof -
  obtain facts: "resolve_role (rl_role a) (normalize_scope other scope) risk mode disabled = Inr a"
    "mode \<in> set modes" "risk \<in> set risks" using assms by (rule plan_roleD)
  show ?thesis using resolve_role_facts(2) [OF facts] resolve_role_facts(3) [OF facts] by auto
qed

lemma round_quarters: "round_cents (of_int k / 4) = of_int k / 4"
proof -
  have "of_int k / 4 * 100 = (of_int (25 * k) :: rat)" by simp
  then show ?thesis unfolding round_cents_def Let_def by (simp only: floor_of_int) simp
qed

definition quarters :: "rat \<Rightarrow> bool" where
  "quarters x = (x * 4 \<in> \<int>)"

lemma quarters_sum: "\<forall>x \<in> set xs. quarters x \<Longrightarrow> quarters (sum_list xs)"
  by (induction xs) (auto simp: quarters_def distrib_right)

lemma round_quarters': "quarters x \<Longrightarrow> round_cents x = x"
  using round_quarters by (auto simp: quarters_def elim!: Ints_cases) (metis nonzero_eq_divide_eq zero_neq_numeral)

lemma role_budget:
  assumes "mode \<in> set modes" "w \<in> {1, 3 / 4, 1 / 2}"
  shows "quarters (mt_budget_usd (tier_of mode) * w)" "mt_budget_usd (tier_of mode) > 0"
proof -
  have "mt_budget_usd (tier_of mode) \<in> {1, 4, 10, 25}"
    by (cases rule: mode_cases [OF assms(1)]) (simp_all add: tier_of_def mode_tiers_def)
  then have "mt_budget_usd (tier_of mode) \<in> \<int>" "mt_budget_usd (tier_of mode) > 0" by auto
  moreover have "w * 4 = 4 \<or> w * 4 = 3 \<or> w * 4 = 2" using assms(2) by auto
  then have "w * 4 \<in> \<int>" by (elim disjE) (simp_all only: Ints_numeral)
  ultimately show "quarters (mt_budget_usd (tier_of mode) * w)" "mt_budget_usd (tier_of mode) > 0"
    by (simp_all add: quarters_def mult.assoc)
qed

text \<open>The total budget of a plan is exactly the sum of its roles, and lies between one half and
  the whole of the budget of the mode for each role.\<close>

theorem plan_budget_bounds:
  assumes "schedule_team other scope risk mode disabled = Inr plan"
  shows "tp_total_budget_usd plan = sum_list (map rl_budget_usd (tp_roles plan)) \<and>
    of_nat (tp_role_count plan) * mt_budget_usd (tier_of mode) / 2 \<le> tp_total_budget_usd plan \<and>
    tp_total_budget_usd plan \<le> of_nat (tp_role_count plan) * mt_budget_usd (tier_of mode)"
proof -
  obtain roles assignments where *: "tp_roles plan = assignments" "tp_role_count plan = length assignments"
    "tp_total_budget_usd plan = round_cents (sum_list (map rl_budget_usd assignments))" "mode \<in> set modes"
    using assms by (rule schedule_teamE)
  let ?b = "mt_budget_usd (tier_of mode)"
  have each: "quarters (rl_budget_usd a) \<and> ?b / 2 \<le> rl_budget_usd a \<and> rl_budget_usd a \<le> ?b"
    if "a \<in> set assignments" for a
  proof -
    have member: "a \<in> set (tp_roles plan)" using that *(1) by simp
    obtain "resolve_role (rl_role a) (normalize_scope other scope) risk mode disabled = Inr a"
      "mode \<in> set modes" "risk \<in> set risks"
      using assms member by (rule plan_roleD)
    from resolve_role_facts(9) [OF this] obtain w where w: "map_of budget_weight (role_kind (rl_role a)) = Some w"
      "rl_budget_usd a = round_cents (?b * w)" by blast
    have w': "w \<in> {1, 3 / 4, 1 / 2}" using kind_tables(1) [of "rl_role a"] w(1) by auto
    note q = role_budget [OF *(4) w']
    show ?thesis unfolding w(2) round_quarters' [OF q(1)] using q w' by auto
  qed
  have "of_nat (length xs) * (?b / 2) \<le> sum_list (map rl_budget_usd xs) \<and>
      sum_list (map rl_budget_usd xs) \<le> of_nat (length xs) * ?b" if "set xs \<subseteq> set assignments" for xs
    using that
  proof (induction xs)
    case (Cons a xs)
    then show ?case using each [of a] by (simp add: algebra_simps)
  qed simp
  from this [of assignments] show ?thesis using each *
    by (auto simp: round_quarters' quarters_sum)
qed

end
