(* ===== verification/Team_Witnesses.thy ===== *)
theory Team_Witnesses
  imports Team_Properties
begin

text \<open>
  A concrete task on which the properties of the scheduler apply: work on the API that touches
  payments, of high risk, in the balanced mode, with one provider switched off.
\<close>

definition demo_scope :: "pyval list" where
  "demo_scope = [PStr '' API '', PStr ''payments'', PStr '' '']"

definition demo_plan :: "team_error + team_plan" where
  "demo_plan = schedule_team (\<lambda>_. []) demo_scope ''high'' ''balanced'' {''codex_cli''}"

lemma demo_selected:
  "select_roles (normalize_scope (\<lambda>_. []) demo_scope) ''high'' ''balanced'' =
   Inr {''product_owner'', ''technical_lead'', ''backend_engineer'', ''qa_engineer'', ''architect'',
     ''security_engineer'', ''aido_lead''}"
  by code_simp

lemma demo_scheduled:
  obtains plan where "schedule_team (\<lambda>_. []) demo_scope ''high'' ''balanced'' {''codex_cli''} = Inr plan"
    "tp_role_names plan = [''aido_lead'', ''architect'', ''backend_engineer'', ''product_owner'', ''qa_engineer'',
       ''security_engineer'', ''technical_lead'']"
    "map (\<lambda>a. (rl_role a, rl_reviewer a, rl_runtime a)) (tp_roles plan) =
      [(''aido_lead'', None, Some ''openai_compatible''),
       (''architect'', Some ''technical_lead'', Some ''openai_compatible''),
       (''backend_engineer'', Some ''technical_lead'', Some ''openai_compatible''),
       (''product_owner'', None, Some ''openai_compatible''),
       (''qa_engineer'', Some ''technical_lead'', Some ''openai_compatible''),
       (''security_engineer'', Some ''technical_lead'', Some ''openai_compatible''),
       (''technical_lead'', Some ''product_owner'', Some ''openai_compatible'')]"
    "tp_role_count plan = 7"
proof -
  have "case demo_plan of Inl _ \<Rightarrow> False | Inr plan \<Rightarrow>
    tp_role_names plan = [''aido_lead'', ''architect'', ''backend_engineer'', ''product_owner'', ''qa_engineer'',
       ''security_engineer'', ''technical_lead''] \<and>
    map (\<lambda>a. (rl_role a, rl_reviewer a, rl_runtime a)) (tp_roles plan) =
      [(''aido_lead'', None, Some ''openai_compatible''),
       (''architect'', Some ''technical_lead'', Some ''openai_compatible''),
       (''backend_engineer'', Some ''technical_lead'', Some ''openai_compatible''),
       (''product_owner'', None, Some ''openai_compatible''),
       (''qa_engineer'', Some ''technical_lead'', Some ''openai_compatible''),
       (''security_engineer'', Some ''technical_lead'', Some ''openai_compatible''),
       (''technical_lead'', Some ''product_owner'', Some ''openai_compatible'')] \<and>
    tp_role_count plan = 7"
    by code_simp
  then show ?thesis by (cases demo_plan) (auto simp: demo_plan_def intro: that)
qed

theorem select_roles_monotone_witness:
  "\<exists>small large. select_roles {''api''} ''low'' ''economy'' = Inr small \<and>
     select_roles {''api'', ''payments''} ''high'' ''balanced'' = Inr large \<and> small \<subseteq> large"
proof -
  obtain small where small: "select_roles {''api''} ''low'' ''economy'' = Inr small"
    by (simp add: select_roles_valid risks_def)
  obtain large where large: "select_roles {''api'', ''payments''} ''high'' ''balanced'' = Inr large"
    by (simp add: select_roles_valid risks_def)
  have "small \<subseteq> large"
    by (rule select_roles_monotone [OF _ _ _ _ _ _ _ small large]) (simp_all add: modes_def risks_def)
  with small large show ?thesis by blast
qed

theorem schedule_team_outcome_witness:
  "\<exists>plan. schedule_team (\<lambda>_. []) demo_scope ''high'' ''balanced'' {''codex_cli''} = Inr plan \<and>
     tp_role_count plan = card (set (tp_role_names plan)) \<and> tp_role_count plan = 7"
proof -
  obtain plan where plan: "schedule_team (\<lambda>_. []) demo_scope ''high'' ''balanced'' {''codex_cli''} = Inr plan"
    "tp_role_count plan = 7" by (rule demo_scheduled)
  have "tp_role_count plan = card (set (tp_role_names plan))"
    using schedule_team_outcome [where other = "\<lambda>_. []" and scope = demo_scope and risk = "''high''" and
      mode = "''balanced''" and disabled = "{''codex_cli''}", unfolded plan(1) sum.case] by (elim conjE)
  with plan show ?thesis by blast
qed

lemma demo_member:
  obtains plan a where "schedule_team (\<lambda>_. []) demo_scope ''high'' ''balanced'' {''codex_cli''} = Inr plan"
    "a \<in> set (tp_roles plan)" "rl_role a = ''backend_engineer''" "rl_reviewer a = Some ''technical_lead''"
proof -
  obtain plan where plan: "schedule_team (\<lambda>_. []) demo_scope ''high'' ''balanced'' {''codex_cli''} = Inr plan"
    and rows: "map (\<lambda>a. (rl_role a, rl_reviewer a, rl_runtime a)) (tp_roles plan) =
      [(''aido_lead'', None, Some ''openai_compatible''),
       (''architect'', Some ''technical_lead'', Some ''openai_compatible''),
       (''backend_engineer'', Some ''technical_lead'', Some ''openai_compatible''),
       (''product_owner'', None, Some ''openai_compatible''),
       (''qa_engineer'', Some ''technical_lead'', Some ''openai_compatible''),
       (''security_engineer'', Some ''technical_lead'', Some ''openai_compatible''),
       (''technical_lead'', Some ''product_owner'', Some ''openai_compatible'')]"
    by (rule demo_scheduled)
  have m: "(''backend_engineer'', Some ''technical_lead'', Some ''openai_compatible'') \<in>
        set (map (\<lambda>a. (rl_role a, rl_reviewer a, rl_runtime a)) (tp_roles plan))"
    unfolding rows by simp
  from m obtain a where a: "(''backend_engineer'', Some ''technical_lead'', Some ''openai_compatible'') =
      (rl_role a, rl_reviewer a, rl_runtime a)" "a \<in> set (tp_roles plan)"
    unfolding set_map by (rule imageE)
  from a(1) have "rl_role a = ''backend_engineer''" "rl_reviewer a = Some ''technical_lead''" by simp_all
  with plan a(2) show ?thesis by (rule that)
qed

theorem reviewers_are_independent_witness:
  "\<exists>plan a. schedule_team (\<lambda>_. []) demo_scope ''high'' ''balanced'' {''codex_cli''} = Inr plan \<and>
     a \<in> set (tp_roles plan) \<and> rl_role a = ''backend_engineer'' \<and>
     ''technical_lead'' \<in> set (tp_role_names plan) \<and> rp_requires_different_model (rl_reviewer_policy a)"
proof -
  obtain plan a where a: "schedule_team (\<lambda>_. []) demo_scope ''high'' ''balanced'' {''codex_cli''} = Inr plan"
    "a \<in> set (tp_roles plan)" "rl_role a = ''backend_engineer''" "rl_reviewer a = Some ''technical_lead''"
    by (rule demo_member)
  have "''technical_lead'' \<in> set (tp_role_names plan) \<and> rp_requires_different_model (rl_reviewer_policy a)"
    using reviewers_are_independent [OF a(1,2), of "''technical_lead''"] a(4) by simp
  with a show ?thesis by blast
qed

theorem disabled_providers_are_unused_witness:
  "\<exists>plan a. schedule_team (\<lambda>_. []) demo_scope ''high'' ''balanced'' {''codex_cli''} = Inr plan \<and>
     a \<in> set (tp_roles plan) \<and> rl_role a = ''backend_engineer'' \<and>
     ''codex_cli'' \<notin> set (rl_provider_preference a)"
proof -
  obtain plan a where a: "schedule_team (\<lambda>_. []) demo_scope ''high'' ''balanced'' {''codex_cli''} = Inr plan"
    "a \<in> set (tp_roles plan)" "rl_role a = ''backend_engineer''"
    by (rule demo_member)
  have "''codex_cli'' \<notin> set (rl_provider_preference a)"
    using disabled_providers_are_unused [OF a(1,2)] by simp
  with a show ?thesis by blast
qed

lemma demo_tier: "mt_budget_usd (tier_of ''balanced'') = 4"
  by (simp add: tier_of_def mode_tiers_def)

theorem plan_budget_bounds_witness:
  "\<exists>plan. schedule_team (\<lambda>_. []) demo_scope ''high'' ''balanced'' {''codex_cli''} = Inr plan \<and>
     14 \<le> tp_total_budget_usd plan \<and> tp_total_budget_usd plan \<le> 28"
proof -
  obtain plan where plan: "schedule_team (\<lambda>_. []) demo_scope ''high'' ''balanced'' {''codex_cli''} = Inr plan"
    "tp_role_count plan = 7" by (rule demo_scheduled)
  show ?thesis using plan_budget_bounds [OF plan(1)] plan by (simp add: demo_tier)
qed

end
