(* ===== verification/Settings_Registry.thy ===== *)
theory Settings_Registry
  imports Py_Values
begin

text \<open>
  The descriptors of \<open>settings/registry.py\<close>: \<open>REGISTRY\<close> with its two extensions. The bounds
  of numbers are exact rationals.
\<close>

record setting_descriptor =
  sd_key :: string
  sd_section :: string
  sd_project_section :: "string option"
  sd_type :: string
  sd_default :: pyval
  sd_enum :: "string list option"
  sd_label_key :: string
  sd_minimum :: "rat option"
  sd_maximum :: "rat option"

definition descriptor ::
  "string \<Rightarrow> string \<Rightarrow> string option \<Rightarrow> string \<Rightarrow> pyval \<Rightarrow> string list option \<Rightarrow> string \<Rightarrow>
   rat option \<Rightarrow> rat option \<Rightarrow> setting_descriptor" where
  "descriptor k section project_section ty dflt choices label lo hi =
     \<lparr>sd_key = k, sd_section = section, sd_project_section = project_section, sd_type = ty,
      sd_default = dflt, sd_enum = choices, sd_label_key = label, sd_minimum = lo, sd_maximum = hi\<rparr>"

lemma descriptor_simps [simp]:
  "sd_key (descriptor k se ps ty d ch la lo hi) = k"
  "sd_project_section (descriptor k se ps ty d ch la lo hi) = ps"
  "sd_type (descriptor k se ps ty d ch la lo hi) = ty"
  "sd_default (descriptor k se ps ty d ch la lo hi) = d"
  "sd_enum (descriptor k se ps ty d ch la lo hi) = ch"
  "sd_minimum (descriptor k se ps ty d ch la lo hi) = lo"
  "sd_maximum (descriptor k se ps ty d ch la lo hi) = hi"
  by (simp_all add: descriptor_def)

definition base_registry :: "setting_descriptor list" where
  "base_registry =
     [descriptor ''autonomy.level'' ''autonomy'' (Some ''security'') ''enum'' (PStr ''guided'') (Some [''guided'', ''recommended'', ''autonomous'']) ''app.settings.autonomy.level'' (None) (None),
      descriptor ''security.sandboxProfileId'' ''security'' (Some ''security'') ''string'' (PStr '''') (None) ''app.settings.security.sandboxProfile'' (None) (None),
      descriptor ''budget.maxCostUsd'' ''costs'' (Some ''budget'') ''number'' (PInt 0) (None) ''app.settings.budget.maxCostUsd'' (None) (None),
      descriptor ''agents.responseStyle'' ''costs'' (Some ''budget'') ''enum'' (PStr ''compact'') (Some [''compact'', ''normal'']) ''app.settings.agents.responseStyle'' (None) (None),
      descriptor ''runtime.cli.enabled'' ''runtime'' (None) ''boolean'' (PBool True) (None) ''app.settings.runtime.cli.enabled'' (None) (None),
      descriptor ''runtime.remote.enabled'' ''runtime'' (None) ''boolean'' (PBool True) (None) ''app.settings.runtime.remote.enabled'' (None) (None),
      descriptor ''runtime.ollama.enabled'' ''runtime'' (None) ''boolean'' (PBool True) (None) ''app.settings.runtime.ollama.enabled'' (None) (None),
      descriptor ''runtime.local.enabled'' ''runtime'' (None) ''boolean'' (PBool True) (None) ''app.settings.runtime.local.enabled'' (None) (None),
      descriptor ''runtime.local.maxCallSeconds'' ''runtime'' (None) ''number'' (PInt 900) (None) ''app.settings.runtime.local.maxCallSeconds'' (Some 30) (Some 3600),
      descriptor ''runtime.quota.suspendThresholdPercent'' ''runtime'' (None) ''number'' (PInt 80) (None) ''app.settings.runtime.quota.suspendThresholdPercent'' (Some 1) (Some 100),
      descriptor ''runtime.nvidia.enabled'' ''runtime'' (None) ''boolean'' (PBool True) (None) ''app.settings.runtime.nvidia.enabled'' (None) (None),
      descriptor ''project.runtime.cli.enabled'' ''runtime'' (Some ''runtime'') ''boolean'' (PBool True) (None) ''app.settings.project.runtime.cli.enabled'' (None) (None),
      descriptor ''project.runtime.remote.enabled'' ''runtime'' (Some ''runtime'') ''boolean'' (PBool True) (None) ''app.settings.project.runtime.remote.enabled'' (None) (None),
      descriptor ''project.runtime.allowedProviders'' ''runtime'' (Some ''runtime'') ''string_list'' (PList []) (None) ''app.settings.project.runtime.allowedProviders'' (None) (None),
      descriptor ''project.runtime.defaultMode'' ''runtime'' (Some ''runtime'') ''enum'' (PStr ''hybrid'') (Some [''api'', ''cli'', ''local'', ''ollama'', ''hybrid'', ''manual'']) ''app.settings.project.runtime.defaultMode'' (None) (None),
      descriptor ''project.routing.forceLocal'' ''runtime'' (Some ''runtime'') ''boolean'' (PBool False) (None) ''app.settings.project.routing.forceLocal'' (None) (None),
      descriptor ''worker.autostart'' ''worker'' (None) ''boolean'' (PBool False) (None) ''app.settings.worker.autostart'' (None) (None),
      descriptor ''worker.pollIntervalSeconds'' ''worker'' (None) ''number'' (PInt 5) (None) ''app.settings.worker.pollIntervalSeconds'' (Some (1 / 4)) (Some 3600),
      descriptor ''worker.maxConcurrentJobs'' ''worker'' (None) ''number'' (PInt 1) (None) ''app.settings.worker.maxConcurrentJobs'' (Some 1) (Some 1),
      descriptor ''resources.profile'' ''resources'' (None) ''enum'' (PStr ''auto'') (Some [''auto'', ''interactive_unreal'', ''development'', ''idle_validation'']) ''app.settings.resources.profile'' (None) (None),
      descriptor ''resources.maxHeavyWorkloads'' ''resources'' (None) ''number'' (PInt 1) (None) ''app.settings.resources.maxHeavyWorkloads'' (Some 1) (Some 1),
      descriptor ''resources.maxLightWorkloads'' ''resources'' (None) ''number'' (PInt 2) (None) ''app.settings.resources.maxLightWorkloads'' (Some 1) (Some 2),
      descriptor ''resources.minFreeMemoryGiB'' ''resources'' (None) ''number'' (PInt 16) (None) ''app.settings.resources.minFreeMemoryGiB'' (Some 1) (Some 1024),
      descriptor ''resources.hardFreeMemoryGiB'' ''resources'' (None) ''number'' (PInt 8) (None) ''app.settings.resources.hardFreeMemoryGiB'' (Some 1) (Some 1024),
      descriptor ''resources.minFreeDiskGiB'' ''resources'' (None) ''number'' (PInt 50) (None) ''app.settings.resources.minFreeDiskGiB'' (Some 1) (Some 10240),
      descriptor ''resources.minFreeDiskPercent'' ''resources'' (None) ''number'' (PInt 5) (None) ''app.settings.resources.minFreeDiskPercent'' (Some 0) (Some 90),
      descriptor ''resources.maxCpuPercent'' ''resources'' (None) ''number'' (PInt 65) (None) ''app.settings.resources.maxCpuPercent'' (Some 1) (Some 95),
      descriptor ''resources.unrealReserveMemoryGiB'' ''resources'' (None) ''number'' (PInt 20) (None) ''app.settings.resources.unrealReserveMemoryGiB'' (Some 0) (Some 1024),
      descriptor ''resources.blockLocalGpuWhenUnreal'' ''resources'' (None) ''boolean'' (PBool True) (None) ''app.settings.resources.blockLocalGpuWhenUnreal'' (None) (None),
      descriptor ''resources.sampleIntervalSeconds'' ''resources'' (None) ''number'' (PInt 2) (None) ''app.settings.resources.sampleIntervalSeconds'' (Some (1 / 4)) (Some 60),
      descriptor ''research.internetPolicy'' ''research'' (Some ''internet'') ''enum'' (PStr ''official_allowlist'') (Some [''blocked'', ''official_allowlist'', ''policy_gated'']) ''app.settings.research.internetPolicy'' (None) (None),
      descriptor ''research.preferOfficialDocs'' ''research'' (Some ''internet'') ''boolean'' (PBool True) (None) ''app.settings.research.preferOfficialDocs'' (None) (None),
      descriptor ''research.maxSources'' ''research'' (None) ''number'' (PInt 5) (None) ''app.settings.research.maxSources'' (None) (None),
      descriptor ''research.trustedDomains'' ''research'' (Some ''internet'') ''string_list'' (PList []) (None) ''app.settings.research.trustedDomains'' (None) (None),
      descriptor ''research.webSearch.provider'' ''research'' (Some ''internet'') ''enum'' (PStr ''searxng'') (Some [''searxng'', ''duckduckgo'']) ''app.settings.research.webSearchProvider'' (None) (None),
      descriptor ''research.webSearch.baseUrl'' ''research'' (Some ''internet'') ''string'' (PStr ''http://127.0.0.1:8888'') (None) ''app.settings.research.webSearchBaseUrl'' (None) (None),
      descriptor ''security.gitleaks.enforced'' ''security'' (Some ''security'') ''boolean'' (PBool True) (None) ''app.settings.security.gitleaksEnforced'' (None) (None),
      descriptor ''security.shell.profile'' ''security'' (Some ''security'') ''enum'' (PStr ''dev_safe'') (Some [''plan'', ''dev_safe'', ''qa'', ''release'']) ''app.settings.security.shellProfile'' (None) (None),
      descriptor ''security.pentest.beforeRelease'' ''pentest'' (Some ''security'') ''boolean'' (PBool False) (None) ''app.settings.security.pentestBeforeRelease'' (None) (None),
      descriptor ''project.goal.statement'' ''goal'' (Some ''goal'') ''string'' (PStr '''') (None) ''app.settings.goal.statement'' (None) (None),
      descriptor ''project.loop.teamMode'' ''goal'' (Some ''goal'') ''enum'' (PStr ''balanced'') (Some [''economy'', ''balanced'', ''critical'', ''maximum'']) ''app.settings.goal.teamMode'' (None) (None),
      descriptor ''project.loop.risk'' ''goal'' (Some ''goal'') ''enum'' (PStr ''medium'') (Some [''low'', ''medium'', ''high'', ''critical'']) ''app.settings.goal.risk'' (None) (None),
      descriptor ''project.quality.gateCommands'' ''quality'' (Some ''quality'') ''string_list'' (PList []) (None) ''app.settings.quality.gateCommands'' (None) (None),
      descriptor ''project.runtime.containerized'' ''quality'' (Some ''quality'') ''boolean'' (PBool False) (None) ''app.settings.quality.containerizedRuntime'' (None) (None),
      descriptor ''project.quality.devopsChecksEnabled'' ''quality'' (Some ''quality'') ''boolean'' (PBool False) (None) ''app.settings.quality.devopsChecksEnabled'' (None) (None),
      descriptor ''project.git.baseBranch'' ''git'' (Some ''git'') ''string'' (PStr ''dev'') (None) ''app.settings.git.baseBranch'' (None) (None),
      descriptor ''project.git.integrationMode'' ''git'' (Some ''git'') ''enum'' (PStr ''manual_pr'') (Some [''direct_push'', ''auto_pr'', ''manual_pr'']) ''app.settings.git.integrationMode'' (None) (None),
      descriptor ''project.git.remoteName'' ''git'' (Some ''git'') ''string'' (PStr ''origin'') (None) ''app.settings.git.remoteName'' (None) (None),
      descriptor ''project.git.autoDeleteBranch'' ''git'' (Some ''git'') ''boolean'' (PBool True) (None) ''app.settings.git.autoDeleteBranch'' (None) (None),
      descriptor ''project.git.requireCiGreen'' ''git'' (Some ''git'') ''boolean'' (PBool False) (None) ''app.settings.git.requireCiGreen'' (None) (None),
      descriptor ''project.git.workBranchPrefix'' ''git'' (Some ''git'') ''string'' (PStr ''codex'') (None) ''app.settings.git.workBranchPrefix'' (None) (None)]"

definition global_team_role_keys :: "string list" where
  "global_team_role_keys = [''product_owner'', ''developer'', ''architect'', ''security'', ''technical_lead'', ''researcher'']"

definition team_role_registry :: "setting_descriptor list" where
  "team_role_registry = map (\<lambda>role. descriptor (''team.role.'' @ role) ''team'' (Some ''team'') ''string_list''
     (PList []) None (''app.settings.team.role.'' @ role) None None) global_team_role_keys"

definition decision_registry :: "setting_descriptor list" where
  "decision_registry = map (\<lambda>(k, kind, dflt, choices, lo, hi).
       descriptor (''decision_engine.'' @ k) ''runtime'' (Some ''runtime'') kind dflt choices
         (''app.settings.decisionEngine.'' @ k) lo hi)
     [(''enabled'', ''boolean'', PBool True, None, None, None),
      (''provider'', ''enum'', PStr ''jev'', Some [''jev'', ''deterministic''], None, None),
      (''mode'', ''enum'', PStr ''shadow'', Some [''disabled'', ''shadow'', ''runtime_selection''], None, None),
      (''shadow.enabled'', ''boolean'', PBool True, None, None, None),
      (''jev.enabled'', ''boolean'', PBool True, None, None, None),
      (''endpoint'', ''string'', PStr ''https://api.typesafe.ai/v1/systemone'', None, None, None),
      (''api_key_reference'', ''string'', PStr ''env:TYPESAFE_API_KEY'', None, None, None),
      (''model'', ''string'', PStr ''jev-1.13.0'', None, None, None),
      (''version'', ''string'', PStr ''1.13.0'', None, None, None),
      (''timeout_seconds'', ''number'', PFloat (5), None, Some (1 / 100), Some 5),
      (''confidence_threshold'', ''number'', PFloat (17 / 20), None, Some 0, Some 1),
      (''margin_threshold'', ''number'', PFloat (1 / 5), None, Some 0, Some 1),
      (''max_risk'', ''enum'', PStr ''high'', Some [''low'', ''medium'', ''high'', ''critical''], None, None),
      (''probability_tolerance'', ''number'', PFloat (1 / 1000000), None, Some 0, Some (1 / 1000)),
      (''circuit_failure_threshold'', ''number'', PInt 3, None, Some 1, Some 20),
      (''circuit_cooldown_seconds'', ''number'', PInt 30, None, Some 1, Some 300)]"

definition registry :: "setting_descriptor list" where
  "registry = base_registry @ team_role_registry @ decision_registry"

definition registry_by_key :: "(string \<times> setting_descriptor) list" where
  "registry_by_key = rev (map (\<lambda>d. (sd_key d, d)) registry)"

definition descriptor_for :: "string \<Rightarrow> setting_descriptor option" where
  "descriptor_for k = map_of registry_by_key k"

end
