(* ===== verification/Py_Floats.thy ===== *)
theory Py_Floats
  imports Py_Time
begin

text \<open>
  Python floats with their special values, and \<open>float(v)\<close>. A finite float is its exact rational:
  the rounding to 53 bits is left out, the overflow to infinity is kept. \<open>json_value\<close> is a JSON
  document whose top value may be one of the special floats, which \<open>json\<close> reads and writes as
  \<^verbatim>\<open>NaN\<close> and \<^verbatim>\<open>Infinity\<close>.
\<close>

datatype py_float = Fin rat | NotANumber | Infinite bool

datatype json_value = JVal pyval | JNaN | JInfinite bool

text \<open>Every comparison with NaN is false; \<open>Infinite True\<close> is the positive infinity.\<close>

fun float_less :: "py_float \<Rightarrow> py_float \<Rightarrow> bool" where
  "float_less NotANumber _ = False"
| "float_less _ NotANumber = False"
| "float_less (Fin a) (Fin b) = (a < b)"
| "float_less (Fin _) (Infinite p) = p"
| "float_less (Infinite p) (Fin _) = (\<not> p)"
| "float_less (Infinite p) (Infinite q) = (\<not> p \<and> q)"

text \<open>The least magnitude that does not round to a finite double.\<close>

definition float_limit :: rat where
  "float_limit = 2 ^ 1024 - 2 ^ 970"

text \<open>\<open>float(str)\<close>: \<open>inf\<close>, \<open>infinity\<close> or \<open>nan\<close> in any case after a sign, or a decimal numeral.\<close>

definition round_float :: "rat \<Rightarrow> py_float" where
  "round_float r = (if \<bar>r\<bar> < float_limit then Fin r else Infinite (r > 0))"

definition special_or_number :: "string \<Rightarrow> py_float option" where
  "special_or_number text =
     (let (negative, s) = split_sign (py_lower (py_strip text)) in
      if s = ''inf'' \<or> s = ''infinity'' then Some (Infinite (\<not> negative))
      else if s = ''nan'' then Some NotANumber
      else map_option round_float (float_of_str text))"

text \<open>\<open>float(v)\<close>: a huge integer raises \<open>OverflowError\<close>.\<close>

definition to_float :: "json_value \<Rightarrow> py_error + py_float" where
  "to_float v = (case v of
     JNaN \<Rightarrow> Inr NotANumber
   | JInfinite p \<Rightarrow> Inr (Infinite p)
   | JVal (PBool b) \<Rightarrow> Inr (Fin (if b then 1 else 0))
   | JVal (PInt n) \<Rightarrow> if \<bar>of_int n\<bar> < float_limit then Inr (Fin (of_int n)) else Inl OverflowError
   | JVal (PFloat r) \<Rightarrow> Inr (Fin r)
   | JVal (PStr s) \<Rightarrow> (case special_or_number s of None \<Rightarrow> Inl ValueError | Some x \<Rightarrow> Inr x)
   | JVal _ \<Rightarrow> Inl TypeError)"

definition of_float :: "py_float \<Rightarrow> json_value" where
  "of_float x = (case x of Fin r \<Rightarrow> JVal (PFloat r) | NotANumber \<Rightarrow> JNaN | Infinite p \<Rightarrow> JInfinite p)"

text \<open>\<open>int(x)\<close> truncates; NaN raises \<open>ValueError\<close>, an infinity \<open>OverflowError\<close>. \<open>x * k\<close>
  and \<open>max(a, b)\<close>, which keeps its first argument unless the second is greater.\<close>

definition float_int :: "py_float \<Rightarrow> py_error + int" where
  "float_int x = (case x of Fin r \<Rightarrow> Inr (if r \<ge> 0 then \<lfloor>r\<rfloor> else \<lceil>r\<rceil>)
     | NotANumber \<Rightarrow> Inl ValueError | Infinite _ \<Rightarrow> Inl OverflowError)"

definition float_scale :: "py_float \<Rightarrow> rat \<Rightarrow> py_float" where
  "float_scale x k = (case x of Fin r \<Rightarrow> Fin (r * k) | NotANumber \<Rightarrow> NotANumber
     | Infinite p \<Rightarrow> if k = 0 then NotANumber else Infinite (p = (k > 0)))"

definition float_max :: "py_float \<Rightarrow> py_float \<Rightarrow> py_float" where
  "float_max a b = (if float_less a b then b else a)"

lemma to_float_of_float [simp]: "to_float (of_float x) = Inr x"
  by (cases x) (simp_all add: to_float_def of_float_def)

lemma float_less_Fin [simp]: "float_less (Fin a) x \<longleftrightarrow> (case x of Fin b \<Rightarrow> a < b | NotANumber \<Rightarrow> False | Infinite p \<Rightarrow> p)"
  by (cases x) simp_all

lemma float_limit_large: "r \<le> 1000 \<Longrightarrow> r < float_limit"
proof -
  have "(2 ^ 54 - 1 :: rat) * 1 \<le> (2 ^ 54 - 1) * 2 ^ 970" by (intro mult_left_mono one_le_power) simp_all
  moreover have "(2 ^ 54 - 1) * 2 ^ 970 = (2 ^ (54 + 970) - 2 ^ 970 :: rat)"
    by (simp only: power_add left_diff_distrib mult_1)
  ultimately show "r \<le> 1000 \<Longrightarrow> r < float_limit" by (simp add: float_limit_def)
qed

end
