(* ===== verification/Settings.thy ===== *)
theory Settings
  imports Settings_Registry Py_Floats
begin

text \<open>
  The settings plane: \<open>settings/registry.py\<close> (validation), \<open>settings/repository.py\<close> (the table
  \<^verbatim>\<open>settings_value\<close>, whose primary key is key, scope and scope id), \<open>settings/resolver.py\<close> and the
  two writing handlers of \<open>settings/api.py\<close> after their token check. The record
  \<open>settings_env\<close> holds the validators that live elsewhere: the Pydantic model of the decision
  engine, given the key and the value, and the normaliser of the web search URL.
\<close>

section \<open>Validation\<close>

datatype setting_error =
    NotInEnum | InvalidNumber | BelowMinimum | AboveMaximum | InvalidBoolean | InvalidStringList
  | InvalidString | InvalidDecisionSetting | InvalidSearchUrl | SettingRaised py_error

record settings_env =
  se_decision_ok :: "string \<Rightarrow> json_value \<Rightarrow> bool"
  se_search_url :: "string \<Rightarrow> string option"

definition has_prefix :: "string \<Rightarrow> string \<Rightarrow> bool" where
  "has_prefix p s = (take (length p) s = p)"

definition validate_number :: "setting_descriptor \<Rightarrow> json_value \<Rightarrow> setting_error + json_value" where
  "validate_number d v = (case to_float v of
     Inl e \<Rightarrow> Inl (if e = TypeError \<or> e = ValueError then InvalidNumber else SettingRaised e)
   | Inr x \<Rightarrow>
       if (case sd_minimum d of None \<Rightarrow> False | Some lo \<Rightarrow> float_less x (Fin lo)) then Inl BelowMinimum
       else if (case sd_maximum d of None \<Rightarrow> False | Some hi \<Rightarrow> float_less (Fin hi) x) then Inl AboveMaximum
       else Inr (of_float x))"

definition validate_boolean :: "json_value \<Rightarrow> setting_error + json_value" where
  "validate_boolean v = (case v of
     JVal (PBool b) \<Rightarrow> Inr (JVal (PBool b))
   | JVal (PStr s) \<Rightarrow>
       let normalized = py_lower (py_strip s) in
       if normalized \<in> {''true'', ''1'', ''yes'', ''on''} then Inr (JVal (PBool True))
       else if normalized \<in> {''false'', ''0'', ''no'', ''off''} then Inr (JVal (PBool False))
       else Inl InvalidBoolean
   | _ \<Rightarrow> Inl InvalidBoolean)"

definition validate_typed :: "setting_descriptor \<Rightarrow> json_value \<Rightarrow> setting_error + json_value" where
  "validate_typed d v =
     (if sd_type d = ''enum'' then
        (case v of JVal (PStr s) \<Rightarrow>
             if s \<in> set (case sd_enum d of None \<Rightarrow> [] | Some xs \<Rightarrow> xs) then Inr v else Inl NotInEnum
         | _ \<Rightarrow> Inl NotInEnum)
      else if sd_type d = ''number'' then validate_number d v
      else if sd_type d = ''boolean'' then validate_boolean v
      else if sd_type d = ''string_list'' then
        (case v of JVal (PList xs) \<Rightarrow> if list_all is_str xs then Inr v else Inl InvalidStringList
         | _ \<Rightarrow> Inl InvalidStringList)
      else (case v of JVal (PStr s) \<Rightarrow> Inr v | _ \<Rightarrow> Inl InvalidString))"

definition validate_value :: "settings_env \<Rightarrow> setting_descriptor \<Rightarrow> json_value \<Rightarrow> setting_error + json_value" where
  "validate_value env d v =
     (if has_prefix ''decision_engine.'' (sd_key d) \<and> \<not> se_decision_ok env (sd_key d) v
      then Inl InvalidDecisionSetting
      else if sd_key d = ''research.webSearch.baseUrl'' then
        (case se_search_url env (case v of JVal (PStr s) \<Rightarrow> s | _ \<Rightarrow> []) of
           None \<Rightarrow> Inl InvalidSearchUrl | Some url \<Rightarrow> Inr (JVal (PStr url)))
      else validate_typed d v)"

section \<open>The table\<close>

record settings_row =
  sr_key :: string
  sr_scope :: string
  sr_scope_id :: string
  sr_value :: json_value
  sr_updated_at :: int
  sr_assigned_by :: string

definition encode_scope_id :: "string option \<Rightarrow> string" where
  "encode_scope_id i = (case i of None \<Rightarrow> [] | Some x \<Rightarrow> x)"

definition decode_scope_id :: "string \<Rightarrow> string option" where
  "decode_scope_id s = (if s = [] then None else Some s)"

definition same_setting :: "string \<Rightarrow> string \<Rightarrow> string option \<Rightarrow> settings_row \<Rightarrow> bool" where
  "same_setting k scope i r = (sr_key r = k \<and> sr_scope r = scope \<and> sr_scope_id r = encode_scope_id i)"

definition set_value ::
  "string \<Rightarrow> string \<Rightarrow> string option \<Rightarrow> json_value \<Rightarrow> string \<Rightarrow> int \<Rightarrow> settings_row list \<Rightarrow> settings_row list" where
  "set_value k scope i v assigned_by now rows =
     (if rowcount (same_setting k scope i) rows = 0
      then rows @ [\<lparr>sr_key = k, sr_scope = scope, sr_scope_id = encode_scope_id i, sr_value = v,
                    sr_updated_at = now, sr_assigned_by = assigned_by\<rparr>]
      else upd_where (same_setting k scope i)
             (\<lambda>r. r\<lparr>sr_value := v, sr_updated_at := now, sr_assigned_by := assigned_by\<rparr>) rows)"

text \<open>The sentinel \<open>UNSET\<close> is \<open>None\<close>.\<close>

definition get_value :: "string \<Rightarrow> string \<Rightarrow> string option \<Rightarrow> settings_row list \<Rightarrow> json_value option" where
  "get_value k scope i rows = map_option sr_value (select_one (same_setting k scope i) rows)"

definition get_assigned_by :: "string \<Rightarrow> string \<Rightarrow> string option \<Rightarrow> settings_row list \<Rightarrow> string" where
  "get_assigned_by k scope i rows =
     (case select_one (same_setting k scope i) rows of None \<Rightarrow> ''operator'' | Some r \<Rightarrow> sr_assigned_by r)"

definition clear_value :: "string \<Rightarrow> string \<Rightarrow> string option \<Rightarrow> settings_row list \<Rightarrow> bool \<times> settings_row list" where
  "clear_value k scope i rows =
     (rowcount (same_setting k scope i) rows > 0, filter (\<lambda>r. \<not> same_setting k scope i r) rows)"

definition list_values :: "settings_row list \<Rightarrow> ((string \<times> string \<times> string option) \<times> json_value) list" where
  "list_values rows =
     fold (\<lambda>r. AList.update (sr_key r, sr_scope r, decode_scope_id (sr_scope_id r)) (sr_value r)) rows []"

section \<open>Resolution\<close>

record resolved_setting =
  rs_key :: string
  rs_label_key :: string
  rs_section :: string
  rs_project_section :: "string option"
  rs_type :: string
  rs_enum :: "string list option"
  rs_minimum :: "rat option"
  rs_maximum :: "rat option"
  rs_value :: json_value
  rs_origin :: string
  rs_inherited :: bool
  rs_source :: string
  rs_assigned_by :: string
  rs_editable_scopes :: "string list"

definition effective_value ::
  "setting_descriptor \<Rightarrow> settings_row list \<Rightarrow> string option \<Rightarrow> string \<Rightarrow> json_value \<times> string \<times> bool" where
  "effective_value d rows project_id scope_view =
     (let from_general = (\<lambda>inherited. case get_value (sd_key d) ''general'' None rows of
              Some v \<Rightarrow> (v, ''general'', inherited)
            | None \<Rightarrow> (JVal (sd_default d), ''default'', inherited))
      in if scope_view = ''general'' then from_general False
         else (case get_value (sd_key d) ''project'' project_id rows of
                 Some v \<Rightarrow> (v, ''project'', False)
               | None \<Rightarrow> from_general True))"

definition resolve_one ::
  "setting_descriptor \<Rightarrow> settings_row list \<Rightarrow> string option \<Rightarrow> string \<Rightarrow> resolved_setting" where
  "resolve_one d rows project_id scope_view =
     (let (v, origin, inherited) = effective_value d rows project_id scope_view;
          assigned_by = (if origin \<noteq> ''default''
            then get_assigned_by (sd_key d) origin (if origin = ''project'' then project_id else None) rows
            else ''operator'')
      in \<lparr>rs_key = sd_key d, rs_label_key = sd_label_key d, rs_section = sd_section d,
          rs_project_section = sd_project_section d, rs_type = sd_type d, rs_enum = sd_enum d,
          rs_minimum = sd_minimum d, rs_maximum = sd_maximum d, rs_value = v, rs_origin = origin,
          rs_inherited = inherited, rs_source = origin, rs_assigned_by = assigned_by,
          rs_editable_scopes = [scope_view]\<rparr>)"

definition resolve_settings ::
  "settings_row list \<Rightarrow> string option \<Rightarrow> resolved_setting list \<times> resolved_setting list" where
  "resolve_settings rows project_id =
     (map (\<lambda>d. resolve_one d rows project_id ''general'') registry,
      map (\<lambda>d. resolve_one d rows project_id ''project'') (filter (\<lambda>d. sd_project_section d \<noteq> None) registry))"

definition resolve_setting_value :: "settings_row list \<Rightarrow> string \<Rightarrow> string option \<Rightarrow> json_value option" where
  "resolve_setting_value rows k project_id =
     map_option (\<lambda>d. rs_value (resolve_one d rows project_id
        (if project_id \<noteq> None \<and> project_id \<noteq> Some [] then ''project'' else ''general''))) (descriptor_for k)"

section \<open>Requests\<close>

text \<open>
  The answers other than success: the two 404 and 422 responses with their cause, and the
  exceptions that leave the handler.
\<close>

datatype http_error =
    UnknownKey string
  | GeneralScopeOnly string
  | ScopeIdRequired
  | ScopeIdForbidden
  | InvalidScope string
  | InvalidValue setting_error
  | FloorAboveMinimum
  | Unhandled py_error

definition status_code :: "http_error \<Rightarrow> nat" where
  "status_code e = (case e of UnknownKey _ \<Rightarrow> 404 | Unhandled _ \<Rightarrow> 500 | _ \<Rightarrow> 422)"

record setting_audit =
  sa_action :: string
  sa_key :: string
  sa_scope :: string
  sa_scope_id :: "string option"
  sa_value :: "json_value option"
  sa_project_id :: "string option"

record settings_store =
  ss_rows :: "settings_row list"
  ss_audits :: "setting_audit list"

definition audit_change ::
  "string \<Rightarrow> string \<Rightarrow> string \<Rightarrow> string option \<Rightarrow> json_value option \<Rightarrow> settings_store \<Rightarrow> settings_store" where
  "audit_change action k scope i v s =
     s\<lparr>ss_audits := ss_audits s @ [\<lparr>sa_action = action, sa_key = k, sa_scope = scope, sa_scope_id = i,
         sa_value = (if v = Some (JVal PNone) then None else v),
         sa_project_id = (if scope = ''project'' then i else None)\<rparr>]\<rparr>"

definition min_memory_key :: string where "min_memory_key = ''resources.minFreeMemoryGiB''"
definition hard_memory_key :: string where "hard_memory_key = ''resources.hardFreeMemoryGiB''"

text \<open>The stored floor, or the default of its descriptor.\<close>

definition stored_floor :: "string \<Rightarrow> settings_row list \<Rightarrow> py_error + py_float" where
  "stored_floor k rows = (case get_value k ''general'' None rows of
     Some v \<Rightarrow> to_float v
   | None \<Rightarrow> (case descriptor_for k of None \<Rightarrow> Inl RuntimeError | Some d \<Rightarrow> to_float (JVal (sd_default d))))"

definition floors_after :: "string \<Rightarrow> json_value \<Rightarrow> settings_row list \<Rightarrow> py_error + (py_float \<times> py_float)" where
  "floors_after k coerced rows =
     try_then (stored_floor min_memory_key rows) (\<lambda>minimum.
     try_then (stored_floor hard_memory_key rows) (\<lambda>hard.
     try_then (to_float coerced) (\<lambda>new.
       Inr (if k = min_memory_key then (new, hard) else (minimum, new)))))"

definition put_setting ::
  "settings_env \<Rightarrow> string \<Rightarrow> string \<Rightarrow> string option \<Rightarrow> json_value \<Rightarrow> int \<Rightarrow> (settings_store, http_error, unit) op" where
  "put_setting env k scope scope_id v now s =
     (case descriptor_for k of
        None \<Rightarrow> (Inl (UnknownKey k), s)
      | Some d \<Rightarrow>
          if scope = ''project'' \<and> sd_project_section d = None then (Inl (GeneralScopeOnly k), s)
          else if scope = ''project'' \<and> (scope_id = None \<or> scope_id = Some []) then (Inl ScopeIdRequired, s)
          else if scope \<noteq> ''project'' \<and> scope_id \<noteq> None then (Inl ScopeIdForbidden, s)
          else (case validate_value env d v of
              Inl (SettingRaised e) \<Rightarrow> (Inl (Unhandled e), s)
            | Inl e \<Rightarrow> (Inl (InvalidValue e), s)
            | Inr coerced \<Rightarrow>
                let write = (\<lambda>s. (Inr (), audit_change ''settings.value_set'' k scope scope_id (Some coerced)
                       (s\<lparr>ss_rows := set_value k scope scope_id coerced ''operator'' now (ss_rows s)\<rparr>)))
                in if k \<in> {min_memory_key, hard_memory_key}
                   then (case floors_after k coerced (ss_rows s) of
                       Inl e \<Rightarrow> (Inl (Unhandled e), s)
                     | Inr (minimum, hard) \<Rightarrow>
                         if float_less minimum hard then (Inl FloorAboveMinimum, s) else write s)
                   else write s))"

definition delete_setting ::
  "string \<Rightarrow> string \<Rightarrow> string option \<Rightarrow> (settings_store, http_error, unit) op" where
  "delete_setting k scope scope_id s =
     (case descriptor_for k of
        None \<Rightarrow> (Inl (UnknownKey k), s)
      | Some d \<Rightarrow>
          if scope = ''project'' \<and> (scope_id = None \<or> scope_id = Some []) then (Inl ScopeIdRequired, s)
          else if scope = ''general'' \<and> scope_id \<noteq> None then (Inl ScopeIdForbidden, s)
          else if scope \<noteq> ''project'' \<and> scope \<noteq> ''general'' then (Inl (InvalidScope scope), s)
          else (Inr (), audit_change ''settings.value_cleared'' k scope scope_id None
                  (s\<lparr>ss_rows := snd (clear_value k scope scope_id (ss_rows s))\<rparr>)))"

end
