(* ===== verification/Host_Resources.thy ===== *)
theory Host_Resources
  imports Settings Jobs_Queue
begin

text \<open>
  The data of the host governor: \<open>host_resources/models.py\<close>, \<open>host_resources/profiles.py\<close> and the
  tables of \<open>host_resources/repository.py\<close>. Instants are milliseconds since the epoch, whose order is
  that of their texts (\<open>Py_Time\<close>); percentages and GiB are exact. The tables of native processes
  and containers hold the columns that say whether a lease is held. \<open>hs_ops\<close> is the job store, for
  the job whose admission is decided.
\<close>

section \<open>Workload classes\<close>

datatype workload_class =
    ControlPlane | RemoteLlmLight | AgentCli | QaLight | OpsLight | BrowserTest | BuildHeavy
  | CaptureSession | UnrealEditor | UnrealCook | LocalGpuModel | LocalModelCall

record workload_profile =
  wp_heavy :: bool
  wp_light :: bool
  wp_essential :: bool
  wp_exclusive :: bool
  wp_cpu_limit_percent :: rat
  wp_memory_limit_bytes :: int
  wp_memory_request_bytes :: "int option"
  wp_process_limit :: int
  wp_gpu_required :: bool

definition gib :: int where
  "gib = 1024 ^ 3"

definition capture_session_parts :: "(string \<times> int \<times> rat) list" where
  "capture_session_parts =
     [(''creator'', 2 * gib, 13), (''api'', 2 * gib, 13 / 2), (''worker'', 2 * gib, 13 / 2),
      (''execution'', 8 * gib, 26), (''collector'', 4 * gib, 13)]"

definition test_runner_process_limit :: int where
  "test_runner_process_limit = 64"

definition profile :: "bool \<Rightarrow> bool \<Rightarrow> bool \<Rightarrow> bool \<Rightarrow> rat \<Rightarrow> int \<Rightarrow> int option \<Rightarrow> int \<Rightarrow> bool \<Rightarrow> workload_profile" where
  "profile heavy light essential exclusive cpu memory request processes gpu =
     \<lparr>wp_heavy = heavy, wp_light = light, wp_essential = essential, wp_exclusive = exclusive,
      wp_cpu_limit_percent = cpu, wp_memory_limit_bytes = memory, wp_memory_request_bytes = request,
      wp_process_limit = processes, wp_gpu_required = gpu\<rparr>"

fun profile_of :: "workload_class \<Rightarrow> workload_profile" where
  "profile_of CaptureSession = profile True False False False
     (sum_list (map (snd \<circ> snd) capture_session_parts)) (sum_list (map (fst \<circ> snd) capture_session_parts))
     None 64 False"
| "profile_of ControlPlane = profile False False True False 20 (2 * gib) None 8 False"
| "profile_of RemoteLlmLight = profile False True False False 15 (2 * gib) (Some (gib div 2)) 4 False"
| "profile_of QaLight = profile False True False False 25 (4 * gib) None test_runner_process_limit False"
| "profile_of OpsLight =
     profile False True False False 25 (4 * gib) (Some (gib div 2)) test_runner_process_limit False"
| "profile_of AgentCli =
     profile True False False False 40 (8 * gib) (Some (1 * gib)) test_runner_process_limit False"
| "profile_of BrowserTest = profile True False False False 40 (8 * gib) None test_runner_process_limit False"
| "profile_of BuildHeavy = profile True False False False 65 (16 * gib) (Some (10 * gib)) 32 False"
| "profile_of UnrealEditor = profile True False False False 70 (24 * gib) None 64 True"
| "profile_of UnrealCook = profile True False False True 80 (32 * gib) None 64 False"
| "profile_of LocalGpuModel = profile True False False False 50 (16 * gib) None 16 True"
| "profile_of LocalModelCall = profile False True False False 15 (2 * gib) (Some (gib div 2)) 4 False"

definition local_inference_classes :: "workload_class set" where
  "local_inference_classes = {LocalGpuModel, LocalModelCall}"

definition admission_memory_bytes :: "workload_profile \<Rightarrow> int" where
  "admission_memory_bytes p = (case wp_memory_request_bytes p of None \<Rightarrow> wp_memory_limit_bytes p | Some r \<Rightarrow> r)"

section \<open>Snapshots and policy\<close>

record resource_snapshot =
  sn_sampled_at :: int
  sn_cpu_percent_1s :: rat
  sn_cpu_percent_30s :: rat
  sn_logical_processors :: int
  sn_total_memory_bytes :: int
  sn_available_memory_bytes :: int
  sn_committed_memory_bytes :: "int option"
  sn_commit_limit_bytes :: "int option"
  sn_swap_or_pagefile_used_bytes :: int
  sn_disk_free_bytes :: "(string \<times> int) list"
  sn_disk_total_bytes :: "(string \<times> int) list"
  sn_disk_read_bytes_per_second :: rat
  sn_disk_write_bytes_per_second :: rat
  sn_gpu_utilization_percent :: "rat option"
  sn_gpu_memory_used_bytes :: "int option"
  sn_gpu_memory_free_bytes :: "int option"
  sn_active_aido_process_count :: int
  sn_active_workloads :: "string list"
  sn_unreal_editor_running :: bool
  sn_docker_running :: bool
  sn_wsl_running :: bool
  sn_ollama_running :: bool

record resource_policy =
  po_profile :: string
  po_max_heavy_workloads :: int
  po_max_light_workloads :: int
  po_min_free_memory_bytes :: int
  po_hard_free_memory_bytes :: int
  po_min_free_disk_bytes :: int
  po_max_cpu_percent :: py_float
  po_unreal_reserve_memory_bytes :: int
  po_block_local_gpu_when_unreal :: bool
  po_sample_interval_seconds :: py_float

text \<open>\<open>_setting\<close>: the stored value when it validates, else the default of the descriptor; the
  \<open>KeyError\<close> of an unregistered key is a \<open>LookupError\<close>.\<close>

definition resource_setting :: "settings_env \<Rightarrow> settings_row list \<Rightarrow> string \<Rightarrow> py_error + json_value" where
  "resource_setting env rows k = (case descriptor_for k of
     None \<Rightarrow> Inl LookupError
   | Some d \<Rightarrow>
       let candidate = (case get_value k ''general'' None rows of None \<Rightarrow> JVal (sd_default d) | Some v \<Rightarrow> v) in
       (case validate_value env d candidate of
          Inr v \<Rightarrow> Inr v
        | Inl (SettingRaised e) \<Rightarrow> Inl e
        | Inl _ \<Rightarrow> Inr (JVal (sd_default d))))"

definition is_configured :: "settings_env \<Rightarrow> settings_row list \<Rightarrow> string \<Rightarrow> py_error + bool" where
  "is_configured env rows k = (case descriptor_for k of
     None \<Rightarrow> Inr False
   | Some d \<Rightarrow> (case get_value k ''general'' None rows of
       None \<Rightarrow> Inr False
     | Some v \<Rightarrow> (case validate_value env d v of
          Inr _ \<Rightarrow> Inr True | Inl (SettingRaised e) \<Rightarrow> Inl e | Inl _ \<Rightarrow> Inr False)))"

definition float_setting :: "settings_env \<Rightarrow> settings_row list \<Rightarrow> string \<Rightarrow> py_error + py_float" where
  "float_setting env rows k = try_then (resource_setting env rows k) to_float"

definition int_setting :: "settings_env \<Rightarrow> settings_row list \<Rightarrow> string \<Rightarrow> py_error + int" where
  "int_setting env rows k = try_then (float_setting env rows k) float_int"

definition bytes_of_gib :: "py_float \<Rightarrow> py_error + int" where
  "bytes_of_gib x = float_int (float_scale x (of_int gib))"

definition effective_min_free_disk_bytes ::
  "settings_env \<Rightarrow> settings_row list \<Rightarrow> resource_snapshot \<Rightarrow> py_error + int" where
  "effective_min_free_disk_bytes env rows snapshot =
     try_then (try_then (float_setting env rows ''resources.minFreeDiskGiB'') bytes_of_gib) (\<lambda>absolute.
     try_then (is_configured env rows ''resources.minFreeDiskGiB'') (\<lambda>configured.
       if configured then Inr absolute
       else try_then (float_setting env rows ''resources.minFreeDiskPercent'') (\<lambda>percent.
         let capacities = filter (\<lambda>v. v > 0) (map snd (sn_disk_total_bytes snapshot)) in
         if capacities = [] \<or> percent = Fin 0 \<or> float_less percent (Fin 0) then Inr absolute
         else try_then (float_int (float_scale percent (of_int (Min (set capacities)) / 100)))
                (\<lambda>relative. Inr (min absolute relative)))))"

definition setting_text :: "json_value \<Rightarrow> string" where
  "setting_text v = (case v of JVal (PStr s) \<Rightarrow> s | _ \<Rightarrow> [])"

definition setting_flag :: "json_value \<Rightarrow> bool" where
  "setting_flag v = (case v of JVal p \<Rightarrow> truthy p | _ \<Rightarrow> True)"

definition effective_profile :: "string \<Rightarrow> resource_snapshot \<Rightarrow> string" where
  "effective_profile configured snapshot =
     (if configured = ''auto'' \<and> sn_unreal_editor_running snapshot then ''interactive_unreal''
      else if configured = ''auto'' then ''development'' else configured)"

definition resolve_resource_policy ::
  "settings_env \<Rightarrow> settings_row list \<Rightarrow> resource_snapshot \<Rightarrow> py_error + resource_policy" where
  "resolve_resource_policy env rows snapshot =
     try_then (resource_setting env rows ''resources.profile'') (\<lambda>configured.
     let chosen = effective_profile (setting_text configured) snapshot in
     try_then (float_setting env rows ''resources.minFreeMemoryGiB'') (\<lambda>stored_min.
     try_then (float_setting env rows ''resources.unrealReserveMemoryGiB'') (\<lambda>reserve.
     let min_memory = (if chosen = ''interactive_unreal'' then float_max stored_min reserve else stored_min) in
     try_then (int_setting env rows ''resources.maxHeavyWorkloads'') (\<lambda>heavy.
     try_then (int_setting env rows ''resources.maxLightWorkloads'') (\<lambda>light.
     try_then (bytes_of_gib min_memory) (\<lambda>min_bytes.
     try_then (try_then (float_setting env rows ''resources.hardFreeMemoryGiB'') bytes_of_gib) (\<lambda>hard_bytes.
     try_then (effective_min_free_disk_bytes env rows snapshot) (\<lambda>disk.
     try_then (float_setting env rows ''resources.maxCpuPercent'') (\<lambda>cpu.
     try_then (bytes_of_gib reserve) (\<lambda>reserve_bytes.
     try_then (resource_setting env rows ''resources.blockLocalGpuWhenUnreal'') (\<lambda>block.
     try_then (float_setting env rows ''resources.sampleIntervalSeconds'') (\<lambda>interval.
       Inr \<lparr>po_profile = chosen, po_max_heavy_workloads = heavy, po_max_light_workloads = light,
            po_min_free_memory_bytes = min_bytes, po_hard_free_memory_bytes = hard_bytes,
            po_min_free_disk_bytes = disk, po_max_cpu_percent = cpu,
            po_unreal_reserve_memory_bytes = reserve_bytes,
            po_block_local_gpu_when_unreal = setting_flag block,
            po_sample_interval_seconds = interval\<rparr>))))))))))))"

section \<open>The tables\<close>

record resource_lease =
  rz_id :: string
  rz_execution_id :: string
  rz_workload_class :: workload_class
  rz_owner_id :: string
  rz_cpu_limit_percent :: rat
  rz_memory_limit_bytes :: int
  rz_memory_request_bytes :: "int option"
  rz_process_limit :: int
  rz_gpu_required :: bool
  rz_acquired_at :: int
  rz_heartbeat_at :: int
  rz_expires_at :: int
  rz_released_at :: "int option"
  rz_release_reason :: string
  rz_parent_execution_id :: "string option"

record admission_request =
  rq_execution_id :: string
  rq_workload_class :: workload_class
  rq_owner_id :: string
  rq_job_id :: "string option"
  rq_parent_execution_id :: "string option"
  rq_lease_seconds :: int

record admission_decision =
  de_status :: string
  de_reason_code :: string
  de_reason :: string
  de_lease :: "resource_lease option"
  de_snapshot :: resource_snapshot

record admission_row =
  ad_id :: string
  ad_execution_id :: string
  ad_job_id :: "string option"
  ad_workload_class :: workload_class
  ad_owner_id :: string
  ad_status :: string
  ad_reason_code :: string
  ad_reason :: string
  ad_request :: admission_request
  ad_snapshot :: resource_snapshot
  ad_lease_id :: "string option"
  ad_created_at :: int
  ad_attempts :: nat
  ad_last_seen_at :: int

record violation_row =
  vw_id :: string
  vw_execution_id :: string
  vw_lease_id :: string
  vw_violation_type :: string
  vw_action :: string
  vw_reason :: string
  vw_created_at :: int
  vw_resolved_at :: "int option"

record native_process =
  np_execution_id :: string
  np_resource_lease_id :: "string option"
  np_finished_at :: "int option"

record native_container =
  nc_resource_lease_id :: string
  nc_released_at :: "int option"

record host_store =
  hs_leases :: "resource_lease list"
  hs_admissions :: "admission_row list"
  hs_violations :: "violation_row list"
  hs_samples :: "(string \<times> resource_snapshot) list"
  hs_processes :: "native_process list"
  hs_containers :: "native_container list"
  hs_settings :: "settings_row list"
  hs_threads :: "string list"
  hs_thread_events :: "(string \<times> string \<times> string \<times> string) list"
  hs_ops :: ops_store

datatype host_error =
    LeaseNotFound string
  | UniqueViolation
  | ViolationWithoutLease
  | HostJobError job_error
  | HostRaised py_error

end
