(* ===== verification/Resource_Governor.thy ===== *)
theory Resource_Governor
  imports Host_Resources
begin

text \<open>
  \<open>host_resources/repository.py\<close> and \<open>host_resources/governor.py\<close>: leases, admission decisions,
  samples and violations, and the operations of the governor, with the two pure rules of
  \<open>host_resources/branch_admission.py\<close>. Generated identifiers and the clock are arguments. The
  partial unique index of \<^verbatim>\<open>resource_leases\<close> on the execution of the leases that are not
  released makes an insertion fail with \<open>UniqueViolation\<close>.
\<close>

section \<open>Leases\<close>

definition native_lease_ids :: "host_store \<Rightarrow> string set" where
  "native_lease_ids s =
     set (List.map_filter np_resource_lease_id (filter (\<lambda>p. np_finished_at p = None) (hs_processes s))) \<union>
     set (map rz_id (filter (\<lambda>l. rz_released_at l = None \<and> rz_parent_execution_id l \<in>
         set (map (\<lambda>p. Some (np_execution_id p)) (filter (\<lambda>p. np_finished_at p = None) (hs_processes s))))
       (hs_leases s))) \<union>
     set (map nc_resource_lease_id (filter (\<lambda>c. nc_released_at c = None) (hs_containers s)))"

definition active_leases :: "int \<Rightarrow> host_store \<Rightarrow> resource_lease list" where
  "active_leases now s = filter (\<lambda>l. rz_expires_at l > now \<or> rz_id l \<in> native_lease_ids s)
     (sort_key rz_acquired_at (filter (\<lambda>l. rz_released_at l = None) (hs_leases s)))"

definition active_lease_for_execution :: "string \<Rightarrow> int \<Rightarrow> host_store \<Rightarrow> resource_lease option" where
  "active_lease_for_execution i now s = first_by (\<lambda>l. - rz_acquired_at l)
     (filter (\<lambda>l. rz_execution_id l = i \<and> rz_released_at l = None \<and> rz_expires_at l > now) (hs_leases s))"

definition get_lease :: "string \<Rightarrow> (host_store, host_error, resource_lease) op" where
  "get_lease i s = (case select_one (\<lambda>l. rz_id l = i) (hs_leases s) of
     None \<Rightarrow> (Inl (LeaseNotFound i), s) | Some l \<Rightarrow> (Inr l, s))"

definition new_lease :: "string \<Rightarrow> admission_request \<Rightarrow> workload_profile \<Rightarrow> int \<Rightarrow> int \<Rightarrow> resource_lease" where
  "new_lease i request p now expires =
     \<lparr>rz_id = i, rz_execution_id = rq_execution_id request, rz_workload_class = rq_workload_class request,
      rz_owner_id = rq_owner_id request, rz_cpu_limit_percent = wp_cpu_limit_percent p,
      rz_memory_limit_bytes = wp_memory_limit_bytes p,
      rz_memory_request_bytes = Some (admission_memory_bytes p), rz_process_limit = wp_process_limit p,
      rz_gpu_required = wp_gpu_required p, rz_acquired_at = now, rz_heartbeat_at = now,
      rz_expires_at = expires, rz_released_at = None, rz_release_reason = [],
      rz_parent_execution_id = rq_parent_execution_id request\<rparr>"

definition lease_conflict :: "string \<Rightarrow> string \<Rightarrow> host_store \<Rightarrow> bool" where
  "lease_conflict i execution_id s = (i \<in> set (map rz_id (hs_leases s)) \<or>
     execution_id \<in> set (map rz_execution_id (filter (\<lambda>l. rz_released_at l = None) (hs_leases s))))"

definition create_lease ::
  "string \<Rightarrow> admission_request \<Rightarrow> workload_profile \<Rightarrow> int \<Rightarrow> (host_store, host_error, resource_lease) op" where
  "create_lease i request p now s =
     (case shift_instant now (1000 * rq_lease_seconds request) of
        Inl e \<Rightarrow> (Inl (HostRaised e), s)
      | Inr expires \<Rightarrow>
          if lease_conflict i (rq_execution_id request) s then (Inl UniqueViolation, s)
          else get_lease i (s\<lparr>hs_leases := hs_leases s @ [new_lease i request p now expires]\<rparr>))"

definition renewable :: "string \<Rightarrow> string \<Rightarrow> int \<Rightarrow> resource_lease \<Rightarrow> bool" where
  "renewable i owner now l = (rz_id l = i \<and> rz_owner_id l = owner \<and> rz_released_at l = None \<and> rz_expires_at l > now)"

definition heartbeat_lease ::
  "string \<Rightarrow> string \<Rightarrow> int \<Rightarrow> int \<Rightarrow> (host_store, host_error, resource_lease option) op" where
  "heartbeat_lease i owner lease_seconds now s =
     (case shift_instant now (1000 * lease_seconds) of
        Inl e \<Rightarrow> (Inl (HostRaised e), s)
      | Inr expires \<Rightarrow>
          if rowcount (renewable i owner now) (hs_leases s) = 0 then (Inr None, s)
          else (case get_lease i (s\<lparr>hs_leases := upd_where (renewable i owner now)
                   (\<lambda>l. l\<lparr>rz_heartbeat_at := now, rz_expires_at := expires\<rparr>) (hs_leases s)\<rparr>) of
              (Inl e, t) \<Rightarrow> (Inl e, t) | (Inr l, t) \<Rightarrow> (Inr (Some l), t)))"

definition resolve_violations_for_lease :: "string \<Rightarrow> int \<Rightarrow> host_store \<Rightarrow> host_store" where
  "resolve_violations_for_lease i now s =
     s\<lparr>hs_violations := upd_where (\<lambda>v. vw_lease_id v = i \<and> vw_resolved_at v = None)
        (\<lambda>v. v\<lparr>vw_resolved_at := Some now\<rparr>) (hs_violations s)\<rparr>"

definition mark_released :: "string \<Rightarrow> string \<Rightarrow> int \<Rightarrow> host_store \<Rightarrow> host_store" where
  "mark_released i reason now s =
     s\<lparr>hs_leases := upd_where (\<lambda>l. rz_id l = i \<and> rz_released_at l = None)
        (\<lambda>l. l\<lparr>rz_released_at := Some now, rz_release_reason := reason\<rparr>) (hs_leases s)\<rparr>"

definition release_lease :: "string \<Rightarrow> string \<Rightarrow> int \<Rightarrow> (host_store, host_error, resource_lease) op" where
  "release_lease i reason now s =
     (if i \<in> native_lease_ids s then get_lease i s
      else get_lease i (resolve_violations_for_lease i now (mark_released i reason now s)))"

definition finish_remote_branch :: "string \<Rightarrow> string \<Rightarrow> int \<Rightarrow> (host_store, host_error, resource_lease) op" where
  "finish_remote_branch i owner now s =
     release_lease i ''provider_branch_finished'' now
       (s\<lparr>hs_leases := upd_where (\<lambda>l. rz_id l = i \<and> rz_owner_id l = owner \<and> rz_released_at l = None)
          (\<lambda>l. l\<lparr>rz_parent_execution_id := None\<rparr>) (hs_leases s)\<rparr>)"

definition expired_ids :: "int \<Rightarrow> host_store \<Rightarrow> string list" where
  "expired_ids now s = filter (\<lambda>i. i \<notin> native_lease_ids s)
     (map rz_id (sort_key rz_expires_at
        (filter (\<lambda>l. rz_released_at l = None \<and> rz_expires_at l \<le> now) (hs_leases s))))"

fun release_all :: "string list \<Rightarrow> int \<Rightarrow> (host_store, host_error, unit) op" where
  "release_all [] now s = (Inr (), s)"
| "release_all (i # is) now s = (case release_lease i ''lease_expired'' now s of
     (Inl e, t) \<Rightarrow> (Inl e, t) | (Inr _, t) \<Rightarrow> release_all is now t)"

fun get_leases :: "string list \<Rightarrow> (host_store, host_error, resource_lease list) op" where
  "get_leases [] s = (Inr [], s)"
| "get_leases (i # is) s = and_then (get_lease i) (\<lambda>l. and_then (get_leases is) (\<lambda>ls. ret (l # ls))) s"

definition recover_expired :: "int \<Rightarrow> (host_store, host_error, resource_lease list) op" where
  "recover_expired now s =
     (let ids = expired_ids now s in and_then (release_all ids now) (\<lambda>_. get_leases ids) s)"

section \<open>Admission decisions\<close>

fun upd_first :: "('r \<Rightarrow> bool) \<Rightarrow> ('r \<Rightarrow> 'r) \<Rightarrow> 'r list \<Rightarrow> 'r list" where
  "upd_first P f [] = []"
| "upd_first P f (r # rs) = (if P r then f r # rs else r # upd_first P f rs)"

definition latest_row :: "('r \<Rightarrow> bool) \<Rightarrow> 'r list \<Rightarrow> 'r option" where
  "latest_row P rows = select_one P (rev rows)"

definition record_admission ::
  "string \<Rightarrow> admission_request \<Rightarrow> admission_decision \<Rightarrow> int \<Rightarrow> host_store \<Rightarrow> host_store" where
  "record_admission i request d now s =
     (let mine = (\<lambda>r. ad_execution_id r = rq_execution_id request) in
      case latest_row mine (hs_admissions s) of
        Some r \<Rightarrow>
          if ad_status r = de_status d \<and> ad_reason_code r = de_reason_code d
          then s\<lparr>hs_admissions := rev (upd_first mine
                 (\<lambda>r. r\<lparr>ad_attempts := ad_attempts r + 1, ad_last_seen_at := now,
                        ad_snapshot := de_snapshot d, ad_lease_id := map_option rz_id (de_lease d)\<rparr>)
                 (rev (hs_admissions s)))\<rparr>
          else s\<lparr>hs_admissions := hs_admissions s @
                 [\<lparr>ad_id = i, ad_execution_id = rq_execution_id request, ad_job_id = rq_job_id request,
                   ad_workload_class = rq_workload_class request, ad_owner_id = rq_owner_id request,
                   ad_status = de_status d, ad_reason_code = de_reason_code d, ad_reason = de_reason d,
                   ad_request = request, ad_snapshot = de_snapshot d,
                   ad_lease_id = map_option rz_id (de_lease d), ad_created_at = now, ad_attempts = 1,
                   ad_last_seen_at = now\<rparr>]\<rparr>
      | None \<Rightarrow> s\<lparr>hs_admissions := hs_admissions s @
                 [\<lparr>ad_id = i, ad_execution_id = rq_execution_id request, ad_job_id = rq_job_id request,
                   ad_workload_class = rq_workload_class request, ad_owner_id = rq_owner_id request,
                   ad_status = de_status d, ad_reason_code = de_reason_code d, ad_reason = de_reason d,
                   ad_request = request, ad_snapshot = de_snapshot d,
                   ad_lease_id = map_option rz_id (de_lease d), ad_created_at = now, ad_attempts = 1,
                   ad_last_seen_at = now\<rparr>]\<rparr>)"

definition waiting_requests :: "int \<Rightarrow> host_store \<Rightarrow> admission_request list" where
  "waiting_requests limit s =
     (let last_of_job = (\<lambda>r. latest_row (\<lambda>q. ad_job_id q = ad_job_id r) (hs_admissions s) = Some r);
          waits = (\<lambda>r. ad_status r = ''resource_wait'' \<and> last_of_job r \<and>
             (\<exists>j \<in> set (os_jobs (hs_ops s)). ad_job_id r = Some (jb_id j) \<and> jb_status j = ''resource_wait''))
      in map ad_request (take (nat (max 1 (min limit 100))) (sort_key ad_created_at (filter waits (hs_admissions s)))))"

section \<open>Samples, violations and retention\<close>

definition record_sample :: "string \<Rightarrow> resource_snapshot \<Rightarrow> host_store \<Rightarrow> host_store" where
  "record_sample i snapshot s = s\<lparr>hs_samples := hs_samples s @ [(i, snapshot)]\<rparr>"

definition list_samples :: "int \<Rightarrow> host_store \<Rightarrow> (string \<times> resource_snapshot) list" where
  "list_samples limit s = take (nat (max 1 (min limit 1000)))
     (sort_key (\<lambda>(i, x). - sn_sampled_at x) (rev (hs_samples s)))"

definition latest_sample :: "host_store \<Rightarrow> (string \<times> resource_snapshot) option" where
  "latest_sample s = (case list_samples 1 s of [] \<Rightarrow> None | x # _ \<Rightarrow> Some x)"

definition prune_samples :: "int \<Rightarrow> int \<Rightarrow> (host_store, host_error, nat) op" where
  "prune_samples retention now s =
     (case shift_instant now (- 1000 * max 1 retention) of
        Inl e \<Rightarrow> (Inl (HostRaised e), s)
      | Inr cutoff \<Rightarrow> let old = (\<lambda>(i, x). sn_sampled_at x < cutoff) in
          (Inr (rowcount old (hs_samples s)), s\<lparr>hs_samples := filter (\<lambda>r. \<not> old r) (hs_samples s)\<rparr>))"

definition prune_resolved_violations :: "int \<Rightarrow> int \<Rightarrow> (host_store, host_error, nat) op" where
  "prune_resolved_violations retention now s =
     (case shift_instant now (- 1000 * max 1 retention) of
        Inl e \<Rightarrow> (Inl (HostRaised e), s)
      | Inr cutoff \<Rightarrow>
          let old = (\<lambda>v. case vw_resolved_at v of None \<Rightarrow> False | Some t \<Rightarrow> t < cutoff) in
          (Inr (rowcount old (hs_violations s)), s\<lparr>hs_violations := filter (\<lambda>v. \<not> old v) (hs_violations s)\<rparr>))"

fun drop_first :: "nat \<Rightarrow> ('r \<Rightarrow> bool) \<Rightarrow> 'r list \<Rightarrow> 'r list" where
  "drop_first n P [] = []"
| "drop_first 0 P (r # rs) = r # rs"
| "drop_first (Suc n) P (r # rs) = (if P r then drop_first n P rs else r # drop_first (Suc n) P rs)"

definition prune_admission_decisions :: "int \<Rightarrow> int option \<Rightarrow> int \<Rightarrow> (host_store, host_error, nat) op" where
  "prune_admission_decisions retention batch_size now s =
     (case shift_instant now (- 1000 * max 1 retention) of
        Inl e \<Rightarrow> (Inl (HostRaised e), s)
      | Inr cutoff \<Rightarrow>
          let old = (\<lambda>r. ad_created_at r < cutoff); n = rowcount old (hs_admissions s) in
          (case batch_size of
             None \<Rightarrow> (Inr n, s\<lparr>hs_admissions := filter (\<lambda>r. \<not> old r) (hs_admissions s)\<rparr>)
           | Some b \<Rightarrow> let k = nat (max 1 b) in
               (Inr (min n k), s\<lparr>hs_admissions := drop_first k old (hs_admissions s)\<rparr>)))"

definition record_violation ::
  "string \<Rightarrow> string \<Rightarrow> string \<Rightarrow> string \<Rightarrow> string \<Rightarrow> string \<Rightarrow> int \<Rightarrow> (host_store, host_error, violation_row) op" where
  "record_violation i execution_id lease_id violation_type action reason now s =
     (if lease_id = [] then (Inl ViolationWithoutLease, s)
      else let v = \<lparr>vw_id = i, vw_execution_id = execution_id, vw_lease_id = lease_id,
                   vw_violation_type = violation_type, vw_action = action, vw_reason = reason,
                   vw_created_at = now, vw_resolved_at = None\<rparr>
           in (Inr v, s\<lparr>hs_violations := hs_violations s @ [v]\<rparr>))"

definition latest_violation_created_at :: "string \<Rightarrow> host_store \<Rightarrow> int option" where
  "latest_violation_created_at ty s = map_option vw_created_at
     (first_by (\<lambda>v. - vw_created_at v) (filter (\<lambda>v. vw_violation_type v = ty) (hs_violations s)))"

definition leases_with_unresolved_violation :: "string \<Rightarrow> host_store \<Rightarrow> string set" where
  "leases_with_unresolved_violation action s =
     set (map vw_lease_id (filter (\<lambda>v. vw_resolved_at v = None \<and> vw_action v = action) (hs_violations s)))"

section \<open>The decision\<close>

definition blocks_local_inference :: "workload_class \<Rightarrow> resource_snapshot \<Rightarrow> resource_policy \<Rightarrow> bool" where
  "blocks_local_inference c snapshot policy = (c \<in> local_inference_classes \<and>
     sn_unreal_editor_running snapshot \<and> po_block_local_gpu_when_unreal policy)"

definition wait_decision :: "resource_snapshot \<Rightarrow> string \<Rightarrow> string \<Rightarrow> admission_decision" where
  "wait_decision snapshot code reason = \<lparr>de_status = ''resource_wait'', de_reason_code = code, de_reason = reason,
     de_lease = None, de_snapshot = snapshot\<rparr>"

definition admitted :: "resource_snapshot \<Rightarrow> string \<Rightarrow> string \<Rightarrow> resource_lease option \<Rightarrow> admission_decision" where
  "admitted snapshot code reason l = \<lparr>de_status = ''admitted'', de_reason_code = code, de_reason = reason,
     de_lease = l, de_snapshot = snapshot\<rparr>"

definition reserved_bytes :: "resource_lease \<Rightarrow> int" where
  "reserved_bytes l = (case rz_memory_request_bytes l of None \<Rightarrow> rz_memory_limit_bytes l | Some m \<Rightarrow> m)"

definition reserved_cpu :: "resource_lease list \<Rightarrow> rat" where
  "reserved_cpu active = sum_list (map rz_cpu_limit_percent active)"

definition heavy_count :: "resource_lease list \<Rightarrow> int" where
  "heavy_count active = int (length (filter (\<lambda>l. wp_heavy (profile_of (rz_workload_class l))) active))"

definition light_count :: "resource_lease list \<Rightarrow> int" where
  "light_count active = int (length (filter (\<lambda>l. wp_light (profile_of (rz_workload_class l))) active))"

text \<open>\<^verbatim>\<open>f"{n / GIB:.1f}"\<close> for \<open>n\<close> not negative.\<close>

definition gib_text :: "int \<Rightarrow> string" where
  "gib_text n = (let q = round_half_even (of_int (10 * n) / of_int gib) in int_str (q div 10) @ ''.'' @ int_str (q mod 10))"

definition memory_reason :: "int \<Rightarrow> int \<Rightarrow> int \<Rightarrow> string" where
  "memory_reason requested reserved headroom =
     ''Combined workload memory requests would consume the reserved free-memory headroom: '' @
     gib_text requested @ '' GiB requested, '' @ gib_text reserved @ '' GiB already reserved, '' @
     gib_text (max headroom 0) @ '' GiB of headroom.''"

definition cpu_exceeded :: "workload_class \<Rightarrow> resource_lease list \<Rightarrow> resource_policy \<Rightarrow> bool" where
  "cpu_exceeded c active policy =
     float_less (po_max_cpu_percent policy) (Fin (reserved_cpu active + wp_cpu_limit_percent (profile_of c)))"

text \<open>What the state of the host refuses, then what the other leases refuse.\<close>

definition host_refusal :: "workload_class \<Rightarrow> resource_snapshot \<Rightarrow> resource_policy \<Rightarrow> (string \<times> string) option" where
  "host_refusal c snapshot policy =
     (if sn_available_memory_bytes snapshot < po_hard_free_memory_bytes policy then
        Some (''hard_memory_floor'', ''Available memory is below the hard floor reserved for the control plane.'')
      else if sn_available_memory_bytes snapshot < po_min_free_memory_bytes policy then
        Some (''minimum_free_memory'', ''Available memory is below the configured workload admission threshold.'')
      else if sn_disk_free_bytes snapshot = [] \<or>
              Min (set (map snd (sn_disk_free_bytes snapshot))) < po_min_free_disk_bytes policy then
        Some (''minimum_free_disk'', ''A relevant volume is below the configured free-disk threshold.'')
      else if float_less (po_max_cpu_percent policy)
                (Fin (max (sn_cpu_percent_1s snapshot) (sn_cpu_percent_30s snapshot))) then
        Some (''host_cpu_saturated'', ''Host CPU is above the configured admission threshold.'')
      else if blocks_local_inference c snapshot policy then
        Some (''unreal_local_gpu_conflict'', ''Local GPU inference is blocked while UnrealEditor is active.'')
      else None)"

definition lease_refusal ::
  "workload_class \<Rightarrow> resource_lease list \<Rightarrow> resource_snapshot \<Rightarrow> resource_policy \<Rightarrow> (string \<times> string) option" where
  "lease_refusal c active snapshot policy =
     (let p = profile_of c; classes = set (map rz_workload_class active);
          others = filter (\<lambda>l. rz_workload_class l \<noteq> ControlPlane) active;
          reserved = sum_list (map reserved_bytes others);
          headroom = sn_available_memory_bytes snapshot - po_min_free_memory_bytes policy in
      if c = UnrealCook \<and> others \<noteq> [] then
        Some (''unreal_cook_exclusive'', ''Unreal cook requires exclusive host capacity.'')
      else if UnrealCook \<in> classes then
        Some (''unreal_cook_active'', ''An exclusive Unreal cook lease is active.'')
      else if c = BrowserTest \<and> BuildHeavy \<in> classes \<or> c = BuildHeavy \<and> BrowserTest \<in> classes then
        Some (''browser_build_conflict'', ''Browser tests and heavy builds cannot execute simultaneously.'')
      else if wp_heavy p \<and> heavy_count active \<ge> po_max_heavy_workloads policy then
        Some (''heavy_workload_capacity'', ''The global heavy-workload slot is already reserved.'')
      else if wp_light p \<and> light_count active \<ge> po_max_light_workloads policy then
        Some (''light_workload_capacity'', ''The configured light-workload concurrency limit is already reserved.'')
      else if cpu_exceeded c active policy then
        Some (''aggregate_cpu_budget'', ''Combined workload CPU limits exceed the configured aggregate CPU budget.'')
      else if reserved + admission_memory_bytes p > headroom then
        Some (''aggregate_memory_budget'', memory_reason (admission_memory_bytes p) reserved headroom)
      else None)"

definition refusal ::
  "workload_class \<Rightarrow> resource_lease list \<Rightarrow> resource_snapshot \<Rightarrow> resource_policy \<Rightarrow> (string \<times> string) option" where
  "refusal c active snapshot policy =
     (if wp_essential (profile_of c) then
        if cpu_exceeded c active policy then
          Some (''aggregate_cpu_budget'', ''Combined workload CPU limits exceed the configured aggregate CPU budget.'')
        else None
      else (case host_refusal c snapshot policy of
              Some r \<Rightarrow> Some r | None \<Rightarrow> lease_refusal c active snapshot policy))"

definition decide ::
  "admission_request \<Rightarrow> resource_snapshot \<Rightarrow> resource_lease list \<Rightarrow> resource_policy \<Rightarrow> admission_decision option" where
  "decide request snapshot active policy =
     map_option (\<lambda>(code, reason). wait_decision snapshot code reason)
       (refusal (rq_workload_class request) active snapshot policy)"

section \<open>The job of an admission\<close>

definition last_reason_code :: "job_env \<Rightarrow> pydict \<Rightarrow> string option" where
  "last_reason_code env payload = (case dget payload ''result'' of
     PDict result \<Rightarrow> if truthy (dget result ''reasonCode'') then Some (je_str env (dget result ''reasonCode'')) else None
   | _ \<Rightarrow> None)"

definition record_thread_resource_wait ::
  "job_env \<Rightarrow> string \<Rightarrow> pydict \<Rightarrow> admission_decision \<Rightarrow> host_store \<Rightarrow> host_store" where
  "record_thread_resource_wait env i payload d s =
     (let thread = py_strip (je_str env (py_or (dget payload ''threadId'') (PStr []))) in
      if thread = [] \<or> thread \<notin> set (hs_threads s) then s
      else s\<lparr>hs_thread_events := hs_thread_events s @ [(thread, i, de_reason_code d, de_reason d)]\<rparr>)"

definition admission_metadata :: "admission_decision \<Rightarrow> pydict" where
  "admission_metadata d =
     [(''resourceAdmission'', PStr (de_status d)), (''reasonCode'', PStr (de_reason_code d)),
      (''reason'', PStr (de_reason d)),
      (''leaseId'', case de_lease d of None \<Rightarrow> PNone | Some l \<Rightarrow> PStr (rz_id l))]"

definition set_job_status ::
  "job_env \<Rightarrow> string option \<Rightarrow> string \<Rightarrow> admission_decision \<Rightarrow> int \<Rightarrow> (host_store, host_error, unit) op" where
  "set_job_status env job_id status d now s =
     (case job_id of None \<Rightarrow> (Inr (), s) | Some i \<Rightarrow>
      if i = [] then (Inr (), s)
      else (case find_job i (hs_ops s) of None \<Rightarrow> (Inr (), s) | Some j \<Rightarrow>
        if status = ''resource_wait'' \<and> jb_status j \<notin> {''queued'', ''resource_wait''} then (Inr (), s)
        else if status = ''queued'' \<and> jb_status j \<noteq> ''resource_wait'' then (Inr (), s)
        else if status = ''resource_wait'' \<and> jb_status j = ''resource_wait'' \<and>
                last_reason_code env (jb_payload j) = Some (de_reason_code d) then (Inr (), s)
        else (case update_job_status env i status (Some (admission_metadata d)) now (hs_ops s) of
                (Inl e, ops) \<Rightarrow> (Inl (HostJobError e), s\<lparr>hs_ops := ops\<rparr>)
              | (Inr _, ops) \<Rightarrow>
                  (Inr (), if status = ''resource_wait''
                     then record_thread_resource_wait env i (jb_payload j) d (s\<lparr>hs_ops := ops\<rparr>)
                     else s\<lparr>hs_ops := ops\<rparr>))))"

section \<open>Operations of the governor\<close>

text \<open>The generated identifiers of the lease and of the admission row are \<open>lease_id\<close> and \<open>row_id\<close>.\<close>

definition admit_in_transaction ::
  "job_env \<Rightarrow> string \<Rightarrow> string \<Rightarrow> admission_request \<Rightarrow> resource_snapshot \<Rightarrow> resource_policy \<Rightarrow> int \<Rightarrow>
   (host_store, host_error, admission_decision) op" where
  "admit_in_transaction env lease_id row_id request snapshot policy now =
     and_then (recover_expired now) (\<lambda>_ s.
       case active_lease_for_execution (rq_execution_id request) now s of
         Some l \<Rightarrow> (Inr (admitted snapshot ''existing_lease''
             ''Execution already owns an active resource lease.'' (Some l)), s)
       | None \<Rightarrow>
           (case decide request snapshot (active_leases now s) policy of
              None \<Rightarrow> and_then (create_lease lease_id request (profile_of (rq_workload_class request)) now) (\<lambda>l.
                let d = admitted snapshot ''capacity_available''
                    ''Host capacity is available for this workload profile.'' (Some l) in
                and_then (set_job_status env (rq_job_id request) ''queued'' d now)
                  (\<lambda>_ s. (Inr d, record_admission row_id request d now s))) s
            | Some d \<Rightarrow> and_then (set_job_status env (rq_job_id request) ''resource_wait'' d now)
                  (\<lambda>_ s. (Inr d, record_admission row_id request d now s)) s))"

definition admit ::
  "settings_env \<Rightarrow> job_env \<Rightarrow> string \<Rightarrow> string \<Rightarrow> admission_request \<Rightarrow> resource_snapshot \<Rightarrow> int \<Rightarrow>
   (host_store, host_error, admission_decision) op" where
  "admit senv env lease_id row_id request snapshot now s =
     (case resolve_resource_policy senv (hs_settings s) snapshot of
        Inl e \<Rightarrow> (Inl (HostRaised e), s)
      | Inr policy \<Rightarrow>
          immediate_transaction (admit_in_transaction env lease_id row_id request snapshot policy now) s)"

definition preview ::
  "settings_env \<Rightarrow> admission_request \<Rightarrow> resource_snapshot \<Rightarrow> int \<Rightarrow> host_store \<Rightarrow> host_error + admission_decision" where
  "preview senv request snapshot now s =
     (case resolve_resource_policy senv (hs_settings s) snapshot of
        Inl e \<Rightarrow> Inl (HostRaised e)
      | Inr policy \<Rightarrow>
          (case decide request snapshot
                  (filter (\<lambda>l. rz_execution_id l \<noteq> rq_execution_id request) (active_leases now s)) policy of
             Some d \<Rightarrow> Inr d
           | None \<Rightarrow> Inr (admitted snapshot ''capacity_available''
                 ''Host capacity is available; execution still requires atomic admission.'' None)))"

definition local_inference_conflict ::
  "settings_env \<Rightarrow> workload_class \<Rightarrow> resource_snapshot \<Rightarrow> host_store \<Rightarrow> host_error + admission_decision option" where
  "local_inference_conflict senv c snapshot s =
     (case resolve_resource_policy senv (hs_settings s) snapshot of
        Inl e \<Rightarrow> Inl (HostRaised e)
      | Inr policy \<Rightarrow> Inr (if blocks_local_inference c snapshot policy
          then Some (wait_decision snapshot ''unreal_local_gpu_conflict''
                 ''Local GPU inference is blocked while UnrealEditor is active.'')
          else None))"

definition governor_recover :: "int \<Rightarrow> (host_store, host_error, resource_lease list) op" where
  "governor_recover now = immediate_transaction (recover_expired now)"

definition governor_heartbeat ::
  "string \<Rightarrow> string \<Rightarrow> int \<Rightarrow> int \<Rightarrow> (host_store, host_error, resource_lease option) op" where
  "governor_heartbeat i owner lease_seconds now = immediate_transaction (heartbeat_lease i owner lease_seconds now)"

definition governor_release :: "string \<Rightarrow> string \<Rightarrow> int \<Rightarrow> (host_store, host_error, resource_lease) op" where
  "governor_release i reason now = immediate_transaction (release_lease i reason now)"

text \<open>Every admission of a batch has its own identifiers and reads the clock again.\<close>

fun admit_all ::
  "settings_env \<Rightarrow> job_env \<Rightarrow> resource_snapshot \<Rightarrow> (string \<times> string \<times> int) list \<Rightarrow> admission_request list \<Rightarrow>
   (host_store, host_error, admission_decision list) op" where
  "admit_all senv env snapshot ((lease_id, row_id, now) # tags) (request # requests) s =
     and_then (admit senv env lease_id row_id request snapshot now)
       (\<lambda>d. and_then (admit_all senv env snapshot tags requests) (\<lambda>ds. ret (d # ds))) s"
| "admit_all senv env snapshot _ _ s = (Inr [], s)"

definition reevaluate_waiting ::
  "settings_env \<Rightarrow> job_env \<Rightarrow> resource_snapshot \<Rightarrow> int \<Rightarrow> (string \<times> string \<times> int) list \<Rightarrow>
   (host_store, host_error, admission_decision list) op" where
  "reevaluate_waiting senv env snapshot limit tags s =
     admit_all senv env snapshot tags (waiting_requests limit s) s"

definition sample_retention_seconds :: int where
  "sample_retention_seconds = 7 * 24 * 60 * 60"

definition governor_sample :: "string \<Rightarrow> resource_snapshot \<Rightarrow> int \<Rightarrow> (host_store, host_error, nat) op" where
  "governor_sample i snapshot now =
     immediate_transaction (\<lambda>s. prune_samples sample_retention_seconds now (record_sample i snapshot s))"

section \<open>Retention\<close>

text \<open>\<open>host_resources/retention.py\<close>. Every batch reads the clock; \<open>nows\<close> has one reading for each of
  the at most \<open>max_batches\<close> rounds.\<close>

definition decision_retention_seconds :: int where
  "decision_retention_seconds = 7 * 24 * 60 * 60"

definition violation_retention_seconds :: int where
  "violation_retention_seconds = 30 * 24 * 60 * 60"

definition prune_resource_history :: "int \<Rightarrow> (host_store, host_error, nat) op" where
  "prune_resource_history now =
     and_then (prune_samples sample_retention_seconds now) (\<lambda>samples.
     and_then (prune_admission_decisions decision_retention_seconds None now) (\<lambda>decisions.
       ret (samples + decisions)))"

fun drain_batches :: "int \<Rightarrow> int list \<Rightarrow> nat \<Rightarrow> (host_store, host_error, nat) op" where
  "drain_batches batch_size [] removed_so_far s = (Inr removed_so_far, s)"
| "drain_batches batch_size (now # nows) removed_so_far s =
     (case prune_admission_decisions decision_retention_seconds (Some batch_size) now s of
        (Inl e, t) \<Rightarrow> (Inl e, t)
      | (Inr removed, t) \<Rightarrow>
          if int removed < batch_size then (Inr (removed_so_far + removed), t)
          else drain_batches batch_size nows (removed_so_far + removed) t)"

definition drain_resource_history :: "int \<Rightarrow> int list \<Rightarrow> int \<Rightarrow> (host_store, host_error, nat) op" where
  "drain_resource_history batch_size nows now =
     and_then (prune_samples sample_retention_seconds now) (\<lambda>_.
     and_then (prune_resolved_violations violation_retention_seconds now) (\<lambda>_.
       drain_batches batch_size nows 0))"

section \<open>Eviction\<close>

definition eviction_grace_seconds :: int where
  "eviction_grace_seconds = 6"

type_synonym memory_usage = "(string \<times> int) list"

definition usage_of :: "memory_usage \<Rightarrow> string \<Rightarrow> int" where
  "usage_of usage i = (case map_of usage i of None \<Rightarrow> 0 | Some n \<Rightarrow> n)"

definition excess :: "memory_usage \<Rightarrow> resource_lease \<Rightarrow> int" where
  "excess usage l = usage_of usage (rz_id l) - reserved_bytes l"

text \<open>Four stable sorts, from the least to the most significant criterion; \<open>reverse=True\<close> is a negated key.\<close>

definition rank_eviction_candidates :: "resource_lease list \<Rightarrow> memory_usage \<Rightarrow> resource_lease list" where
  "rank_eviction_candidates candidates usage =
     sort_key (\<lambda>l. \<not> usage_of usage (rz_id l) > reserved_bytes l)
       (sort_key (\<lambda>l. - excess usage l) (sort_key (\<lambda>l. - rz_acquired_at l) (sort_key rz_id candidates)))"

definition eviction_candidates :: "int \<Rightarrow> memory_usage option \<Rightarrow> host_store \<Rightarrow> resource_lease list" where
  "eviction_candidates now usage s =
     (let excluded = leases_with_unresolved_violation ''cancel_non_essential_workload'' s in
      filter (\<lambda>l. \<not> wp_essential (profile_of (rz_workload_class l)) \<and> rz_id l \<notin> excluded \<and>
         (case usage of None \<Rightarrow> True | Some m \<Rightarrow> rz_id l \<in> set (map fst m))) (active_leases now s))"

definition eviction_reason :: "int \<Rightarrow> int \<Rightarrow> int \<Rightarrow> int \<Rightarrow> string" where
  "eviction_reason used reserved available hard_floor =
     ''Available memory fell below the control-plane hard floor: '' @ gib_text used @ '' GiB used, '' @
     gib_text reserved @ '' GiB reserved, '' @ gib_text available @ '' GiB available, '' @ gib_text hard_floor @ '' GiB floor.''"

text \<open>
  \<open>usage_source\<close> is \<open>None\<close> when there is none, \<open>Some None\<close> when it raises, and otherwise
  the usage it returns.
\<close>

definition evict_in_transaction ::
  "string \<Rightarrow> resource_snapshot \<Rightarrow> resource_policy \<Rightarrow> memory_usage option \<Rightarrow> int \<Rightarrow>
   (host_store, host_error, violation_row list) op" where
  "evict_in_transaction i snapshot policy usage now s =
     (if (case latest_violation_created_at ''hard_memory_floor'' s of
            None \<Rightarrow> False | Some t \<Rightarrow> now - t < 1000 * eviction_grace_seconds) then (Inr [], s)
      else let known = (case usage of None \<Rightarrow> [] | Some m \<Rightarrow> m) in
      (case rank_eviction_candidates (eviction_candidates now usage s) known of
         [] \<Rightarrow> (Inr [], s)
       | victim # _ \<Rightarrow>
           and_then (record_violation i (rz_execution_id victim) (rz_id victim) ''hard_memory_floor''
               ''cancel_non_essential_workload''
               (eviction_reason (usage_of known (rz_id victim)) (reserved_bytes victim)
                  (sn_available_memory_bytes snapshot) (po_hard_free_memory_bytes policy)) now)
             (\<lambda>v. ret [v]) s))"

definition violations_for_snapshot ::
  "settings_env \<Rightarrow> string \<Rightarrow> resource_snapshot \<Rightarrow> memory_usage option option \<Rightarrow> int \<Rightarrow>
   (host_store, host_error, violation_row list) op" where
  "violations_for_snapshot senv i snapshot usage_source now s =
     (case resolve_resource_policy senv (hs_settings s) snapshot of
        Inl e \<Rightarrow> (Inl (HostRaised e), s)
      | Inr policy \<Rightarrow>
          if sn_available_memory_bytes snapshot \<ge> po_hard_free_memory_bytes policy then (Inr [], s)
          else immediate_transaction (evict_in_transaction i snapshot policy
                 (case usage_source of None \<Rightarrow> None | Some m \<Rightarrow> m) now) s)"

section \<open>Borrowing the lease of the parent\<close>

definition borrowed_preview_class :: "resource_lease \<Rightarrow> workload_class \<Rightarrow> workload_class" where
  "borrowed_preview_class parent c = (if c = LocalModelCall then c else rz_workload_class parent)"

definition parent_covers :: "resource_lease \<Rightarrow> workload_class \<Rightarrow> bool" where
  "parent_covers l c =
     (let p = profile_of c in
      \<not> (rz_workload_class l = CaptureSession \<and>
         (case map_of capture_session_parts ''execution'' of None \<Rightarrow> False
          | Some (memory, cpu) \<Rightarrow> wp_cpu_limit_percent p > cpu \<or> wp_memory_limit_bytes p > memory)) \<and>
      (\<not> wp_gpu_required p \<or> rz_workload_class l = c \<and> c = LocalGpuModel \<and> rz_gpu_required l) \<and>
      rz_cpu_limit_percent l \<ge> wp_cpu_limit_percent p \<and>
      rz_memory_limit_bytes l \<ge> wp_memory_limit_bytes p \<and> rz_process_limit l \<ge> wp_process_limit p)"

end
