(* ===== verification/Host_Invariants.thy ===== *)
theory Host_Invariants
  imports Resource_Governor "HOL-Library.Sublist" "HOL-Library.Multiset"
begin

text \<open>
  The capacity invariant of the host: what the leases that are not released reserve together. All
  operations but an admission only shrink that list (\<open>shrinks\<close>), and the invariant is closed under
  shrinking; an admission adds one lease after the rules have accepted it against every open lease,
  because the recovery before it leaves no lease open that is not active. The flag of \<open>within_capacity\<close>
  says whether the bound on the CPU belongs to it: the rules keep it only while the stored CPU limit
  is a number, the other bounds always.
\<close>

section \<open>Open leases\<close>

definition open_leases :: "host_store \<Rightarrow> resource_lease list" where
  "open_leases s = filter (\<lambda>l. rz_released_at l = None) (hs_leases s)"

definition lease_key :: "resource_lease \<Rightarrow> string \<times> string \<times> workload_class \<times> rat" where
  "lease_key l = (rz_id l, rz_execution_id l, rz_workload_class l, rz_cpu_limit_percent l)"

definition open_keys :: "host_store \<Rightarrow> (string \<times> string \<times> workload_class \<times> rat) list" where
  "open_keys s = map lease_key (open_leases s)"

definition shrinks :: "host_store \<Rightarrow> host_store \<Rightarrow> bool" where
  "shrinks s t = (subseq (open_keys t) (open_keys s) \<and> map rz_id (hs_leases t) = map rz_id (hs_leases s) \<and>
     hs_settings t = hs_settings s)"

lemma shrinks_refl [simp]: "shrinks s s"
  by (simp add: shrinks_def)

lemma shrinks_trans: "shrinks s t \<Longrightarrow> shrinks t u \<Longrightarrow> shrinks s u"
  by (auto simp: shrinks_def intro: subseq_order.trans)

lemma shrinks_same_leases: "hs_leases t = hs_leases s \<Longrightarrow> hs_settings t = hs_settings s \<Longrightarrow> shrinks s t"
  by (simp add: shrinks_def open_keys_def open_leases_def)

lemma subseq_open_upd:
  assumes "\<And>l. lease_key (f l) = lease_key l" "\<And>l. P l \<Longrightarrow> rz_released_at (f l) = None \<Longrightarrow> rz_released_at l = None"
  shows "subseq (map lease_key (filter (\<lambda>l. rz_released_at l = None) (upd_where P f ls)))
     (map lease_key (filter (\<lambda>l. rz_released_at l = None) ls))"
  using assms by (induction ls) auto

lemma shrinks_upd:
  assumes "hs_leases t = upd_where P f (hs_leases s)" "hs_settings t = hs_settings s"
    and "\<And>l. lease_key (f l) = lease_key l" "\<And>l. P l \<Longrightarrow> rz_released_at (f l) = None \<Longrightarrow> rz_released_at l = None"
  shows "shrinks s t"
proof -
  have "map rz_id (upd_where P f (hs_leases s)) = map rz_id (hs_leases s)"
    using assms(3) by (intro map_upd_where_key) (simp add: lease_key_def)
  then show ?thesis
    using subseq_open_upd [of f P "hs_leases s", OF assms(3,4)]
    by (simp add: shrinks_def open_keys_def open_leases_def assms(1,2))
qed

section \<open>The capacity of a list of leases\<close>

definition class_of_key :: "string \<times> string \<times> workload_class \<times> rat \<Rightarrow> workload_class" where
  "class_of_key k = fst (snd (snd k))"

definition cpu_total :: "workload_class list \<Rightarrow> rat" where
  "cpu_total cs = sum_list (map (\<lambda>c. wp_cpu_limit_percent (profile_of c)) cs)"

definition slots_respected :: "workload_class list \<Rightarrow> bool" where
  "slots_respected cs =
     (length (filter (\<lambda>c. wp_heavy (profile_of c)) cs) \<le> 1 \<and>
      length (filter (\<lambda>c. wp_light (profile_of c)) cs) \<le> 2 \<and>
      (UnrealCook \<in> set cs \<longrightarrow> length (filter (\<lambda>c. c \<noteq> ControlPlane) cs) \<le> 1) \<and>
      \<not> (BrowserTest \<in> set cs \<and> BuildHeavy \<in> set cs))"

definition within_capacity :: "bool \<Rightarrow> workload_class list \<Rightarrow> bool" where
  "within_capacity numeric cs = (slots_respected cs \<and> (numeric \<longrightarrow> cpu_total cs \<le> 95))"

lemma cpu_limit_pos: "wp_cpu_limit_percent (profile_of c) > 0"
  by (cases c) (simp_all add: profile_def capture_session_parts_def)

lemma cpu_total_simps [simp]:
  "cpu_total [] = 0" "cpu_total (c # cs) = wp_cpu_limit_percent (profile_of c) + cpu_total cs"
  "cpu_total (cs @ ds) = cpu_total cs + cpu_total ds"
  by (simp_all add: cpu_total_def)

lemma cpu_total_nonneg [simp]: "0 \<le> cpu_total cs"
  by (induction cs) (simp_all add: add_nonneg_nonneg less_imp_le [OF cpu_limit_pos])

lemma cpu_total_subseq: "subseq xs ys \<Longrightarrow> cpu_total xs \<le> cpu_total ys"
  by (induction rule: list_emb.induct) (auto intro: add_increasing less_imp_le [OF cpu_limit_pos])

lemma length_filter_subseq: "subseq xs ys \<Longrightarrow> length (filter P xs) \<le> length (filter P ys)"
  by (rule list_emb_length [OF subseq_filter])

lemma set_subseq: "subseq xs ys \<Longrightarrow> set xs \<subseteq> set ys"
  by (induction rule: list_emb.induct) auto

lemma within_capacity_subseq:
  assumes "subseq xs ys" "within_capacity numeric ys"
  shows "within_capacity numeric xs"
  using cpu_total_subseq [OF assms(1)] length_filter_subseq [OF assms(1), of "\<lambda>c. wp_heavy (profile_of c)"]
    length_filter_subseq [OF assms(1), of "\<lambda>c. wp_light (profile_of c)"]
    length_filter_subseq [OF assms(1), of "\<lambda>c. c \<noteq> ControlPlane"] set_subseq [OF assms(1)] assms(2)
  unfolding within_capacity_def slots_respected_def by (meson order_trans subsetD)

definition key_ok :: "string \<times> string \<times> workload_class \<times> rat \<Rightarrow> bool" where
  "key_ok k = (snd (snd (snd k)) = wp_cpu_limit_percent (profile_of (class_of_key k)))"

definition host_inv :: "bool \<Rightarrow> host_store \<Rightarrow> bool" where
  "host_inv numeric s = (distinct (map rz_id (hs_leases s)) \<and>
     distinct (map (fst \<circ> snd) (open_keys s)) \<and>
     (\<forall>k \<in> set (open_keys s). key_ok k) \<and>
     within_capacity numeric (map class_of_key (open_keys s)))"

lemma subseq_distinct: "subseq xs ys \<Longrightarrow> distinct ys \<Longrightarrow> distinct xs"
  by (metis subseq_conv_nths distinct_nthsI)

lemma host_inv_shrinks:
  assumes "shrinks s t" "host_inv numeric s"
  shows "host_inv numeric t"
proof -
  have sub: "subseq (open_keys t) (open_keys s)" using assms(1) by (simp add: shrinks_def)
  have "\<forall>k \<in> set (open_keys t). key_ok k"
    using set_subseq [OF sub] assms(2) unfolding host_inv_def by blast
  then show ?thesis using assms
      subseq_distinct [OF subseq_map [OF sub, of "fst \<circ> snd"]] within_capacity_subseq [OF subseq_map [OF sub, of class_of_key]]
    unfolding host_inv_def shrinks_def by simp
qed

section \<open>Operations that shrink\<close>

lemma get_lease_state: "snd (get_lease i s) = s"
  by (simp add: get_lease_def split: option.splits)

lemma get_lease_store: "get_lease i s = (r, t) \<Longrightarrow> t = s"
  using get_lease_state [of i s] by simp

lemma shrinks_mark_released: "shrinks s (mark_released i reason now s)"
  unfolding mark_released_def
  by (rule shrinks_upd [where f = "\<lambda>l. l\<lparr>rz_released_at := Some now, rz_release_reason := reason\<rparr>" and
      P = "\<lambda>l. rz_id l = i \<and> rz_released_at l = None"]) (auto simp: lease_key_def)

lemma shrinks_resolve: "shrinks s (resolve_violations_for_lease i now s)"
  by (rule shrinks_same_leases) (simp_all add: resolve_violations_for_lease_def)

lemma shrinks_release:
  assumes "release_lease i reason now s = (r, t)"
  shows "shrinks s t"
  using assms shrinks_trans [OF shrinks_mark_released shrinks_resolve]
  by (auto simp: release_lease_def dest!: get_lease_store split: if_splits)

lemma shrinks_heartbeat:
  assumes "heartbeat_lease i owner seconds now s = (r, t)"
  shows "shrinks s t"
proof -
  have "shrinks s (s\<lparr>hs_leases := upd_where (renewable i owner now)
      (\<lambda>l. l\<lparr>rz_heartbeat_at := now, rz_expires_at := expires\<rparr>) (hs_leases s)\<rparr>)" for expires
    by (rule shrinks_upd [where f = "\<lambda>l. l\<lparr>rz_heartbeat_at := now, rz_expires_at := expires\<rparr>" and
          P = "renewable i owner now"]) (auto simp: lease_key_def)
  then show ?thesis using assms
    by (auto simp: heartbeat_lease_def dest!: get_lease_store split: sum.splits if_splits prod.splits)
qed

lemma shrinks_finish_remote_branch:
  assumes "finish_remote_branch i owner now s = (r, t)"
  shows "shrinks s t"
proof -
  let ?u = "s\<lparr>hs_leases := upd_where (\<lambda>l. rz_id l = i \<and> rz_owner_id l = owner \<and> rz_released_at l = None)
          (\<lambda>l. l\<lparr>rz_parent_execution_id := None\<rparr>) (hs_leases s)\<rparr>"
  have "shrinks s ?u"
    by (rule shrinks_upd [where f = "\<lambda>l. l\<lparr>rz_parent_execution_id := None\<rparr>" and
        P = "\<lambda>l. rz_id l = i \<and> rz_owner_id l = owner \<and> rz_released_at l = None"]) (auto simp: lease_key_def)
  moreover have "shrinks ?u t"
    using assms unfolding finish_remote_branch_def by (rule shrinks_release)
  ultimately show ?thesis by (rule shrinks_trans)
qed

lemma shrinks_release_all: "release_all is now s = (r, t) \<Longrightarrow> shrinks s t"
proof (induction "is" now s rule: release_all.induct)
  case (2 i "is" now s)
  then show ?case
    by (auto split: prod.splits sum.splits intro: shrinks_release dest: shrinks_release shrinks_trans)
qed simp

lemma get_leases_store: "get_leases is s = (r, t) \<Longrightarrow> t = s"
  by (induction "is" arbitrary: r t)
    (auto simp: and_then_def ret_def dest!: get_lease_store split: prod.splits sum.splits)

lemma recover_expired_released:
  assumes "recover_expired now s = (Inr ls, t)"
  shows "release_all (expired_ids now s) now s = (Inr (), t)"
  using assms by (auto simp: recover_expired_def Let_def and_then_Inr_iff dest: get_leases_store)

lemma shrinks_recover:
  assumes "recover_expired now s = (r, t)"
  shows "shrinks s t"
  using assms unfolding recover_expired_def Let_def and_then_def
  by (auto split: prod.splits sum.splits dest: shrinks_release_all get_leases_store)

section \<open>After a recovery every open lease is active\<close>

text \<open>What decides whether a lease is held by a native process or container.\<close>

definition natives :: "host_store \<Rightarrow> native_process list \<times> native_container list" where
  "natives s = (hs_processes s, hs_containers s)"

lemma release_not_native:
  assumes "release_lease i reason now s = (Inr l, t)" "i \<notin> native_lease_ids s"
  shows "open_leases t = filter (\<lambda>l. rz_id l \<noteq> i) (open_leases s)" "native_lease_ids t = native_lease_ids s"
proof -
  have t: "t = resolve_violations_for_lease i now (mark_released i reason now s)"
    using assms by (auto simp: release_lease_def dest: get_lease_store)
  have f: "filter (\<lambda>l. rz_released_at l = None) (upd_where (\<lambda>l. rz_id l = i \<and> rz_released_at l = None)
        (\<lambda>l. l\<lparr>rz_released_at := Some now, rz_release_reason := reason\<rparr>) ls) =
      filter (\<lambda>l. rz_id l \<noteq> i) (filter (\<lambda>l. rz_released_at l = None) ls)" for ls
    by (induction ls) auto
  then show open': "open_leases t = filter (\<lambda>l. rz_id l \<noteq> i) (open_leases s)"
    by (simp add: t open_leases_def resolve_violations_for_lease_def mark_released_def)
  have ids: "native_lease_ids u = N \<union> rz_id ` {l \<in> set (open_leases u). rz_parent_execution_id l \<in> A} \<union> C"
    if "hs_processes u = hs_processes s" "hs_containers u = hs_containers s"
      "N = set (List.map_filter np_resource_lease_id (filter (\<lambda>p. np_finished_at p = None) (hs_processes s)))"
      "A = set (map (\<lambda>p. Some (np_execution_id p)) (filter (\<lambda>p. np_finished_at p = None) (hs_processes s)))"
      "C = set (map nc_resource_lease_id (filter (\<lambda>c. nc_released_at c = None) (hs_containers s)))" for u N A C
    unfolding native_lease_ids_def that(1,2) that(3-5) open_leases_def by auto
  have same: "hs_processes t = hs_processes s" "hs_containers t = hs_containers s"
    by (simp_all add: t resolve_violations_for_lease_def mark_released_def)
  show "native_lease_ids t = native_lease_ids s"
    using assms(2) unfolding ids [OF same refl refl refl] ids [OF refl refl refl refl refl] open' by auto
qed

lemma release_all_open:
  assumes "release_all is now s = (Inr (), t)" "\<forall>i \<in> set is. i \<notin> native_lease_ids s"
  shows "open_leases t = filter (\<lambda>l. rz_id l \<notin> set is) (open_leases s) \<and> native_lease_ids t = native_lease_ids s"
  using assms
proof (induction "is" now s rule: release_all.induct)
  case (2 i "is" now s)
  from 2(2) obtain l u where u: "release_lease i ''lease_expired'' now s = (Inr l, u)" "release_all is now u = (Inr (), t)"
    by (auto split: prod.splits sum.splits)
  note r = release_not_native [OF u(1)]
  from 2(1) [OF u(1) [symmetric] refl u(2)] 2(3) r show ?case by (auto intro: filter_cong)
qed simp

lemma recovered_open_active:
  assumes "recover_expired now s = (Inr ls, t)"
  shows "mset (active_leases now t) = mset (open_leases t)"
proof -
  have *: "open_leases t = filter (\<lambda>l. rz_id l \<notin> set (expired_ids now s)) (open_leases s) \<and>
      native_lease_ids t = native_lease_ids s"
    by (rule release_all_open [OF recover_expired_released [OF assms]]) (simp add: expired_ids_def)
  have "rz_expires_at l > now \<or> rz_id l \<in> native_lease_ids t" if "l \<in> set (open_leases t)" for l
  proof -
    have "l \<in> set (filter (\<lambda>l. rz_id l \<notin> set (expired_ids now s)) (open_leases s))"
      using that by (simp only: * [THEN conjunct1])
    then show ?thesis unfolding * [THEN conjunct2] by (auto simp: expired_ids_def open_leases_def)
  qed
  then have "filter (\<lambda>l. rz_expires_at l > now \<or> rz_id l \<in> native_lease_ids t) (sort_key rz_acquired_at (open_leases t)) =
      sort_key rz_acquired_at (open_leases t)"
    by (intro filter_True) simp
  then show ?thesis by (simp add: active_leases_def open_leases_def [symmetric])
qed

end
