(* ===== verification/Host_Properties.thy ===== *)
theory Host_Properties
  imports Host_Invariants
begin

text \<open>
  The properties of the host governor. The limits of the policy are bounded by the descriptors of the
  settings whatever rows are stored, except that the text \<open>nan\<close> passes every bound: the bound on the
  CPU is proved for the runs in which the CPU limit stays a number.
\<close>

section \<open>The bounds of the policy\<close>

lemma descriptor_cpu: "descriptor_for ''resources.maxCpuPercent'' =
    Some (descriptor ''resources.maxCpuPercent'' ''resources'' None ''number'' (PInt 65) None
      ''app.settings.resources.maxCpuPercent'' (Some 1) (Some 95))"
  by code_simp

lemma descriptor_heavy: "descriptor_for ''resources.maxHeavyWorkloads'' =
    Some (descriptor ''resources.maxHeavyWorkloads'' ''resources'' None ''number'' (PInt 1) None
      ''app.settings.resources.maxHeavyWorkloads'' (Some 1) (Some 1))"
  by code_simp

lemma descriptor_light: "descriptor_for ''resources.maxLightWorkloads'' =
    Some (descriptor ''resources.maxLightWorkloads'' ''resources'' None ''number'' (PInt 2) None
      ''app.settings.resources.maxLightWorkloads'' (Some 1) (Some 2))"
  by code_simp

lemma plain_key: "\<not> has_prefix ''decision_engine.'' ''resources.maxCpuPercent''"
  "\<not> has_prefix ''decision_engine.'' ''resources.maxHeavyWorkloads''"
  "\<not> has_prefix ''decision_engine.'' ''resources.maxLightWorkloads''"
  by code_simp+

lemma resource_setting_source:
  assumes "resource_setting env rows k = Inr w" "descriptor_for k = Some d"
  shows "(\<exists>v. validate_value env d v = Inr w) \<or> w = JVal (sd_default d)"
  using assms by (auto simp: resource_setting_def Let_def split: sum.splits setting_error.splits)

lemma number_setting_bounds:
  assumes d: "descriptor_for k = Some d" "sd_key d = k" "sd_type d = ''number''" "sd_minimum d = Some lo" "sd_maximum d = Some hi"
      "sd_default d = PInt n" "lo \<le> of_int n" "of_int n \<le> hi" "\<bar>of_int n\<bar> < float_limit"
    and plain: "\<not> has_prefix ''decision_engine.'' k" "k \<noteq> ''research.webSearch.baseUrl''"
    and r: "float_setting env rows k = Inr x"
  shows "x = NotANumber \<or> (\<exists>r. x = Fin r \<and> lo \<le> r \<and> r \<le> hi)"
proof -
  have val: "validate_value env d v = validate_number d v" for v
    using d(2,3) plain by (simp add: validate_value_def validate_typed_def)
  have ok: "x = NotANumber \<or> (\<exists>r. x = Fin r \<and> lo \<le> r \<and> r \<le> hi)"
    if v: "validate_number d v = Inr w" "to_float w = Inr x" for v w
  proof -
    obtain y where y: "w = of_float y" "\<not> float_less y (Fin lo)" "\<not> float_less (Fin hi) y"
      using v(1) d(4,5) by (auto simp: validate_number_def split: sum.splits if_splits)
    with v(2) show ?thesis by (cases x) auto
  qed
  have default: "x = NotANumber \<or> (\<exists>r. x = Fin r \<and> lo \<le> r \<and> r \<le> hi)" if "to_float (JVal (PInt n)) = Inr x"
    using that d(7,8,9) by (auto simp: to_float_def)
  obtain w where w: "resource_setting env rows k = Inr w" "to_float w = Inr x"
    using r by (auto simp: float_setting_def try_then_Inr_iff)
  from resource_setting_source [OF w(1) d(1)] show ?thesis
  proof
    assume "\<exists>v. validate_value env d v = Inr w"
    then show ?thesis using ok w(2) by (auto simp: val)
  next
    assume "w = JVal (sd_default d)"
    then show ?thesis using default w(2) d(6) by simp
  qed
qed

lemma cpu_limit_bounds:
  assumes "float_setting env rows ''resources.maxCpuPercent'' = Inr x"
  shows "x = NotANumber \<or> (\<exists>r. x = Fin r \<and> 1 \<le> r \<and> r \<le> 95)"
  by (rule number_setting_bounds [OF descriptor_cpu _ _ _ _ _ _ _ _ plain_key(1) _ assms])
    (simp_all add: float_limit_large)+

lemma int_setting_bounds:
  assumes "int_setting env rows k = Inr n"
    "\<And>x. float_setting env rows k = Inr x \<Longrightarrow> x = NotANumber \<or> (\<exists>r. x = Fin r \<and> 1 \<le> r \<and> r \<le> of_int hi)"
  shows "n \<le> hi"
proof -
  obtain x where x: "float_setting env rows k = Inr x" "float_int x = Inr n"
    using assms(1) by (auto simp: int_setting_def try_then_Inr_iff)
  from assms(2) [OF x(1)] x(2) show ?thesis by (auto simp: float_int_def floor_le_iff)
qed

lemma policy_bounds:
  assumes "resolve_resource_policy env rows snapshot = Inr policy"
  shows "po_max_heavy_workloads policy \<le> 1" "po_max_light_workloads policy \<le> 2"
    and "float_setting env rows ''resources.maxCpuPercent'' = Inr (po_max_cpu_percent policy)"
proof -
  have h: "int_setting env rows ''resources.maxHeavyWorkloads'' = Inr (po_max_heavy_workloads policy)"
    and l: "int_setting env rows ''resources.maxLightWorkloads'' = Inr (po_max_light_workloads policy)"
    and "float_setting env rows ''resources.maxCpuPercent'' = Inr (po_max_cpu_percent policy)"
    using assms unfolding resolve_resource_policy_def Let_def by (auto simp: try_then_Inr_iff)
  then show "float_setting env rows ''resources.maxCpuPercent'' = Inr (po_max_cpu_percent policy)" by blast
  have "x = NotANumber \<or> (\<exists>r. x = Fin r \<and> 1 \<le> r \<and> r \<le> 1)"
    if "float_setting env rows ''resources.maxHeavyWorkloads'' = Inr x" for x
    by (rule number_setting_bounds [OF descriptor_heavy _ _ _ _ _ _ _ _ plain_key(2) _ that])
      (simp_all add: float_limit_large)+
  then show "po_max_heavy_workloads policy \<le> 1" by (intro int_setting_bounds [OF h]) auto
  have "x = NotANumber \<or> (\<exists>r. x = Fin r \<and> 1 \<le> r \<and> r \<le> 2)"
    if "float_setting env rows ''resources.maxLightWorkloads'' = Inr x" for x
    by (rule number_setting_bounds [OF descriptor_light _ _ _ _ _ _ _ _ plain_key(3) _ that])
      (simp_all add: float_limit_large)+
  then show "po_max_light_workloads policy \<le> 2" by (intro int_setting_bounds [OF l]) auto
qed

section \<open>Admission\<close>

lemma class_of_lease_key [simp]: "class_of_key (lease_key l) = rz_workload_class l"
  by (simp add: class_of_key_def lease_key_def)

definition open_classes :: "host_store \<Rightarrow> workload_class list" where
  "open_classes s = map rz_workload_class (open_leases s)"

lemma open_classes_keys: "map class_of_key (open_keys s) = open_classes s"
  by (simp add: open_classes_def open_keys_def comp_def)

lemma mset_map_eq: "mset xs = mset ys \<Longrightarrow> mset (map f xs) = mset (map f ys)"
  by simp

lemma sum_list_mset_eq: "mset xs = mset ys \<Longrightarrow> sum_list (map f xs) = (sum_list (map f ys) :: rat)"
  by (metis mset_map sum_mset_sum_list)

lemma length_filter_mset_eq: "mset xs = mset ys \<Longrightarrow> length (filter P xs) = length (filter P ys)"
  by (metis mset_filter size_mset)

lemma accepted_within_capacity:
  assumes accept: "refusal c active snapshot policy = None"
    and policy: "po_max_heavy_workloads policy \<le> 1" "po_max_light_workloads policy \<le> 2"
    and cpu_limit: "numeric \<Longrightarrow> \<exists>limit. po_max_cpu_percent policy = Fin limit \<and> limit \<le> 95"
    and active: "mset active = mset leases" "\<forall>l \<in> set leases. rz_cpu_limit_percent l = wp_cpu_limit_percent (profile_of (rz_workload_class l))"
    and cap: "within_capacity numeric (map rz_workload_class leases)"
  shows "within_capacity numeric (map rz_workload_class leases @ [c])"
proof -
  let ?cs = "map rz_workload_class leases"
  have cpu: "reserved_cpu active = cpu_total ?cs"
    using sum_list_mset_eq [OF active(1), of rz_cpu_limit_percent] active(2)
    by (simp add: reserved_cpu_def cpu_total_def comp_def cong: map_cong)
  have heavy: "heavy_count active = int (length (filter (\<lambda>c. wp_heavy (profile_of c)) ?cs))"
    using length_filter_mset_eq [OF active(1)] by (simp add: heavy_count_def filter_map comp_def)
  have light: "light_count active = int (length (filter (\<lambda>c. wp_light (profile_of c)) ?cs))"
    using length_filter_mset_eq [OF active(1)] by (simp add: light_count_def filter_map comp_def)
  have classes: "set (map rz_workload_class active) = set ?cs"
    using mset_eq_setD [OF active(1)] by simp
  have others: "filter (\<lambda>l. rz_workload_class l \<noteq> ControlPlane) active = [] \<longleftrightarrow> set ?cs \<subseteq> {ControlPlane}"
    using mset_eq_setD [OF active(1)] by (auto simp: filter_empty_conv)
  have not_exceeded: "\<not> cpu_exceeded c active policy"
    using accept by (auto simp: refusal_def lease_refusal_def Let_def split: if_splits option.splits)
  then have total: "numeric \<longrightarrow> cpu_total (?cs @ [c]) \<le> 95"
    using cpu_limit by (auto simp: cpu_exceeded_def cpu)
  show ?thesis
  proof (cases "wp_essential (profile_of c)")
    case True
    then have "c = ControlPlane" by (cases c) (simp_all add: profile_def)
    then show ?thesis using total cap by (simp add: within_capacity_def slots_respected_def profile_def)
  next
    case False
    then have "lease_refusal c active snapshot policy = None"
      using accept by (auto simp: refusal_def split: option.splits)
    then have r: "\<not> (c = UnrealCook \<and> filter (\<lambda>l. rz_workload_class l \<noteq> ControlPlane) active \<noteq> [])"
      "UnrealCook \<notin> set ?cs" "\<not> (c = BrowserTest \<and> BuildHeavy \<in> set ?cs)" "\<not> (c = BuildHeavy \<and> BrowserTest \<in> set ?cs)"
      "wp_heavy (profile_of c) \<Longrightarrow> heavy_count active < po_max_heavy_workloads policy"
      "wp_light (profile_of c) \<Longrightarrow> light_count active < po_max_light_workloads policy"
      unfolding lease_refusal_def Let_def classes by (auto split: if_splits)
    have cook: "c = UnrealCook \<Longrightarrow> filter (\<lambda>c. c \<noteq> ControlPlane) ?cs = []"
      using r(1) others by (auto simp: filter_empty_conv)
    have "wp_heavy (profile_of c) \<Longrightarrow> length (filter (\<lambda>c. wp_heavy (profile_of c)) ?cs) = 0"
      using r(5) policy(1) unfolding heavy by linarith
    moreover have "wp_light (profile_of c) \<Longrightarrow> length (filter (\<lambda>c. wp_light (profile_of c)) ?cs) \<le> 1"
      using r(6) policy(2) unfolding light by linarith
    ultimately show ?thesis using cap total r(2-4) cook
      unfolding within_capacity_def slots_respected_def by (cases c) auto
  qed
qed

definition cpu_is_number :: "settings_env \<Rightarrow> settings_row list \<Rightarrow> bool" where
  "cpu_is_number senv rows = (float_setting senv rows ''resources.maxCpuPercent'' \<noteq> Inr NotANumber)"

lemma shrinks_set_job_status: "set_job_status env i status d now s = (r, t) \<Longrightarrow> shrinks s t"
  by (rule shrinks_same_leases; auto simp: set_job_status_def record_thread_resource_wait_def Let_def
      split: option.splits if_splits prod.splits sum.splits)

lemma shrinks_record_admission: "shrinks s (record_admission i request d now s)"
  by (rule shrinks_same_leases; simp add: record_admission_def Let_def split: option.splits)

lemma create_lease_open:
  assumes "create_lease i request p now s = (Inr l, t)"
  obtains expires where "hs_leases t = hs_leases s @ [new_lease i request p now expires]"
    "hs_settings t = hs_settings s" "\<not> lease_conflict i (rq_execution_id request) s"
  using assms by (auto simp: create_lease_def get_lease_def split: sum.splits if_splits option.splits)

lemma host_inv_created:
  assumes inv: "host_inv numeric s" and t: "hs_leases t = hs_leases s @ [new_lease i request (profile_of (rq_workload_class request)) now expires]"
    and fresh: "\<not> lease_conflict i (rq_execution_id request) s"
    and cap: "within_capacity numeric (open_classes s @ [rq_workload_class request])"
  shows "host_inv numeric t"
proof -
  let ?l = "new_lease i request (profile_of (rq_workload_class request)) now expires"
  have keys: "open_keys t = open_keys s @ [lease_key ?l]"
    by (simp add: open_keys_def open_leases_def t new_lease_def)
  have "rq_execution_id request \<notin> (fst \<circ> snd) ` set (open_keys s)"
    using fresh by (auto simp: lease_conflict_def open_keys_def open_leases_def lease_key_def)
  moreover have "map class_of_key (open_keys t) = open_classes s @ [rq_workload_class request]"
    unfolding keys by (simp add: open_classes_keys) (simp add: new_lease_def)
  ultimately show ?thesis
    using inv fresh cap unfolding host_inv_def
    by (auto simp: keys t lease_conflict_def new_lease_def lease_key_def key_ok_def class_of_key_def)
qed

lemma host_inv_admit_in_transaction:
  assumes inv: "host_inv numeric s" and policy: "resolve_resource_policy senv (hs_settings s) snapshot = Inr policy"
    and cpu: "numeric \<Longrightarrow> cpu_is_number senv (hs_settings s)"
    and run: "admit_in_transaction env i j request snapshot policy now s = (Inr d, t)"
  shows "host_inv numeric t \<and> hs_settings t = hs_settings s"
proof -
  obtain ls s1 where rec: "recover_expired now s = (Inr ls, s1)"
    using run by (auto simp: admit_in_transaction_def and_then_Inr_iff)
  have sh1: "shrinks s s1" by (rule shrinks_recover [OF rec])
  have inv1: "host_inv numeric s1" by (rule host_inv_shrinks [OF sh1 inv])
  have set1: "hs_settings s1 = hs_settings s" using sh1 by (simp add: shrinks_def)
  show ?thesis
  proof (cases "active_lease_for_execution (rq_execution_id request) now s1")
    case (Some l)
    then show ?thesis using run rec inv1 set1 by (simp add: admit_in_transaction_def and_then_def)
  next
    case None
    show ?thesis
    proof (cases "decide request snapshot (active_leases now s1) policy")
      case (Some w)
      then have "\<exists>u. shrinks s1 u \<and> shrinks u t"
        using run rec None shrinks_record_admission
        by (auto simp: admit_in_transaction_def and_then_def split: prod.splits sum.splits dest!: shrinks_set_job_status)
      then have "shrinks s1 t" using shrinks_trans by blast
      then show ?thesis using host_inv_shrinks [OF _ inv1] set1 by (simp add: shrinks_def)
    next
      case accepted: None
      let ?c = "rq_workload_class request"
      from run rec None accepted obtain l s2 s3 d' where
        c: "create_lease i request (profile_of ?c) now s1 = (Inr l, s2)"
        and "shrinks s2 s3" "t = record_admission j request d' now s3"
        by (auto simp: admit_in_transaction_def and_then_def Let_def split: prod.splits sum.splits
            dest!: shrinks_set_job_status)
      then have sh: "shrinks s2 t" using shrinks_trans shrinks_record_admission by blast
      from c obtain expires where l: "hs_leases s2 = hs_leases s1 @ [new_lease i request (profile_of ?c) now expires]"
        "hs_settings s2 = hs_settings s1" "\<not> lease_conflict i (rq_execution_id request) s1"
        by (rule create_lease_open)
      have limit: "\<exists>limit. po_max_cpu_percent policy = Fin limit \<and> limit \<le> 95" if numeric
        using cpu_limit_bounds [OF policy_bounds(3) [OF policy]] policy_bounds(3) [OF policy] cpu [OF that]
        by (auto simp: cpu_is_number_def)
      have "within_capacity numeric (map rz_workload_class (open_leases s1) @ [?c])"
      proof (rule accepted_within_capacity [OF _ policy_bounds(1,2) [OF policy] limit])
        show "refusal ?c (active_leases now s1) snapshot policy = None"
          using accepted by (simp add: decide_def)
        show "mset (active_leases now s1) = mset (open_leases s1)" by (rule recovered_open_active [OF rec])
        show "\<forall>l \<in> set (open_leases s1). rz_cpu_limit_percent l = wp_cpu_limit_percent (profile_of (rz_workload_class l))"
          using inv1 by (auto simp: host_inv_def open_keys_def key_ok_def lease_key_def class_of_key_def)
        show "within_capacity numeric (map rz_workload_class (open_leases s1))"
          using inv1 by (simp add: host_inv_def open_classes_keys) (simp add: open_classes_def)
      qed
      then have "host_inv numeric s2" by (intro host_inv_created [OF inv1 l(1) l(3)]) (simp add: open_classes_def)
      then show ?thesis using host_inv_shrinks [OF sh] sh l(2) set1 by (simp add: shrinks_def)
    qed
  qed
qed

section \<open>Steps of the host\<close>

text \<open>
  Every operation of the governor and of its repository; every request to the settings plane; and what
  happens outside: processes and containers start and end, jobs change.
\<close>

inductive host_step :: "settings_env \<Rightarrow> job_env \<Rightarrow> host_store \<Rightarrow> host_store \<Rightarrow> bool" for senv env where
  h_admit: "host_step senv env s (snd (admit senv env i j request snapshot now s))"
| h_reevaluate: "host_step senv env s (snd (reevaluate_waiting senv env snapshot limit tags s))"
| h_recover: "host_step senv env s (snd (governor_recover now s))"
| h_heartbeat: "host_step senv env s (snd (governor_heartbeat i owner seconds now s))"
| h_release: "host_step senv env s (snd (governor_release i reason now s))"
| h_branch: "host_step senv env s (snd (finish_remote_branch i owner now s))"
| h_sample: "host_step senv env s (snd (governor_sample i snapshot now s))"
| h_evict: "host_step senv env s (snd (violations_for_snapshot senv i snapshot usage now s))"
| h_prune_violations: "host_step senv env s (snd (prune_resolved_violations retention now s))"
| h_prune_admissions: "host_step senv env s (snd (prune_admission_decisions retention batch now s))"
| h_put: "put_setting senv k scope scope_id v now \<lparr>ss_rows = hs_settings s, ss_audits = []\<rparr> = (r, u) \<Longrightarrow>
    host_step senv env s (s\<lparr>hs_settings := ss_rows u\<rparr>)"
| h_delete: "delete_setting k scope scope_id \<lparr>ss_rows = hs_settings s, ss_audits = []\<rparr> = (r, u) \<Longrightarrow>
    host_step senv env s (s\<lparr>hs_settings := ss_rows u\<rparr>)"
| h_native: "host_step senv env s (s\<lparr>hs_processes := processes, hs_containers := containers\<rparr>)"
| h_jobs: "host_step senv env s (s\<lparr>hs_ops := ops\<rparr>)"

text \<open>The same steps where, under the flag, the CPU limit is left a number.\<close>

definition kept_step :: "bool \<Rightarrow> settings_env \<Rightarrow> job_env \<Rightarrow> host_store \<Rightarrow> host_store \<Rightarrow> bool" where
  "kept_step numeric senv env s t = (host_step senv env s t \<and> (numeric \<longrightarrow> cpu_is_number senv (hs_settings t)))"

definition host_good :: "bool \<Rightarrow> settings_env \<Rightarrow> host_store \<Rightarrow> bool" where
  "host_good numeric senv s = (host_inv numeric s \<and> (numeric \<longrightarrow> cpu_is_number senv (hs_settings s)))"

lemma host_good_shrinks: "shrinks s t \<Longrightarrow> host_good numeric senv s \<Longrightarrow> host_good numeric senv t"
  using host_inv_shrinks by (auto simp: host_good_def shrinks_def)

lemma host_good_settings:
  "host_good numeric senv s \<Longrightarrow> (numeric \<longrightarrow> cpu_is_number senv rows) \<Longrightarrow> host_good numeric senv (s\<lparr>hs_settings := rows\<rparr>)"
  by (simp add: host_good_def host_inv_def open_keys_def open_leases_def)

lemma transaction_cases:
  assumes "\<And>r t. m s = (r, t) \<Longrightarrow> shrinks s t"
  shows "shrinks s (snd (immediate_transaction m s))"
  using assms by (auto simp: immediate_transaction_def split: prod.splits sum.splits)

lemma host_good_admit:
  assumes "host_good numeric senv s"
  shows "host_good numeric senv (snd (admit senv env i j request snapshot now s))"
proof (cases "resolve_resource_policy senv (hs_settings s) snapshot")
  case (Inl e)
  with assms show ?thesis by (simp add: admit_def)
next
  case (Inr policy)
  show ?thesis
  proof (cases "fst (admit_in_transaction env i j request snapshot policy now s)")
    case (Inl e)
    with assms Inr show ?thesis by (auto simp: admit_def immediate_transaction_def split: prod.splits)
  next
    case inr: (Inr d)
    then obtain t where t: "admit_in_transaction env i j request snapshot policy now s = (Inr d, t)"
      by (cases "admit_in_transaction env i j request snapshot policy now s") auto
    have "host_inv numeric t \<and> hs_settings t = hs_settings s"
      using assms Inr t by (intro host_inv_admit_in_transaction) (auto simp: host_good_def)
    with assms Inr t show ?thesis by (simp add: admit_def immediate_transaction_def host_good_def)
  qed
qed

lemma host_good_admit_all:
  "host_good numeric senv s \<Longrightarrow> host_good numeric senv (snd (admit_all senv env snapshot tags requests s))"
proof (induction senv env snapshot tags requests s rule: admit_all.induct)
  case (1 senv env snapshot i j now tags request requests s)
  have a: "host_good numeric senv (snd (admit senv env i j request snapshot now s))" using 1(2) by (rule host_good_admit)
  show ?case
  proof (cases "admit senv env i j request snapshot now s")
    case (Pair r u)
    with a 1(1) [of u] show ?thesis
      by (cases r; cases "admit_all senv env snapshot tags requests u"; cases "fst (admit_all senv env snapshot tags requests u)")
        (simp_all add: and_then_def ret_def)
  qed
qed simp_all

lemma host_good_step:
  assumes "kept_step numeric senv env s t" "host_good numeric senv s"
  shows "host_good numeric senv t"
  using conjunct1 [OF assms(1) [unfolded kept_step_def]]
proof (cases rule: host_step.cases)
  case (h_recover now)
  then show ?thesis using assms(2) host_good_shrinks [OF transaction_cases [OF shrinks_recover]]
    by (simp add: governor_recover_def)
next
  case (h_heartbeat i owner seconds now)
  then show ?thesis using assms(2) host_good_shrinks [OF transaction_cases [OF shrinks_heartbeat]]
    by (simp add: governor_heartbeat_def)
next
  case (h_release i reason now)
  then show ?thesis using assms(2) host_good_shrinks [OF transaction_cases [OF shrinks_release]]
    by (simp add: governor_release_def)
next
  case (h_branch i owner now)
  then show ?thesis using assms(2) host_good_shrinks [OF shrinks_finish_remote_branch]
    by (metis prod.collapse)
next
  case (h_sample i snapshot now)
  have "shrinks s (snd (governor_sample i snapshot now s))"
    unfolding governor_sample_def
    by (rule transaction_cases, rule shrinks_same_leases)
      (auto simp: prune_samples_def record_sample_def Let_def split: sum.splits)
  then show ?thesis using h_sample assms(2) host_good_shrinks by blast
next
  case (h_evict i snapshot usage now)
  have t: "shrinks u v" if "evict_in_transaction i snapshot policy m now u = (r, v)" for u v policy m r
    using that by (intro shrinks_same_leases) (auto simp: evict_in_transaction_def record_violation_def and_then_def
        ret_def Let_def split: list.splits if_splits prod.splits sum.splits)
  have "shrinks s (snd (violations_for_snapshot senv i snapshot usage now s))"
    using transaction_cases [OF t] by (auto simp: violations_for_snapshot_def split: sum.splits)
  then show ?thesis using h_evict assms(2) host_good_shrinks by blast
next
  case (h_prune_violations retention now)
  have "shrinks s t" unfolding h_prune_violations
    by (rule shrinks_same_leases) (auto simp: prune_resolved_violations_def Let_def split: sum.splits)
  then show ?thesis using assms(2) host_good_shrinks by blast
next
  case (h_prune_admissions retention batch now)
  have "shrinks s t" unfolding h_prune_admissions
    by (rule shrinks_same_leases) (auto simp: prune_admission_decisions_def Let_def split: sum.splits option.splits)
  then show ?thesis using assms(2) host_good_shrinks by blast
next
  case (h_native processes containers)
  have "shrinks s t" unfolding h_native by (rule shrinks_same_leases) simp_all
  then show ?thesis using assms(2) host_good_shrinks by blast
next
  case (h_jobs ops)
  have "shrinks s t" unfolding h_jobs by (rule shrinks_same_leases) simp_all
  then show ?thesis using assms(2) host_good_shrinks by blast
next
  case (h_put k scope scope_id v now r u)
  then show ?thesis using assms by (simp add: kept_step_def host_good_settings)
next
  case (h_delete k scope scope_id r u)
  then show ?thesis using assms by (simp add: kept_step_def host_good_settings)
qed (use assms(2) in \<open>auto simp: reevaluate_waiting_def intro: host_good_admit host_good_admit_all\<close>)

definition idle_host :: "bool \<Rightarrow> settings_env \<Rightarrow> host_store \<Rightarrow> bool" where
  "idle_host numeric senv s = (hs_leases s = [] \<and> (numeric \<longrightarrow> cpu_is_number senv (hs_settings s)))"

interpretation host: invariant_system "idle_host numeric senv" "kept_step numeric senv env" "host_good numeric senv"
  for numeric senv env
proof unfold_locales
  show "host_good numeric senv s" if "idle_host numeric senv s" for s
    using that by (simp add: idle_host_def host_good_def host_inv_def open_keys_def open_leases_def within_capacity_def
        slots_respected_def)
qed (rule host_good_step)

text \<open>What an idle host reaches by any steps, and what it reaches while the CPU limit is a number.\<close>

definition host_reachable :: "settings_env \<Rightarrow> job_env \<Rightarrow> host_store \<Rightarrow> bool" where
  "host_reachable senv env s = reach (idle_host False senv) (kept_step False senv env) s"

definition host_reachable_numeric :: "settings_env \<Rightarrow> job_env \<Rightarrow> host_store \<Rightarrow> bool" where
  "host_reachable_numeric senv env s = reach (idle_host True senv) (kept_step True senv env) s"

lemma host_reachable_inv: "host_reachable senv env s \<Longrightarrow> host_inv False s"
  using host.inv_reach [of False senv env s] by (simp add: host_reachable_def host_good_def)

lemma host_reachable_numeric_inv: "host_reachable_numeric senv env s \<Longrightarrow> host_inv True s"
  using host.inv_reach [of True senv env s] by (simp add: host_reachable_numeric_def host_good_def)

text \<open>C28. Whatever the sequence of operations and of requests to the settings plane, the leases that are
  not released are never more than one heavy or two light workloads, an Unreal cook with anything but
  the control plane, or a browser test with a heavy build, and each execution holds at most one of
  them. They reserve together at most 95 percent of the CPU as long as no request leaves a CPU limit
  that is not a number.\<close>

theorem host_capacity_respected:
  assumes "host_reachable senv env s"
  shows "slots_respected (open_classes s) \<and> distinct (map rz_execution_id (open_leases s)) \<and>
    (host_reachable_numeric senv env s \<longrightarrow> reserved_cpu (open_leases s) \<le> 95)"
proof -
  have inv: "host_inv False s" using assms by (rule host_reachable_inv)
  have "\<forall>l \<in> set (open_leases s). rz_cpu_limit_percent l = wp_cpu_limit_percent (profile_of (rz_workload_class l))"
    using inv by (auto simp: host_inv_def open_keys_def key_ok_def lease_key_def class_of_key_def)
  then have "reserved_cpu (open_leases s) = cpu_total (open_classes s)"
    by (simp add: reserved_cpu_def cpu_total_def open_classes_def comp_def cong: map_cong)
  moreover have "map rz_execution_id (open_leases s) = map (fst \<circ> snd) (open_keys s)"
    by (simp add: open_keys_def lease_key_def)
  ultimately show ?thesis using inv host_reachable_numeric_inv [of senv env s]
    by (auto simp: host_inv_def open_classes_keys within_capacity_def)
qed

end
