(* ===== verification/Settings_Properties.thy ===== *)
theory Settings_Properties
  imports Settings
begin

text \<open>
  The laws of the settings plane. The locale \<open>override_table\<close> is the interface the resolver relies on,
  reading after writing and after clearing; \<open>layered\<close> is resolution through a list of scopes, most
  specific first, with a default. The repository is its instance.
\<close>

section \<open>Tables of overrides\<close>

locale override_table =
  fixes get :: "'k \<Rightarrow> 's \<Rightarrow> 'v option"
    and put :: "'k \<Rightarrow> 'v \<Rightarrow> 's \<Rightarrow> 's"
    and clear :: "'k \<Rightarrow> 's \<Rightarrow> 's"
  assumes get_put: "get k (put j v s) = (if k = j then Some v else get k s)"
    and get_clear: "get k (clear j s) = (if k = j then None else get k s)"
begin

fun layered :: "'k list \<Rightarrow> 'v \<Rightarrow> 's \<Rightarrow> 'v" where
  "layered [] d s = d"
| "layered (k # ks) d s = (case get k s of Some v \<Rightarrow> v | None \<Rightarrow> layered ks d s)"

lemma layered_put_first: "layered (k # ks) d (put k v s) = v"
  by (simp add: get_put)

lemma layered_other: "j \<notin> set ks \<Longrightarrow> layered ks d (put j v s) = layered ks d s"
  by (induction ks) (auto simp: get_put split: option.splits)

lemma clear_put: "get k (clear j (put j v s)) = get k (clear j s)"
  by (simp add: get_put get_clear)

lemma revert: "get j s = None \<Longrightarrow> get k (clear j (put j v s)) = get k s"
  by (simp add: get_put get_clear)

lemma layered_revert: "get j s = None \<Longrightarrow> layered ks d (clear j (put j v s)) = layered ks d s"
  by (induction ks) (auto simp: revert split: option.splits)

end

section \<open>The repository is such a table\<close>

text \<open>A key of the table: the key, the scope and the encoded scope id.\<close>

type_synonym table_key = "string \<times> string \<times> string"

definition row_key :: "settings_row \<Rightarrow> table_key" where
  "row_key r = (sr_key r, sr_scope r, sr_scope_id r)"

lemma same_setting_key: "same_setting k scope i = (\<lambda>r. row_key r = (k, scope, encode_scope_id i))"
  by (auto simp: same_setting_def row_key_def)

definition read_key :: "table_key \<Rightarrow> settings_row list \<Rightarrow> json_value option" where
  "read_key k rows = map_option sr_value (select_one (\<lambda>r. row_key r = k) rows)"

definition write_key :: "string \<Rightarrow> int \<Rightarrow> table_key \<Rightarrow> json_value \<Rightarrow> settings_row list \<Rightarrow> settings_row list" where
  "write_key who now k v rows = (case k of (a, b, c) \<Rightarrow> set_value a b (Some c) v who now rows)"

definition clear_key :: "table_key \<Rightarrow> settings_row list \<Rightarrow> settings_row list" where
  "clear_key k rows = filter (\<lambda>r. row_key r \<noteq> k) rows"

lemma select_one_None_iff: "select_one P rows = None \<longleftrightarrow> rowcount P rows = 0"
  by (induction rows) (auto simp: rowcount_def)

lemma read_write:
  "read_key k (write_key who now j v rows) = (if k = j then Some v else read_key k rows)"
proof -
  obtain a b c where j: "j = (a, b, c)" by (cases j)
  have enc: "encode_scope_id (Some c) = c" by (simp add: encode_scope_id_def)
  let ?f = "\<lambda>r. r\<lparr>sr_value := v, sr_updated_at := now, sr_assigned_by := who\<rparr>"
  show ?thesis
  proof (cases "rowcount (\<lambda>r. row_key r = j) rows = 0")
    case True
    then have "select_one (\<lambda>r. row_key r = j) rows = None" by (simp add: select_one_None_iff)
    with True show ?thesis
      by (auto simp: read_key_def write_key_def j set_value_def same_setting_key enc select_one_append
          row_key_def split: option.splits)
  next
    case False
    have keep: "row_key (?f r) = row_key r" for r by (simp add: row_key_def)
    have "select_one (\<lambda>r. row_key r = k) (upd_where (\<lambda>r. row_key r = j) ?f rows) =
      map_option (\<lambda>r. if row_key r = j then ?f r else r) (select_one (\<lambda>r. row_key r = k) rows)"
      using keep by (rule select_one_key_upd)
    then have read: "read_key k (write_key who now j v rows) =
        map_option (\<lambda>r. sr_value (if row_key r = j then ?f r else r)) (select_one (\<lambda>r. row_key r = k) rows)"
      using False by (simp add: read_key_def write_key_def j set_value_def same_setting_key enc option.map_comp comp_def)
    have own: "row_key r = k" if "select_one (\<lambda>r. row_key r = k) rows = Some r" for r
      using that by (auto dest: select_one_SomeD)
    show ?thesis
    proof (cases "k = j")
      case True
      obtain r where "select_one (\<lambda>r. row_key r = k) rows = Some r"
        using False True select_one_None_iff [of "\<lambda>r. row_key r = j" rows] by auto
      with own True read show ?thesis by simp
    next
      case other: False
      then show ?thesis unfolding read unfolding read_key_def
        by (cases "select_one (\<lambda>r. row_key r = k) rows") (simp_all add: own)
    qed
  qed
qed

lemma read_clear: "read_key k (clear_key j rows) = (if k = j then None else read_key k rows)"
  by (induction rows) (auto simp: read_key_def clear_key_def)

interpretation rows: override_table read_key "write_key who now" clear_key for who now
  by unfold_locales (rule read_write read_clear)+

lemma get_value_key: "get_value k scope i rows = read_key (k, scope, encode_scope_id i) rows"
  by (simp add: get_value_def read_key_def same_setting_key)

lemma set_value_key: "set_value k scope i v who now = write_key who now (k, scope, encode_scope_id i) v"
proof -
  have "encode_scope_id (Some (encode_scope_id i)) = encode_scope_id i" by (simp add: encode_scope_id_def)
  then show ?thesis by (simp add: write_key_def set_value_def fun_eq_iff same_setting_key)
qed

lemma clear_value_key: "snd (clear_value k scope i rows) = clear_key (k, scope, encode_scope_id i) rows"
  by (simp add: clear_value_def clear_key_def same_setting_key)

section \<open>Resolution\<close>

lemma rs_value_resolve [simp]: "rs_value (resolve_one d rows p view) = fst (effective_value d rows p view)"
  by (simp add: resolve_one_def Let_def split_beta)

lemma descriptor_key: "descriptor_for k = Some d \<Longrightarrow> sd_key d = k"
  using map_of_SomeD [of registry_by_key k d] by (auto simp: descriptor_for_def registry_by_key_def)

lemma resolve_layered:
  assumes "descriptor_for k = Some d"
  shows "resolve_setting_value rows k None = Some (rows.layered [(k, ''general'', [])] (JVal (sd_default d)) rows)"
    and "p \<noteq> [] \<Longrightarrow> resolve_setting_value rows k (Some p) =
      Some (rows.layered [(k, ''project'', p), (k, ''general'', [])] (JVal (sd_default d)) rows)"
proof -
  note key = descriptor_key [OF assms]
  show "resolve_setting_value rows k None = Some (rows.layered [(k, ''general'', [])] (JVal (sd_default d)) rows)"
    and "p \<noteq> [] \<Longrightarrow> resolve_setting_value rows k (Some p) =
      Some (rows.layered [(k, ''project'', p), (k, ''general'', [])] (JVal (sd_default d)) rows)"
    by (simp_all add: resolve_setting_value_def assms effective_value_def Let_def key
        get_value_key encode_scope_id_def split: option.splits)
qed

lemma resolve_same_reads:
  assumes "\<And>k. read_key k rows = read_key k rows'"
  shows "resolve_setting_value rows k p = resolve_setting_value rows' k p"
proof -
  have "effective_value d rows p view = effective_value d rows' p view" for d view
    by (simp add: effective_value_def get_value_key assms)
  then show ?thesis by (simp add: resolve_setting_value_def)
qed

lemma put_settingE:
  assumes "put_setting env k scope scope_id v now s = (Inr (), t)"
  obtains d c where "descriptor_for k = Some d" "validate_value env d v = Inr c"
    "ss_rows t = set_value k scope scope_id c ''operator'' now (ss_rows s)"
    "scope = ''project'' \<Longrightarrow> sd_project_section d \<noteq> None \<and> scope_id \<noteq> None \<and> scope_id \<noteq> Some []"
    "scope \<noteq> ''project'' \<Longrightarrow> scope_id = None"
    "k \<in> {min_memory_key, hard_memory_key} \<Longrightarrow> \<exists>minimum hard. floors_after k c (ss_rows s) = Inr (minimum, hard) \<and>
       \<not> float_less minimum hard"
proof -
  obtain d where d: "descriptor_for k = Some d"
    using assms by (cases "descriptor_for k") (simp_all add: put_setting_def)
  have g: "scope = ''project'' \<Longrightarrow> sd_project_section d \<noteq> None \<and> scope_id \<noteq> None \<and> scope_id \<noteq> Some []"
    "scope \<noteq> ''project'' \<Longrightarrow> scope_id = None"
    using assms by (auto simp: put_setting_def d split: if_splits)
  obtain c where c: "validate_value env d v = Inr c"
    using assms by (cases "validate_value env d v")
      (auto simp: put_setting_def d split: if_splits setting_error.splits)
  have f: "k \<in> {min_memory_key, hard_memory_key} \<Longrightarrow> \<exists>minimum hard. floors_after k c (ss_rows s) = Inr (minimum, hard) \<and>
       \<not> float_less minimum hard"
    using assms g by (auto simp: put_setting_def d c Let_def split: if_splits sum.splits prod.splits)
  have rows: "ss_rows t = set_value k scope scope_id c ''operator'' now (ss_rows s)"
    using assms g by (auto simp: put_setting_def d c Let_def audit_change_def split: if_splits sum.splits prod.splits)
  show ?thesis by (rule that [OF d c rows g f])
qed

lemma delete_setting_rows:
  assumes "delete_setting k scope scope_id s = (Inr (), t)"
  shows "ss_rows t = clear_key (k, scope, encode_scope_id scope_id) (ss_rows s)"
    "scope = ''project'' \<or> scope = ''general''"
  using assms by (auto simp: delete_setting_def audit_change_def clear_value_key split: option.splits if_splits)

text \<open>C32. A stored setting is what its scope resolves to from then on, whether the scope had a value or
  not, the project before the general scope, and it changes no other key nor, for a project, what
  another project or the general scope resolves to. Deleting it leaves the scope with no value of its
  own: a project resolves to what the general scope does, the general scope to the default of the
  setting; and when there was no previous value every key resolves for every project as before.\<close>

theorem override_and_revert:
  assumes put: "put_setting env k scope scope_id v now s = (Inr (), t)" and "scope \<in> {''general'', ''project''}"
  shows "(\<exists>d c. descriptor_for k = Some d \<and> validate_value env d v = Inr c \<and>
      resolve_setting_value (ss_rows t) k scope_id = Some c) \<and>
    (\<forall>j p. j \<noteq> k \<or> scope = ''project'' \<and> p \<noteq> scope_id \<longrightarrow>
      resolve_setting_value (ss_rows t) j p = resolve_setting_value (ss_rows s) j p) \<and>
    (\<forall>u. delete_setting k scope scope_id t = (Inr (), u) \<longrightarrow>
      resolve_setting_value (ss_rows u) k scope_id =
        (if scope = ''project'' then resolve_setting_value (ss_rows t) k None
         else map_option (\<lambda>d. JVal (sd_default d)) (descriptor_for k)) \<and>
      (get_value k scope scope_id (ss_rows s) = None \<longrightarrow>
        (\<forall>j p. resolve_setting_value (ss_rows u) j p = resolve_setting_value (ss_rows s) j p)))"
proof -
  let ?key = "(k, scope, encode_scope_id scope_id)"
  obtain d c where d: "descriptor_for k = Some d" and c: "validate_value env d v = Inr c"
    and rows: "ss_rows t = write_key ''operator'' now ?key c (ss_rows s)"
    and project: "scope = ''project'' \<Longrightarrow> scope_id \<noteq> None \<and> scope_id \<noteq> Some []"
    and general: "scope \<noteq> ''project'' \<Longrightarrow> scope_id = None"
    using put by (rule put_settingE) (auto simp: set_value_key)
  have scopes: "scope = ''project'' \<or> scope = ''general''" using assms(2) by auto
  have own: "resolve_setting_value (ss_rows t) k scope_id = Some c"
  proof (cases "scope = ''project''")
    case True
    with project obtain p where p: "scope_id = Some p" "p \<noteq> []" by auto
    then show ?thesis using True
      by (simp add: resolve_layered(2) [OF d] rows encode_scope_id_def rows.get_put)
  next
    case False
    then show ?thesis using general scopes
      by (simp add: resolve_layered(1) [OF d] rows encode_scope_id_def rows.get_put)
  qed
  have other: "resolve_setting_value (ss_rows t) j p = resolve_setting_value (ss_rows s) j p"
    if "j \<noteq> k \<or> scope = ''project'' \<and> p \<noteq> scope_id" for j p
  proof -
    let ?view = "if p \<noteq> None \<and> p \<noteq> Some [] then ''project'' else ''general''"
    have "effective_value e (ss_rows t) p ?view = effective_value e (ss_rows s) p ?view" if key: "sd_key e = j" for e
    proof (cases "j = k")
      case True
      with that project have "scope = ''project''" "p = None \<or> p = Some [] \<or> encode_scope_id p \<noteq> encode_scope_id scope_id"
        using \<open>j \<noteq> k \<or> scope = ''project'' \<and> p \<noteq> scope_id\<close> by (auto simp: encode_scope_id_def split: option.splits)
      then show ?thesis by (auto simp: effective_value_def get_value_key rows rows.get_put Let_def)
    qed (use key in \<open>simp add: effective_value_def get_value_key rows rows.get_put\<close>)
    then show ?thesis
      by (cases "descriptor_for j") (simp_all add: resolve_setting_value_def descriptor_key)
  qed
  have delete: "resolve_setting_value (ss_rows u) k scope_id =
        (if scope = ''project'' then resolve_setting_value (ss_rows t) k None
         else map_option (\<lambda>d. JVal (sd_default d)) (descriptor_for k)) \<and>
      (get_value k scope scope_id (ss_rows s) = None \<longrightarrow>
        (\<forall>j p. resolve_setting_value (ss_rows u) j p = resolve_setting_value (ss_rows s) j p))"
    if u: "delete_setting k scope scope_id t = (Inr (), u)" for u
  proof
    note del = delete_setting_rows(1) [OF u]
    show "resolve_setting_value (ss_rows u) k scope_id =
        (if scope = ''project'' then resolve_setting_value (ss_rows t) k None
         else map_option (\<lambda>d. JVal (sd_default d)) (descriptor_for k))"
    proof (cases "scope = ''project''")
      case True
      with project obtain p where p: "scope_id = Some p" "p \<noteq> []" by auto
      then show ?thesis using True
        by (simp add: resolve_layered [OF d] rows.layered.simps del encode_scope_id_def rows.get_clear split: option.split)
    next
      case False
      then show ?thesis using general scopes
        by (simp add: resolve_layered(1) [OF d] del encode_scope_id_def rows.get_clear d)
    qed
    show "get_value k scope scope_id (ss_rows s) = None \<longrightarrow>
        (\<forall>j p. resolve_setting_value (ss_rows u) j p = resolve_setting_value (ss_rows s) j p)"
      by (intro impI allI resolve_same_reads) (simp add: del rows rows.revert get_value_key)
  qed
  show ?thesis using own d c other delete by blast
qed

section \<open>The two memory floors\<close>

text \<open>
  Both floors are readable, and the hard floor below which work is evicted is at most the floor below
  which work waits, unless one of them is not a number.
\<close>

definition at_most_unless_nan :: "py_float \<Rightarrow> py_float \<Rightarrow> bool" where
  "at_most_unless_nan a b = (a = NotANumber \<or> b = NotANumber \<or> a = b \<or> float_less a b)"

definition floors_ordered :: "settings_row list \<Rightarrow> bool" where
  "floors_ordered rows = (\<exists>minimum hard. stored_floor min_memory_key rows = Inr minimum \<and>
     stored_floor hard_memory_key rows = Inr hard \<and> at_most_unless_nan hard minimum)"

lemma not_less_at_most: "\<not> float_less a b \<longleftrightarrow> at_most_unless_nan b a"
  by (cases a; cases b) (auto simp: at_most_unless_nan_def)

lemma memory_keys_differ: "min_memory_key \<noteq> hard_memory_key"
  by (simp add: min_memory_key_def hard_memory_key_def)

lemma memory_keys_general:
  "descriptor_for min_memory_key = Some d \<Longrightarrow> sd_project_section d = None"
  "descriptor_for hard_memory_key = Some d \<Longrightarrow> sd_project_section d = None"
proof -
  have "map_option sd_project_section (descriptor_for min_memory_key) = Some None"
    "map_option sd_project_section (descriptor_for hard_memory_key) = Some None" by code_simp+
  then show "descriptor_for min_memory_key = Some d \<Longrightarrow> sd_project_section d = None"
    "descriptor_for hard_memory_key = Some d \<Longrightarrow> sd_project_section d = None" by auto
qed

lemma stored_floor_read:
  "stored_floor k rows = (case read_key (k, ''general'', []) rows of
     Some v \<Rightarrow> to_float v
   | None \<Rightarrow> (case descriptor_for k of None \<Rightarrow> Inl RuntimeError | Some d \<Rightarrow> to_float (JVal (sd_default d))))"
  by (simp add: stored_floor_def get_value_key encode_scope_id_def)

lemma put_floors:
  assumes put: "put_setting env k scope scope_id v now s = (Inr (), t)" and s: "floors_ordered (ss_rows s)"
  shows "floors_ordered (ss_rows t)"
proof -
  obtain d c where d: "descriptor_for k = Some d"
    and rows: "ss_rows t = write_key ''operator'' now (k, scope, encode_scope_id scope_id) c (ss_rows s)"
    and f: "k \<in> {min_memory_key, hard_memory_key} \<Longrightarrow> \<exists>minimum hard. floors_after k c (ss_rows s) = Inr (minimum, hard) \<and>
       \<not> float_less minimum hard"
    using put by (rule put_settingE) (auto simp: set_value_key)
  have floor: "stored_floor j (ss_rows t) = (if j = k \<and> scope = ''general'' \<and> encode_scope_id scope_id = []
      then to_float c else stored_floor j (ss_rows s))" for j
    by (auto simp: stored_floor_read rows rows.get_put)
  show ?thesis
  proof (cases "k \<in> {min_memory_key, hard_memory_key} \<and> scope = ''general'' \<and> encode_scope_id scope_id = []")
    case True
    then obtain minimum hard where "floors_after k c (ss_rows s) = Inr (minimum, hard)" "\<not> float_less minimum hard"
      using f by blast
    with True memory_keys_differ show ?thesis
      by (auto simp: floors_ordered_def floor floors_after_def try_then_Inr_iff not_less_at_most split: if_splits)
  next
    case False
    with s show ?thesis by (auto simp: floors_ordered_def floor)
  qed
qed

text \<open>Both floors raised by requests, then the request that deletes one of them.\<close>

definition no_settings :: settings_store where
  "no_settings = \<lparr>ss_rows = [], ss_audits = []\<rparr>"

lemma floor_descriptors:
  "descriptor_for min_memory_key = Some (descriptor ''resources.minFreeMemoryGiB'' ''resources'' None ''number''
     (PInt 16) None ''app.settings.resources.minFreeMemoryGiB'' (Some 1) (Some 1024))"
  "descriptor_for hard_memory_key = Some (descriptor ''resources.hardFreeMemoryGiB'' ''resources'' None ''number''
     (PInt 8) None ''app.settings.resources.hardFreeMemoryGiB'' (Some 1) (Some 1024))"
  "\<not> has_prefix ''decision_engine.'' ''resources.minFreeMemoryGiB''"
  "\<not> has_prefix ''decision_engine.'' ''resources.hardFreeMemoryGiB''"
  by code_simp+

lemma to_float_int [simp]: "\<bar>n\<bar> \<le> 1000 \<Longrightarrow> to_float (JVal (PInt n)) = Inr (Fin (of_int n))"
proof -
  assume "\<bar>n\<bar> \<le> 1000"
  then have "\<bar>of_int n :: rat\<bar> \<le> 1000" by (simp flip: of_int_abs)
  then show ?thesis by (simp add: to_float_def float_limit_large)
qed

lemma to_float_float [simp]: "to_float (JVal (PFloat r)) = Inr (Fin r)"
  by (simp add: to_float_def)

lemma validate_floor:
  assumes "descriptor_for k = Some d" "k \<in> {min_memory_key, hard_memory_key}" "1 \<le> n" "n \<le> 1000"
  shows "validate_value env d (JVal (PInt n)) = Inr (JVal (PFloat (of_int n)))"
proof -
  obtain key label default where d: "d = descriptor key ''resources'' None ''number'' default None label (Some 1) (Some 1024)"
    and key: "\<not> has_prefix ''decision_engine.'' key" "key \<noteq> ''research.webSearch.baseUrl''"
  proof (cases "k = min_memory_key")
    case True
    then show ?thesis using assms(1) floor_descriptors(1,3) by (intro that) auto
  next
    case False
    then show ?thesis using assms(1,2) floor_descriptors(2,4) by (intro that) auto
  qed
  have "validate_number d (JVal (PInt n)) = Inr (JVal (PFloat (of_int n)))"
    using assms(3,4) by (simp add: validate_number_def d of_float_def)
  then show ?thesis using key by (simp add: validate_value_def validate_typed_def d)
qed

lemma floor_after_put:
  assumes "k \<in> {min_memory_key, hard_memory_key}" "1 \<le> n" "n \<le> 1000"
    and "floors_after k (JVal (PFloat (of_int n))) (ss_rows s) = Inr (minimum, hard)" "\<not> float_less minimum hard"
  shows "\<exists>t. put_setting env k ''general'' None (JVal (PInt n)) now s = (Inr (), t) \<and>
    (\<forall>j. stored_floor j (ss_rows t) = (if j = k then Inr (Fin (of_int n)) else stored_floor j (ss_rows s)))"
proof -
  obtain d where d: "descriptor_for k = Some d" using assms(1) floor_descriptors by auto
  have "stored_floor j (set_value k ''general'' None (JVal (PFloat (of_int n))) ''operator'' now rows) =
      (if j = k then Inr (Fin (of_int n)) else stored_floor j rows)" for j rows
    by (simp add: stored_floor_read set_value_key encode_scope_id_def rows.get_put)
  then show ?thesis using assms validate_floor [OF d assms(1-3)]
    by (simp add: put_setting_def d Let_def audit_change_def)
qed

lemma raised_floors:
  "\<exists>s0 s1 s2 s3. put_setting env min_memory_key ''general'' None (JVal (PInt 30)) now s0 = (Inr (), s1) \<and>
     put_setting env hard_memory_key ''general'' None (JVal (PInt 20)) now s1 = (Inr (), s2) \<and>
     delete_setting min_memory_key ''general'' None s2 = (Inr (), s3) \<and>
     ss_rows s0 = [] \<and> floors_ordered (ss_rows s2) \<and> \<not> floors_ordered (ss_rows s3)"
proof -
  let ?s0 = no_settings
  have f0: "stored_floor min_memory_key (ss_rows ?s0) = Inr (Fin 16)" "stored_floor hard_memory_key (ss_rows ?s0) = Inr (Fin 8)"
    by (simp_all add: no_settings_def stored_floor_def get_value_def floor_descriptors)
  have "\<exists>t. put_setting env min_memory_key ''general'' None (JVal (PInt 30)) now ?s0 = (Inr (), t) \<and>
      (\<forall>j. stored_floor j (ss_rows t) = (if j = min_memory_key then Inr (Fin (of_int 30)) else stored_floor j (ss_rows ?s0)))"
    by (rule floor_after_put [where minimum = "Fin 30" and hard = "Fin 8"]) (simp_all add: floors_after_def f0)
  then obtain s1 where s1: "put_setting env min_memory_key ''general'' None (JVal (PInt 30)) now ?s0 = (Inr (), s1)"
    "\<And>j. stored_floor j (ss_rows s1) = (if j = min_memory_key then Inr (Fin (of_int 30)) else stored_floor j (ss_rows ?s0))"
    by blast
  have "\<exists>t. put_setting env hard_memory_key ''general'' None (JVal (PInt 20)) now s1 = (Inr (), t) \<and>
      (\<forall>j. stored_floor j (ss_rows t) = (if j = hard_memory_key then Inr (Fin (of_int 20)) else stored_floor j (ss_rows s1)))"
    by (rule floor_after_put [where minimum = "Fin 30" and hard = "Fin 20"]) (use memory_keys_differ in \<open>simp_all add: floors_after_def s1(2) f0\<close>)
  then obtain s2 where s2: "put_setting env hard_memory_key ''general'' None (JVal (PInt 20)) now s1 = (Inr (), s2)"
    "\<And>j. stored_floor j (ss_rows s2) = (if j = hard_memory_key then Inr (Fin (of_int 20)) else stored_floor j (ss_rows s1))"
    by blast
  obtain s3 where s3: "delete_setting min_memory_key ''general'' None s2 = (Inr (), s3)"
    by (simp add: delete_setting_def floor_descriptors)
  have f3: "stored_floor min_memory_key (ss_rows s3) = Inr (Fin 16)"
    "stored_floor hard_memory_key (ss_rows s3) = Inr (Fin 20)"
  proof -
    note rows3 = delete_setting_rows(1) [OF s3]
    show "stored_floor min_memory_key (ss_rows s3) = Inr (Fin 16)"
      by (simp add: stored_floor_read rows3 encode_scope_id_def rows.get_clear floor_descriptors)
    have "stored_floor hard_memory_key (ss_rows s3) = stored_floor hard_memory_key (ss_rows s2)"
      using memory_keys_differ by (simp add: stored_floor_read rows3 encode_scope_id_def rows.get_clear)
    then show "stored_floor hard_memory_key (ss_rows s3) = Inr (Fin 20)" by (simp add: s2(2))
  qed
  have "floors_ordered (ss_rows s2)" "\<not> floors_ordered (ss_rows s3)"
    using memory_keys_differ by (simp_all add: floors_ordered_def at_most_unless_nan_def s2(2) s1(2) f3)
  with s1(1) s2(1) s3 show ?thesis unfolding no_settings_def by (metis settings_store.select_convs(1))
qed

lemma nan_text: "special_or_number ''nan'' = Some NotANumber"
  by code_simp

lemma nan_floors:
  "\<exists>s0 s1 s2. put_setting env min_memory_key ''general'' None (JVal (PStr ''nan'')) now s0 = (Inr (), s1) \<and>
     put_setting env hard_memory_key ''general'' None (JVal (PInt 1000)) now s1 = (Inr (), s2) \<and>
     ss_rows s0 = [] \<and> stored_floor min_memory_key (ss_rows s2) = Inr NotANumber \<and>
     stored_floor hard_memory_key (ss_rows s2) = Inr (Fin 1000)"
proof -
  let ?s0 = no_settings
  have f0: "stored_floor min_memory_key (ss_rows ?s0) = Inr (Fin 16)" "stored_floor hard_memory_key (ss_rows ?s0) = Inr (Fin 8)"
    by (simp_all add: no_settings_def stored_floor_def get_value_def floor_descriptors)
  have nan: "to_float JNaN = Inr NotANumber" by (simp add: to_float_def)
  have "validate_value env d (JVal (PStr ''nan'')) = Inr JNaN" if "descriptor_for min_memory_key = Some d" for d
    using that floor_descriptors(1,3)
    by (auto simp: validate_value_def validate_typed_def validate_number_def to_float_def nan_text of_float_def)
  then obtain s1 where s1: "put_setting env min_memory_key ''general'' None (JVal (PStr ''nan'')) now ?s0 = (Inr (), s1)"
    "ss_rows s1 = set_value min_memory_key ''general'' None JNaN ''operator'' now (ss_rows ?s0)"
    by (simp add: put_setting_def floor_descriptors(1) Let_def audit_change_def floors_after_def f0 nan try_then_def)
  have f1: "stored_floor min_memory_key (ss_rows s1) = Inr NotANumber" "stored_floor hard_memory_key (ss_rows s1) = Inr (Fin 8)"
    using memory_keys_differ f0(2) by (simp_all add: stored_floor_read s1(2) set_value_key encode_scope_id_def rows.get_put nan)
  have "\<exists>t. put_setting env hard_memory_key ''general'' None (JVal (PInt 1000)) now s1 = (Inr (), t) \<and>
      (\<forall>j. stored_floor j (ss_rows t) = (if j = hard_memory_key then Inr (Fin (of_int 1000)) else stored_floor j (ss_rows s1)))"
    by (rule floor_after_put [where minimum = NotANumber and hard = "Fin 1000"])
      (use memory_keys_differ in \<open>simp_all add: floors_after_def f1\<close>)
  then obtain s2 where s2: "put_setting env hard_memory_key ''general'' None (JVal (PInt 1000)) now s1 = (Inr (), s2)"
    "\<And>j. stored_floor j (ss_rows s2) = (if j = hard_memory_key then Inr (Fin (of_int 1000)) else stored_floor j (ss_rows s1))"
    by blast
  have "ss_rows ?s0 = []" by (simp add: no_settings_def)
  with s1(1) s2 f1(1) memory_keys_differ show ?thesis
    by (intro exI [of _ ?s0] exI [of _ s1] exI [of _ s2]) simp
qed

text \<open>C33. A request that stores a setting, whichever it is and in whichever scope, keeps the hard memory floor
  at most the admission floor as long as both are numbers. Two kinds of requests escape: deleting the
  admission floor after raising both leaves a hard floor above the default admission floor; and the
  text \<open>nan\<close> is accepted as the admission floor, after which a hard floor of a thousand GiB is
  accepted.\<close>

theorem memory_floors_put_and_delete:
  "(floors_ordered (ss_rows s) \<longrightarrow> put_setting env k scope scope_id v now s = (Inr (), t) \<longrightarrow>
      floors_ordered (ss_rows t)) \<and>
   (\<exists>s0 s1 s2 s3. put_setting env min_memory_key ''general'' None (JVal (PInt 30)) now s0 = (Inr (), s1) \<and>
     put_setting env hard_memory_key ''general'' None (JVal (PInt 20)) now s1 = (Inr (), s2) \<and>
     delete_setting min_memory_key ''general'' None s2 = (Inr (), s3) \<and>
     ss_rows s0 = [] \<and> floors_ordered (ss_rows s2) \<and> \<not> floors_ordered (ss_rows s3)) \<and>
   (\<exists>s0 s1 s2. put_setting env min_memory_key ''general'' None (JVal (PStr ''nan'')) now s0 = (Inr (), s1) \<and>
     put_setting env hard_memory_key ''general'' None (JVal (PInt 1000)) now s1 = (Inr (), s2) \<and>
     ss_rows s0 = [] \<and> stored_floor min_memory_key (ss_rows s2) = Inr NotANumber \<and>
     stored_floor hard_memory_key (ss_rows s2) = Inr (Fin 1000))"
  using put_floors raised_floors nan_floors by blast

end
