(* ===== verification/Host_Eviction.thy ===== *)
theory Host_Eviction
  imports Host_Properties Settings_Properties
begin

text \<open>
  More of the host governor: the admission of an execution that still holds an expired lease, the
  drain of old decisions, the CPU limit stored as \<open>nan\<close>, and the choice of the lease to evict.
\<close>

section \<open>A recovery keeps what a native process holds\<close>

lemma get_lease_ok: "i \<in> set (map rz_id (hs_leases s)) \<Longrightarrow> \<exists>l. get_lease i s = (Inr l, s)"
  by (cases "select_one (\<lambda>l. rz_id l = i) (hs_leases s)") (auto simp: get_lease_def dest: select_one_NoneD)

lemma release_lease_ok:
  assumes "i \<in> set (map rz_id (hs_leases s))"
  shows "\<exists>l t. release_lease i reason now s = (Inr l, t) \<and> map rz_id (hs_leases t) = map rz_id (hs_leases s)"
proof -
  let ?u = "resolve_violations_for_lease i now (mark_released i reason now s)"
  have ids: "map rz_id (hs_leases ?u) = map rz_id (hs_leases s)"
    using shrinks_trans [OF shrinks_mark_released shrinks_resolve] by (simp add: shrinks_def)
  then have "i \<in> set (map rz_id (hs_leases ?u))" using assms by (simp only:)
  then show ?thesis
    using get_lease_ok [of i ?u] get_lease_ok [OF assms] ids unfolding release_lease_def by auto
qed

lemma release_all_ok:
  "set is \<subseteq> set (map rz_id (hs_leases s)) \<Longrightarrow> \<exists>t. release_all is now s = (Inr (), t) \<and>
     map rz_id (hs_leases t) = map rz_id (hs_leases s)"
proof (induction "is" arbitrary: s)
  case (Cons i "is")
  then have "i \<in> set (map rz_id (hs_leases s))" by simp
  from release_lease_ok [OF this] obtain l u where
    u: "release_lease i ''lease_expired'' now s = (Inr l, u)" "map rz_id (hs_leases u) = map rz_id (hs_leases s)" by blast
  have "set is \<subseteq> set (map rz_id (hs_leases u))" using Cons.prems u(2) by simp
  from Cons.IH [OF this] obtain t where "release_all is now u = (Inr (), t)" "map rz_id (hs_leases t) = map rz_id (hs_leases u)"
    by blast
  with u show ?case by simp
qed simp

lemma get_leases_ok: "set is \<subseteq> set (map rz_id (hs_leases s)) \<Longrightarrow> \<exists>ls. get_leases is s = (Inr ls, s)"
proof (induction "is")
  case (Cons i "is")
  then have "i \<in> set (map rz_id (hs_leases s))" by simp
  from get_lease_ok [OF this] obtain l where l: "get_lease i s = (Inr l, s)" by blast
  from Cons obtain ls where "get_leases is s = (Inr ls, s)" by auto
  with l show ?case by (simp add: and_then_def ret_def)
qed simp

lemma recover_total: "\<exists>ls t. recover_expired now s = (Inr ls, t)"
proof -
  have ids: "set (expired_ids now s) \<subseteq> set (map rz_id (hs_leases s))" by (auto simp: expired_ids_def)
  obtain t where t: "release_all (expired_ids now s) now s = (Inr (), t)" "map rz_id (hs_leases t) = map rz_id (hs_leases s)"
    using release_all_ok [OF ids] by blast
  have "set (expired_ids now s) \<subseteq> set (map rz_id (hs_leases t))" unfolding t(2) by (rule ids)
  then obtain ls where "get_leases (expired_ids now s) t = (Inr ls, t)" using get_leases_ok by blast
  with t(1) show ?thesis by (simp add: recover_expired_def Let_def and_then_def)
qed

lemma recover_keeps_held:
  assumes "recover_expired now s = (Inr ls, t)" "l \<in> set (open_leases s)" "rz_id l \<in> native_lease_ids s"
  shows "l \<in> set (open_leases t)"
proof -
  have "open_leases t = filter (\<lambda>l. rz_id l \<notin> set (expired_ids now s)) (open_leases s)"
    using release_all_open [OF recover_expired_released [OF assms(1)]] by (simp add: expired_ids_def)
  then show ?thesis using assms(2,3) by (simp add: expired_ids_def)
qed

lemma open_executions_distinct: "host_inv numeric s \<Longrightarrow> distinct (map rz_execution_id (open_leases s))"
  by (simp add: host_inv_def open_keys_def lease_key_def comp_def)

lemma expired_not_found:
  assumes "distinct (map rz_execution_id (open_leases s))" "l \<in> set (open_leases s)"
    "rz_execution_id l = i" "rz_expires_at l \<le> now"
  shows "active_lease_for_execution i now s = None"
proof -
  have "rz_expires_at k \<le> now" if "k \<in> set (open_leases s)" "rz_execution_id k = i" for k
    using that assms by (metis distinct_map inj_onD)
  then show ?thesis
    by (fastforce simp: active_lease_for_execution_def first_by_None_iff filter_empty_conv open_leases_def)
qed

lemma update_job_found: "get_job i s = Inr j \<Longrightarrow> \<exists>k t. update_job_status env i status m now s = (Inr k, t)"
proof -
  assume job: "get_job i s = Inr j"
  have "\<exists>k. get_job i (upd_job (\<lambda>k. jb_id k = i) f s) = Inr k" if "\<And>k. jb_id (f k) = jb_id k" for f
    using job select_one_key_upd [of jb_id f i "\<lambda>k. jb_id k = i" "os_jobs s", OF that]
    by (auto simp: get_job_def find_job_def upd_job_def split: option.splits)
  from this [of "\<lambda>k. k\<lparr>jb_status := status, jb_payload := json_dict (je_redact_dict env
      (case m of None \<Rightarrow> jb_payload j | Some m \<Rightarrow> dset (jb_payload j) ''result'' (PDict (je_redact_dict env m)))),
      jb_lease_owner := None, jb_lease_expires_at := None, jb_updated_at := now\<rparr>"]
  show ?thesis using job by (auto simp: update_job_status_def Let_def get_job_def)
qed

lemma set_job_status_ok: "\<exists>t. set_job_status env i status d now s = (Inr (), t)"
proof (cases i)
  case (Some k)
  show ?thesis
  proof (cases "find_job k (hs_ops s)")
    case job: (Some j)
    then have "get_job k (hs_ops s) = Inr j" by (simp add: get_job_def)
    from update_job_found [OF this] obtain q u where
      "update_job_status env k status (Some (admission_metadata d)) now (hs_ops s) = (Inr q, u)" by blast
    then show ?thesis by (simp add: set_job_status_def Some job)
  qed (simp add: set_job_status_def Some)
qed (simp add: set_job_status_def)

text \<open>C30. An execution whose lease has expired while a native process still holds it cannot get a
  lease again, for a job or without one: it is told to wait, or, when the rules accept it beside the
  leases that are active, its own among them, the admission fails on the index of the open leases and
  stores nothing.\<close>

theorem readmission_of_a_held_lease_fails:
  assumes reachable: "host_reachable senv env s"
    and held: "l \<in> set (open_leases s)" "rz_id l \<in> native_lease_ids s"
      "rz_execution_id l = rq_execution_id request" "rz_expires_at l \<le> now"
    and policy: "resolve_resource_policy senv (hs_settings s) snapshot = Inr policy"
    and clock: "valid_instant (now + 1000 * rq_lease_seconds request)"
  shows "(case refusal (rq_workload_class request) (active_leases now (snd (recover_expired now s))) snapshot policy of
       None \<Rightarrow> admit senv env i j request snapshot now s = (Inl UniqueViolation, s)
     | Some (code, reason) \<Rightarrow> fst (admit senv env i j request snapshot now s) = Inr (wait_decision snapshot code reason))"
proof -
  obtain ls t where t: "recover_expired now s = (Inr ls, t)" using recover_total by blast
  have "host_inv False t"
    using host_inv_shrinks [OF shrinks_recover [OF t]] host_reachable_inv [OF reachable] by blast
  then have d: "distinct (map rz_execution_id (open_leases t))" by (rule open_executions_distinct)
  have l: "l \<in> set (open_leases t)" by (rule recover_keeps_held [OF t held(1,2)])
  have none: "active_lease_for_execution (rq_execution_id request) now t = None"
    by (rule expired_not_found [OF d l held(3,4)])
  have "lease_conflict i (rq_execution_id request) t"
    using l held(3) by (force simp: lease_conflict_def open_leases_def)
  then have create: "create_lease i request p now t = (Inl UniqueViolation, t)" for p
    using clock by (simp add: create_lease_def shift_instant_def)
  show ?thesis
  proof (cases "refusal (rq_workload_class request) (active_leases now t) snapshot policy")
    case None
    then show ?thesis
      using t none policy create
      by (simp add: admit_def admit_in_transaction_def immediate_transaction_def and_then_def decide_def)
  next
    case (Some w)
    obtain code reason where w: "w = (code, reason)" by fastforce
    obtain u where "set_job_status env (rq_job_id request) ''resource_wait'' (wait_decision snapshot code reason) now t = (Inr (), u)"
      using set_job_status_ok by blast
    with Some show ?thesis
      using t none policy
      by (simp add: admit_def admit_in_transaction_def immediate_transaction_def and_then_def decide_def w)
  qed
qed

section \<open>Retention\<close>

text \<open>A drain whose rounds are enough leaves no old decision: by its own test, not by the cap.\<close>

lemma drop_first_all: "rowcount P rows \<le> n \<Longrightarrow> drop_first n P rows = filter (\<lambda>r. \<not> P r) rows"
  by (induction n P rows rule: drop_first.induct) (auto simp: rowcount_def filter_empty_conv)

lemma rowcount_drop_first: "rowcount P (drop_first n P rows) = rowcount P rows - n"
  by (induction n P rows rule: drop_first.induct) (auto simp: rowcount_def)

lemma filter_drop_first: "filter (\<lambda>r. \<not> P r) (drop_first n P rows) = filter (\<lambda>r. \<not> P r) rows"
  by (induction n P rows rule: drop_first.induct) auto

lemma drain_batches_empties:
  assumes "shift_instant now (- 1000 * decision_retention_seconds) = Inr cutoff" "0 < k"
  shows "rowcount (\<lambda>r. ad_created_at r < cutoff) (hs_admissions s) < k * length nows \<Longrightarrow> set nows \<subseteq> {now} \<Longrightarrow>
    \<exists>t. drain_batches (int k) nows sofar s = (Inr (sofar + rowcount (\<lambda>r. ad_created_at r < cutoff) (hs_admissions s)), t) \<and>
      hs_admissions t = filter (\<lambda>r. \<not> ad_created_at r < cutoff) (hs_admissions s)"
proof (induction nows arbitrary: s sofar)
  case (Cons m nows)
  let ?old = "\<lambda>r. ad_created_at r < cutoff"
  let ?n = "rowcount ?old (hs_admissions s)"
  let ?t = "s\<lparr>hs_admissions := drop_first k ?old (hs_admissions s)\<rparr>"
  have k: "nat (max 1 (int k)) = k" using assms(2) by simp
  have m: "max 1 decision_retention_seconds = decision_retention_seconds" "m = now"
    using Cons.prems(2) by (simp_all add: decision_retention_seconds_def)
  have p: "prune_admission_decisions decision_retention_seconds (Some (int k)) m s = (Inr (min ?n k), ?t)"
    unfolding prune_admission_decisions_def m k using assms(1) by (simp add: Let_def k)
  show ?case
  proof (cases "?n < k")
    case True
    then show ?thesis using p drop_first_all [of ?old "hs_admissions s" k] by simp
  next
    case False
    have c: "rowcount ?old (hs_admissions ?t) = ?n - k" by (simp add: rowcount_drop_first)
    have "rowcount ?old (hs_admissions ?t) < k * length nows" using Cons.prems(1) False unfolding c by simp
    from Cons.IH [OF this, of "sofar + k"] Cons.prems(2) obtain t where
      "drain_batches (int k) nows (sofar + k) ?t = (Inr (sofar + k + (?n - k)), t)"
      "hs_admissions t = filter (\<lambda>r. \<not> ?old r) (hs_admissions ?t)" unfolding c by auto
    then show ?thesis using p False by (simp add: filter_drop_first)
  qed
qed simp

section \<open>A CPU limit that is not a number\<close>

text \<open>C31. The text \<open>nan\<close> is stored as the CPU limit, within neither bound of its descriptor; from then
  on no admission is refused for its CPU budget, whatever is reserved, nor for a saturated host.\<close>

theorem nan_disables_the_cpu_budget:
  "\<exists>t. put_setting senv ''resources.maxCpuPercent'' ''general'' None (JVal (PStr ''nan'')) now s = (Inr (), t) \<and>
     (\<forall>snapshot policy c active. resolve_resource_policy senv (ss_rows t) snapshot = Inr policy \<longrightarrow>
        \<not> cpu_exceeded c active policy \<and> host_refusal c snapshot policy \<noteq>
          Some (''host_cpu_saturated'', ''Host CPU is above the configured admission threshold.''))"
proof -
  let ?k = "''resources.maxCpuPercent''" and ?d = "descriptor ''resources.maxCpuPercent'' ''resources'' None ''number'' (PInt 65) None
      ''app.settings.resources.maxCpuPercent'' (Some 1) (Some 95)"
  have "validate_value senv ?d v = validate_number ?d v" for v
    by (simp add: validate_value_def validate_typed_def plain_key)
  then have val: "validate_value senv ?d (JVal (PStr ''nan'')) = Inr JNaN" "validate_value senv ?d JNaN = Inr JNaN"
    by (simp_all add: validate_number_def to_float_def nan_text of_float_def)
  have floors: "?k \<noteq> min_memory_key" "?k \<noteq> hard_memory_key"
    by (simp_all add: min_memory_key_def hard_memory_key_def)
  let ?rows = "set_value ?k ''general'' None JNaN ''operator'' now (ss_rows s)"
  obtain t where t: "put_setting senv ?k ''general'' None (JVal (PStr ''nan'')) now s = (Inr (), t)" "ss_rows t = ?rows"
    using floors by (simp add: put_setting_def descriptor_cpu val Let_def audit_change_def)
  have "get_value ?k ''general'' None ?rows = Some JNaN"
    by (simp add: get_value_key set_value_key rows.get_put)
  then have "float_setting senv ?rows ?k = Inr NotANumber"
    by (simp add: float_setting_def resource_setting_def descriptor_cpu val Let_def to_float_def try_then_def)
  then have "po_max_cpu_percent policy = NotANumber"
    if "resolve_resource_policy senv (ss_rows t) snapshot = Inr policy" for snapshot policy
    using policy_bounds(3) [OF that] by (simp add: t(2))
  then show ?thesis using t(1)
    by (auto simp: cpu_exceeded_def host_refusal_def)
qed

section \<open>Eviction\<close>

text \<open>The order of the candidates: those that use more than they reserve, then the greatest excess,
  then the latest, then the identifier.\<close>

definition worse :: "memory_usage \<Rightarrow> resource_lease \<Rightarrow> resource_lease \<Rightarrow> bool" where
  "worse usage k l = (let over = (\<lambda>l. usage_of usage (rz_id l) > reserved_bytes l) in
     over k \<and> \<not> over l \<or>
     over k = over l \<and> (excess usage k > excess usage l \<or>
       excess usage k = excess usage l \<and> (rz_acquired_at k > rz_acquired_at l \<or>
         rz_acquired_at k = rz_acquired_at l \<and> rz_id k < rz_id l)))"

definition lexed :: "('a \<Rightarrow> 'k::linorder) \<Rightarrow> ('a \<Rightarrow> 'a \<Rightarrow> bool) \<Rightarrow> 'a \<Rightarrow> 'a \<Rightarrow> bool" where
  "lexed f R x y = (f x < f y \<or> f x = f y \<and> R x y)"

lemma insort_lexed:
  "sorted_wrt (lexed f R) ys \<Longrightarrow> (\<And>y. y \<in> set ys \<Longrightarrow> R x y) \<Longrightarrow> sorted_wrt (lexed f R) (insort_key f x ys)"
proof (induction ys)
  case (Cons y ys)
  have y: "f y \<le> f z" if "z \<in> set ys" for z using Cons.prems(1) that by (auto simp: lexed_def)
  show ?case
  proof (cases "f x \<le> f y")
    case True
    then have "lexed f R x z" if "z \<in> set (y # ys)" for z
      using that y [of z] Cons.prems(2) [of z] by (cases "f x = f z") (auto simp: lexed_def)
    with True Cons.prems(1) show ?thesis by simp
  next
    case False
    with Cons show ?thesis by (auto simp: set_insort_key lexed_def)
  qed
qed simp

lemma sort_lexed: "sorted_wrt R xs \<Longrightarrow> sorted_wrt (lexed f R) (sort_key f xs)"
  by (induction xs) (auto intro!: insort_lexed)

lemma ranked_first:
  assumes "rank_eviction_candidates candidates usage = victim # rest" "l \<in> set candidates"
  shows "victim \<in> set candidates" "\<not> worse usage l victim"
proof -
  let ?R = "lexed (\<lambda>l. \<not> usage_of usage (rz_id l) > reserved_bytes l)
    (lexed (\<lambda>l. - excess usage l) (lexed (\<lambda>l. - rz_acquired_at l) (\<lambda>k l. rz_id k \<le> rz_id l)))"
  have set: "set (rank_eviction_candidates candidates usage) = set candidates"
    by (simp add: rank_eviction_candidates_def)
  have "sorted_wrt (\<lambda>k l. rz_id k \<le> rz_id l) (sort_key rz_id candidates)"
    using sorted_sort_key [of rz_id candidates] by (simp add: sorted_wrt_map)
  then have "sorted_wrt ?R (rank_eviction_candidates candidates usage)"
    unfolding rank_eviction_candidates_def by (intro sort_lexed)
  moreover have "l \<in> set (victim # rest)" "victim \<in> set (victim # rest)" using assms set by auto
  ultimately have "l = victim \<or> ?R victim l" using assms(1) by auto
  then show "\<not> worse usage l victim" by (auto simp: worse_def lexed_def Let_def)
  show "victim \<in> set candidates" using assms(1) set by auto
qed

text \<open>What \<open>cancellation_reason\<close> reads of the violations: their rows joined with their leases.\<close>

definition joined_violations :: "host_store \<Rightarrow> resource_violation list" where
  "joined_violations s = List.map_filter (\<lambda>v. map_option (\<lambda>l.
      \<lparr>rv_execution_id = vw_execution_id v, rv_reason = vw_reason v, rv_action = vw_action v,
       rv_resolved_at = vw_resolved_at v, rv_lease_released_at = rz_released_at l\<rparr>)
     (select_one (\<lambda>l. rz_id l = vw_lease_id v) (hs_leases s))) (hs_violations s)"

lemma set_map_filter: "set (List.map_filter f xs) = {y. \<exists>x \<in> set xs. f x = Some y}"
  by (induction xs) (auto simp: List.map_filter_simps split: option.splits)

lemma joined_cancels:
  assumes v: "v \<in> set (hs_violations s)" "vw_resolved_at v = None" "vw_action v = ''cancel_non_essential_workload''"
    and l: "select_one (\<lambda>l. rz_id l = vw_lease_id v) (hs_leases s) = Some l" "rz_released_at l = None"
    and jobs: "os_violations jobs = joined_violations s"
  shows "cancellation_reason (vw_execution_id v) jobs \<noteq> None"
proof -
  let ?r = "\<lparr>rv_execution_id = vw_execution_id v, rv_reason = vw_reason v, rv_action = vw_action v,
       rv_resolved_at = vw_resolved_at v, rv_lease_released_at = rz_released_at l\<rparr>"
  have r: "?r \<in> set (os_violations jobs)"
    unfolding jobs joined_violations_def set_map_filter using v(1) l(1) by (auto intro!: bexI [of _ v])
  let ?P = "\<lambda>q. rv_execution_id q = vw_execution_id v \<and> rv_resolved_at q = None \<and>
       rv_action q = ''cancel_non_essential_workload'' \<and> rv_lease_released_at q = None"
  have "?P ?r" using v l by simp
  then have "select_one ?P (os_violations jobs) \<noteq> None" using select_one_NoneD [OF _ r, of ?P] by blast
  then obtain q where "select_one ?P (os_violations jobs) = Some q" by blast
  then show ?thesis
    by (cases "select_one (\<lambda>c. ec_execution_id c = vw_execution_id v) (os_controls jobs)";
        cases "control_of ''local'' (os_leadership jobs)") (simp_all add: cancellation_reason_def)
qed

lemma evict_one:
  assumes "evict_in_transaction i snapshot policy m now s = (Inr [v], t)"
  obtains victim rest where
    "rank_eviction_candidates (eviction_candidates now m s) (case m of None \<Rightarrow> [] | Some u \<Rightarrow> u) = victim # rest"
    "vw_lease_id v = rz_id victim" "vw_execution_id v = rz_execution_id victim" "vw_created_at v = now"
    "vw_violation_type v = ''hard_memory_floor''" "vw_action v = ''cancel_non_essential_workload''"
    "vw_resolved_at v = None" "t = s\<lparr>hs_violations := hs_violations s @ [v]\<rparr>"
proof (cases "rank_eviction_candidates (eviction_candidates now m s) (case m of None \<Rightarrow> [] | Some u \<Rightarrow> u)")
  case Nil
  with assms show ?thesis by (simp add: evict_in_transaction_def split: if_splits)
next
  case (Cons victim rest)
  obtain e where e: "record_violation i (rz_execution_id victim) (rz_id victim) ''hard_memory_floor''
      ''cancel_non_essential_workload'' e now s = (Inr v, t)"
    using assms Cons by (auto simp: evict_in_transaction_def Let_def and_then_def ret_def
        split: if_splits prod.splits sum.splits)
  then have "v = \<lparr>vw_id = i, vw_execution_id = rz_execution_id victim, vw_lease_id = rz_id victim,
       vw_violation_type = ''hard_memory_floor'', vw_action = ''cancel_non_essential_workload'', vw_reason = e,
       vw_created_at = now, vw_resolved_at = None\<rparr>" "t = s\<lparr>hs_violations := hs_violations s @ [v]\<rparr>"
    by (auto simp: record_violation_def Let_def split: if_splits)
  with Cons show ?thesis by (intro that) simp_all
qed

lemma grace_after:
  assumes "v \<in> set (hs_violations s)" "vw_violation_type v = ''hard_memory_floor''"
    "later < vw_created_at v + 1000 * eviction_grace_seconds"
  shows "evict_in_transaction j snapshot policy m later s = (Inr [], s)"
proof -
  let ?old = "filter (\<lambda>v. vw_violation_type v = ''hard_memory_floor'') (hs_violations s)"
  obtain q where q: "first_by (\<lambda>v. - vw_created_at v) ?old = Some q"
    using assms(1,2) by (cases "first_by (\<lambda>v. - vw_created_at v) ?old") (auto simp: first_by_None_iff filter_empty_conv)
  have "vw_created_at v \<le> vw_created_at q" using first_by_SomeD [OF q] assms(1,2) by simp
  with assms(3) q show ?thesis
    by (simp add: evict_in_transaction_def latest_violation_created_at_def)
qed

lemma evicted_is_the_worst:
  assumes tx: "evict_in_transaction i snapshot policy (case usage of None \<Rightarrow> None | Some m \<Rightarrow> m) now s = (Inr [v], t)"
    and ids: "distinct (map rz_id (hs_leases s))"
    and jobs: "os_violations jobs = joined_violations t"
  shows "\<exists>victim. victim \<in> set (active_leases now s) \<and> \<not> wp_essential (profile_of (rz_workload_class victim)) \<and>
    rz_id victim \<notin> leases_with_unresolved_violation ''cancel_non_essential_workload'' s \<and>
    (\<forall>l \<in> set (eviction_candidates now (case usage of None \<Rightarrow> None | Some m \<Rightarrow> m) s).
       \<not> worse (case usage of Some (Some m) \<Rightarrow> m | _ \<Rightarrow> []) l victim) \<and>
    vw_lease_id v = rz_id victim \<and> t = s\<lparr>hs_violations := hs_violations s @ [v]\<rparr> \<and>
    cancellation_reason (rz_execution_id victim) jobs \<noteq> None \<and>
    (\<forall>j policy m later. later < now + 6000 \<longrightarrow> evict_in_transaction j snapshot policy m later t = (Inr [], t))"
proof -
  let ?m = "case usage of None \<Rightarrow> None | Some m \<Rightarrow> m"
  have known: "(case ?m of None \<Rightarrow> [] | Some u \<Rightarrow> u) = (case usage of Some (Some m) \<Rightarrow> m | _ \<Rightarrow> [])"
    by (cases usage) (auto split: option.splits)
  obtain victim rest where r: "rank_eviction_candidates (eviction_candidates now ?m s)
      (case ?m of None \<Rightarrow> [] | Some u \<Rightarrow> u) = victim # rest"
    and v: "vw_lease_id v = rz_id victim" "vw_execution_id v = rz_execution_id victim" "vw_created_at v = now"
      "vw_violation_type v = ''hard_memory_floor''" "vw_action v = ''cancel_non_essential_workload''" "vw_resolved_at v = None"
    and t: "t = s\<lparr>hs_violations := hs_violations s @ [v]\<rparr>"
    using tx by (rule evict_one)
  have "set (rank_eviction_candidates (eviction_candidates now ?m s) (case ?m of None \<Rightarrow> [] | Some u \<Rightarrow> u)) =
      set (eviction_candidates now ?m s)" by (simp add: rank_eviction_candidates_def)
  then have cand: "victim \<in> set (eviction_candidates now ?m s)" using r by auto
  then have act: "victim \<in> set (active_leases now s)" "\<not> wp_essential (profile_of (rz_workload_class victim))"
    "rz_id victim \<notin> leases_with_unresolved_violation ''cancel_non_essential_workload'' s"
    by (auto simp: eviction_candidates_def Let_def)
  have worst: "\<forall>l \<in> set (eviction_candidates now ?m s). \<not> worse (case usage of Some (Some m) \<Rightarrow> m | _ \<Rightarrow> []) l victim"
    using ranked_first(2) [OF r] unfolding known by blast
  have open': "victim \<in> set (hs_leases t)" "rz_released_at victim = None"
    using act(1) by (auto simp: active_leases_def t)
  have "select_one (\<lambda>l. rz_id l = vw_lease_id v) (hs_leases t) = Some victim"
    using ids open'(1) by (intro select_one_distinct) (simp_all add: v t)
  then have "cancellation_reason (vw_execution_id v) jobs \<noteq> None"
    using v open'(2) jobs by (intro joined_cancels [where s = t]) (auto simp: t)
  moreover have "evict_in_transaction j snapshot policy m later t = (Inr [], t)" if "later < now + 6000" for j policy m later
    using that v by (intro grace_after [of v]) (simp_all add: t eviction_grace_seconds_def)
  ultimately show ?thesis using act worst v(1,2) t by auto
qed

lemma evict_outcome:
  assumes "evict_in_transaction i snapshot policy m now s = (Inr vs, t)"
  shows "if (case latest_violation_created_at ''hard_memory_floor'' s of
        None \<Rightarrow> False | Some q \<Rightarrow> now - q < 1000 * eviction_grace_seconds) \<or> eviction_candidates now m s = []
    then vs = [] \<and> t = s else \<exists>v. vs = [v]"
proof (cases "rank_eviction_candidates (eviction_candidates now m s) (case m of None \<Rightarrow> [] | Some u \<Rightarrow> u)")
  case Nil
  then have "eviction_candidates now m s = []" by (simp add: rank_eviction_candidates_def flip: length_0_conv)
  with Nil show ?thesis using assms by (simp add: evict_in_transaction_def split: if_splits)
next
  case (Cons victim rest)
  then have "eviction_candidates now m s \<noteq> []" by (auto simp: rank_eviction_candidates_def)
  with Cons show ?thesis using assms
    by (auto simp: evict_in_transaction_def Let_def and_then_def ret_def split: if_splits prod.splits sum.splits)
qed

text \<open>C29. What a sample of the memory evicts. Nothing, at or above the hard floor, within six seconds of
  the last eviction or without a candidate; otherwise exactly one lease: an active one that is not
  essential nor evicted already and that no other candidate outranks. Nothing but its violation is
  stored, the processes of its execution find a cancellation reason, and nothing else is evicted for
  six seconds. A sample that fails changes nothing.\<close>

theorem eviction_takes_the_worst:
  assumes run: "violations_for_snapshot senv i snapshot usage now s = (r, t)"
    and ids: "distinct (map rz_id (hs_leases s))"
    and jobs: "os_violations jobs = joined_violations t"
  shows "case r of Inl _ \<Rightarrow> t = s | Inr vs \<Rightarrow>
    (\<exists>policy. resolve_resource_policy senv (hs_settings s) snapshot = Inr policy \<and>
    (if po_hard_free_memory_bytes policy \<le> sn_available_memory_bytes snapshot \<or>
        (case latest_violation_created_at ''hard_memory_floor'' s of None \<Rightarrow> False | Some q \<Rightarrow> now - q < 6000) \<or>
        eviction_candidates now (case usage of None \<Rightarrow> None | Some m \<Rightarrow> m) s = []
     then vs = [] \<and> t = s
     else \<exists>victim v. vs = [v] \<and>
       victim \<in> set (active_leases now s) \<and> \<not> wp_essential (profile_of (rz_workload_class victim)) \<and>
       rz_id victim \<notin> leases_with_unresolved_violation ''cancel_non_essential_workload'' s \<and>
       (\<forall>l \<in> set (eviction_candidates now (case usage of None \<Rightarrow> None | Some m \<Rightarrow> m) s).
          \<not> worse (case usage of Some (Some m) \<Rightarrow> m | _ \<Rightarrow> []) l victim) \<and>
       vw_lease_id v = rz_id victim \<and> t = s\<lparr>hs_violations := hs_violations s @ [v]\<rparr> \<and>
       cancellation_reason (rz_execution_id victim) jobs \<noteq> None \<and>
       (\<forall>j policy m later. later < now + 6000 \<longrightarrow>
          evict_in_transaction j snapshot policy m later t = (Inr [], t))))"
proof (cases r)
  case (Inl e)
  then show ?thesis using run
    by (auto simp: violations_for_snapshot_def immediate_transaction_def split: sum.splits if_splits prod.splits)
next
  case (Inr vs)
  let ?m = "case usage of None \<Rightarrow> None | Some m \<Rightarrow> m"
  obtain policy where policy: "resolve_resource_policy senv (hs_settings s) snapshot = Inr policy"
    and vs: "po_hard_free_memory_bytes policy \<le> sn_available_memory_bytes snapshot \<and> vs = [] \<and> t = s \<or>
      \<not> po_hard_free_memory_bytes policy \<le> sn_available_memory_bytes snapshot \<and>
      evict_in_transaction i snapshot policy ?m now s = (Inr vs, t)"
    using run Inr by (auto simp: violations_for_snapshot_def immediate_transaction_def split: sum.splits if_splits prod.splits)
  let ?quiet = "po_hard_free_memory_bytes policy \<le> sn_available_memory_bytes snapshot \<or>
    (case latest_violation_created_at ''hard_memory_floor'' s of None \<Rightarrow> False | Some q \<Rightarrow> now - q < 6000) \<or>
    eviction_candidates now ?m s = []"
  have grace: "1000 * eviction_grace_seconds = 6000" by (simp add: eviction_grace_seconds_def)
  note outcome = evict_outcome [of i snapshot policy ?m now s vs t, unfolded grace]
  show ?thesis
  proof (cases ?quiet)
    case True
    have "vs = [] \<and> t = s" using vs outcome True by (elim disjE conjE) simp_all
    with True policy show ?thesis unfolding Inr sum.case by (intro exI [of _ policy]) simp
  next
    case False
    then have tx: "evict_in_transaction i snapshot policy ?m now s = (Inr vs, t)" using vs by blast
    from outcome [OF this] False obtain v where v: "vs = [v]" by (metis (no_types, lifting))
    note worst = evicted_is_the_worst [OF tx [unfolded v] ids jobs]
    show ?thesis unfolding Inr sum.case v
    proof (intro exI [of _ policy] conjI policy, subst if_not_P [OF False])
      from worst obtain victim where victim: "victim \<in> set (active_leases now s) \<and>
          \<not> wp_essential (profile_of (rz_workload_class victim)) \<and>
          rz_id victim \<notin> leases_with_unresolved_violation ''cancel_non_essential_workload'' s \<and>
          (\<forall>l \<in> set (eviction_candidates now ?m s). \<not> worse (case usage of Some (Some m) \<Rightarrow> m | _ \<Rightarrow> []) l victim) \<and>
          vw_lease_id v = rz_id victim \<and> t = s\<lparr>hs_violations := hs_violations s @ [v]\<rparr> \<and>
          cancellation_reason (rz_execution_id victim) jobs \<noteq> None \<and>
          (\<forall>j policy m later. later < now + 6000 \<longrightarrow> evict_in_transaction j snapshot policy m later t = (Inr [], t))" ..
      show "\<exists>victim w. [v] = [w] \<and> victim \<in> set (active_leases now s) \<and>
          \<not> wp_essential (profile_of (rz_workload_class victim)) \<and>
          rz_id victim \<notin> leases_with_unresolved_violation ''cancel_non_essential_workload'' s \<and>
          (\<forall>l \<in> set (eviction_candidates now ?m s). \<not> worse (case usage of Some (Some m) \<Rightarrow> m | _ \<Rightarrow> []) l victim) \<and>
          vw_lease_id w = rz_id victim \<and> t = s\<lparr>hs_violations := hs_violations s @ [w]\<rparr> \<and>
          cancellation_reason (rz_execution_id victim) jobs \<noteq> None \<and>
          (\<forall>j policy m later. later < now + 6000 \<longrightarrow> evict_in_transaction j snapshot policy m later t = (Inr [], t))"
        by (intro exI [of _ victim] exI [of _ v] conjI [OF refl victim])
    qed
  qed
qed

end
