(* ===== verification/Host_Witnesses.thy ===== *)
theory Host_Witnesses
  imports Host_Eviction
begin

text \<open>
  A host with the default settings on which the properties of the settings plane and of the governor
  apply: a short test run is admitted, its lease expires while its process still runs, and memory
  falls below the hard floor.
\<close>

section \<open>The settings plane\<close>

definition plain_settings :: settings_env where
  "plain_settings = \<lparr>se_decision_ok = (\<lambda>_ _. True), se_search_url = (\<lambda>s. Some s)\<rparr>"

definition containerized :: string where
  "containerized = ''project.runtime.containerized''"

definition stored_once :: settings_store where
  "stored_once = snd (put_setting plain_settings containerized ''project'' (Some ''p'') (JVal (PStr '' Yes '')) 7 no_settings)"

lemma stored_once_runs:
  "put_setting plain_settings containerized ''project'' (Some ''p'') (JVal (PStr '' Yes '')) 7 no_settings = (Inr (), stored_once)"
  "get_value containerized ''project'' (Some ''p'') (ss_rows no_settings) = None"
  "fst (delete_setting containerized ''project'' (Some ''p'') stored_once) = Inr ()"
  "resolve_setting_value (ss_rows stored_once) containerized (Some ''p'') = Some (JVal (PBool True))"
  "resolve_setting_value (ss_rows no_settings) containerized (Some ''p'') = Some (JVal (PBool False))"
  by code_simp+

text \<open>The override is changed before it is deleted.\<close>

definition stored_twice :: settings_store where
  "stored_twice = snd (put_setting plain_settings containerized ''project'' (Some ''p'') (JVal (PBool False)) 8 stored_once)"

lemma stored_twice_runs:
  "put_setting plain_settings containerized ''project'' (Some ''p'') (JVal (PBool False)) 8 stored_once = (Inr (), stored_twice)"
  "fst (delete_setting containerized ''project'' (Some ''p'') stored_twice) = Inr ()"
  "resolve_setting_value (ss_rows stored_twice) containerized (Some ''p'') = Some (JVal (PBool False))"
  by code_simp+

lemma override_and_revert_witness:
  "resolve_setting_value (ss_rows stored_once) containerized (Some ''p'') = Some (JVal (PBool True)) \<and>
   resolve_setting_value (ss_rows (snd (delete_setting containerized ''project'' (Some ''p'') stored_once)))
     containerized (Some ''p'') = Some (JVal (PBool False)) \<and>
   resolve_setting_value (ss_rows stored_twice) containerized (Some ''p'') = Some (JVal (PBool False)) \<and>
   resolve_setting_value (ss_rows (snd (delete_setting containerized ''project'' (Some ''p'') stored_twice)))
     containerized (Some ''p'') = resolve_setting_value (ss_rows stored_twice) containerized None"
proof -
  have "delete_setting containerized ''project'' (Some ''p'') stored_once =
      (Inr (), snd (delete_setting containerized ''project'' (Some ''p'') stored_once))"
    using stored_once_runs(3) by (metis prod.collapse)
  moreover have "delete_setting containerized ''project'' (Some ''p'') stored_twice =
      (Inr (), snd (delete_setting containerized ''project'' (Some ''p'') stored_twice))"
    using stored_twice_runs(2) by (metis prod.collapse)
  ultimately show ?thesis
    using override_and_revert [OF stored_once_runs(1)] override_and_revert [OF stored_twice_runs(1)]
      stored_once_runs(2,4,5) stored_twice_runs(3) by simp
qed

lemma no_settings_ordered: "floors_ordered (ss_rows no_settings)"
  by (simp add: at_most_unless_nan_def floors_ordered_def stored_floor_def get_value_def no_settings_def floor_descriptors)

lemma memory_floors_put_and_delete_witness:
  "floors_ordered (ss_rows no_settings) \<and> floors_ordered (ss_rows stored_once) \<and>
   (\<exists>s0 s1 s2 s3. put_setting plain_settings min_memory_key ''general'' None (JVal (PInt 30)) 7 s0 = (Inr (), s1) \<and>
     put_setting plain_settings hard_memory_key ''general'' None (JVal (PInt 20)) 7 s1 = (Inr (), s2) \<and>
     delete_setting min_memory_key ''general'' None s2 = (Inr (), s3) \<and>
     ss_rows s0 = [] \<and> floors_ordered (ss_rows s2) \<and> \<not> floors_ordered (ss_rows s3)) \<and>
   (\<exists>s0 s1 s2. put_setting plain_settings min_memory_key ''general'' None (JVal (PStr ''nan'')) 7 s0 = (Inr (), s1) \<and>
     put_setting plain_settings hard_memory_key ''general'' None (JVal (PInt 1000)) 7 s1 = (Inr (), s2) \<and>
     ss_rows s0 = [] \<and> stored_floor min_memory_key (ss_rows s2) = Inr NotANumber \<and>
     stored_floor hard_memory_key (ss_rows s2) = Inr (Fin 1000))"
  using memory_floors_put_and_delete [of no_settings plain_settings containerized "''project''" "Some ''p''"
      "JVal (PStr '' Yes '')" 7 stored_once] stored_once_runs(1) no_settings_ordered by (simp only: simp_thms)

section \<open>The default policy\<close>

definition idle_snapshot :: resource_snapshot where
  "idle_snapshot = \<lparr>sn_sampled_at = 0, sn_cpu_percent_1s = 10, sn_cpu_percent_30s = 10, sn_logical_processors = 8,
     sn_total_memory_bytes = 64 * gib, sn_available_memory_bytes = 32 * gib, sn_committed_memory_bytes = None,
     sn_commit_limit_bytes = None, sn_swap_or_pagefile_used_bytes = 0, sn_disk_free_bytes = [(''test'', 200 * gib)],
     sn_disk_total_bytes = [], sn_disk_read_bytes_per_second = 0, sn_disk_write_bytes_per_second = 0,
     sn_gpu_utilization_percent = None, sn_gpu_memory_used_bytes = None, sn_gpu_memory_free_bytes = None,
     sn_active_aido_process_count = 0, sn_active_workloads = [], sn_unreal_editor_running = False,
     sn_docker_running = False, sn_wsl_running = False, sn_ollama_running = False\<rparr>"

definition default_policy :: "py_float \<Rightarrow> resource_policy" where
  "default_policy cpu = \<lparr>po_profile = ''development'', po_max_heavy_workloads = 1, po_max_light_workloads = 2,
     po_min_free_memory_bytes = 16 * gib, po_hard_free_memory_bytes = 8 * gib, po_min_free_disk_bytes = 50 * gib,
     po_max_cpu_percent = cpu, po_unreal_reserve_memory_bytes = 20 * gib,
     po_block_local_gpu_when_unreal = True, po_sample_interval_seconds = Fin 2\<rparr>"

definition number_default :: "string \<Rightarrow> int \<Rightarrow> bool" where
  "number_default k n = (case descriptor_for k of None \<Rightarrow> False | Some d \<Rightarrow>
     sd_key d = k \<and> sd_type d = ''number'' \<and> sd_default d = PInt n \<and> n \<le> 1000 \<and> 0 \<le> n \<and>
     (case sd_minimum d of None \<Rightarrow> False | Some lo \<Rightarrow> lo \<le> of_int n) \<and>
     (case sd_maximum d of None \<Rightarrow> False | Some hi \<Rightarrow> of_int n \<le> hi) \<and>
     \<not> has_prefix ''decision_engine.'' k \<and> k \<noteq> ''research.webSearch.baseUrl'')"

lemma default_number:
  assumes "number_default k n" "get_value k ''general'' None rows = None"
  shows "float_setting env rows k = Inr (Fin (of_int n))"
proof -
  obtain d lo hi where d: "descriptor_for k = Some d" "sd_key d = k" "sd_type d = ''number''" "sd_default d = PInt n"
      "n \<le> 1000" "0 \<le> n" "sd_minimum d = Some lo" "sd_maximum d = Some hi" "lo \<le> of_int n" "of_int n \<le> hi"
    and plain: "\<not> has_prefix ''decision_engine.'' k" "k \<noteq> ''research.webSearch.baseUrl''"
    using assms(1) by (auto simp: number_default_def split: option.splits)
  have "validate_number d (JVal (PInt n)) = Inr (JVal (PFloat (of_int n)))"
    using d by (simp add: validate_number_def of_float_def)
  then have "validate_value env d (JVal (PInt n)) = Inr (JVal (PFloat (of_int n)))"
    using d plain by (simp add: validate_value_def validate_typed_def)
  then show ?thesis by (simp add: float_setting_def resource_setting_def assms(2) d Let_def try_then_def)
qed

lemma resource_defaults:
  "number_default ''resources.maxHeavyWorkloads'' 1" "number_default ''resources.maxLightWorkloads'' 2"
  "number_default ''resources.minFreeMemoryGiB'' 16" "number_default ''resources.hardFreeMemoryGiB'' 8"
  "number_default ''resources.minFreeDiskGiB'' 50" "number_default ''resources.minFreeDiskPercent'' 5"
  "number_default ''resources.maxCpuPercent'' 65" "number_default ''resources.unrealReserveMemoryGiB'' 20"
  "number_default ''resources.sampleIntervalSeconds'' 2"
  by code_simp+

lemma resource_texts:
  assumes "\<And>k. k \<noteq> ''resources.maxCpuPercent'' \<Longrightarrow> get_value k ''general'' None rows = None"
  shows "resource_setting env rows ''resources.profile'' = Inr (JVal (PStr ''auto''))"
    "resource_setting env rows ''resources.blockLocalGpuWhenUnreal'' = Inr (JVal (PBool True))"
    "is_configured env rows ''resources.minFreeDiskGiB'' = Inr False"
proof -
  have p: "descriptor_for ''resources.profile'' = Some (descriptor ''resources.profile'' ''resources'' None ''enum''
      (PStr ''auto'') (Some [''auto'', ''interactive_unreal'', ''development'', ''idle_validation''])
      ''app.settings.resources.profile'' None None)" "\<not> has_prefix ''decision_engine.'' ''resources.profile''"
    by code_simp+
  have b: "descriptor_for ''resources.blockLocalGpuWhenUnreal'' = Some (descriptor ''resources.blockLocalGpuWhenUnreal''
      ''resources'' None ''boolean'' (PBool True) None ''app.settings.resources.blockLocalGpuWhenUnreal'' None None)"
    "\<not> has_prefix ''decision_engine.'' ''resources.blockLocalGpuWhenUnreal''" by code_simp+
  have g: "get_value ''resources.profile'' ''general'' None rows = None"
    "get_value ''resources.blockLocalGpuWhenUnreal'' ''general'' None rows = None"
    "get_value ''resources.minFreeDiskGiB'' ''general'' None rows = None" by (rule assms; simp)+
  show "resource_setting env rows ''resources.profile'' = Inr (JVal (PStr ''auto''))"
    by (simp add: resource_setting_def p g validate_value_def validate_typed_def Let_def)
  show "resource_setting env rows ''resources.blockLocalGpuWhenUnreal'' = Inr (JVal (PBool True))"
    by (simp add: resource_setting_def b g validate_value_def validate_typed_def validate_boolean_def Let_def)
  show "is_configured env rows ''resources.minFreeDiskGiB'' = Inr False"
    by (simp add: is_configured_def g split: option.splits)
qed

lemma policy_of_defaults:
  assumes rows: "\<And>k. k \<noteq> ''resources.maxCpuPercent'' \<Longrightarrow> get_value k ''general'' None rows = None"
    and cpu: "float_setting env rows ''resources.maxCpuPercent'' = Inr x"
    and snapshot: "\<not> sn_unreal_editor_running snapshot" "sn_disk_total_bytes snapshot = []"
  shows "resolve_resource_policy env rows snapshot = Inr (default_policy x)"
proof -
  have number: "float_setting env rows k = Inr (Fin (of_int n))"
    if "number_default k n" "k \<noteq> ''resources.maxCpuPercent''" for k n
    by (rule default_number [OF that(1) rows [OF that(2)]])
  have f: "float_setting env rows ''resources.maxHeavyWorkloads'' = Inr (Fin 1)"
    "float_setting env rows ''resources.maxLightWorkloads'' = Inr (Fin 2)"
    "float_setting env rows ''resources.minFreeMemoryGiB'' = Inr (Fin 16)"
    "float_setting env rows ''resources.hardFreeMemoryGiB'' = Inr (Fin 8)"
    "float_setting env rows ''resources.minFreeDiskGiB'' = Inr (Fin 50)"
    "float_setting env rows ''resources.minFreeDiskPercent'' = Inr (Fin 5)"
    "float_setting env rows ''resources.unrealReserveMemoryGiB'' = Inr (Fin 20)"
    "float_setting env rows ''resources.sampleIntervalSeconds'' = Inr (Fin 2)"
    using number [OF resource_defaults(1)] number [OF resource_defaults(2)] number [OF resource_defaults(3)]
      number [OF resource_defaults(4)] number [OF resource_defaults(5)] number [OF resource_defaults(6)]
      number [OF resource_defaults(8)] number [OF resource_defaults(9)] by simp_all
  have bytes: "bytes_of_gib (Fin (of_int n)) = Inr (n * gib)" if "0 \<le> n" for n
  proof -
    have "of_int n * of_int gib = (of_int (n * gib) :: rat)" by simp
    then show ?thesis
      by (simp only: bytes_of_gib_def float_scale_def float_int_def py_float.case floor_of_int ceiling_of_int if_cancel)
  qed
  have b: "bytes_of_gib (Fin 16) = Inr (16 * gib)" "bytes_of_gib (Fin 8) = Inr (8 * gib)"
    "bytes_of_gib (Fin 50) = Inr (50 * gib)" "bytes_of_gib (Fin 20) = Inr (20 * gib)"
    using bytes [of 16] bytes [of 8] bytes [of 50] bytes [of 20] by simp_all
  have disk: "effective_min_free_disk_bytes env rows snapshot = Inr (50 * gib)"
    by (simp add: effective_min_free_disk_bytes_def f b resource_texts [OF rows] snapshot try_then_def)
  have ints: "int_setting env rows ''resources.maxHeavyWorkloads'' = Inr 1" "int_setting env rows ''resources.maxLightWorkloads'' = Inr 2"
    by (simp_all add: int_setting_def f try_then_def float_int_def)
  show ?thesis
    by (simp add: resolve_resource_policy_def f b disk ints cpu resource_texts [OF rows] snapshot try_then_def Let_def
        effective_profile_def setting_text_def setting_flag_def default_policy_def)
qed

section \<open>Admission on that host\<close>

definition host_env :: job_env where
  "host_env = \<lparr>je_scrub = (\<lambda>s. s), je_other = (\<lambda>_. []), je_binding = (\<lambda>_ _. ''h''), je_stem = (\<lambda>s. s),
     je_summary = (\<lambda>_. []), je_same_path = (=)\<rparr>"

definition no_jobs :: ops_store where
  "no_jobs = \<lparr>os_jobs = [], os_runs = [], os_actions = [], os_grants = [], os_attention = [], os_executions = [],
     os_processes = [], os_controls = [], os_violations = [], os_agent_runs = [], os_evidence = [],
     os_admission_reasons = [], os_events = [], os_audits = [],
     os_leadership = \<lparr>lw_leases = [], lw_heartbeats = [], lw_controls = []\<rparr>\<rparr>"

definition host0 :: host_store where
  "host0 = \<lparr>hs_leases = [], hs_admissions = [], hs_violations = [], hs_samples = [], hs_processes = [],
     hs_containers = [], hs_settings = [], hs_threads = [], hs_thread_events = [], hs_ops = no_jobs\<rparr>"

definition qa_request :: admission_request where
  "qa_request = \<lparr>rq_execution_id = ''e'', rq_workload_class = QaLight, rq_owner_id = ''o'', rq_job_id = Some ''e'',
     rq_parent_execution_id = None, rq_lease_seconds = 300\<rparr>"

definition qa_lease :: resource_lease where
  "qa_lease = new_lease ''l'' qa_request (profile_of QaLight) 1000 301000"

definition host1 :: host_store where
  "host1 = snd (admit plain_settings host_env ''l'' ''d'' qa_request idle_snapshot 1000 host0)"

lemma default_cpu: "float_setting env [] ''resources.maxCpuPercent'' = Inr (Fin 65)"
  using default_number [OF resource_defaults(7), of "[]" env] by (simp add: get_value_def)

lemma small_instant: "0 \<le> t \<Longrightarrow> t < 10000000 \<Longrightarrow> valid_instant t"
  by (simp add: valid_instant_def max_instant_def days_through_def day_ms_def)

lemma host0_policy: "resolve_resource_policy plain_settings [] idle_snapshot = Inr (default_policy (Fin 65))"
  by (rule policy_of_defaults) (simp_all add: default_cpu get_value_def idle_snapshot_def)

lemma host0_accepts: "refusal QaLight [] idle_snapshot (default_policy (Fin 65)) = None"
  by (simp add: refusal_def host_refusal_def lease_refusal_def Let_def profile_def default_policy_def idle_snapshot_def
      blocks_local_inference_def local_inference_classes_def heavy_count_def light_count_def cpu_exceeded_def
      reserved_cpu_def admission_memory_bytes_def gib_def)

lemma host1_leases: "hs_leases host1 = [qa_lease]" "hs_settings host1 = []" "hs_violations host1 = []"
  by (simp_all add: host1_def host0_def admit_def host0_policy admit_in_transaction_def immediate_transaction_def
      recover_expired_def expired_ids_def active_lease_for_execution_def active_leases_def decide_def host0_accepts
      create_lease_def lease_conflict_def shift_instant_def small_instant
      set_job_status_def find_job_def no_jobs_def record_admission_def latest_row_def get_lease_def and_then_def ret_def Let_def
      qa_request_def qa_lease_def new_lease_def)

lemma host1_kept: "reach (idle_host numeric plain_settings) (kept_step numeric plain_settings host_env) host1"
proof (rule reach_step)
  show "reach (idle_host numeric plain_settings) (kept_step numeric plain_settings host_env) host0"
    by (rule reach_init) (simp add: idle_host_def host0_def cpu_is_number_def default_cpu)
  have "host_step plain_settings host_env host0 host1" unfolding host1_def by (rule h_admit)
  then show "kept_step numeric plain_settings host_env host0 host1"
    by (simp add: kept_step_def host1_leases cpu_is_number_def default_cpu)
qed

lemma host1_reachable: "host_reachable plain_settings host_env host1" "host_reachable_numeric plain_settings host_env host1"
  unfolding host_reachable_def host_reachable_numeric_def by (rule host1_kept)+

lemma host_capacity_respected_witness:
  "open_classes host1 = [QaLight] \<and> slots_respected (open_classes host1) \<and>
   reserved_cpu (open_leases host1) \<le> 95 \<and> distinct (map rz_execution_id (open_leases host1))"
  using host_capacity_respected [OF host1_reachable(1)] host1_reachable(2)
  by (simp add: open_classes_def open_leases_def host1_leases qa_lease_def new_lease_def qa_request_def)

text \<open>The process of the execution still runs when its lease has expired.\<close>

definition host2 :: host_store where
  "host2 = host1\<lparr>hs_processes := [\<lparr>np_execution_id = ''e'', np_resource_lease_id = Some ''l'', np_finished_at = None\<rparr>],
     hs_containers := []\<rparr>"

lemma host2_reachable: "host_reachable plain_settings host_env host2"
  using host1_reachable(1) unfolding host_reachable_def host2_def
  by (rule reach_step) (simp add: kept_step_def h_native)

lemma host2_leases: "hs_leases host2 = [qa_lease]" "hs_settings host2 = []" "rz_id qa_lease \<in> native_lease_ids host2"
  by (simp_all add: host2_def host1_leases native_lease_ids_def qa_lease_def new_lease_def List.map_filter_simps)

lemma host2_recover: "recover_expired 400000 host2 = (Inr [], host2)"
  using host2_leases(3)
  by (simp add: recover_expired_def expired_ids_def host2_leases(1) and_then_def ret_def Let_def)

lemma host2_accepts: "refusal QaLight (active_leases 400000 host2) idle_snapshot (default_policy (Fin 65)) = None"
  using host2_leases(3)
  by (simp add: active_leases_def host2_leases(1) refusal_def host_refusal_def lease_refusal_def Let_def
      profile_def default_policy_def idle_snapshot_def blocks_local_inference_def local_inference_classes_def
      heavy_count_def light_count_def cpu_exceeded_def reserved_cpu_def admission_memory_bytes_def
      qa_lease_def new_lease_def qa_request_def reserved_bytes_def gib_def)

lemma readmission_of_a_held_lease_fails_witness:
  "rq_job_id qa_request = Some ''e'' \<and> admit plain_settings host_env ''m'' ''d2'' qa_request idle_snapshot 400000 host2 = (Inl UniqueViolation, host2)"
proof -
  have l: "qa_lease \<in> set (open_leases host2)"
    by (simp add: open_leases_def host2_leases(1)) (simp add: qa_lease_def new_lease_def)
  have e: "rz_execution_id qa_lease = rq_execution_id qa_request" "rz_expires_at qa_lease \<le> 400000"
    by (simp_all add: qa_lease_def new_lease_def)
  have p: "resolve_resource_policy plain_settings (hs_settings host2) idle_snapshot = Inr (default_policy (Fin 65))"
    by (simp add: host2_leases(2) host0_policy)
  have c: "valid_instant (400000 + 1000 * rq_lease_seconds qa_request)" "rq_workload_class qa_request = QaLight"
    by (simp_all add: qa_request_def small_instant)
  show ?thesis
    using readmission_of_a_held_lease_fails [OF host2_reachable l host2_leases(3) e p c(1), of "''m''" "''d2''"]
    by (simp only: c(2) host2_recover snd_conv host2_accepts option.case) (simp add: qa_request_def)
qed

section \<open>Not a number\<close>

lemma nan_disables_the_cpu_budget_witness:
  "\<exists>t policy. put_setting plain_settings ''resources.maxCpuPercent'' ''general'' None (JVal (PStr ''nan'')) 7 no_settings =
      (Inr (), t) \<and> resolve_resource_policy plain_settings (ss_rows t) idle_snapshot = Inr policy \<and>
      \<not> cpu_exceeded UnrealCook [qa_lease, qa_lease] policy"
proof -
  obtain t where t: "put_setting plain_settings ''resources.maxCpuPercent'' ''general'' None (JVal (PStr ''nan'')) 7
      no_settings = (Inr (), t)"
    and n: "\<And>snapshot policy c active. resolve_resource_policy plain_settings (ss_rows t) snapshot = Inr policy \<Longrightarrow>
      \<not> cpu_exceeded c active policy"
    using nan_disables_the_cpu_budget [of plain_settings 7 no_settings] by blast
  obtain d c where d: "descriptor_for ''resources.maxCpuPercent'' = Some d" "validate_value plain_settings d (JVal (PStr ''nan'')) = Inr c"
    and rows: "ss_rows t = write_key ''operator'' 7 (''resources.maxCpuPercent'', ''general'', []) c []"
    using t by (rule put_settingE) (auto simp: set_value_key encode_scope_id_def no_settings_def)
  have "d = descriptor ''resources.maxCpuPercent'' ''resources'' None ''number'' (PInt 65) None
      ''app.settings.resources.maxCpuPercent'' (Some 1) (Some 95)" using d(1) by (simp add: descriptor_cpu)
  with d(2) have c: "c = JNaN"
    by (simp add: validate_value_def validate_typed_def validate_number_def to_float_def
        nan_text of_float_def plain_key split: if_splits)
  have cpu: "float_setting plain_settings (ss_rows t) ''resources.maxCpuPercent'' = Inr NotANumber"
    by (simp add: float_setting_def resource_setting_def descriptor_cpu get_value_key rows rows.get_put encode_scope_id_def
        c Let_def validate_value_def validate_typed_def validate_number_def plain_key to_float_def of_float_def try_then_def)
  have "get_value k ''general'' None (ss_rows t) = None" if "k \<noteq> ''resources.maxCpuPercent''" for k
    using that by (simp add: get_value_key rows rows.get_put encode_scope_id_def) (simp add: read_key_def)
  then have p: "resolve_resource_policy plain_settings (ss_rows t) idle_snapshot = Inr (default_policy NotANumber)"
    by (rule policy_of_defaults) (simp_all add: cpu idle_snapshot_def)
  with t n show ?thesis by blast
qed

section \<open>Eviction\<close>

definition pressed :: resource_snapshot where
  "pressed = idle_snapshot\<lparr>sn_available_memory_bytes := 4 * gib\<rparr>"

definition pressed_run :: "(host_error + violation_row list) \<times> host_store" where
  "pressed_run = violations_for_snapshot plain_settings ''v'' pressed None 2000 host1"

lemma pressed_policy: "resolve_resource_policy plain_settings [] pressed = Inr (default_policy (Fin 65))"
  by (rule policy_of_defaults) (simp_all add: default_cpu get_value_def pressed_def idle_snapshot_def)

lemma pressed_memory: "sn_available_memory_bytes pressed < po_hard_free_memory_bytes (default_policy (Fin 65))"
  by (simp add: pressed_def default_policy_def gib_def)

lemma pressed_evicts: "\<exists>v t. pressed_run = (Inr [v], t)"
  using pressed_memory
  by (simp add: pressed_run_def violations_for_snapshot_def host1_leases pressed_policy evict_in_transaction_def
      latest_violation_created_at_def eviction_candidates_def leases_with_unresolved_violation_def active_leases_def
      rank_eviction_candidates_def record_violation_def immediate_transaction_def and_then_def ret_def Let_def
      qa_lease_def new_lease_def qa_request_def profile_def)

lemma eviction_takes_the_worst_witness:
  "length (hs_violations (snd pressed_run)) = 1 \<and>
   cancellation_reason ''e'' (no_jobs\<lparr>os_violations := joined_violations (snd pressed_run)\<rparr>) \<noteq> None"
proof -
  obtain v t where run: "pressed_run = (Inr [v], t)" using pressed_evicts by blast
  have ids: "distinct (map rz_id (hs_leases host1))" by (simp add: host1_leases)
  let ?jobs = "no_jobs\<lparr>os_violations := joined_violations t\<rparr>"
  have jobs: "os_violations ?jobs = joined_violations t" by simp
  have "\<exists>victim. victim \<in> set (active_leases 2000 host1) \<and> t = host1\<lparr>hs_violations := hs_violations host1 @ [v]\<rparr> \<and>
    cancellation_reason (rz_execution_id victim) ?jobs \<noteq> None"
    using eviction_takes_the_worst [OF run [unfolded pressed_run_def] ids jobs] by (auto split: if_splits)
  then obtain victim where victim: "victim \<in> set (active_leases 2000 host1)"
    "t = host1\<lparr>hs_violations := hs_violations host1 @ [v]\<rparr>" "cancellation_reason (rz_execution_id victim) ?jobs \<noteq> None" by blast
  moreover have "rz_execution_id victim = ''e''"
    using victim(1) by (simp add: active_leases_def host1_leases qa_lease_def new_lease_def qa_request_def split: if_splits)
  moreover have "snd pressed_run = t" by (simp add: run)
  ultimately show ?thesis by (simp add: host1_leases)
qed

end
