(* ===== verification/Image_Headers.thy ===== *)
theory Image_Headers
  imports AIDO_Prelude "HOL-Library.Word"
begin

text \<open>
  \<open>evidence/image_validation.py\<close>: the header check of PNG and JPEG artifacts. Bytes are 8-bit words.
  The walk over the JPEG segments is a \<open>partial_function\<close>, whose value \<open>None\<close> is not to return;
  every read by index is behind a bound check, so that no \<open>IndexError\<close> is a branch.
\<close>

type_synonym bytes = "8 word list"

datatype image_error = ImageSizeInvalid | ImageMediaInvalid | ImageDimensionsInvalid

definition image_code :: "image_error \<Rightarrow> string" where
  "image_code e = (case e of ImageSizeInvalid \<Rightarrow> ''image_size_invalid'' | ImageMediaInvalid \<Rightarrow> ''image_media_invalid''
     | ImageDimensionsInvalid \<Rightarrow> ''image_dimensions_invalid'')"

definition max_image_bytes :: nat where "max_image_bytes = 16 * 1024 * 1024"
definition max_image_dimension :: nat where "max_image_dimension = 8192"
definition max_image_pixels :: nat where "max_image_pixels = 32000000"

definition jpeg_start_of_frame_markers :: "8 word set" where
  "jpeg_start_of_frame_markers = {0xC0, 0xC1, 0xC2, 0xC3, 0xC5, 0xC6, 0xC7, 0xC9, 0xCA, 0xCB, 0xCD, 0xCE, 0xCF}"

text \<open>\<^verbatim>\<open>content[a:b]\<close> and \<open>int.from_bytes(b, "big")\<close>.\<close>

definition slice_bytes :: "nat \<Rightarrow> nat \<Rightarrow> bytes \<Rightarrow> bytes" where
  "slice_bytes a b content = take (b - a) (drop a content)"

definition from_big :: "bytes \<Rightarrow> nat" where
  "from_big bs = foldl (\<lambda>n b. 256 * n + unat b) 0 bs"

function skip_fill :: "bytes \<Rightarrow> nat \<Rightarrow> nat" where
  "skip_fill content offset =
     (if offset < length content \<and> content ! offset = 0xFF then skip_fill content (offset + 1) else offset)"
  by pat_completeness auto
termination by (relation "measure (\<lambda>(content, offset). length content - offset)") auto

declare skip_fill.simps [simp del]

partial_function (option) jpeg_segments :: "bytes \<Rightarrow> nat \<Rightarrow> (image_error + nat \<times> nat) option" where
  "jpeg_segments content offset =
     (if \<not> offset < length content then Some (Inl ImageMediaInvalid)
      else if content ! offset \<noteq> 0xFF then Some (Inl ImageMediaInvalid)
      else if skip_fill content offset \<ge> length content then Some (Inl ImageMediaInvalid)
      else let marker = content ! skip_fill content offset; offset = skip_fill content offset + 1 in
        if marker \<in> {0x01, 0xD8, 0xD9} then jpeg_segments content offset
        else if offset + 2 > length content then Some (Inl ImageMediaInvalid)
        else let segment_length = from_big (slice_bytes offset (offset + 2) content) in
          if segment_length < 2 \<or> offset + segment_length > length content then Some (Inl ImageMediaInvalid)
          else if marker \<in> jpeg_start_of_frame_markers then
            (if segment_length < 7 then Some (Inl ImageMediaInvalid)
             else Some (Inr (from_big (slice_bytes (offset + 5) (offset + 7) content),
                             from_big (slice_bytes (offset + 3) (offset + 5) content))))
          else if marker = 0xDA then Some (Inl ImageMediaInvalid)
          else jpeg_segments content (offset + segment_length))"

definition jpeg_dimensions :: "bytes \<Rightarrow> (image_error + nat \<times> nat) option" where
  "jpeg_dimensions content = jpeg_segments content 2"

definition check_dimensions :: "string \<Rightarrow> string \<Rightarrow> nat \<Rightarrow> nat \<Rightarrow> image_error + string \<times> string \<times> nat \<times> nat" where
  "check_dimensions mime suffix width height =
     (if width \<le> 0 \<or> height \<le> 0 \<or> width > max_image_dimension \<or> height > max_image_dimension \<or>
         width * height > max_image_pixels then Inl ImageDimensionsInvalid
      else Inr (mime, suffix, width, height))"

definition starts_with :: "bytes \<Rightarrow> bytes \<Rightarrow> bool" where
  "starts_with content p = (take (length p) content = p)"

definition inspect_image :: "bytes \<Rightarrow> (image_error + string \<times> string \<times> nat \<times> nat) option" where
  "inspect_image content =
     (if content = [] \<or> length content > max_image_bytes then Some (Inl ImageSizeInvalid)
      else if starts_with content [0x89, 0x50, 0x4E, 0x47, 0x0D, 0x0A, 0x1A, 0x0A] then
        (if length content < 24 \<or> slice_bytes 12 16 content \<noteq> [0x49, 0x48, 0x44, 0x52]
         then Some (Inl ImageMediaInvalid)
         else Some (check_dimensions ''image/png'' ''.png'' (from_big (slice_bytes 16 20 content))
                      (from_big (slice_bytes 20 24 content))))
      else if starts_with content [0xFF, 0xD8] then
        map_option (\<lambda>r. case r of Inl e \<Rightarrow> Inl e
          | Inr (width, height) \<Rightarrow> check_dimensions ''image/jpeg'' ''.jpg'' width height) (jpeg_dimensions content)
      else Some (Inl ImageMediaInvalid))"

text \<open>\<open>read_validated_image\<close> over the content of the file, which it reads up to one byte past the cap.\<close>

definition read_validated_image :: "bytes \<Rightarrow> (image_error + bytes \<times> string \<times> string \<times> nat \<times> nat) option" where
  "read_validated_image file =
     (let content = take (max_image_bytes + 1) file in
      map_option (\<lambda>r. case r of Inl e \<Rightarrow> Inl e | Inr x \<Rightarrow> Inr (content, x)) (inspect_image content))"

section \<open>The walk ends\<close>

lemma skip_fill_ge: "offset \<le> skip_fill content offset"
proof (induction content offset rule: skip_fill.induct)
  case (1 content offset)
  then show ?case by (subst skip_fill.simps) auto
qed

lemma jpeg_segments_returns: "\<exists>r. jpeg_segments content offset = Some r"
proof (induction "length content - offset" arbitrary: offset rule: less_induct)
  case less
  let ?k = "skip_fill content offset + 1"
  have next': "\<exists>r. jpeg_segments content (?k + n) = Some r" if "offset < length content" for n
    using that skip_fill_ge [of offset content] by (intro less) simp
  show ?case
    using next' [of 0] next' by (subst jpeg_segments.simps) (auto simp: Let_def)
qed

section \<open>Well formed files\<close>

definition big16 :: "nat \<Rightarrow> bytes" where
  "big16 n = [word_of_nat (n div 256), word_of_nat (n mod 256)]"

lemma length_big16 [simp]: "length (big16 n) = 2"
  by (simp add: big16_def)

lemma from_big16: "n < 65536 \<Longrightarrow> from_big (big16 n) = n"
  by (simp add: from_big_def big16_def unat_of_nat take_bit_eq_mod)

text \<open>A marker is preceded by one or more fill bytes; a segment carries its length and its payload.\<close>

datatype jpeg_part = Standalone nat "8 word" | Segment nat "8 word" bytes

fun part_bytes :: "jpeg_part \<Rightarrow> bytes" where
  "part_bytes (Standalone fill marker) = replicate (Suc fill) 0xFF @ [marker]"
| "part_bytes (Segment fill marker payload) =
     replicate (Suc fill) 0xFF @ marker # big16 (length payload + 2) @ payload"

fun part_ok :: "jpeg_part \<Rightarrow> bool" where
  "part_ok (Standalone fill marker) = (marker \<in> {0x01, 0xD8, 0xD9})"
| "part_ok (Segment fill marker payload) =
     (marker \<notin> {0x01, 0xD8, 0xD9, 0xDA, 0xFF} \<union> jpeg_start_of_frame_markers \<and> length payload + 2 < 65536)"

definition frame_bytes :: "nat \<Rightarrow> 8 word \<Rightarrow> 8 word \<Rightarrow> nat \<Rightarrow> nat \<Rightarrow> bytes \<Rightarrow> bytes" where
  "frame_bytes fill marker precision width height components =
     replicate (Suc fill) 0xFF @ marker # big16 (length components + 7) @ precision # big16 height @ big16 width @ components"

lemma skip_fill_run:
  assumes "b \<noteq> 0xFF"
  shows "skip_fill (pre @ replicate n 0xFF @ b # post) (length pre) = length pre + n"
proof (induction n arbitrary: pre)
  case 0
  then show ?case using assms by (subst skip_fill.simps) simp
next
  case (Suc n)
  from Suc.IH [of "pre @ [0xFF]"] show ?case
    by (subst skip_fill.simps) simp
qed

lemma slice_append: "slice_bytes (length pre) (length pre + length mid) (pre @ mid @ post) = mid"
  by (simp add: slice_bytes_def)

text \<open>One round of the walk at a marker.\<close>

lemma at_marker:
  assumes "marker \<noteq> 0xFF"
  shows "jpeg_segments (pre @ replicate (Suc fill) 0xFF @ marker # post) (length pre) =
    (let content = pre @ replicate (Suc fill) 0xFF @ marker # post; offset = length pre + fill + 2 in
     if marker \<in> {0x01, 0xD8, 0xD9} then jpeg_segments content offset
     else if length post < 2 then Some (Inl ImageMediaInvalid)
     else let segment_length = from_big (take 2 post) in
       if segment_length < 2 \<or> segment_length > length post then Some (Inl ImageMediaInvalid)
       else if marker \<in> jpeg_start_of_frame_markers then
         (if segment_length < 7 then Some (Inl ImageMediaInvalid)
          else Some (Inr (from_big (take 2 (drop 5 post)), from_big (take 2 (drop 3 post)))))
       else if marker = 0xDA then Some (Inl ImageMediaInvalid)
       else jpeg_segments content (offset + segment_length))"
proof -
  define c where "c = pre @ replicate (Suc fill) 0xFF @ marker # post"
  define k where "k = length pre + fill + 2"
  have skip: "skip_fill c (length pre) = length pre + Suc fill" unfolding c_def by (rule skip_fill_run [OF assms])
  have off: "length pre + Suc fill + 1 = k" by (simp add: k_def)
  have fill: "c ! length pre = 0xFF" by (simp add: c_def)
  have marker: "c ! (length pre + Suc fill) = marker" by (simp add: c_def nth_append)
  have len: "length c = k + length post" by (simp add: c_def k_def)
  have inside: "length pre < length c" "\<not> length pre + Suc fill \<ge> length c" by (simp_all add: len k_def)
  have bounds: "k + 2 > length c \<longleftrightarrow> length post < 2" "k + n > length c \<longleftrightarrow> n > length post" for n
    by (auto simp: len)
  have drop: "drop (k + n) c = drop n post" for n by (simp add: c_def k_def)
  have slices: "slice_bytes k (k + 2) c = take 2 post" "slice_bytes (k + 5) (k + 7) c = take 2 (drop 5 post)"
    "slice_bytes (k + 3) (k + 5) c = take 2 (drop 3 post)"
    using drop [of 0] by (simp_all add: slice_bytes_def drop)
  have "jpeg_segments c (length pre) =
    (if marker \<in> {0x01, 0xD8, 0xD9} then jpeg_segments c k
     else if length post < 2 then Some (Inl ImageMediaInvalid)
     else let segment_length = from_big (take 2 post) in
       if segment_length < 2 \<or> segment_length > length post then Some (Inl ImageMediaInvalid)
       else if marker \<in> jpeg_start_of_frame_markers then
         (if segment_length < 7 then Some (Inl ImageMediaInvalid)
          else Some (Inr (from_big (take 2 (drop 5 post)), from_big (take 2 (drop 3 post)))))
       else if marker = 0xDA then Some (Inl ImageMediaInvalid)
       else jpeg_segments c (k + segment_length))"
    by (subst jpeg_segments.simps)
      (simp only: skip fill marker inside off bounds slices Let_def not_True_eq_False if_True if_False simp_thms)
  then show ?thesis unfolding c_def k_def by (simp only: Let_def)
qed

text \<open>Skipping one part, reading the frame header.\<close>

lemma skip_part:
  assumes "part_ok part"
  shows "jpeg_segments (pre @ part_bytes part @ post) (length pre) =
    jpeg_segments (pre @ part_bytes part @ post) (length (pre @ part_bytes part))"
proof (cases part)
  case (Standalone fill marker)
  then have m: "marker \<in> {0x01, 0xD8, 0xD9}" "marker \<noteq> 0xFF" using assms by auto
  show ?thesis using at_marker [OF m(2), of pre fill post] m(1) by (simp add: Standalone Let_def)
next
  case (Segment fill marker payload)
  then have m: "marker \<notin> {0x01, 0xD8, 0xD9}" "marker \<noteq> 0xDA" "marker \<noteq> 0xFF" "marker \<notin> jpeg_start_of_frame_markers"
    and n: "length payload + 2 < 65536" using assms by auto
  let ?post = "big16 (length payload + 2) @ payload @ post"
  have c: "replicate (Suc fill) 0xFF @ marker # ?post = part_bytes part @ post" by (simp add: Segment)
  have t: "from_big (take 2 ?post) = length payload + 2" using from_big16 [OF n] by simp
  have len: "length pre + fill + 2 + (length payload + 2) = length (pre @ part_bytes part)" by (simp add: Segment)
  show ?thesis
    using at_marker [OF m(3), of pre fill ?post] m(1,2,4) unfolding c t Let_def len by simp
qed

lemma skip_parts:
  "list_all part_ok parts \<Longrightarrow> jpeg_segments (pre @ concat (map part_bytes parts) @ post) (length pre) =
    jpeg_segments (pre @ concat (map part_bytes parts) @ post) (length (pre @ concat (map part_bytes parts)))"
proof (induction parts arbitrary: pre)
  case (Cons part parts)
  from skip_part [of part pre "concat (map part_bytes parts) @ post"] Cons.prems
    Cons.IH [of "pre @ part_bytes part"] show ?case by (simp add: add.assoc)
qed simp

lemma read_frame:
  assumes "marker \<in> jpeg_start_of_frame_markers" "width < 65536" "height < 65536" "length components + 7 < 65536"
  shows "jpeg_segments (pre @ frame_bytes fill marker precision width height components @ post) (length pre) =
    Some (Inr (width, height))"
proof -
  have m: "marker \<notin> {0x01, 0xD8, 0xD9}" "marker \<noteq> 0xDA" "marker \<noteq> 0xFF"
    using assms(1) by (auto simp: jpeg_start_of_frame_markers_def)
  let ?post = "big16 (length components + 7) @ precision # big16 height @ big16 width @ components @ post"
  have c: "replicate (Suc fill) 0xFF @ marker # ?post = frame_bytes fill marker precision width height components @ post"
    by (simp add: frame_bytes_def)
  have t: "from_big (take 2 ?post) = length components + 7" "from_big (take 2 (drop 5 ?post)) = width"
      "from_big (take 2 (drop 3 ?post)) = height"
    using from_big16 [OF assms(2)] from_big16 [OF assms(3)] from_big16 [OF assms(4)] by simp_all
  show ?thesis
    using at_marker [OF m(3), of pre fill ?post] m(1,2) assms(1) unfolding c t Let_def by simp
qed

text \<open>C34. The inspection of an image returns on every content, with an error or with dimensions within
  the limits, and a JPEG made of any number of fill bytes and skippable segments before a frame header
  is read exactly: the dimensions of the frame header are accepted when they are within the limits.\<close>

theorem image_inspection_returns:
  "(\<exists>r. inspect_image content = Some r \<and>
      (\<forall>mime suffix width height. r = Inr (mime, suffix, width, height) \<longrightarrow>
         (mime, suffix) \<in> {(''image/png'', ''.png''), (''image/jpeg'', ''.jpg'')} \<and>
         0 < width \<and> width \<le> 8192 \<and> 0 < height \<and> height \<le> 8192 \<and> width * height \<le> 32000000 \<and>
         length content \<le> max_image_bytes)) \<and>
   (content = [0xFF, 0xD8] @ concat (map part_bytes parts) @
        frame_bytes fill marker precision width height components @ rest \<longrightarrow>
      list_all part_ok parts \<longrightarrow> marker \<in> jpeg_start_of_frame_markers \<longrightarrow> length components + 7 < 65536 \<longrightarrow>
      width < 65536 \<longrightarrow> height < 65536 \<longrightarrow> length content \<le> max_image_bytes \<longrightarrow>
      inspect_image content = Some (check_dimensions ''image/jpeg'' ''.jpg'' width height))"
proof -
  have check: "check_dimensions mime suffix w h = Inr r \<Longrightarrow>
      r = (mime, suffix, w, h) \<and> 0 < w \<and> w \<le> 8192 \<and> 0 < h \<and> h \<le> 8192 \<and> w * h \<le> 32000000" for mime suffix w h r
    by (simp add: check_dimensions_def max_image_dimension_def max_image_pixels_def split: if_splits)
  obtain j where j: "jpeg_dimensions content = Some j" using jpeg_segments_returns by (auto simp: jpeg_dimensions_def)
  then have "\<exists>r. inspect_image content = Some r" by (simp add: inspect_image_def)
  then obtain r where r: "inspect_image content = Some r" by blast
  have limits: "(mime, suffix) \<in> {(''image/png'', ''.png''), (''image/jpeg'', ''.jpg'')} \<and>
         0 < w \<and> w \<le> 8192 \<and> 0 < h \<and> h \<le> 8192 \<and> w * h \<le> 32000000 \<and> length content \<le> max_image_bytes"
    if "r = Inr (mime, suffix, w, h)" for mime suffix w h
    using r j unfolding that inspect_image_def
    by (auto split: if_splits sum.splits prod.splits dest!: check)
  have exact: "inspect_image content = Some (check_dimensions ''image/jpeg'' ''.jpg'' width height)"
    if c: "content = [0xFF, 0xD8] @ concat (map part_bytes parts) @
        frame_bytes fill marker precision width height components @ rest"
      and ok: "list_all part_ok parts" "marker \<in> jpeg_start_of_frame_markers" "length components + 7 < 65536"
        "width < 65536" "height < 65536" "length content \<le> max_image_bytes"
  proof -
    let ?pre = "[0xFF, 0xD8] @ concat (map part_bytes parts)"
    have "jpeg_dimensions content = jpeg_segments content (length ?pre)"
      using skip_parts [OF ok(1), of "[0xFF, 0xD8]" "frame_bytes fill marker precision width height components @ rest"]
      by (simp add: jpeg_dimensions_def c numeral_2_eq_2)
    also have "\<dots> = Some (Inr (width, height))"
      using read_frame [OF ok(2,4,5,3), of ?pre fill precision rest] by (simp add: c)
    finally show ?thesis using ok(6) by (simp add: inspect_image_def c starts_with_def)
  qed
  show ?thesis using r limits exact by blast
qed

definition tiny_jpeg :: bytes where
  "tiny_jpeg = [0xFF, 0xD8] @ concat (map part_bytes [Segment 0 0xE0 [1, 2], Standalone 1 0x01]) @
     frame_bytes 0 0xC0 8 640 480 [3] @ [0xFF, 0xD9]"

lemma image_inspection_returns_witness:
  "inspect_image tiny_jpeg = Some (Inr (''image/jpeg'', ''.jpg'', 640, 480))"
proof -
  have ok: "list_all part_ok [Segment 0 0xE0 [1, 2], Standalone 1 0x01]" "(0xC0 :: 8 word) \<in> jpeg_start_of_frame_markers"
    "length ([3] :: bytes) + 7 < 65536" "(640 :: nat) < 65536" "(480 :: nat) < 65536"
    by (simp_all add: jpeg_start_of_frame_markers_def)
  have size: "length tiny_jpeg \<le> max_image_bytes"
    by (simp add: tiny_jpeg_def frame_bytes_def big16_def max_image_bytes_def)
  have "inspect_image tiny_jpeg = Some (check_dimensions ''image/jpeg'' ''.jpg'' 640 480)"
    using image_inspection_returns [of tiny_jpeg] tiny_jpeg_def ok size by blast
  then show ?thesis
    by (simp add: check_dimensions_def max_image_dimension_def max_image_pixels_def)
qed

end
