(* ===== verification/Regex_Search.thy ===== *)
theory Regex_Search
  imports Shlex
begin

text \<open>
  The part of Python's \<open>re\<close> that the command classifier uses: \<open>pattern.search(text)\<close> as a truth
  value, with \<^verbatim>\<open>re.I\<close>. A position in the text is the reversed text before it and the text after it;
  \<open>rx_ends\<close> lists the positions where a match from a position can end. Which of several matches the
  backtracking finds first is left out: only their existence counts.
\<close>

datatype rx =
    Lit string
  | Cls "char \<Rightarrow> bool"
  | Many "char \<Rightarrow> bool"
  | Word_Boundary
  | Not_After_Text
  | Not_Before_Text
  | Ahead rx
  | Opt rx
  | Alt rx rx
  | Seq rx rx

type_synonym rx_position = "string \<times> string"

text \<open>\<^verbatim>\<open>\w\<close> on code points below 256, and \<open>str.isalnum\<close>, the same without the underscore.\<close>

definition py_alnum :: "char \<Rightarrow> bool" where
  "py_alnum c = (let n = (of_char c :: nat) in
     alnum c \<or> n \<in> {170, 178, 179, 181, 185, 186, 188, 189, 190} \<or> 192 \<le> n \<and> n \<noteq> 215 \<and> n \<noteq> 247)"

lemma py_alnum_code [code]:
  "py_alnum (Char b0 b1 b2 b3 b4 b5 b6 b7) =
     (if b7 then (let n = (of_char (Char b0 b1 b2 b3 b4 b5 b6 b7) :: nat) in
        n \<in> {170, 178, 179, 181, 185, 186, 188, 189, 190} \<or> 192 \<le> n \<and> n \<noteq> 215 \<and> n \<noteq> 247)
      else alnum (Char b0 b1 b2 b3 b4 b5 b6 b7))"
  by (cases b0; cases b1; cases b2; cases b3; cases b4; cases b5; cases b6; cases b7; simp add: py_alnum_def alnum_def)

definition word_char :: "char \<Rightarrow> bool" where
  "word_char c = (py_alnum c \<or> c = CHR ''_'')"

definition at_word :: "string \<Rightarrow> bool" where
  "at_word s = (case s of [] \<Rightarrow> False | c # _ \<Rightarrow> word_char c)"

definition at_text :: "string \<Rightarrow> bool" where
  "at_text s = (case s of [] \<Rightarrow> False | c # _ \<Rightarrow> \<not> is_space c)"

text \<open>A literal in small letters, matched in any case.\<close>

fun lit_end :: "string \<Rightarrow> rx_position \<Rightarrow> rx_position list" where
  "lit_end [] p = [p]"
| "lit_end (l # ls) (pre, []) = []"
| "lit_end (l # ls) (pre, c # post) = (if lower_char c = l then lit_end ls (c # pre, post) else [])"

fun many_ends :: "(char \<Rightarrow> bool) \<Rightarrow> string \<Rightarrow> string \<Rightarrow> rx_position list" where
  "many_ends P pre [] = [(pre, [])]"
| "many_ends P pre (c # post) = (pre, c # post) # (if P c then many_ends P (c # pre) post else [])"

fun rx_ends :: "rx \<Rightarrow> rx_position \<Rightarrow> rx_position list" where
  "rx_ends (Lit l) p = lit_end l p"
| "rx_ends (Cls P) (pre, post) = (case post of [] \<Rightarrow> [] | c # cs \<Rightarrow> if P c then [(c # pre, cs)] else [])"
| "rx_ends (Many P) (pre, post) = many_ends P pre post"
| "rx_ends Word_Boundary (pre, post) = (if at_word pre \<noteq> at_word post then [(pre, post)] else [])"
| "rx_ends Not_After_Text (pre, post) = (if at_text pre then [] else [(pre, post)])"
| "rx_ends Not_Before_Text (pre, post) = (if at_text post then [] else [(pre, post)])"
| "rx_ends (Ahead r) p = (if rx_ends r p = [] then [] else [p])"
| "rx_ends (Opt r) p = rx_ends r p @ [p]"
| "rx_ends (Alt r q) p = rx_ends r p @ rx_ends q p"
| "rx_ends (Seq r q) p = concat (map (rx_ends q) (rx_ends r p))"

fun rx_search_from :: "rx \<Rightarrow> string \<Rightarrow> string \<Rightarrow> bool" where
  "rx_search_from r pre post = (rx_ends r (pre, post) \<noteq> [] \<or>
     (case post of [] \<Rightarrow> False | c # cs \<Rightarrow> rx_search_from r (c # pre) cs))"

declare rx_search_from.simps [simp del]

definition rx_search :: "rx \<Rightarrow> string \<Rightarrow> bool" where
  "rx_search r text = rx_search_from r [] text"

fun seq_all :: "rx list \<Rightarrow> rx" where
  "seq_all [] = Lit []"
| "seq_all [r] = r"
| "seq_all (r # q # rs) = Seq r (seq_all (q # rs))"

fun alt_all :: "rx list \<Rightarrow> rx" where
  "alt_all [] = Cls (\<lambda>_. False)"
| "alt_all [r] = r"
| "alt_all (r # q # rs) = Alt r (alt_all (q # rs))"

text \<open>A match somewhere in the text, as a splitting of it.\<close>

lemma rx_search_from_iff:
  "rx_search_from r pre post \<longleftrightarrow> (\<exists>u v. post = u @ v \<and> rx_ends r (rev u @ pre, v) \<noteq> [])"
proof (induction post arbitrary: pre)
  case Nil
  then show ?case by (subst rx_search_from.simps) auto
next
  case (Cons c cs)
  have "(\<exists>u v. c # cs = u @ v \<and> rx_ends r (rev u @ pre, v) \<noteq> []) \<longleftrightarrow>
      rx_ends r (pre, c # cs) \<noteq> [] \<or> (\<exists>u v. cs = u @ v \<and> rx_ends r (rev u @ c # pre, v) \<noteq> [])"
    (is "?L \<longleftrightarrow> ?R")
  proof
    assume ?L
    then obtain u v where uv: "c # cs = u @ v" "rx_ends r (rev u @ pre, v) \<noteq> []" by blast
    then show ?R by (cases u) auto
  next
    show "?R \<Longrightarrow> ?L"
    proof (erule disjE)
      assume "rx_ends r (pre, c # cs) \<noteq> []"
      then show ?L by (intro exI [of _ "[]"] exI [of _ "c # cs"]) simp
    next
      assume "\<exists>u v. cs = u @ v \<and> rx_ends r (rev u @ c # pre, v) \<noteq> []"
      then obtain u v where "cs = u @ v" "rx_ends r (rev u @ c # pre, v) \<noteq> []" by blast
      then show ?L by (intro exI [of _ "c # u"] exI [of _ v]) simp
    qed
  qed
  then show ?case by (subst rx_search_from.simps) (simp add: Cons.IH)
qed

lemma rx_search_iff: "rx_search r text \<longleftrightarrow> (\<exists>u v. text = u @ v \<and> rx_ends r (rev u, v) \<noteq> [])"
  by (simp add: rx_search_def rx_search_from_iff)

lemma many_ends_iff:
  "(q, t) \<in> set (many_ends P pre post) \<longleftrightarrow> (\<exists>u. post = u @ t \<and> q = rev u @ pre \<and> list_all P u)"
proof (induction post arbitrary: pre)
  case (Cons c cs)
  then show ?case by (cases t) (auto simp: Cons_eq_append_conv)
qed auto

end
