(* ===== verification/Command_Classifier.thy ===== *)
theory Command_Classifier
  imports Regex_Search "HOL-Library.Sublist"
begin

text \<open>
  \<open>security_policy/permissions.py\<close> and \<open>security_policy/command_classifier.py\<close>: a command is
  tokenised without a shell, mapped to a category of its allowlist, and given a level of risk. The
  critical and medium patterns are the regular expressions of the code as values of \<open>rx\<close>.
\<close>

section \<open>Allowlists\<close>

definition allowed_pnpm_scripts :: "(string \<times> string) list" where
  "allowed_pnpm_scripts =
     [(''test'', ''test''), (''test:py'', ''test''), (''test:web'', ''test''), (''test:e2e'', ''test''),
      (''build'', ''build''), (''build:web'', ''build''), (''build:control-center'', ''build''),
      (''lint'', ''lint''), (''lint:py'', ''lint''), (''lint:web'', ''lint''),
      (''typecheck'', ''typecheck''), (''typecheck:web'', ''typecheck''),
      (''quality'', ''quality''), (''quality:productive-truth'', ''quality''),
      (''quality:architecture'', ''quality''), (''test:all'', ''quality''),
      (''security:secrets'', ''security_scan''), (''security:sast'', ''security_scan'')]"

definition package_script_hooks :: "string list" where
  "package_script_hooks = [''preinstall'', ''install'', ''postinstall'', ''prepare'', ''prepublish'', ''prepublishOnly'',
     ''publish'', ''deploy'', ''release'']"

definition node_run_executables :: "string list" where
  "node_run_executables = [''pnpm'', ''npm'', ''yarn'']"

definition maven_executables :: "string list" where
  "maven_executables = [''mvn'', ''mvnw'', ''./mvnw'']"

definition gradle_executables :: "string list" where
  "gradle_executables = [''gradle'', ''gradlew'', ''./gradlew'']"

definition allowed_maven_goals :: "(string \<times> string) list" where
  "allowed_maven_goals = [(''clean'', ''build''), (''compile'', ''build''), (''test'', ''test''), (''verify'', ''build''),
     (''package'', ''build'')]"

definition allowed_gradle_tasks :: "(string \<times> string) list" where
  "allowed_gradle_tasks = [(''clean'', ''build''), (''classes'', ''build''), (''test'', ''test''), (''check'', ''test''),
     (''build'', ''build''), (''assemble'', ''build'')]"

definition allowed_go_verbs :: "(string \<times> string) list" where
  "allowed_go_verbs = [(''test'', ''test''), (''build'', ''build''), (''vet'', ''lint'')]"

definition allowed_cargo_verbs :: "(string \<times> string) list" where
  "allowed_cargo_verbs = [(''test'', ''test''), (''build'', ''build''), (''check'', ''build''), (''clippy'', ''lint'')]"

definition allowed_maven_flags :: "string list" where
  "allowed_maven_flags = [''-B'', ''--batch-mode'', ''-DskipTests'', ''-q'', ''--quiet'', ''-o'', ''--offline'']"

definition allowed_gradle_flags :: "string list" where
  "allowed_gradle_flags = [''--console=plain'', ''-q'', ''--quiet'', ''--offline'', ''--no-daemon'']"

definition allowed_go_flags :: "string list" where
  "allowed_go_flags = [''-v'', ''-race'', ''-count=1'', ''-json'']"

definition allowed_cargo_flags :: "string list" where
  "allowed_cargo_flags = [''-q'', ''--quiet'', ''--locked'', ''--offline'', ''--all-targets'', ''--all-features'']"

definition allowed_go_operands :: "string list" where
  "allowed_go_operands = [''./...'', ''.'', ''all'']"

definition toolchain_install_executables :: "string list" where
  "toolchain_install_executables = [''cargo'', ''go'']"

definition toolchain_version_executables :: "string list" where
  "toolchain_version_executables =
     maven_executables @ gradle_executables @ [''go'', ''cargo'', ''rustc'', ''java'', ''javac'']"

definition package_manager_install_verbs :: "string list" where
  "package_manager_install_verbs = [''install'', ''add'', ''remove'', ''uninstall'', ''update'', ''upgrade'']"

definition read_only_executables :: "string list" where
  "read_only_executables = [''rg'', ''rg.exe'', ''get-content'', ''ls'', ''dir'']"

definition runtime_version_executables :: "string list" where
  "runtime_version_executables =
     [''corepack'', ''corepack.cmd'', ''corepack.exe'', ''node'', ''node.exe'', ''openhands'', ''openhands.exe'', ''pnpm'',
      ''pnpm.cmd'', ''pnpm.exe'', ''sweagent'', ''sweagent.exe'', ''swe-agent'', ''swe-agent.exe'', ''uv'', ''uv.exe'']"

definition pnpm_version :: string where
  "pnpm_version = ''10.24.0''"

section \<open>Parsing\<close>

record parsed_command =
  pc_executable :: string
  pc_args :: "string list"

definition strip_quotes :: "string \<Rightarrow> string" where
  "strip_quotes s = rev (dropWhile sh_quote (rev (dropWhile sh_quote s)))"

definition parse_command :: "string \<Rightarrow> parsed_command option" where
  "parse_command command =
     (let text = py_strip command in
      if text = [] then None
      else (case shlex_split False text of
          None \<Rightarrow> Some \<lparr>pc_executable = [], pc_args = []\<rparr>
        | Some [] \<Rightarrow> None
        | Some (w # ws) \<Rightarrow> Some \<lparr>pc_executable = py_lower (strip_quotes w), pc_args = map strip_quotes ws\<rparr>))"

definition base_executable :: "string \<Rightarrow> string" where
  "base_executable executable =
     (if CHR ''/'' \<in> set executable \<or> CHR 0x5C \<in> set executable then executable
      else (case find (\<lambda>x. suffix x executable) [''.cmd'', ''.bat'', ''.exe'', ''.ps1''] of
              None \<Rightarrow> executable | Some x \<Rightarrow> take (length executable - length x) executable))"

text \<open>The categories of the goals, or \<open>None\<close> as soon as one token is not in an allowlist.\<close>

fun toolchain_tokens ::
  "(string \<times> string) list \<Rightarrow> string list \<Rightarrow> string list \<Rightarrow> string list \<Rightarrow> string list option" where
  "toolchain_tokens goals flags operands [] = Some []"
| "toolchain_tokens goals flags operands (token # tokens) =
     (if prefix ''-'' token then
        (if token \<in> set flags then toolchain_tokens goals flags operands tokens else None)
      else (case map_of goals (py_lower token) of
          Some category \<Rightarrow> map_option (\<lambda>cs. category # cs) (toolchain_tokens goals flags operands tokens)
        | None \<Rightarrow> if py_lower token \<in> set operands then toolchain_tokens goals flags operands tokens else None))"

definition toolchain_invocation_category ::
  "(string \<times> string) list \<Rightarrow> string list \<Rightarrow> string list \<Rightarrow> string list \<Rightarrow> string option" where
  "toolchain_invocation_category goals flags operands args =
     (case toolchain_tokens goals flags operands args of
        None \<Rightarrow> None
      | Some [] \<Rightarrow> None
      | Some (c # cs) \<Rightarrow> Some (if ''test'' \<in> set (c # cs) then ''test'' else Min (set (c # cs))))"

definition corepack_pnpm :: "parsed_command \<Rightarrow> string list option" where
  "corepack_pnpm parsed =
     (if base_executable (pc_executable parsed) \<noteq> ''corepack'' then None
      else (case pc_args parsed of
          [] \<Rightarrow> None
        | token # args \<Rightarrow> if prefix ''pnpm'' (py_lower token) then Some args else None))"

definition frozen_pnpm_install_args :: "string list" where
  "frozen_pnpm_install_args = [''install'', ''--frozen-lockfile'', ''--prefer-offline'', ''--ignore-scripts'']"

definition frozen_npm_install_args :: "string list" where
  "frozen_npm_install_args = [''ci'', ''--prefer-offline'', ''--no-audit'', ''--no-fund'', ''--ignore-scripts'']"

definition frozen_yarn_install_args :: "string list" where
  "frozen_yarn_install_args = [''install'', ''--frozen-lockfile'', ''--ignore-scripts'']"

definition immutable_yarn_install_args :: "string list" where
  "immutable_yarn_install_args = [''install'', ''--immutable'', ''--mode=skip-build'']"

definition is_frozen_node_dependency_install :: "parsed_command \<Rightarrow> bool" where
  "is_frozen_node_dependency_install parsed =
     (let base = base_executable (pc_executable parsed) in
      (case corepack_pnpm parsed of
         None \<Rightarrow> False
       | Some args \<Rightarrow> py_lower (hd (pc_args parsed)) = ''pnpm@'' @ pnpm_version \<and> args = frozen_pnpm_install_args) \<or>
      base = ''npm'' \<and> pc_args parsed = frozen_npm_install_args \<or>
      base = ''yarn'' \<and> pc_args parsed \<in> {frozen_yarn_install_args, immutable_yarn_install_args})"

definition node_runner :: "parsed_command \<Rightarrow> string list option" where
  "node_runner parsed =
     (if base_executable (pc_executable parsed) \<in> set node_run_executables then Some (pc_args parsed)
      else corepack_pnpm parsed)"

definition node_script_category :: "parsed_command \<Rightarrow> string option" where
  "node_script_category parsed =
     (case node_runner parsed of
        Some (run # script # _) \<Rightarrow>
          if run \<noteq> ''run'' then None
          else let lowered = py_lower script in
            if lowered \<in> set (map py_lower package_script_hooks) \<or> prefix ''pre'' lowered \<or> prefix ''post'' lowered
            then Some ''package_script_hook''
            else (case map_of allowed_pnpm_scripts script of Some c \<Rightarrow> Some c | None \<Rightarrow> Some ''package_script'')
      | _ \<Rightarrow> None)"

definition first_in :: "string list \<Rightarrow> string list \<Rightarrow> bool" where
  "first_in args verbs = (case args of [] \<Rightarrow> False | verb # _ \<Rightarrow> verb \<in> set verbs)"

definition package_manager_category :: "parsed_command \<Rightarrow> string option" where
  "package_manager_category parsed =
     (let executable = pc_executable parsed; args = pc_args parsed; base = base_executable executable;
          rest = (if executable \<in> {''uv'', ''uv.exe'', ''pip'', ''pip.exe'', ''winget'', ''choco''} \<and>
                     first_in args package_manager_install_verbs then Some ''install''
                  else if base \<in> set toolchain_install_executables \<and>
                     first_in args (package_manager_install_verbs @ [''get'']) then Some ''install''
                  else None)
      in if executable \<in> {''pnpm'', ''pnpm.cmd'', ''pnpm.exe'', ''npm'', ''npm.cmd'', ''npm.exe''} \<and>
            first_in args package_manager_install_verbs then Some ''install''
         else (case corepack_pnpm parsed of
             Some pnpm_args \<Rightarrow>
               if pnpm_args = frozen_pnpm_install_args then None
               else if first_in pnpm_args package_manager_install_verbs then Some ''install'' else rest
           | None \<Rightarrow> rest))"

definition toolchain_of ::
  "string \<Rightarrow> ((string \<times> string) list \<times> string list \<times> string list) option" where
  "toolchain_of base =
     (if base = ''go'' then Some (allowed_go_verbs, allowed_go_flags, allowed_go_operands)
      else if base = ''cargo'' then Some (allowed_cargo_verbs, allowed_cargo_flags, [])
      else if base \<in> set gradle_executables then Some (allowed_gradle_tasks, allowed_gradle_flags, [])
      else if base \<in> set maven_executables then Some (allowed_maven_goals, allowed_maven_flags, [])
      else None)"

definition python_executables :: "string list" where
  "python_executables = [''python'', ''python.exe'', ''python3'', ''py'', ''py.exe'']"

text \<open>The tail of \<open>low_risk_shell_category\<close>, from the toolchains on.\<close>

definition low_risk_toolchain :: "parsed_command \<Rightarrow> string option" where
  "low_risk_toolchain parsed =
     (let executable = pc_executable parsed; args = pc_args parsed; base = base_executable executable;
          rest = (if base \<in> set toolchain_version_executables \<and> args \<in> {[''--version''], [''-version''], [''version'']}
                  then Some ''interpreter_version''
                  else if executable \<in> set read_only_executables then Some ''read_only''
                  else if executable = ''git'' \<and> take 1 args \<in> {[''status''], [''diff'']} then Some ''read_only''
                  else None)
      in (case toolchain_of base of
            None \<Rightarrow> rest
          | Some (goals, flags, operands) \<Rightarrow>
              (case toolchain_invocation_category goals flags operands args of Some c \<Rightarrow> Some c | None \<Rightarrow> rest)))"

definition low_risk_shell_category :: "parsed_command \<Rightarrow> string option" where
  "low_risk_shell_category parsed =
     (let executable = pc_executable parsed; args = pc_args parsed; node = node_script_category parsed in
      if is_frozen_node_dependency_install parsed then Some ''dependency_install_frozen''
      else if node \<in> Some ` {''test'', ''build'', ''lint'', ''typecheck'', ''quality'', ''security_scan''} then node
      else if executable = ''corepack'' \<and> length args = 2 \<and> prefix ''pnpm'' (py_lower (args ! 0)) \<and>
              args ! 1 \<in> {''--version'', ''-V'', ''version''} then Some ''interpreter_version''
      else if executable \<in> {''uv'', ''uv.exe''} \<and> length args \<ge> 2 \<and> args ! 0 = ''run'' \<and> args ! 1 = ''pytest''
        then Some ''test''
      else if executable \<in> {''uv'', ''uv.exe''} \<and> length args \<ge> 3 \<and> args ! 0 = ''run'' \<and> args ! 1 = ''ruff'' \<and>
              args ! 2 = ''check'' then Some ''lint''
      else if executable \<in> {''pytest'', ''pytest.exe'', ''vitest'', ''vitest.cmd'', ''vitest.exe''} then Some ''test''
      else if executable \<in> {''playwright'', ''playwright.cmd'', ''playwright.exe''} \<and> take 1 args = [''test'']
        then Some ''test''
      else if executable \<in> set python_executables \<and> length args \<ge> 2 \<and>
              take 2 args \<in> {[''-m'', ''pytest''], [''-m'', ''unittest'']} then Some ''test''
      else if executable \<in> set python_executables \<and> args = [''--version''] then Some ''interpreter_version''
      else if executable \<in> set runtime_version_executables \<and> args \<in> {[''--version''], [''-V''], [''version'']}
        then Some ''interpreter_version''
      else low_risk_toolchain parsed)"

section \<open>Risk\<close>

definition rx_any :: "char \<Rightarrow> bool" where "rx_any c = (c \<noteq> CHR 0x0A)"
definition rx_same_command :: "char \<Rightarrow> bool" where "rx_same_command c = (c \<notin> {CHR ''|'', CHR '';'', CHR ''&'', CHR 0x0A})"
definition rx_letter :: "char \<Rightarrow> bool" where
  "rx_letter c = (let n = (of_char (lower_char c) :: nat) in 97 \<le> n \<and> n \<le> 122)"
definition rx_text :: "char \<Rightarrow> bool" where "rx_text c = (\<not> is_space c)"
definition rx_spaces :: rx where "rx_spaces = Seq (Cls is_space) (Many is_space)"

definition rx_rm_flag :: "string \<Rightarrow> string \<Rightarrow> rx" where
  "rx_rm_flag letter long = Ahead (seq_all [Many rx_same_command, Cls is_space, Lit ''-'',
     Alt (seq_all [Many rx_letter, Lit letter, Many rx_letter]) (Lit long), Word_Boundary])"

definition destructive_delete :: rx where
  "destructive_delete = Seq Word_Boundary (Alt
     (seq_all [Lit ''rm'', Word_Boundary, rx_rm_flag ''r'' ''-recursive'', rx_rm_flag ''f'' ''-force''])
     (seq_all [Lit ''remove-item'', Word_Boundary, Many rx_any, Not_After_Text, Lit ''-recurse'', Word_Boundary,
        Many rx_any, Not_After_Text, Lit ''-force'', Word_Boundary]))"

definition force_push :: rx where
  "force_push = seq_all [Word_Boundary, Lit ''git'', rx_spaces, Lit ''push'', Word_Boundary, Many rx_same_command,
     Not_After_Text, alt_all [
       seq_all [Lit ''--force'', Opt (Alt (Lit ''-with-lease'') (Lit ''-if-includes'')), Opt (Seq (Lit ''='') (Many rx_text))],
       seq_all [Lit ''-'', Many rx_letter, Lit ''f'', Many rx_letter],
       seq_all [Lit ''+'', Cls rx_text, Many rx_text]],
     Not_Before_Text]"

definition prod_deploy :: rx where
  "prod_deploy = seq_all [Word_Boundary, Alt (Lit ''deploy'') (Lit ''release''), Word_Boundary, Many rx_any,
     Word_Boundary, Alt (Lit ''prod'') (Lit ''production''), Word_Boundary]"

definition privilege_escalation :: rx where
  "privilege_escalation = seq_all [Word_Boundary, alt_all [Lit ''sudo'',
     seq_all [Lit ''start-process'', Word_Boundary, Many rx_any, Word_Boundary, Lit ''-verb'', rx_spaces, Lit ''runas''],
     Lit ''runas''], Word_Boundary]"

definition secrets_write :: rx where
  "secrets_write = seq_all [Word_Boundary, alt_all [Lit ''.env'', Lit ''secret'', Lit ''credential'', Lit ''token''],
     Word_Boundary, Many rx_any, Word_Boundary,
     alt_all [Lit ''write'', Lit ''set'', Lit ''update'', Lit ''remove'', Lit ''delete''], Word_Boundary]"

definition critical_rules :: "(string \<times> rx) list" where
  "critical_rules = [(''destructive_delete'', destructive_delete), (''force_push'', force_push),
     (''prod_deploy'', prod_deploy), (''privilege_escalation'', privilege_escalation), (''secrets_write'', secrets_write)]"

definition medium_rules :: "(string \<times> rx) list" where
  "medium_rules =
     [(''git_write'', seq_all [Word_Boundary, Lit ''git'', rx_spaces,
         alt_all [Lit ''commit'', Lit ''merge'', Lit ''rebase'', Lit ''push'', Lit ''checkout'', Lit ''branch''], Word_Boundary]),
      (''network'', seq_all [Word_Boundary,
         alt_all [Lit ''curl'', Lit ''invoke-webrequest'', Lit ''wget'', Lit ''ssh'', Lit ''scp''], Word_Boundary])]"

definition max_classified_command_chars :: nat where
  "max_classified_command_chars = 8192"

record classification =
  cl_risk :: string
  cl_categories :: "string list"

definition matching_rules :: "(string \<times> rx) list \<Rightarrow> string \<Rightarrow> string list" where
  "matching_rules rules text = map fst (filter (\<lambda>(name, pattern). rx_search pattern text) rules)"

definition package_categories :: "parsed_command \<Rightarrow> string list" where
  "package_categories parsed =
     (case package_manager_category parsed of None \<Rightarrow> [] | Some c \<Rightarrow> [c]) @
     (case node_script_category parsed of
        Some c \<Rightarrow> if c \<in> {''package_script_hook'', ''package_script''} then [c] else []
      | None \<Rightarrow> [])"

definition classify_command :: "string \<Rightarrow> classification" where
  "classify_command text =
     (if length text > max_classified_command_chars then
        \<lparr>cl_risk = ''critical'', cl_categories = [''oversized_command'']\<rparr>
      else let critical = matching_rules critical_rules text; parsed = parse_command text;
               package = (case parsed of None \<Rightarrow> [] | Some p \<Rightarrow> package_categories p);
               medium = matching_rules medium_rules text;
               low = (case parsed of None \<Rightarrow> None | Some p \<Rightarrow> low_risk_shell_category p) in
        if critical \<noteq> [] then \<lparr>cl_risk = ''critical'', cl_categories = critical\<rparr>
        else if package \<noteq> [] then \<lparr>cl_risk = ''medium'', cl_categories = package\<rparr>
        else if medium \<noteq> [] then \<lparr>cl_risk = ''medium'', cl_categories = medium\<rparr>
        else (case low of
            Some c \<Rightarrow> \<lparr>cl_risk = ''low'', cl_categories = [c]\<rparr>
          | None \<Rightarrow>
              if py_strip text \<noteq> [] then \<lparr>cl_risk = ''medium'', cl_categories = [''unknown'']\<rparr>
              else \<lparr>cl_risk = ''low'', cl_categories = [''none'']\<rparr>))"

end
