(* ===== verification/Policy_Git.thy ===== *)
theory Policy_Git
  imports Command_Classifier Team_Catalog
begin

text \<open>
  The Git slice of \<open>security_policy/policy_engine.py\<close>: \<open>evaluate_git_workspace_command\<close>, one
  definition for each subcommand. The record \<open>policy_env\<close> holds what the host decides: the text of
  values that are not strings, the resolution of paths, the separation of a path into directory and
  name, the running interpreter, the entries of the search path, and which bracketed hosts
  \<open>urllib.parse\<close> accepts.
\<close>

record policy_env =
  pe_other :: "pyval \<Rightarrow> string"
  pe_inside :: "string \<Rightarrow> string \<Rightarrow> bool"
  pe_path_name :: "string \<Rightarrow> string"
  pe_dirname :: "string \<Rightarrow> string"
  pe_normalized :: "string \<Rightarrow> string option"
  pe_interpreter :: string
  pe_path_entries :: "string list"
  pe_bracketed_ok :: "string \<Rightarrow> bool"

record policy_decision =
  pd_decision :: string
  pd_risk :: string
  pd_reason :: string
  pd_categories :: "string list"

definition verdict :: "string \<Rightarrow> string \<Rightarrow> string list \<Rightarrow> string \<Rightarrow> policy_decision" where
  "verdict decision risk categories reason =
     \<lparr>pd_decision = decision, pd_risk = risk, pd_reason = reason, pd_categories = categories\<rparr>"

definition deny :: "string list \<Rightarrow> string \<Rightarrow> string \<Rightarrow> policy_decision" where
  "deny categories tag reason = verdict ''deny'' ''high'' (categories @ [tag]) reason"

definition allow :: "string list \<Rightarrow> string \<Rightarrow> string list \<Rightarrow> string \<Rightarrow> policy_decision" where
  "allow categories risk tags reason = verdict ''allow'' risk (categories @ tags) reason"

lemma verdict_simps [simp]:
  "pd_decision (verdict d r cs reason) = d" "pd_risk (verdict d r cs reason) = r"
  "pd_decision (deny cs tag reason) = ''deny''" "pd_risk (deny cs tag reason) = ''high''"
  "pd_decision (allow cs r tags reason) = ''allow''" "pd_risk (allow cs r tags reason) = r"
  by (simp_all add: verdict_def deny_def allow_def)

definition text_of :: "policy_env \<Rightarrow> pydict \<Rightarrow> string \<Rightarrow> string" where
  "text_of env payload k = py_str (pe_other env) (py_or (dget payload k) (PStr []))"

definition given :: "pydict \<Rightarrow> string \<Rightarrow> bool" where
  "given payload k = truthy (dget payload k)"

text \<open>A list of texts that are not empty.\<close>

fun nonempty_texts :: "pyval list \<Rightarrow> string list option" where
  "nonempty_texts [] = Some []"
| "nonempty_texts (PStr s # xs) = (if s = [] then None else map_option (\<lambda>ss. s # ss) (nonempty_texts xs))"
| "nonempty_texts (_ # xs) = None"

definition argv_texts :: "pyval \<Rightarrow> string list option" where
  "argv_texts v = (case v of PList xs \<Rightarrow> nonempty_texts xs | _ \<Rightarrow> None)"

section \<open>Arguments\<close>

definition git_workspace_read_commands :: "string list" where
  "git_workspace_read_commands = [''status'', ''diff'', ''log'', ''rev-parse'']"

definition git_branch_inventory_read_commands :: "string list" where
  "git_branch_inventory_read_commands = [''for-each-ref'', ''merge-base'', ''cherry'', ''rev-list'']"

definition git_protected_branches :: "string list" where
  "git_protected_branches = [''main'', ''master'', ''dev'', ''develop'', ''HEAD'']"

definition git_flow_rename_prefixes :: "string list" where
  "git_flow_rename_prefixes = [''feature/'', ''bugfix/'', ''release/'', ''hotfix/'', ''support/'']"

definition git_branch_read_flags :: "string list" where
  "git_branch_read_flags = [''--show-current'', ''--remotes'', ''-r'', ''--list'']"

definition git_branch_mutation_flags :: "string list" where
  "git_branch_mutation_flags = [''-d'', ''-D'', ''--delete'', ''-f'', ''--force'', ''-m'', ''-M'', ''--move'', ''-c'', ''-C'', ''--copy'']"

definition git_checkout_blocked_flags :: "string list" where
  "git_checkout_blocked_flags = [''-f'', ''--force'', ''--orphan'', ''--detach'', ''-B'', ''-b'']"

definition git_worktree_list_flags :: "string list" where
  "git_worktree_list_flags = [''--porcelain'']"

definition is_git_read_unsafe_flag :: "string \<Rightarrow> bool" where
  "is_git_read_unsafe_flag arg = (arg = ''--output'' \<or> prefix ''--output='' arg \<or> prefix ''-O'' arg \<or>
     arg \<in> {''--no-index'', ''--ext-diff'', ''--textconv''})"

definition safe_git_char :: "char \<Rightarrow> bool" where
  "safe_git_char c = (c \<notin> set '' ~^:?*['' \<and> c \<noteq> CHR 0x5C \<and> (of_char c :: nat) \<ge> 32)"

definition is_safe_git_arg :: "string \<Rightarrow> bool" where
  "is_safe_git_arg value =
     (let text = py_strip value in
      text \<noteq> [] \<and> text = value \<and> \<not> prefix ''-'' text \<and> length text \<le> 200 \<and>
      \<not> sublist ''..'' text \<and> \<not> sublist [CHR ''@'', CHR 0x7B] text \<and> CHR 0x0A \<notin> set text \<and> CHR 0x0D \<notin> set text \<and>
      list_all safe_git_char text)"

definition is_safe_remote_name :: "string \<Rightarrow> bool" where
  "is_safe_remote_name value =
     (let text = py_strip value in
      text \<noteq> [] \<and> text = value \<and> \<not> prefix ''-'' text \<and> length text \<le> 80 \<and>
      list_all (\<lambda>c. py_alnum c \<or> c \<in> set ''._-'') text)"

text \<open>
  What \<open>urlparse\<close> gives: leading control characters and blanks and every tab and line end are
  dropped; the scheme is what precedes the first colon when it is a letter followed by letters, digits
  and \<^verbatim>\<open>+-.\<close>; the authority follows two slashes. Unbalanced or unacceptable brackets raise
  \<open>ValueError\<close>.
\<close>

definition ascii_letter :: "char \<Rightarrow> bool" where
  "ascii_letter c = (alnum c \<and> \<not> is_digit c)"

definition url_scheme :: "string \<Rightarrow> string \<times> string" where
  "url_scheme url =
     (let head = takeWhile (\<lambda>c. c \<noteq> CHR '':'') url; tail = dropWhile (\<lambda>c. c \<noteq> CHR '':'') url in
      if tail \<noteq> [] \<and> head \<noteq> [] \<and> ascii_letter (hd head) \<and> list_all (\<lambda>c. alnum c \<or> c \<in> set ''+-.'') head
      then (py_lower head, tl tail) else ([], url))"

definition url_authority :: "policy_env \<Rightarrow> string \<Rightarrow> py_error + string \<times> string" where
  "url_authority env text =
     (let url = filter (\<lambda>c. c \<notin> {CHR 0x09, CHR 0x0A, CHR 0x0D}) (dropWhile (\<lambda>c. (of_char c :: nat) \<le> 32) text);
          (scheme, rest) = url_scheme url;
          authority = (if prefix ''//'' rest then takeWhile (\<lambda>c. c \<notin> set ''/?#'') (drop 2 rest) else []);
          opening = CHR ''['' \<in> set authority; closing = CHR '']'' \<in> set authority
      in if opening \<noteq> closing \<or> opening \<and> \<not> pe_bracketed_ok env authority then Inl ValueError
         else Inr (scheme, authority))"

text \<open>The user name and the password before the last \<^verbatim>\<open>@\<close> of the authority, empty when absent.\<close>

definition url_userinfo :: "string \<Rightarrow> string \<times> string" where
  "url_userinfo authority =
     (if CHR ''@'' \<notin> set authority then ([], [])
      else let userinfo = rev (tl (dropWhile (\<lambda>c. c \<noteq> CHR ''@'') (rev authority))) in
        (takeWhile (\<lambda>c. c \<noteq> CHR '':'') userinfo, drop 1 (dropWhile (\<lambda>c. c \<noteq> CHR '':'') userinfo)))"

definition remote_url_embeds_credentials :: "policy_env \<Rightarrow> string \<Rightarrow> py_error + bool" where
  "remote_url_embeds_credentials env value =
     try_then (url_authority env (py_strip value)) (\<lambda>(scheme, authority).
       let (username, password) = url_userinfo authority in
       Inr (if scheme = ''https'' then username \<noteq> [] \<or> password \<noteq> []
            else if scheme = ''ssh'' then password \<noteq> [] else False))"

section \<open>Subcommands\<close>

type_synonym git_rule = "string \<Rightarrow> bool \<Rightarrow> string list \<Rightarrow> string list \<Rightarrow> policy_decision"

definition git_merge_tree :: git_rule where
  "git_merge_tree operation network args cs =
     (if operation \<noteq> ''branch_inventory'' \<or> length args \<noteq> 3 \<or> args ! 0 \<noteq> ''--write-tree'' \<or>
         \<not> list_all is_safe_git_arg (drop 1 args)
      then deny cs ''git_workspace_merge_tree_shape_denied''
        ''Git merge-tree is limited to `merge-tree --write-tree <base> <branch>` for inventory.''
      else allow cs ''low'' [''git_workspace_command'', ''git_merge_tree'']
        ''Git merge-tree --write-tree is allowlisted to detect squash-merged branches.'')"

definition git_fetch :: git_rule where
  "git_fetch operation network args cs =
     (if operation \<noteq> ''prune_remote_refs'' \<or> \<not> network \<or> length args \<noteq> 2 \<or> args ! 0 \<noteq> ''--prune'' \<or>
         \<not> is_safe_remote_name (args ! 1)
      then deny cs ''git_workspace_fetch_shape_denied''
        ''Git fetch is limited to `fetch --prune <remote>` with prune_remote_refs.''
      else allow cs ''medium'' [''git_workspace_command'', ''git_fetch_prune'']
        ''Git fetch --prune is allowlisted to drop stale remote-tracking refs.'')"

definition git_init :: git_rule where
  "git_init operation network args cs =
     (if operation \<noteq> ''init_repository''
      then deny cs ''git_workspace_init_context_denied'' ''Git init requires the gitOperation=init_repository context.''
      else if args \<noteq> [] \<and> \<not> (length args = 2 \<and> args ! 0 \<in> {''--initial-branch'', ''-b''} \<and> args ! 1 \<in> {''main'', ''dev''})
      then deny cs ''git_workspace_init_shape_denied'' ''Git init is limited to --initial-branch main/dev.''
      else allow cs ''medium'' [''git_workspace_command'', ''git_init'']
        ''Git init is allowlisted for project repository setup.'')"

definition git_push_delete :: git_rule where
  "git_push_delete operation network args cs =
     (if \<not> network \<or> length args \<noteq> 3 \<or> \<not> is_safe_remote_name (args ! 0) \<or> args ! 1 \<noteq> ''--delete'' \<or>
         \<not> is_safe_git_arg (args ! 2) \<or> args ! 2 \<in> set git_protected_branches
      then deny cs ''git_workspace_push_delete_shape_denied''
        ''Remote branch delete is limited to `push <remote> --delete <non-protected-branch>`.''
      else allow cs ''high'' [''git_workspace_command'', ''git_push_delete_branch'']
        ''Remote branch delete is allowlisted for operator-confirmed branch cleanup.'')"

definition git_push :: git_rule where
  "git_push operation network args cs =
     (if operation \<noteq> ''push_branch'' \<or> \<not> network \<or> length args \<noteq> 2 \<or> \<not> is_safe_remote_name (args ! 0) \<or>
         \<not> is_safe_git_arg (args ! 1)
      then deny cs ''git_workspace_push_shape_denied''
        ''Git push is limited to `push <remote> <branch>` (no force/refspec) with push_branch.''
      else allow cs ''high'' [''git_workspace_command'', ''git_push_branch'']
        ''Git branch push is allowlisted for the configured landing flow.'')"

definition git_merge :: git_rule where
  "git_merge operation network args cs =
     (let merge_ok = (length args = 4 \<and> args ! 0 = ''--no-ff'' \<and> args ! 1 = ''-m'' \<and> py_strip (args ! 2) \<noteq> [] \<and>
                      \<not> prefix ''-'' (args ! 2) \<and> is_safe_git_arg (args ! 3) \<and> args ! 3 \<notin> set git_protected_branches);
          abort_ok = (args = [''--abort''])
      in if operation \<noteq> ''merge_work_branch'' \<or> \<not> (merge_ok \<or> abort_ok)
         then deny cs ''git_workspace_merge_shape_denied''
           ''Git merge is limited to `merge --no-ff -m <msg> <work-branch>` or `merge --abort`.''
         else allow cs ''medium'' [''git_workspace_command'', ''git_merge_work_branch'']
           ''Git work-branch merge into the checked-out base is allowlisted for landing.'')"

definition git_add :: git_rule where
  "git_add operation network args cs =
     (if operation = ''stage_changes'' \<and> args = [''-A'']
      then allow cs ''low'' [''git_workspace_command'', ''git_add'']
        ''Git add -A is allowlisted to stage the isolated worktree before commit.''
      else if operation = ''diff_capture_intent_to_add'' \<and> args = [''--intent-to-add'', ''--'', ''.'']
      then allow cs ''medium'' [''git_workspace_command'', ''git_intent_to_add'']
        ''Git intent-to-add is allowlisted only to capture untracked files in diff evidence.''
      else deny cs ''git_workspace_add_shape_denied''
        ''Git add is limited to `add -A` (stage_changes) or `add --intent-to-add -- .` (diff_capture_intent_to_add).'')"

definition git_commit :: git_rule where
  "git_commit operation network args cs =
     (let n = length args;
          message_ok = (n \<ge> 2 \<and> args ! (n - 2) = ''-m'' \<and> py_strip (last args) \<noteq> [] \<and> \<not> prefix ''-'' (last args));
          prefix_ok = (take (n - 2) args \<in> {[], [''--allow-empty'']})
      in if operation \<noteq> ''commit_changes'' \<or> \<not> message_ok \<or> \<not> prefix_ok
         then deny cs ''git_workspace_commit_shape_denied''
           ''Git commit is limited to `commit [--allow-empty] -m <message>` with commit_changes.''
         else allow cs ''medium'' [''git_workspace_command'', ''git_commit'']
           ''Git commit is allowlisted to persist agent work on the isolated worktree branch.'')"

definition git_remote :: "policy_env \<Rightarrow> string \<Rightarrow> string list \<Rightarrow> string list \<Rightarrow> py_error + policy_decision" where
  "git_remote env operation args cs =
     (if args = [''-v'']
      then Inr (allow cs ''low'' [''git_workspace_command'', ''git_remote_read'']
        ''Git remote listing is allowlisted for local workspace evidence.'')
      else if operation = ''remote_add'' then
        (if length args \<noteq> 3 \<or> args ! 0 \<noteq> ''add'' \<or> \<not> is_safe_remote_name (args ! 1)
         then Inr (deny cs ''git_workspace_remote_add_shape_denied''
           ''Git remote add must use argv [git, remote, add, name, url].'')
         else try_then (remote_url_embeds_credentials env (args ! 2)) (\<lambda>embedded.
           Inr (if embedded
                then deny cs ''git_workspace_remote_add_secret_denied''
                  ''Git remote URLs must not embed tokens or credentials.''
                else allow cs ''medium'' [''git_workspace_command'', ''git_remote_add'']
                  ''Git remote add is allowlisted after service-level URL validation.'')))
      else Inr (deny cs ''git_workspace_remote_mode_denied''
        ''Git remote command is limited to listing or remote add with explicit context.''))"

definition git_ls_remote :: git_rule where
  "git_ls_remote operation network args cs =
     (if operation \<noteq> ''remote_test''
      then deny cs ''git_workspace_ls_remote_context_denied'' ''Git ls-remote requires the gitOperation=remote_test context.''
      else if \<not> network
      then deny cs ''git_workspace_ls_remote_network_required'' ''Git ls-remote must explicitly declare networkRequired=true.''
      else if length args \<noteq> 2 \<or> args ! 0 \<noteq> ''--heads'' \<or> \<not> is_safe_remote_name (args ! 1)
      then deny cs ''git_workspace_ls_remote_shape_denied''
        ''Git ls-remote is limited to argv [git, ls-remote, --heads, remote].''
      else allow cs ''medium'' [''git_workspace_command'', ''git_remote_test'']
        ''Git remote test is allowlisted with explicit network gating.'')"

definition git_branch :: git_rule where
  "git_branch operation network args cs =
     (if operation = ''init_default_branch'' then
        (if length args \<noteq> 2 \<or> args ! 0 \<noteq> ''-M'' \<or> args ! 1 \<notin> {''main'', ''dev''}
         then deny cs ''git_workspace_init_default_branch_denied''
           ''Git default branch rename is limited to -M main/dev after init.''
         else allow cs ''medium'' [''git_workspace_command'', ''git_init_default_branch'']
           ''Git default branch rename is allowlisted for project repository setup.'')
      else if operation = ''advance_base_after_merge'' then
        (if length args \<noteq> 3 \<or> args ! 0 \<noteq> ''-f'' \<or> \<not> list_all is_safe_git_arg (drop 1 args)
         then deny cs ''git_workspace_branch_advance_denied''
           ''Git base advance is limited to `branch -f <base> <landing-ref>`.''
         else allow cs ''medium'' [''git_workspace_command'', ''git_branch_advance_base'']
           ''Fast-forward base advance after a verified landing merge is allowlisted.'')
      else if operation = ''delete_branch'' then
        (if length args \<noteq> 2 \<or> args ! 0 \<notin> {''-D'', ''--delete''} \<or> \<not> is_safe_git_arg (args ! 1) \<or>
            args ! 1 \<in> set git_protected_branches
         then deny cs ''git_workspace_branch_delete_denied''
           ''Git branch delete is limited to -D of a safe non-protected work branch.''
         else allow cs ''medium'' [''git_workspace_command'', ''git_branch_delete'']
           ''Git work-branch delete is allowlisted for workspace GC.'')
      else if operation = ''rename_branch'' then
        (if length args \<noteq> 3 \<or> args ! 0 \<noteq> ''-m'' \<or> \<not> list_all is_safe_git_arg (drop 1 args) \<or>
            args ! 1 \<in> set git_protected_branches \<or> args ! 2 \<in> set git_protected_branches \<or>
            \<not> list_ex (\<lambda>x. prefix x (args ! 2)) git_flow_rename_prefixes
         then deny cs ''git_workspace_branch_rename_denied''
           ''Git branch rename is limited to `branch -m <branch> <gitflow-prefixed-name>`.''
         else allow cs ''medium'' [''git_workspace_command'', ''git_branch_rename'']
           ''Git branch rename to a gitflow prefix is allowlisted for local branches.'')
      else if operation = ''create_branch'' then
        (if list_ex (\<lambda>arg. arg \<in> set git_branch_mutation_flags \<or> prefix ''-'' arg) args
         then deny cs ''git_workspace_branch_flag_denied'' ''Git branch creation cannot include mutation flags.''
         else if args = [] \<or> \<not> list_all is_safe_git_arg args
         then deny cs ''git_workspace_branch_name_denied'' ''Git branch creation requires safe branch/base refs.''
         else allow cs ''medium'' [''git_workspace_command'', ''git_branch_create'']
           ''Git branch creation is allowlisted inside the allocated workspace.'')
      else if list_all (\<lambda>arg. arg \<in> set git_branch_read_flags \<or> prefix ''--format='' arg) args
      then allow cs ''low'' [''git_workspace_command'', ''git_branch_read'']
        ''Git branch listing is allowlisted for local workspace evidence.''
      else deny cs ''git_workspace_branch_mode_denied''
        ''Git branch command is limited to branch creation or read-only branch listing.'')"

definition git_checkout :: "bool \<Rightarrow> string list \<Rightarrow> string list \<Rightarrow> policy_decision" where
  "git_checkout is_checkout args cs =
     (if \<not> is_checkout
      then deny cs ''git_workspace_checkout_context_denied'' ''Git checkout requires the gitOperation=checkout context.''
      else if list_ex (\<lambda>arg. arg \<in> set git_checkout_blocked_flags \<or> prefix ''-'' arg) args
      then deny cs ''git_workspace_checkout_flag_denied''
        ''Git checkout cannot include branch creation, detach or force flags.''
      else allow cs ''medium'' [''git_workspace_command'', ''git_checkout'']
        ''Git checkout is allowlisted after service-level dirty-tree preflight.'')"

definition git_worktree :: git_rule where
  "git_worktree operation network args cs =
     (if take 1 args = [''list''] \<and> list_all (\<lambda>arg. arg \<in> set git_worktree_list_flags) (drop 1 args)
      then allow cs ''low'' [''git_workspace_command'', ''git_worktree_list'']
        ''Git worktree listing is allowlisted for local workspace evidence.''
      else if operation = ''worktree_add'' then
        (if length args \<noteq> 5 \<or> args ! 0 \<noteq> ''add'' \<or> args ! 1 \<noteq> ''-b''
         then deny cs ''git_workspace_worktree_add_shape_denied''
           ''Git worktree add must use argv [git, worktree, add, -b, branch, path, base].''
         else if list_ex (\<lambda>item. item = [] \<or> prefix ''-'' item \<or> CHR 0x0A \<in> set item \<or> CHR 0x0D \<in> set item)
                   [args ! 2, args ! 3, args ! 4]
         then deny cs ''git_workspace_worktree_add_arg_denied''
           ''Git worktree add arguments must be non-empty refs/paths, not flags.''
         else allow cs ''medium'' [''git_workspace_command'', ''git_worktree_add'']
           ''Git worktree creation is allowlisted for isolated workspace setup.'')
      else if operation = ''worktree_remove'' then
        (if length args \<noteq> 3 \<or> args ! 0 \<noteq> ''remove'' \<or> args ! 1 \<noteq> ''--force'' \<or> args ! 2 = [] \<or> prefix ''-'' (args ! 2)
         then deny cs ''git_workspace_worktree_remove_shape_denied''
           ''Git worktree removal must use argv [git, worktree, remove, --force, path].''
         else allow cs ''medium'' [''git_workspace_command'', ''git_worktree_remove'']
           ''Git worktree cleanup is allowlisted for archived isolated workspaces.'')
      else if operation = ''worktree_prune'' then
        (if args \<noteq> [''prune'']
         then deny cs ''git_workspace_worktree_prune_shape_denied''
           ''Git worktree prune must use argv [git, worktree, prune] with no extra flags.''
         else allow cs ''low'' [''git_workspace_command'', ''git_worktree_prune'']
           ''Git worktree prune only drops admin entries of missing worktree directories.'')
      else deny cs ''git_workspace_worktree_mode_denied''
        ''Git worktree command is limited to list, add, remove, or prune with explicit context.'')"

definition git_apply :: git_rule where
  "git_apply operation network args cs =
     (if operation = ''apply_check'' then
        (if length args \<noteq> 2 \<or> args ! 0 \<noteq> ''--check'' \<or> args ! 1 = [] \<or> prefix ''-'' (args ! 1)
         then deny cs ''git_workspace_apply_check_shape_denied''
           ''Git apply check must use argv [git, apply, --check, patch_path].''
         else allow cs ''medium'' [''git_workspace_command'', ''git_apply_check'']
           ''Git apply --check is allowlisted for verified patch promotion.'')
      else if operation = ''apply_patch'' then
        (if length args \<noteq> 1 \<or> args ! 0 = [] \<or> prefix ''-'' (args ! 0)
         then deny cs ''git_workspace_apply_shape_denied'' ''Git apply must use argv [git, apply, patch_path].''
         else allow cs ''medium'' [''git_workspace_command'', ''git_apply_patch'']
           ''Git apply is allowlisted only for approved patch promotion.'')
      else deny cs ''git_workspace_apply_denied'' ''Git apply requires explicit apply_check or apply_patch context.'')"

section \<open>The evaluation\<close>

text \<open>The chain of subcommands after the checks of the context.\<close>

definition git_subcommand ::
  "policy_env \<Rightarrow> bool \<Rightarrow> string \<Rightarrow> bool \<Rightarrow> string \<Rightarrow> string list \<Rightarrow> string list \<Rightarrow> py_error + policy_decision" where
  "git_subcommand env is_checkout operation network subcommand args cs =
     (if subcommand \<in> set git_workspace_read_commands
      then Inr (allow cs ''low'' [''git_workspace_command'', ''git_'' @ subcommand]
        (''Git '' @ subcommand @ '' is allowlisted for local workspace evidence.''))
      else if subcommand \<in> set git_branch_inventory_read_commands
      then Inr (allow cs ''low'' [''git_workspace_command'',
          ''git_'' @ map (\<lambda>c. if c = CHR ''-'' then CHR ''_'' else c) subcommand]
        (''Git '' @ subcommand @ '' is allowlisted as read-only branch inventory plumbing.''))
      else if subcommand = ''merge-tree'' then Inr (git_merge_tree operation network args cs)
      else if subcommand = ''fetch'' then Inr (git_fetch operation network args cs)
      else if subcommand = ''init'' then Inr (git_init operation network args cs)
      else if subcommand = ''push'' \<and> operation = ''delete_remote_branch''
      then Inr (git_push_delete operation network args cs)
      else if subcommand = ''push'' then Inr (git_push operation network args cs)
      else if subcommand = ''merge'' then Inr (git_merge operation network args cs)
      else if subcommand = ''add'' then Inr (git_add operation network args cs)
      else if subcommand = ''commit'' then Inr (git_commit operation network args cs)
      else if subcommand = ''remote'' then git_remote env operation args cs
      else if subcommand = ''ls-remote'' then Inr (git_ls_remote operation network args cs)
      else if subcommand = ''branch'' then Inr (git_branch operation network args cs)
      else if subcommand = ''checkout'' then Inr (git_checkout is_checkout args cs)
      else if subcommand = ''worktree'' then Inr (git_worktree operation network args cs)
      else if subcommand = ''apply'' then Inr (git_apply operation network args cs)
      else Inr (deny cs ''git_workspace_command_denied''
        ''Git workspace command is not in the allowed local Git subcommand set.''))"

definition network_permitted :: "string \<Rightarrow> string \<Rightarrow> bool" where
  "network_permitted subcommand operation =
     (subcommand = ''ls-remote'' \<and> operation = ''remote_test'' \<or>
      subcommand = ''push'' \<and> operation \<in> {''push_branch'', ''delete_remote_branch''} \<or>
      subcommand = ''fetch'' \<and> operation = ''prune_remote_refs'')"

definition is_git_executable :: "policy_env \<Rightarrow> string \<Rightarrow> bool" where
  "is_git_executable env s = (py_lower (pe_path_name env s) \<in> {''git'', ''git.exe'', ''git.cmd''})"

definition has_context :: "pydict \<Rightarrow> bool" where
  "has_context payload = (given payload ''workspaceId'' \<and> given payload ''workspacePath'' \<and> given payload ''agentRunId'')"

definition git_command ::
  "policy_env \<Rightarrow> pydict \<Rightarrow> string \<Rightarrow> string \<Rightarrow> string list \<Rightarrow> string list \<Rightarrow> py_error + policy_decision" where
  "git_command env payload executable word args cs =
     (let subcommand = py_lower word; operation = text_of env payload ''gitOperation'';
          network = given payload ''networkRequired'' in
      if \<not> is_git_executable env executable
      then Inr (deny cs ''git_workspace_executable_denied''
        ''Git workspace execution is limited to the local git executable.'')
      else if network \<and> \<not> network_permitted subcommand operation
      then Inr (deny cs ''git_workspace_unapproved_network_denied''
        ''Git workspace network access is limited to explicit remote tests and branch pushes.'')
      else if subcommand \<in> set (git_workspace_read_commands @ git_branch_inventory_read_commands) \<and>
              list_ex is_git_read_unsafe_flag (takeWhile (\<lambda>arg. arg \<noteq> ''--'') args)
      then Inr (deny cs ''git_workspace_read_flag_denied''
        ''Git read commands cannot write files, bypass the index or run external diff drivers.'')
      else git_subcommand env (dget payload ''gitOperation'' = PStr ''checkout'') operation network subcommand args cs)"

definition evaluate_git_workspace_command ::
  "policy_env \<Rightarrow> pydict \<Rightarrow> string \<Rightarrow> string list \<Rightarrow> py_error + policy_decision" where
  "evaluate_git_workspace_command env payload permission_profile cs =
     (if dget payload ''agentId'' \<noteq> PStr ''git_workspace_agent''
      then Inr (deny cs ''git_workspace_agent_denied''
        ''Git workspace commands are restricted to the GitWorkspace agent profile.'')
      else if dget payload ''tool'' \<noteq> PStr ''shell''
      then Inr (deny cs ''git_workspace_tool_denied''
        ''Git workspace commands must execute through shell with structured argv.'')
      else if permission_profile \<noteq> ''dev_safe''
      then Inr (deny cs ''git_workspace_profile_denied''
        ''Git workspace execution requires the dev_safe permission profile.'')
      else if \<not> has_context payload
      then Inr (deny cs ''git_workspace_context_required''
        ''Git workspace execution requires workspace and agent run context.'')
      else if given payload ''secretsRequired''
      then Inr (deny cs ''git_workspace_secret_denied'' ''Git workspace commands must not receive injected secrets.'')
      else (case argv_texts (dget payload ''commandArgv'') of
          Some (executable # word # args) \<Rightarrow> git_command env payload executable word args cs
        | _ \<Rightarrow> Inr (deny cs ''git_workspace_argv_required''
            ''Git workspace execution requires argv shaped as [git, subcommand, ...].'')))"

end
