(* ===== verification/Policy_Engine.thy ===== *)
theory Policy_Engine
  imports Policy_Git
begin

text \<open>
  \<open>security_policy/policy_engine.py\<close>: \<open>evaluate_action\<close>, one definition for each agent operation, and
  \<open>security_policy/executable_origin.py\<close>. \<open>x in {...}\<close> raises \<open>TypeError\<close> on a list or a dict, and so
  does \<open>Path(x)\<close> on what is not a text.
\<close>

definition model_runtime_tools :: "string list" where
  "model_runtime_tools = [''ollama'', ''openai_compatible'', ''openrouter'', ''nvidia_nim'', ''anthropic_api'']"

definition model_runtime_reason :: string where
  "model_runtime_reason = ''configured Ollama, OpenAI-compatible, OpenRouter, NVIDIA NIM or Anthropic adapters''"

definition plan_execution_adapter_tools :: "string list" where
  "plan_execution_adapter_tools = model_runtime_tools @ [''openhands'', ''swe_agent'', ''workspace_patch'']"

definition runtime_cli_operations :: "string list" where
  "runtime_cli_operations = [''architect_agent_runtime'', ''codex_compatibility_smoke'', ''developer_agent_runtime'',
     ''product_owner_runtime'']"

definition windows_launcher_suffixes :: "string list" where
  "windows_launcher_suffixes = [''.cmd'', ''.bat'', ''.exe'', ''.ps1'']"

definition model_runtime_binding_is_valid :: "policy_env \<Rightarrow> pydict \<Rightarrow> string \<Rightarrow> bool" where
  "model_runtime_binding_is_valid env payload tool =
     (let runtime = text_of env payload ''runtimeId'' in
      tool \<in> set model_runtime_tools \<and> runtime \<noteq> [] \<and> text_of env payload ''providerId'' = runtime \<and>
      dget payload ''providerFamily'' = PStr tool)"

definition allowlisted_shell_categories :: "string \<Rightarrow> string list \<Rightarrow> string list" where
  "allowlisted_shell_categories profile categories =
     (let pick = map snd \<circ> filter (\<lambda>(c, tag). c \<in> set categories) in
      if profile = ''dev_safe'' then
        pick [(''test'', ''allowlisted_test''), (''build'', ''allowlisted_build''), (''lint'', ''allowlisted_lint''),
              (''interpreter_version'', ''allowlisted_diagnostic''), (''read_only'', ''allowlisted_read'')]
      else if profile = ''qa'' then
        pick [(''test'', ''allowlisted_test''), (''build'', ''allowlisted_build''), (''lint'', ''allowlisted_lint''),
              (''typecheck'', ''allowlisted_typecheck''), (''quality'', ''allowlisted_quality''),
              (''security_scan'', ''allowlisted_security_scan''), (''interpreter_version'', ''allowlisted_diagnostic''),
              (''read_only'', ''allowlisted_read''), (''dependency_install_frozen'', ''allowlisted_dependency_install'')]
      else [])"

section \<open>Origin of the executable\<close>

definition is_path_inside :: "policy_env \<Rightarrow> pyval \<Rightarrow> pyval \<Rightarrow> py_error + bool" where
  "is_path_inside env path base =
     (if \<not> truthy path \<or> \<not> truthy base then Inr True
      else (case (path, base) of (PStr p, PStr r) \<Rightarrow> Inr (pe_inside env p r) | _ \<Rightarrow> Inl TypeError))"

definition path_directories :: "policy_env \<Rightarrow> string set" where
  "path_directories env = set (List.map_filter (\<lambda>entry.
     let candidate = rev (dropWhile (\<lambda>c. c = CHR 0x22) (rev (dropWhile (\<lambda>c. c = CHR 0x22) (py_strip entry)))) in
     if candidate = [] then None
     else (case pe_normalized env candidate of Some [] \<Rightarrow> None | d \<Rightarrow> d)) (pe_path_entries env))"

definition executable_origin_is_trusted :: "policy_env \<Rightarrow> pyval \<Rightarrow> pyval \<Rightarrow> py_error + bool" where
  "executable_origin_is_trusted env argv workspace_path =
     (case argv of
        PList (PStr executable # _) \<Rightarrow>
          if py_strip executable = [] then Inr False
          else if pe_dirname env executable = [] then Inr True
          else let normalized = pe_normalized env executable; parent = pe_normalized env (pe_dirname env executable) in
            if normalized \<noteq> None \<and> normalized = pe_normalized env (pe_interpreter env) then Inr True
            else if parent \<noteq> None \<and> the parent \<in> path_directories env then Inr True
            else if \<not> truthy workspace_path then Inr False
            else is_path_inside env (PStr executable) workspace_path
      | _ \<Rightarrow> Inr False)"

section \<open>The command that runs\<close>

definition base_name :: "string \<Rightarrow> string" where
  "base_name s = rev (takeWhile (\<lambda>c. c \<noteq> CHR ''/'') (rev (map (\<lambda>c. if c = CHR 0x5C then CHR ''/'' else c) s)))"

text \<open>\<open>rpartition\<close> at the last dot: the stem, when there is a dot, and the suffix.\<close>

definition logical_executable :: "string \<Rightarrow> string" where
  "logical_executable s =
     (let executable = base_name s;
          tail = takeWhile (\<lambda>c. c \<noteq> CHR ''.'') (rev executable);
          stem = rev (drop (length tail + 1) (rev executable))
      in if CHR ''.'' \<in> set executable \<and> stem \<noteq> [] \<and> CHR ''.'' # py_lower (rev tail) \<in> set windows_launcher_suffixes
         then stem else executable)"

definition executed_argv_command :: "policy_env \<Rightarrow> pydict \<Rightarrow> string \<Rightarrow> string option" where
  "executed_argv_command env payload operation =
     (if dget payload ''execute'' \<noteq> PBool True \<or> text_of env payload ''tool'' \<noteq> ''shell'' \<or>
         operation \<in> set runtime_cli_operations then None
      else (case argv_texts (dget payload ''commandArgv'') of
          Some (executable # args) \<Rightarrow> Some (shlex_join (logical_executable executable # args))
        | _ \<Rightarrow> None))"

section \<open>Operations\<close>

type_synonym policy_rule =
  "policy_env \<Rightarrow> pydict \<Rightarrow> string \<Rightarrow> string \<Rightarrow> classification \<Rightarrow> string list \<Rightarrow> policy_decision"

definition remote_or_secret :: "pydict \<Rightarrow> bool" where
  "remote_or_secret payload = (given payload ''networkRequired'' \<or> given payload ''secretsRequired'')"

definition eval_smoke :: "bool \<Rightarrow> pydict \<Rightarrow> string \<Rightarrow> string \<Rightarrow> string list \<Rightarrow> policy_decision" where
  "eval_smoke trusted payload tool profile cs =
     verdict (if trusted \<and> dget payload ''smokeApproved'' = PBool True \<and> tool = ''shell'' \<and>
                 dget payload ''runtimeId'' = PStr ''codex_cli'' \<and> profile = ''plan'' \<and> given payload ''workspaceId'' \<and>
                 given payload ''workspacePath'' \<and> \<not> given payload ''networkRequired'' \<and> \<not> given payload ''secretsRequired''
              then ''allow'' else ''deny'')
       ''medium'' (cs @ [''codex_compatibility_smoke''])
       ''Codex compatibility smoke requires a claimed, command-bound explicit approval.''"

definition eval_qa_agent :: policy_rule where
  "eval_qa_agent env payload tool profile cl cs =
     (if dget payload ''agentId'' \<noteq> PStr ''qa_agent''
      then deny cs ''qa_agent_command_agent_denied'' ''QAAgent command execution is restricted to the QAAgent profile.''
      else if tool \<noteq> ''shell''
      then deny cs ''qa_agent_command_tool_denied'' ''QAAgent commands must execute through shell with structured argv.''
      else if profile \<noteq> ''qa''
      then deny cs ''qa_agent_command_profile_denied'' ''QAAgent command execution requires the qa permission profile.''
      else if \<not> has_context payload
      then deny cs ''qa_agent_command_context_required''
        ''QAAgent command execution requires workspace and agent run context.''
      else let allowed = allowlisted_shell_categories profile cs in
        if allowed \<noteq> [] \<and> cl_risk cl = ''low''
        then allow cs ''low'' (allowed @ [''qa_agent_command'']) ''QAAgent command is allowlisted for real QA execution.''
        else verdict ''requires_approval'' ''medium'' (cs @ [''qa_agent_command_gated''])
          ''QAAgent command is not in the low-risk QA allowlist.'')"

definition eval_devops_agent :: policy_rule where
  "eval_devops_agent env payload tool profile cl cs =
     (if dget payload ''agentId'' \<noteq> PStr ''devops_agent''
      then deny cs ''devops_agent_command_agent_denied''
        ''DevOpsAgent command execution is restricted to the DevOpsAgent profile.''
      else if tool \<noteq> ''shell''
      then deny cs ''devops_agent_command_tool_denied''
        ''DevOpsAgent commands must execute through shell with structured argv.''
      else if profile \<noteq> ''qa''
      then deny cs ''devops_agent_command_profile_denied''
        ''DevOpsAgent command execution requires the qa permission profile.''
      else if \<not> has_context payload
      then deny cs ''devops_agent_command_context_required''
        ''DevOpsAgent command execution requires workspace and agent run context.''
      else let allowed = allowlisted_shell_categories profile cs in
        if allowed \<noteq> [] \<and> cl_risk cl = ''low''
        then allow cs ''low'' (allowed @ [''devops_agent_command''])
          ''DevOpsAgent command is allowlisted for real local validation.''
        else verdict ''requires_approval'' ''medium'' (cs @ [''devops_agent_command_gated''])
          ''DevOpsAgent command is not in the low-risk local validation allowlist.'')"

definition scanner_executables :: "(string \<times> string list) list" where
  "scanner_executables =
     [(''gitleaks'', [''gitleaks'', ''gitleaks.cmd'', ''gitleaks.exe'']),
      (''semgrep'', [''semgrep'', ''semgrep.cmd'', ''semgrep.exe''])]"

definition eval_scanner :: policy_rule where
  "eval_scanner env payload tool profile cl cs =
     (if dget payload ''agentId'' \<noteq> PStr ''security_agent''
      then deny cs ''security_agent_scanner_agent_denied''
        ''SecurityAgent scanner execution is restricted to the SecurityAgent profile.''
      else if tool \<noteq> ''shell''
      then deny cs ''security_agent_scanner_tool_denied''
        ''SecurityAgent scanners must execute through shell with structured argv.''
      else if profile \<noteq> ''qa''
      then deny cs ''security_agent_scanner_profile_denied''
        ''SecurityAgent scanner execution requires the qa permission profile.''
      else if \<not> has_context payload
      then deny cs ''security_agent_scanner_context_required''
        ''SecurityAgent scanner execution requires workspace and agent run context.''
      else if remote_or_secret payload
      then deny cs ''security_agent_scanner_remote_or_secret_denied''
        ''SecurityAgent scanners must run as local scans without network or injected secrets.''
      else (case argv_texts (dget payload ''commandArgv'') of
          Some (program # _) \<Rightarrow>
            let scanner = py_lower (py_strip (text_of env payload ''runtimeId''));
                executable = py_lower (pe_path_name env program) in
            (case map_of scanner_executables scanner of
               Some executables \<Rightarrow>
                 if executable \<in> set executables
                 then allow cs ''low'' [''security_agent_scanner'', scanner]
                   (''SecurityAgent '' @ scanner @ '' scanner execution is allowlisted for local security evidence.'')
                 else deny cs ''security_agent_scanner_executable_denied''
                   ''SecurityAgent scanner execution is limited to gitleaks or semgrep local CLIs.''
             | None \<Rightarrow> deny cs ''security_agent_scanner_executable_denied''
                 ''SecurityAgent scanner execution is limited to gitleaks or semgrep local CLIs.'')
        | _ \<Rightarrow> deny cs ''security_agent_scanner_argv_required''
            ''SecurityAgent scanner execution requires structured argv.''))"

text \<open>\<open>tool != "shell" or runtimeId not in names\<close>.\<close>

definition cli_runtime_denied :: "pydict \<Rightarrow> string \<Rightarrow> string list \<Rightarrow> py_error + bool" where
  "cli_runtime_denied payload tool names =
     (let runtime = dget payload ''runtimeId'' in
      if tool \<noteq> ''shell'' then Inr True
      else if \<not> hashable runtime then Inl TypeError
      else Inr (runtime \<notin> PStr ` set names))"

definition eval_developer_runtime :: "pydict \<Rightarrow> string \<Rightarrow> string list \<Rightarrow> py_error + policy_decision" where
  "eval_developer_runtime payload tool cs =
     try_then (cli_runtime_denied payload tool [''codex_cli'', ''claude_code_cli'', ''openhands'', ''swe_agent'']) (\<lambda>denied.
       Inr (if denied
            then deny cs ''developer_agent_cli_runtime_denied''
              ''DeveloperAgent CLI execution is limited to configured Codex, Claude, OpenHands, or SWE-agent CLI runtimes.''
            else if remote_or_secret payload
            then verdict ''requires_approval'' ''medium'' (cs @ [''developer_agent_cli_approval_required''])
              ''DeveloperAgent CLI execution with network or secrets requires approval.''
            else allow cs ''medium'' [''developer_agent_runtime'']
              ''DeveloperAgent CLI runtime execution is allowed inside the allocated workspace.''))"

definition eval_developer_model :: policy_rule where
  "eval_developer_model env payload tool profile cl cs =
     (if \<not> model_runtime_binding_is_valid env payload tool
      then deny cs ''developer_agent_model_runtime_denied''
        (''DeveloperAgent model execution is limited to '' @ model_runtime_reason @ ''.'')
      else allow cs ''medium'' [''developer_agent_model_call'']
        ''DeveloperAgent model execution is allowed for a configured runtime adapter.'')"

definition eval_developer_patch :: policy_rule where
  "eval_developer_patch env payload tool profile cl cs =
     (if tool \<noteq> ''workspace_patch''
      then deny cs ''developer_agent_patch_tool_denied''
        ''DeveloperAgent patch application must use the workspace_patch adapter.''
      else if remote_or_secret payload
      then deny cs ''developer_agent_patch_denied''
        ''DeveloperAgent patch application cannot request network or secrets.''
      else allow cs ''medium'' [''developer_agent_patch_apply'']
        ''DeveloperAgent patch application is allowed inside the allocated workspace.'')"

definition eval_developer_qa :: policy_rule where
  "eval_developer_qa env payload tool profile cl cs =
     (if tool \<noteq> ''shell''
      then deny cs ''developer_agent_qa_tool_denied''
        ''DeveloperAgent QA must execute through shell with structured argv.''
      else let allowed = allowlisted_shell_categories profile cs in
        if allowed \<noteq> [] \<and> cl_risk cl = ''low''
        then allow cs ''low'' (allowed @ [''developer_agent_qa''])
          ''DeveloperAgent QA command is allowlisted for dev_safe execution.''
        else verdict ''requires_approval'' ''medium'' (cs @ [''developer_agent_qa_gated''])
          ''DeveloperAgent QA command is not in the low-risk allowlist.'')"

definition eval_developer ::
  "policy_env \<Rightarrow> pydict \<Rightarrow> string \<Rightarrow> string \<Rightarrow> string \<Rightarrow> classification \<Rightarrow> string list \<Rightarrow> py_error + policy_decision" where
  "eval_developer env payload operation tool profile cl cs =
     (if dget payload ''agentId'' \<noteq> PStr ''developer_agent''
      then Inr (deny cs ''developer_agent_denied''
        ''DeveloperAgent runtime operations are restricted to the DeveloperAgent profile.'')
      else if profile \<noteq> ''dev_safe''
      then Inr (deny cs ''developer_agent_profile_denied'' ''DeveloperAgent execution requires a dev_safe profile.'')
      else if \<not> given payload ''workspaceId'' \<or> \<not> given payload ''workspacePath''
      then Inr (deny cs ''developer_agent_workspace_required''
        ''DeveloperAgent execution requires an allocated workspace.'')
      else if \<not> given payload ''runtimeId'' \<and> operation \<notin> {''developer_agent_patch_apply'', ''developer_agent_qa''}
      then Inr (deny cs ''developer_agent_runtime_required'' ''DeveloperAgent execution requires runtime context.'')
      else if \<not> given payload ''agentRunId''
      then Inr (deny cs ''developer_agent_run_required'' ''DeveloperAgent execution requires an agent run audit id.'')
      else if operation = ''developer_agent_runtime'' then eval_developer_runtime payload tool cs
      else if operation = ''developer_agent_model_call'' then Inr (eval_developer_model env payload tool profile cl cs)
      else if operation = ''developer_agent_patch_apply'' then Inr (eval_developer_patch env payload tool profile cl cs)
      else Inr (eval_developer_qa env payload tool profile cl cs))"

definition eval_architect :: "policy_env \<Rightarrow> pydict \<Rightarrow> string \<Rightarrow> string \<Rightarrow> string \<Rightarrow> string list \<Rightarrow> policy_decision" where
  "eval_architect env payload operation tool profile cs =
     (let cli_review = (operation = ''architect_agent_runtime'') in
      if dget payload ''agentId'' \<noteq> PStr ''architect_agent''
      then deny cs ''architect_agent_denied''
        ''ArchitectAgent model execution is restricted to the ArchitectAgent profile.''
      else if profile \<noteq> ''plan''
      then deny cs ''architect_agent_profile_denied''
        ''ArchitectAgent model execution requires the plan permission profile.''
      else if cli_review \<and> (tool \<noteq> ''shell'' \<or> dget payload ''runtimeId'' \<noteq> PStr ''claude_code_cli'') \<or>
              \<not> cli_review \<and> \<not> model_runtime_binding_is_valid env payload tool
      then deny cs ''architect_agent_model_runtime_denied''
        (if cli_review then ''ArchitectAgent CLI review requires Claude Code CLI.''
         else ''ArchitectAgent model execution is limited to '' @ model_runtime_reason @ ''.'')
      else if \<not> has_context payload
      then deny cs ''architect_agent_context_required''
        ''ArchitectAgent model execution requires workspace and agent run context.''
      else if given payload ''secretsRequired''
      then deny cs ''architect_agent_secrets_denied''
        ''ArchitectAgent prompts cannot request secret-bearing execution.''
      else if cli_review \<and> (dget payload ''providerTransportRequired'' \<noteq> PBool True \<or> given payload ''networkRequired'')
      then verdict ''deny'' ''high'' [''architect_cli_transport_denied'']
        ''ArchitectAgent review permits provider transport only, not independent network access.''
      else allow cs ''medium'' [operation]
        (if cli_review then ''ArchitectAgent read-only CLI review is allowed through its trusted broker boundary.''
         else ''ArchitectAgent model execution is allowed for a configured runtime adapter.''))"

definition eval_product_owner ::
  "policy_env \<Rightarrow> pydict \<Rightarrow> string \<Rightarrow> string \<Rightarrow> string \<Rightarrow> string list \<Rightarrow> py_error + policy_decision" where
  "eval_product_owner env payload operation tool profile cs =
     (if dget payload ''agentId'' \<noteq> PStr ''product_owner_agent''
      then Inr (deny cs ''product_owner_agent_denied''
        ''ProductOwnerAgent runtime operations are restricted to the ProductOwnerAgent profile.'')
      else if profile \<noteq> ''plan''
      then Inr (deny cs ''product_owner_agent_profile_denied''
        ''ProductOwnerAgent execution requires the plan permission profile.'')
      else if \<not> has_context payload
      then Inr (deny cs ''product_owner_agent_context_required''
        ''ProductOwnerAgent execution requires workspace and agent run context.'')
      else if operation = ''product_owner_runtime'' then
        try_then (cli_runtime_denied payload tool [''codex_cli'', ''claude_code_cli'']) (\<lambda>denied.
          Inr (if denied
               then deny cs ''product_owner_cli_runtime_denied''
                 ''ProductOwnerAgent CLI execution is limited to configured Codex or Claude CLI runtimes.''
               else if remote_or_secret payload
               then verdict ''requires_approval'' ''medium'' (cs @ [''product_owner_cli_approval_required''])
                 ''ProductOwnerAgent CLI execution with network or secrets requires approval.''
               else allow cs ''medium'' [''product_owner_runtime'']
                 ''ProductOwnerAgent CLI runtime execution is allowed inside the allocated workspace.''))
      else if \<not> model_runtime_binding_is_valid env payload tool
      then Inr (deny cs ''product_owner_model_runtime_denied''
        (''ProductOwnerAgent model execution is limited to '' @ model_runtime_reason @ ''.''))
      else if given payload ''secretsRequired''
      then Inr (deny cs ''product_owner_secrets_denied''
        ''ProductOwnerAgent prompts cannot request secret-bearing execution.'')
      else Inr (allow cs ''medium'' [''product_owner_model_call'']
        ''ProductOwnerAgent model execution is allowed for a configured runtime adapter.''))"

definition eval_security_model :: policy_rule where
  "eval_security_model env payload tool profile cl cs =
     (if dget payload ''agentId'' \<noteq> PStr ''security_agent''
      then deny cs ''security_agent_denied'' ''SecurityAgent model analysis is restricted to the SecurityAgent profile.''
      else if profile \<noteq> ''qa''
      then deny cs ''security_agent_profile_denied''
        ''SecurityAgent optional model analysis requires the qa permission profile.''
      else if \<not> model_runtime_binding_is_valid env payload tool
      then deny cs ''security_agent_model_runtime_denied''
        (''SecurityAgent model analysis is limited to '' @ model_runtime_reason @ ''.'')
      else if \<not> has_context payload
      then deny cs ''security_agent_context_required''
        ''SecurityAgent model analysis requires workspace and agent run context.''
      else if given payload ''secretsRequired''
      then deny cs ''security_agent_secrets_denied'' ''SecurityAgent prompts cannot request secret-bearing execution.''
      else allow cs ''medium'' [''security_agent_model_call'']
        ''SecurityAgent optional model analysis is allowed for a configured runtime adapter.'')"

definition eval_assessment :: policy_rule where
  "eval_assessment env payload tool profile cl cs =
     (if dget payload ''agentId'' \<noteq> PStr ''project_assessment_agent''
      then deny cs ''project_assessment_agent_denied''
        ''Project assessment inspection is restricted to the ProjectAssessment agent.''
      else if profile \<noteq> ''plan''
      then deny cs ''project_assessment_profile_denied''
        ''Project assessment inspection requires the plan permission profile.''
      else if \<not> given payload ''path'' \<or> \<not> given payload ''agentRunId''
      then deny cs ''project_assessment_context_required''
        ''Project assessment inspection requires the project path and agent run context.''
      else if remote_or_secret payload
      then deny cs ''project_assessment_remote_or_secret_denied''
        ''Project assessment must run as a local read-only scan without network or secrets.''
      else allow cs ''low'' [''project_assessment'']
        ''Project assessment static read-only inspection is allowed for local assessment evidence.'')"

definition eval_issue_to_patch :: policy_rule where
  "eval_issue_to_patch env payload tool profile cl cs =
     (if dget payload ''agentId'' \<noteq> PStr ''aido_issue_to_patch_runner''
      then deny cs ''issue_to_patch_runtime_agent_denied''
        ''issue_to_patch runtime execution is restricted to the workflow runner agent.''
      else if dget payload ''workflowKind'' \<noteq> PStr ''issue_to_patch'' \<or> \<not> given payload ''runtimeId''
      then deny cs ''issue_to_patch_runtime_context_required''
        ''issue_to_patch runtime execution requires workflow and runtime context.''
      else if profile \<noteq> ''dev_safe''
      then deny cs ''issue_to_patch_runtime_profile_denied''
        ''issue_to_patch runtime execution requires a dev_safe implementer profile.''
      else if \<not> given payload ''workspaceId'' \<or> \<not> given payload ''workspacePath''
      then deny cs ''issue_to_patch_workspace_required''
        ''issue_to_patch runtime execution requires an allocated workspace.''
      else if remote_or_secret payload
      then verdict ''requires_approval'' ''medium'' (cs @ [''issue_to_patch_runtime_approval_required''])
        ''issue_to_patch runtime execution with network or secrets requires approval.''
      else allow cs ''medium'' [''issue_to_patch_runtime'']
        ''Configured issue_to_patch runtime execution is allowed inside the allocated workspace.'')"

text \<open>The shell tool without an agent operation of its own, with a command and without one.\<close>

definition eval_shell :: policy_rule where
  "eval_shell env payload tool profile cl cs =
     (if profile = ''plan''
      then verdict ''deny'' ''medium'' (cs @ [''profile_shell_denied'']) ''Plan profile cannot execute shell commands.''
      else if profile = ''release''
      then verdict ''requires_approval'' ''medium'' (cs @ [''profile_release_shell_gated''])
        ''Release profile shell actions require explicit approval.''
      else let allowed = allowlisted_shell_categories profile cs in
        if allowed \<noteq> [] \<and> cl_risk cl = ''low''
        then allow cs ''low'' allowed (profile @ '' profile allows this shell command category.'')
        else verdict ''requires_approval'' ''medium'' (if profile = ''qa'' then cs @ [''profile_test_only''] else cs)
          ''Shell command is not in the permission profile allowlist.'')"

definition eval_empty_shell :: policy_rule where
  "eval_empty_shell env payload tool profile cl cs =
     (if profile = ''plan''
      then verdict ''deny'' ''medium'' (cs @ [''profile_shell_denied'']) ''Plan profile cannot execute shell commands.''
      else verdict ''requires_approval'' ''medium'' (cs @ [''shell_command_missing''])
        ''Shell action carries no command or structured argv and requires approval.'')"

text \<open>What is not the shell.\<close>

definition eval_other ::
  "string \<Rightarrow> string \<Rightarrow> string \<Rightarrow> string \<Rightarrow> classification \<Rightarrow> string list \<Rightarrow> policy_decision" where
  "eval_other operation command tool profile cl cs =
     (if profile = ''plan'' \<and> tool \<in> set plan_execution_adapter_tools
      then verdict ''deny'' ''medium'' (cs @ [''profile_runtime_adapter_denied''])
        ''Plan profile cannot execute an unscoped runtime adapter; a recognized internal operation is required.''
      else if tool \<in> set (''mcp'' # plan_execution_adapter_tools) \<and> command \<noteq> [] \<and> cl_risk cl = ''critical''
      then verdict ''requires_human'' ''critical'' cs
        ''Runtime adapter command is critical and requires explicit human review.''
      else if tool \<in> set (''mcp'' # plan_execution_adapter_tools) \<and> command \<noteq> [] \<and> cl_risk cl \<noteq> ''low''
      then verdict ''requires_approval'' ''medium'' cs
        ''Runtime adapter command is not in the low-risk allowlist and requires approval.''
      else if tool = ''mcp'' \<and> operation \<noteq> [] \<and> command = [] \<and>
              operation \<notin> {''tools/list'', ''resources/list'', ''prompts/list''}
      then verdict ''requires_approval'' ''medium'' (cs @ [''mcp_operation_gated''])
        ''MCP tool execution beyond read-only discovery requires approval.''
      else if cl_risk cl = ''low''
      then verdict ''allow'' ''low'' cs ''Low-risk test/build/read-only action allowed by internal policy.''
      else verdict ''requires_approval'' ''medium'' (cs @ [''unrecognized_action_gated''])
        ''Action is not recognized as low-risk by internal policy and requires approval.'')"

section \<open>The evaluation\<close>

definition developer_operations :: "string list" where
  "developer_operations = [''developer_agent_runtime'', ''developer_agent_model_call'', ''developer_agent_patch_apply'',
     ''developer_agent_qa'']"

definition eval_operation ::
  "policy_env \<Rightarrow> bool \<Rightarrow> pydict \<Rightarrow> string \<Rightarrow> string \<Rightarrow> string \<Rightarrow> string \<Rightarrow> classification \<Rightarrow> string list \<Rightarrow>
   py_error + policy_decision" where
  "eval_operation env trusted payload operation command tool profile cl cs =
     (if operation = ''git_workspace_command'' then evaluate_git_workspace_command env payload profile cs
      else if operation = ''codex_compatibility_smoke'' then Inr (eval_smoke trusted payload tool profile cs)
      else if operation = ''qa_agent_command'' then Inr (eval_qa_agent env payload tool profile cl cs)
      else if operation = ''devops_agent_command'' then Inr (eval_devops_agent env payload tool profile cl cs)
      else if operation = ''security_agent_scanner'' then Inr (eval_scanner env payload tool profile cl cs)
      else if operation \<in> set developer_operations then eval_developer env payload operation tool profile cl cs
      else if operation \<in> {''architect_agent_model_call'', ''architect_agent_runtime''}
      then Inr (eval_architect env payload operation tool profile cs)
      else if operation \<in> {''product_owner_runtime'', ''product_owner_model_call''}
      then eval_product_owner env payload operation tool profile cs
      else if operation = ''security_agent_model_call'' then Inr (eval_security_model env payload tool profile cl cs)
      else if operation = ''project_assessment'' then Inr (eval_assessment env payload tool profile cl cs)
      else if tool = ''shell'' \<and> command \<noteq> [] \<and> operation = ''issue_to_patch_runtime''
      then Inr (eval_issue_to_patch env payload tool profile cl cs)
      else if tool = ''shell'' \<and> command \<noteq> [] then Inr (eval_shell env payload tool profile cl cs)
      else if tool = ''shell'' then Inr (eval_empty_shell env payload tool profile cl cs)
      else Inr (eval_other operation command tool profile cl cs))"

definition dangerous_action ::
  "policy_env \<Rightarrow> pydict \<Rightarrow> string \<Rightarrow> string \<Rightarrow> string list \<Rightarrow> py_error + policy_decision" where
  "dangerous_action env payload operation profile cs =
     (let human = verdict ''requires_human'' ''critical'' cs
            ''Dangerous git or destructive shell action requires human review.'' in
      if operation = ''git_workspace_command''
      then try_then (evaluate_git_workspace_command env payload profile cs) (\<lambda>scoped.
        Inr (if pd_decision scoped = ''deny'' then scoped else human))
      else Inr human)"

definition text_or :: "policy_env \<Rightarrow> pydict \<Rightarrow> string \<Rightarrow> string \<Rightarrow> string" where
  "text_or env payload k k' = py_str (pe_other env) (py_or (py_or (dget payload k) (dget payload k')) (PStr []))"

text \<open>What is judged: the command that runs, unless the one shown is critical.\<close>

definition judged :: "policy_env \<Rightarrow> pydict \<Rightarrow> string \<Rightarrow> string \<times> classification" where
  "judged env payload operation =
     (let shown = text_of env payload ''command'' in
      case executed_argv_command env payload operation of
        None \<Rightarrow> (shown, classify_command shown)
      | Some command \<Rightarrow>
          (command, if cl_risk (classify_command shown) = ''critical'' then classify_command shown
                    else classify_command command))"

definition evaluate_action :: "policy_env \<Rightarrow> pydict \<Rightarrow> bool \<Rightarrow> py_error + policy_decision" where
  "evaluate_action env payload trusted =
     (let operation = text_of env payload ''operation''; tool = text_of env payload ''tool'';
          git_operation = text_or env payload ''gitOperation'' ''git_operation'';
          target = text_or env payload ''deploymentTarget'' ''deployment_target'';
          profile = permission_profile_for (pe_other env) payload;
          (command, cl) = judged env payload operation; cs = cl_categories cl
      in try_then (is_path_inside env (dget payload ''path'') (dget payload ''workspacePath'')) (\<lambda>inside.
         if \<not> inside
         then Inr (verdict ''requires_approval'' ''medium'' (cs @ [''path_outside_workspace''])
           ''Action path is outside the allocated workspace.'')
         else try_then (if dget payload ''execute'' = PBool True \<and> tool = ''shell'' \<and> operation \<notin> set runtime_cli_operations
                        then executable_origin_is_trusted env (dget payload ''commandArgv'') (dget payload ''workspacePath'')
                        else Inr True) (\<lambda>origin.
           if \<not> origin
           then Inr (deny cs ''executable_origin_denied''
             ''Executable must resolve from PATH or the allocated workspace; its argv[0] does not.'')
           else if py_lower target = ''prod''
           then Inr (verdict ''requires_human'' ''critical'' cs ''Production deployment requires explicit human approval.'')
           else if git_operation \<in> {''force_push'', ''push_main''} \<or> cl_risk cl = ''critical''
           then dangerous_action env payload operation profile cs
           else eval_operation env trusted payload operation command tool profile cl cs)))"

end
