(* ===== verification/Policy_Host.thy ===== *)
theory Policy_Host
  imports Policy_Engine
begin

text \<open>A host with POSIX paths, on which requests are evaluated.\<close>

definition posix_env :: policy_env where
  "posix_env = \<lparr>pe_other = (\<lambda>_. []), pe_inside = (\<lambda>p w. prefix w p), pe_path_name = base_name,
     pe_dirname = (\<lambda>s. if CHR ''/'' \<in> set s then ''/'' else []), pe_normalized = Some, pe_interpreter = ''/python'',
     pe_path_entries = [], pe_bracketed_ok = (\<lambda>_. True)\<rparr>"

end
