(* ===== verification/Policy_Git_Properties.thy ===== *)
theory Policy_Git_Properties
  imports Policy_Git
begin

text \<open>
  What the Git slice of the policy lets through: the flags each allowed subcommand can carry, the
  branches it can push or delete, and when it may use the network.
\<close>

section \<open>Allowed results\<close>

definition allowed :: "py_error + policy_decision \<Rightarrow> bool" where
  "allowed r = (case r of Inl _ \<Rightarrow> False | Inr d \<Rightarrow> pd_decision d = ''allow'')"

lemma allowed_Inr [simp]: "allowed (Inr d) \<longleftrightarrow> pd_decision d = ''allow''"
  by (simp add: allowed_def)

lemma allowed_Inl [simp]: "\<not> allowed (Inl e)"
  by (simp add: allowed_def)

lemma allowed_try_then: "allowed (try_then r f) \<longleftrightarrow> (\<exists>x. r = Inr x \<and> allowed (f x))"
  by (cases r) (simp_all add: try_then_def)

text \<open>A guard that does not allow is false when the whole does; \<open>guards\<close> walks a chain of them.\<close>

lemma guards:
  "pd_decision (if b then deny cs t r else x) = ''allow'' \<longleftrightarrow> \<not> b \<and> pd_decision x = ''allow''"
  "pd_decision (if b then verdict ''deny'' k cs r else x) = ''allow'' \<longleftrightarrow> \<not> b \<and> pd_decision x = ''allow''"
  "pd_decision (if b then verdict ''requires_approval'' k cs r else x) = ''allow'' \<longleftrightarrow> \<not> b \<and> pd_decision x = ''allow''"
  "pd_decision (if b then verdict ''requires_human'' k cs r else x) = ''allow'' \<longleftrightarrow> \<not> b \<and> pd_decision x = ''allow''"
  "pd_decision (if b then allow cs k ts r else verdict ''requires_approval'' k' cs' r') = ''allow'' \<longleftrightarrow> b"
  "allowed (if b then Inr (deny cs t r) else y) \<longleftrightarrow> \<not> b \<and> allowed y"
  "allowed (if b then Inr (verdict ''requires_approval'' k cs r) else y) \<longleftrightarrow> \<not> b \<and> allowed y"
  "allowed (if b then Inr (verdict ''requires_human'' k cs r) else y) \<longleftrightarrow> \<not> b \<and> allowed y"
  by simp_all

section \<open>Flags\<close>

definition git_flags :: "string \<Rightarrow> string list" where
  "git_flags subcommand = (case map_of [(''merge-tree'', [''--write-tree'']), (''fetch'', [''--prune'']), (''init'', [''--initial-branch'', ''-b'']),
        (''push'', [''--delete'']), (''merge'', [''--no-ff'', ''-m'', ''--abort'']),
        (''add'', [''-A'', ''--intent-to-add'', ''--'']), (''commit'', [''--allow-empty'', ''-m'']),
        (''ls-remote'', [''--heads'']),
        (''branch'', [''-M'', ''-f'', ''-D'', ''--delete'', ''-m''] @ git_branch_read_flags),
        (''worktree'', [''--porcelain'', ''-b'', ''--force'']), (''apply'', [''--check''])] subcommand of
        None \<Rightarrow> [] | Some flags \<Rightarrow> flags)"

definition flags_within :: "string list \<Rightarrow> string list \<Rightarrow> bool" where
  "flags_within flags args = list_all (\<lambda>arg. prefix ''-'' arg \<longrightarrow> arg \<in> set flags) args"

lemma flags_within_simps [simp]:
  "flags_within flags []"
  "flags_within flags (arg # args) \<longleftrightarrow> (prefix ''-'' arg \<longrightarrow> arg \<in> set flags) \<and> flags_within flags args"
  by (simp_all add: flags_within_def)

lemma safe_arg_no_flag: "is_safe_git_arg arg \<Longrightarrow> \<not> prefix ''-'' arg"
  by (auto simp: is_safe_git_arg_def Let_def)

lemma remote_name_no_flag: "is_safe_remote_name arg \<Longrightarrow> \<not> prefix ''-'' arg"
  by (auto simp: is_safe_remote_name_def Let_def)

lemma length_cases:
  "length args = Suc 0 \<longleftrightarrow> (\<exists>a. args = [a])" "length args = 2 \<longleftrightarrow> (\<exists>a b. args = [a, b])"
  "length args = 3 \<longleftrightarrow> (\<exists>a b c. args = [a, b, c])" "length args = 4 \<longleftrightarrow> (\<exists>a b c d. args = [a, b, c, d])"
  "length args = 5 \<longleftrightarrow> (\<exists>a b c d e. args = [a, b, c, d, e])"
  by (auto simp: numeral_eq_Suc length_Suc_conv)

section \<open>One subcommand\<close>

lemma allow_merge_tree:
  "pd_decision (git_merge_tree op network args cs) = ''allow'' \<Longrightarrow> flags_within (git_flags ''merge-tree'') args"
  unfolding git_merge_tree_def
  by (auto simp: length_cases git_flags_def safe_arg_no_flag split: if_splits)

lemma allow_fetch:
  "pd_decision (git_fetch op network args cs) = ''allow'' \<Longrightarrow> flags_within (git_flags ''fetch'') args"
  unfolding git_fetch_def by (auto simp: length_cases git_flags_def remote_name_no_flag split: if_splits)

lemma allow_init:
  "pd_decision (git_init op network args cs) = ''allow'' \<Longrightarrow> flags_within (git_flags ''init'') args"
  unfolding git_init_def by (auto simp: length_cases git_flags_def split: if_splits)

lemma allow_push_delete:
  assumes "pd_decision (git_push_delete op network args cs) = ''allow''"
  shows "network \<and> (\<exists>remote branch. args = [remote, ''--delete'', branch] \<and> is_safe_remote_name remote \<and>
    is_safe_git_arg branch \<and> branch \<notin> set git_protected_branches)"
  using assms unfolding git_push_delete_def by (auto simp: length_cases split: if_splits)

lemma allow_push:
  assumes "pd_decision (git_push op network args cs) = ''allow''"
  shows "op = ''push_branch'' \<and> network \<and> (\<exists>remote branch. args = [remote, branch] \<and> is_safe_remote_name remote \<and> is_safe_git_arg branch)"
  using assms unfolding git_push_def by (auto simp: length_cases split: if_splits)

lemma allow_merge:
  "pd_decision (git_merge op network args cs) = ''allow'' \<Longrightarrow> flags_within (git_flags ''merge'') args"
  unfolding git_merge_def Let_def by (auto simp: length_cases git_flags_def safe_arg_no_flag split: if_splits)

lemma allow_add:
  "pd_decision (git_add op network args cs) = ''allow'' \<Longrightarrow> flags_within (git_flags ''add'') args"
  unfolding git_add_def by (auto simp: git_flags_def split: if_splits)

lemma commit_args:
  assumes "length args \<ge> 2"
  shows "args = take (length args - 2) args @ [args ! (length args - 2), last args]"
proof -
  have "drop (length args - 2) args = [args ! (length args - 2), args ! (length args - 1)]"
    using assms by (simp add: Cons_nth_drop_Suc [symmetric] numeral_2_eq_2 Suc_diff_Suc)
  then show ?thesis
    using assms append_take_drop_id [of "length args - 2" args] last_conv_nth [of args] by fastforce
qed

lemma allow_commit:
  assumes "pd_decision (git_commit op network args cs) = ''allow''"
  shows "flags_within (git_flags ''commit'') args"
proof -
  let ?n = "length args"
  have n: "?n \<ge> 2" "args ! (?n - 2) = ''-m''" "\<not> prefix ''-'' (last args)" "take (?n - 2) args \<in> {[], [''--allow-empty'']}"
    using assms unfolding git_commit_def Let_def by (auto split: if_splits)
  have "args = take (?n - 2) args @ [''-m'', last args]" using commit_args [OF n(1)] n(2) by simp
  moreover obtain message where "message = last args" by blast
  ultimately obtain first where "args = first @ [''-m'', message]" "\<not> prefix ''-'' message" "first = [] \<or> first = [''--allow-empty'']"
    using n(3,4) by blast
  then show ?thesis by (elim disjE) (simp_all add: git_flags_def)
qed

lemma allow_ls_remote:
  "pd_decision (git_ls_remote op network args cs) = ''allow'' \<Longrightarrow> flags_within (git_flags ''ls-remote'') args"
  unfolding git_ls_remote_def by (auto simp: length_cases git_flags_def remote_name_no_flag split: if_splits)

lemma allow_checkout:
  "pd_decision (git_checkout c args cs) = ''allow'' \<Longrightarrow> flags_within (git_flags ''checkout'') args"
  unfolding git_checkout_def by (auto simp: git_flags_def flags_within_def list_all_iff list_ex_iff split: if_splits)

lemma allow_worktree:
  "pd_decision (git_worktree op network args cs) = ''allow'' \<Longrightarrow> flags_within (git_flags ''worktree'') args"
  unfolding git_worktree_def
  by (cases args) (auto simp: length_cases git_flags_def git_worktree_list_flags_def flags_within_def list_all_iff split: if_splits)

lemma allow_apply:
  "pd_decision (git_apply op network args cs) = ''allow'' \<Longrightarrow> flags_within (git_flags ''apply'') args"
  unfolding git_apply_def by (auto simp: length_cases git_flags_def split: if_splits)

text \<open>A branch operation keeps the protected branches, but for the advance of a base after its merge and
  the first branch of a repository.\<close>

definition branch_change :: "string \<Rightarrow> string list \<Rightarrow> bool" where
  "branch_change op args =
     (if op = ''init_default_branch'' then args \<in> {[''-M'', ''main''], [''-M'', ''dev'']}
      else if op = ''advance_base_after_merge''
      then (case args of [flag, base, landing] \<Rightarrow> flag = ''-f'' \<and> is_safe_git_arg base \<and> is_safe_git_arg landing | _ \<Rightarrow> False)
      else if op = ''delete_branch''
      then (case args of [flag, name] \<Rightarrow> flag \<in> {''-D'', ''--delete''} \<and> is_safe_git_arg name \<and> name \<notin> set git_protected_branches
            | _ \<Rightarrow> False)
      else if op = ''rename_branch''
      then (case args of [flag, old, new] \<Rightarrow> flag = ''-m'' \<and> is_safe_git_arg old \<and> is_safe_git_arg new \<and>
              old \<notin> set git_protected_branches \<and>
              list_ex (\<lambda>x. prefix x new) git_flow_rename_prefixes | _ \<Rightarrow> False)
      else if op = ''create_branch'' then args \<noteq> [] \<and> list_all is_safe_git_arg args
      else list_all (\<lambda>arg. arg \<in> set git_branch_read_flags \<or> prefix ''--format='' arg) args)"

lemma allow_branch:
  assumes "pd_decision (git_branch op network args cs) = ''allow''"
  shows "branch_change op args"
  using assms unfolding git_branch_def branch_change_def
  by (simp only: if_True if_False guards split: if_splits) (auto simp: length_cases)

lemma branch_flags:
  assumes "branch_change op args"
  shows "flags_within (git_flags ''branch'') (filter (\<lambda>arg. \<not> prefix ''--format='' arg) args)"
proof -
  have "list_all (\<lambda>arg. prefix ''-'' arg \<longrightarrow> arg \<in> set (git_flags ''branch'') \<or> prefix ''--format='' arg) args"
    using assms unfolding branch_change_def
    by (auto simp: git_flags_def list_all_iff safe_arg_no_flag split: if_splits list.splits)
  then show ?thesis by (auto simp: flags_within_def list_all_iff)
qed

section \<open>The Git slice\<close>

abbreviation git_reads :: "string list" where
  "git_reads \<equiv> git_workspace_read_commands @ git_branch_inventory_read_commands"

text \<open>What an allowed Git command has been found to be.\<close>

definition git_vetted :: "policy_env \<Rightarrow> string \<Rightarrow> bool \<Rightarrow> string \<Rightarrow> string list \<Rightarrow> bool" where
  "git_vetted env op network subcommand args =
     (subcommand \<in> set git_reads \<or>
      subcommand = ''push'' \<and> network \<and>
        (case args of [remote, branch] \<Rightarrow> op = ''push_branch'' \<and> is_safe_remote_name remote \<and> is_safe_git_arg branch
         | [remote, flag, branch] \<Rightarrow> op = ''delete_remote_branch'' \<and> is_safe_remote_name remote \<and> flag = ''--delete'' \<and>
             is_safe_git_arg branch \<and> branch \<notin> set git_protected_branches
         | _ \<Rightarrow> False) \<or>
      subcommand = ''remote'' \<and>
        (case args of [flag] \<Rightarrow> flag = ''-v''
         | [word, name, url] \<Rightarrow> op = ''remote_add'' \<and> word = ''add'' \<and> is_safe_remote_name name \<and>
             remote_url_embeds_credentials env url = Inr False
         | _ \<Rightarrow> False) \<or>
      subcommand = ''branch'' \<and> branch_change op args \<or>
      subcommand \<in> {''merge-tree'', ''fetch'', ''init'', ''merge'', ''add'', ''commit'', ''ls-remote'', ''checkout'', ''worktree'', ''apply''} \<and>
        flags_within (git_flags subcommand) args)"

lemma vetted_remote:
  assumes "allowed (git_remote env op args cs)"
  shows "git_vetted env op network ''remote'' args"
  using assms unfolding git_remote_def
  by (auto simp: git_vetted_def length_cases allowed_try_then split: if_splits)

lemma git_subcommand_vetted:
  assumes "allowed (git_subcommand env is_checkout op network subcommand args cs)"
  shows "git_vetted env op network subcommand args"
proof -
  consider "subcommand \<in> set git_reads" | "subcommand = ''merge-tree''" | "subcommand = ''fetch''" | "subcommand = ''init''"
    | "subcommand = ''push''" "op = ''delete_remote_branch''" | "subcommand = ''push''" "op \<noteq> ''delete_remote_branch''"
    | "subcommand = ''merge''" | "subcommand = ''add''" | "subcommand = ''commit''" | "subcommand = ''remote''"
    | "subcommand = ''ls-remote''" | "subcommand = ''branch''" | "subcommand = ''checkout''" | "subcommand = ''worktree''"
    | "subcommand = ''apply''"
    using assms unfolding git_subcommand_def by (simp only: set_append Un_iff split: if_splits) simp_all
  then show ?thesis
  proof cases
    case 1
    then show ?thesis by (simp add: git_vetted_def)
  next
    case 5
    then show ?thesis using assms allow_push_delete [of op network args cs]
      by (auto simp: git_vetted_def git_subcommand_def git_workspace_read_commands_def git_branch_inventory_read_commands_def)
  next
    case 6
    then show ?thesis using assms allow_push [of op network args cs]
      by (auto simp: git_vetted_def git_subcommand_def git_workspace_read_commands_def git_branch_inventory_read_commands_def)
  qed (use assms allow_merge_tree allow_fetch allow_init allow_merge allow_add allow_commit vetted_remote allow_ls_remote
      allow_branch allow_checkout allow_worktree allow_apply in
      \<open>simp_all add: git_vetted_def git_subcommand_def git_workspace_read_commands_def git_branch_inventory_read_commands_def\<close>)
qed

end
