(* ===== verification/Policy_Shell.thy ===== *)
theory Policy_Shell
  imports Policy_Host Policy_Git_Properties
begin

text \<open>
  What a command of low risk is: no critical and no medium pattern, one category of the allowlist, and
  for the build tools only listed goals, flags and operands. And what a shell command without an agent
  operation needs to be allowed.
\<close>

section \<open>Build tools\<close>

definition listed_token :: "(string \<times> string) list \<Rightarrow> string list \<Rightarrow> string list \<Rightarrow> string \<Rightarrow> bool" where
  "listed_token goals flags operands token =
     (if prefix ''-'' token then token \<in> set flags else py_lower token \<in> fst ` set goals \<union> set operands)"

lemma toolchain_tokens_listed:
  assumes "toolchain_tokens goals flags operands tokens = Some cs"
  shows "list_all (listed_token goals flags operands) tokens"
    and "cs \<noteq> [] \<Longrightarrow> \<exists>token \<in> set tokens. py_lower token \<in> fst ` set goals"
  using assms
  by (induction goals flags operands tokens arbitrary: cs rule: toolchain_tokens.induct)
    (force simp: listed_token_def dom_map_of_conv_image_fst [symmetric] split: if_splits option.splits)+

lemma toolchain_category_listed:
  assumes "toolchain_invocation_category goals flags operands args = Some c"
  shows "list_all (listed_token goals flags operands) args \<and> (\<exists>token \<in> set args. py_lower token \<in> fst ` set goals)"
  using assms toolchain_tokens_listed unfolding toolchain_invocation_category_def
  by (auto split: option.splits list.splits)

text \<open>The executables that the rules before the build tools name are not build tools.\<close>

definition other_executables :: "string list" where
  "other_executables = [''corepack'', ''uv'', ''uv.exe'', ''pytest'', ''pytest.exe'', ''vitest'', ''vitest.cmd'', ''vitest.exe'',
     ''playwright'', ''playwright.cmd'', ''playwright.exe'', ''git''] @ python_executables @ runtime_version_executables @
     read_only_executables"

lemma other_no_toolchain: "list_all (\<lambda>e. toolchain_of (base_executable e) = None) other_executables"
  by code_simp

lemma toolchain_not_other:
  "toolchain_of (base_executable (pc_executable parsed)) = Some t \<Longrightarrow> pc_executable parsed \<notin> set other_executables"
  using other_no_toolchain by (auto simp: list_all_iff)

definition node_bases :: "string list" where
  "node_bases = [''corepack'', ''npm'', ''yarn'', ''pnpm'']"

lemma toolchain_not_node: "toolchain_of base = Some t \<Longrightarrow> base \<notin> set node_bases"
proof -
  have "list_all (\<lambda>b. toolchain_of b = None) node_bases" by code_simp
  then show "toolchain_of base = Some t \<Longrightarrow> base \<notin> set node_bases" by (auto simp: list_all_iff)
qed

lemma toolchain_node_script:
  assumes "toolchain_of (base_executable (pc_executable parsed)) = Some t"
  shows "node_script_category parsed = None" "\<not> is_frozen_node_dependency_install parsed"
  using toolchain_not_node [OF assms]
  by (simp_all add: node_script_category_def node_runner_def corepack_pnpm_def is_frozen_node_dependency_install_def
      node_bases_def node_run_executables_def)

lemma low_risk_is_toolchain:
  assumes "toolchain_of (base_executable (pc_executable parsed)) = Some t"
  shows "low_risk_shell_category parsed = low_risk_toolchain parsed"
  using toolchain_not_other [OF assms] toolchain_node_script [OF assms]
  unfolding low_risk_shell_category_def Let_def other_executables_def
  by (simp add: image_iff)

definition version_queries :: "string list set" where
  "version_queries = {[''--version''], [''-version''], [''version'']}"

lemma low_risk_toolchain_listed:
  assumes tool: "toolchain_of (base_executable (pc_executable parsed)) = Some (goals, flags, operands)"
    and low: "low_risk_shell_category parsed = Some c"
  shows "pc_args parsed \<in> version_queries \<or> list_all (listed_token goals flags operands) (pc_args parsed) \<and>
    (\<exists>token \<in> set (pc_args parsed). py_lower token \<in> fst ` set goals)"
proof (cases "toolchain_invocation_category goals flags operands (pc_args parsed)")
  case (Some c')
  then show ?thesis using toolchain_category_listed by blast
next
  case None
  have "pc_executable parsed \<notin> set read_only_executables" "pc_executable parsed \<noteq> ''git''"
    using toolchain_not_other [OF tool] by (simp_all add: other_executables_def)
  then show ?thesis
    using low None tool unfolding low_risk_is_toolchain [OF tool] low_risk_toolchain_def Let_def version_queries_def
    by (simp split: if_splits) blast
qed

section \<open>Low risk\<close>

text \<open>A text that no critical rule matches, short enough to be analysed.\<close>

definition not_critical :: "string \<Rightarrow> bool" where
  "not_critical text = (length text \<le> max_classified_command_chars \<and>
     list_all (\<lambda>(name, pattern). \<not> rx_search pattern text) critical_rules)"

lemma classify_critical: "cl_risk (classify_command text) = ''critical'' \<longleftrightarrow> \<not> not_critical text"
proof -
  have "matching_rules critical_rules text = [] \<longleftrightarrow> list_all (\<lambda>(name, pattern). \<not> rx_search pattern text) critical_rules"
    by (simp add: matching_rules_def filter_empty_conv list_all_iff split_beta)
  then show ?thesis
    by (simp add: classify_command_def Let_def not_critical_def not_le [symmetric] split: option.splits)
qed

lemma matching_none: "matching_rules rules text = [] \<longleftrightarrow> list_all (\<lambda>(name, pattern). \<not> rx_search pattern text) rules"
  by (simp add: matching_rules_def filter_empty_conv list_all_iff split_beta)

lemma classify_low:
  assumes "cl_risk (classify_command text) = ''low''"
  shows "not_critical text" "list_all (\<lambda>(name, pattern). \<not> rx_search pattern text) medium_rules"
    "py_strip text = [] \<and> cl_categories (classify_command text) = [''none''] \<or>
     (\<exists>parsed c. parse_command text = Some parsed \<and> package_categories parsed = [] \<and> low_risk_shell_category parsed = Some c \<and>
       cl_categories (classify_command text) = [c])"
proof -
  show "not_critical text" using assms classify_critical [of "text"] by fastforce
  show "list_all (\<lambda>(name, pattern). \<not> rx_search pattern text) medium_rules"
    using assms unfolding classify_command_def Let_def matching_none [THEN sym] by (auto split: if_splits option.splits)
  show "py_strip text = [] \<and> cl_categories (classify_command text) = [''none''] \<or>
     (\<exists>parsed c. parse_command text = Some parsed \<and> package_categories parsed = [] \<and> low_risk_shell_category parsed = Some c \<and>
       cl_categories (classify_command text) = [c])"
    using assms unfolding classify_command_def Let_def by (auto split: if_splits option.splits)
qed

text \<open>The output of a difference written to a file: a read for the classifier, refused by the Git slice.\<close>

lemma diff_output_low:
  "classify_command ''git diff --output=x'' = \<lparr>cl_risk = ''low'', cl_categories = [''read_only'']\<rparr>"
  "is_git_read_unsafe_flag ''--output=x''"
  by code_simp+

text \<open>C39. A command of low risk matches no critical and no medium pattern and is blank or has one category of
  the allowlist, and a call of go, cargo, gradle or maven of low risk asks for the version or names at
  least one listed goal and nothing that is not listed. For git only the subcommand is looked at: a
  difference that writes a file is of low risk.\<close>

theorem low_risk_commands:
  assumes "cl_risk (classify_command text) = ''low''"
  shows "not_critical text \<and> list_all (\<lambda>(name, pattern). \<not> rx_search pattern text) medium_rules \<and>
    (py_strip text = [] \<and> cl_categories (classify_command text) = [''none''] \<or>
     (\<exists>parsed c. parse_command text = Some parsed \<and> package_categories parsed = [] \<and>
       low_risk_shell_category parsed = Some c \<and> cl_categories (classify_command text) = [c] \<and>
       (\<forall>goals flags operands. toolchain_of (base_executable (pc_executable parsed)) = Some (goals, flags, operands) \<longrightarrow>
         pc_args parsed \<in> version_queries \<or> list_all (listed_token goals flags operands) (pc_args parsed) \<and>
           (\<exists>token \<in> set (pc_args parsed). py_lower token \<in> fst ` set goals)))) \<and>
    cl_risk (classify_command ''git diff --output=x'') = ''low''"
  using classify_low [OF assms] low_risk_toolchain_listed diff_output_low(1) by auto

text \<open>A blank command, and a check of a Go module.\<close>

lemma go_vet_low: "classify_command ''go vet .'' = \<lparr>cl_risk = ''low'', cl_categories = [''lint'']\<rparr>"
  by code_simp

lemma low_risk_commands_witness: "\<exists>parsed. parse_command ''go vet .'' = Some parsed \<and> package_categories parsed = []"
proof -
  have "py_strip ''go vet .'' \<noteq> []" by code_simp
  then show ?thesis using low_risk_commands [of "''go vet .''"] by (auto simp: go_vet_low)
qed

end
