(* ===== verification/Policy_Properties.thy ===== *)
theory Policy_Properties
  imports Policy_Shell
begin

text \<open>
  What an allowed action has passed. The lemmas about one operation say what its \<open>allow\<close> needs; the
  rule \<open>allowedE\<close> takes an allowed action through the gates before them.
\<close>

section \<open>One operation\<close>

lemma allow_qa_agent:
  "pd_decision (eval_qa_agent env payload tool profile cl cs) = ''allow'' \<Longrightarrow>
   dget payload ''agentId'' = PStr ''qa_agent'' \<and> profile = ''qa'' \<and> tool = ''shell'' \<and> has_context payload \<and> cl_risk cl = ''low''"
  unfolding eval_qa_agent_def Let_def by (simp only: guards) simp

lemma allow_devops_agent:
  "pd_decision (eval_devops_agent env payload tool profile cl cs) = ''allow'' \<Longrightarrow>
   dget payload ''agentId'' = PStr ''devops_agent'' \<and> profile = ''qa'' \<and> tool = ''shell'' \<and> has_context payload \<and> cl_risk cl = ''low''"
  unfolding eval_devops_agent_def Let_def by (simp only: guards) simp

lemma allow_scanner:
  "pd_decision (eval_scanner env payload tool profile cl cs) = ''allow'' \<Longrightarrow>
   dget payload ''agentId'' = PStr ''security_agent'' \<and> profile = ''qa'' \<and> tool = ''shell'' \<and> has_context payload"
  unfolding eval_scanner_def Let_def by (simp only: guards) simp

lemma allow_developer:
  "allowed (eval_developer env payload operation tool profile cl cs) \<Longrightarrow>
   dget payload ''agentId'' = PStr ''developer_agent'' \<and> profile = ''dev_safe'' \<and> has_context payload"
  unfolding eval_developer_def has_context_def by (simp only: guards) simp

lemma binding_tool: "model_runtime_binding_is_valid env payload tool \<Longrightarrow> tool \<in> set model_runtime_tools"
  by (simp add: model_runtime_binding_is_valid_def Let_def)

lemma allow_architect:
  "pd_decision (eval_architect env payload operation tool profile cs) = ''allow'' \<Longrightarrow>
   dget payload ''agentId'' = PStr ''architect_agent'' \<and> profile = ''plan'' \<and> has_context payload \<and>
   (if operation = ''architect_agent_runtime'' then tool = ''shell'' else tool \<in> set model_runtime_tools)"
  unfolding eval_architect_def Let_def by (simp only: guards) (use binding_tool in auto)

lemma cli_runtime_shell: "cli_runtime_denied payload tool names = Inr False \<Longrightarrow> tool = ''shell''"
  by (auto simp: cli_runtime_denied_def Let_def split: if_splits)

lemma allow_product_owner:
  "allowed (eval_product_owner env payload operation tool profile cs) \<Longrightarrow>
   dget payload ''agentId'' = PStr ''product_owner_agent'' \<and> profile = ''plan'' \<and> has_context payload \<and>
   (if operation = ''product_owner_runtime'' then tool = ''shell'' else tool \<in> set model_runtime_tools)"
  unfolding eval_product_owner_def
  by (cases "operation = ''product_owner_runtime''"; simp only: guards if_True if_False simp_thms)
    (use binding_tool cli_runtime_shell in \<open>auto simp: allowed_try_then split: if_splits\<close>)

lemma allow_security_model:
  "pd_decision (eval_security_model env payload tool profile cl cs) = ''allow'' \<Longrightarrow>
   dget payload ''agentId'' = PStr ''security_agent'' \<and> profile = ''qa'' \<and> has_context payload"
  unfolding eval_security_model_def by (simp only: guards) simp

lemma allow_assessment:
  "pd_decision (eval_assessment env payload tool profile cl cs) = ''allow'' \<Longrightarrow>
   dget payload ''agentId'' = PStr ''project_assessment_agent'' \<and> profile = ''plan'' \<and> given payload ''path'' \<and>
   given payload ''agentRunId''"
  unfolding eval_assessment_def by (simp only: guards) simp

lemma allow_issue_to_patch:
  "pd_decision (eval_issue_to_patch env payload tool profile cl cs) = ''allow'' \<Longrightarrow> profile = ''dev_safe''"
  unfolding eval_issue_to_patch_def by (simp only: guards) simp

lemma allow_shell:
  "pd_decision (eval_shell env payload tool profile cl cs) = ''allow'' \<Longrightarrow>
   profile \<in> {''dev_safe'', ''qa''} \<and> cl_risk cl = ''low''"
  unfolding eval_shell_def allowlisted_shell_categories_def Let_def by (simp only: guards) (simp split: if_splits)

lemma allow_empty_shell: "pd_decision (eval_empty_shell env payload tool profile cl cs) \<noteq> ''allow''"
  by (simp add: eval_empty_shell_def)

lemma allow_other:
  "pd_decision (eval_other operation command tool profile cl cs) = ''allow'' \<Longrightarrow>
   cl_risk cl = ''low'' \<and> \<not> (profile = ''plan'' \<and> tool \<in> set plan_execution_adapter_tools)"
  unfolding eval_other_def by (simp only: guards) (simp split: if_splits)

lemma allow_smoke:
  "pd_decision (eval_smoke trusted payload tool profile cs) = ''allow'' \<Longrightarrow> trusted \<and> profile = ''plan'' \<and> tool = ''shell''"
  unfolding eval_smoke_def verdict_simps by (simp split: if_splits)

lemma allow_git:
  "allowed (evaluate_git_workspace_command env payload profile cs) \<Longrightarrow>
   dget payload ''agentId'' = PStr ''git_workspace_agent'' \<and> profile = ''dev_safe'' \<and> has_context payload"
  unfolding evaluate_git_workspace_command_def by (simp only: guards) simp

section \<open>The operations one by one\<close>

lemma eval_operation_at:
  "eval_operation env trusted payload ''git_workspace_command'' command tool profile cl cs =
     evaluate_git_workspace_command env payload profile cs"
  "eval_operation env trusted payload ''codex_compatibility_smoke'' command tool profile cl cs =
     Inr (eval_smoke trusted payload tool profile cs)"
  "eval_operation env trusted payload ''qa_agent_command'' command tool profile cl cs =
     Inr (eval_qa_agent env payload tool profile cl cs)"
  "eval_operation env trusted payload ''devops_agent_command'' command tool profile cl cs =
     Inr (eval_devops_agent env payload tool profile cl cs)"
  "eval_operation env trusted payload ''security_agent_scanner'' command tool profile cl cs =
     Inr (eval_scanner env payload tool profile cl cs)"
  "eval_operation env trusted payload ''security_agent_model_call'' command tool profile cl cs =
     Inr (eval_security_model env payload tool profile cl cs)"
  "eval_operation env trusted payload ''project_assessment'' command tool profile cl cs =
     Inr (eval_assessment env payload tool profile cl cs)"
  by (simp_all add: eval_operation_def developer_operations_def)

lemma eval_operation_in:
  "operation \<in> set developer_operations \<Longrightarrow> eval_operation env trusted payload operation command tool profile cl cs =
     eval_developer env payload operation tool profile cl cs"
  "operation \<in> {''architect_agent_model_call'', ''architect_agent_runtime''} \<Longrightarrow>
   eval_operation env trusted payload operation command tool profile cl cs =
     Inr (eval_architect env payload operation tool profile cs)"
  "operation \<in> {''product_owner_runtime'', ''product_owner_model_call''} \<Longrightarrow>
   eval_operation env trusted payload operation command tool profile cl cs =
     eval_product_owner env payload operation tool profile cs"
  unfolding developer_operations_def
  by (simp_all only: set_simps insert_iff empty_iff simp_thms, (elim disjE; simp add: eval_operation_def developer_operations_def)+)

text \<open>Each agent operation has one agent and one permission profile.\<close>

definition operation_contract :: "(string \<times> string \<times> string) list" where
  "operation_contract =
     [(''git_workspace_command'', ''git_workspace_agent'', ''dev_safe''),
      (''qa_agent_command'', ''qa_agent'', ''qa''), (''devops_agent_command'', ''devops_agent'', ''qa''),
      (''security_agent_scanner'', ''security_agent'', ''qa''), (''security_agent_model_call'', ''security_agent'', ''qa''),
      (''developer_agent_runtime'', ''developer_agent'', ''dev_safe''),
      (''developer_agent_model_call'', ''developer_agent'', ''dev_safe''),
      (''developer_agent_patch_apply'', ''developer_agent'', ''dev_safe''),
      (''developer_agent_qa'', ''developer_agent'', ''dev_safe''),
      (''architect_agent_model_call'', ''architect_agent'', ''plan''),
      (''architect_agent_runtime'', ''architect_agent'', ''plan''),
      (''product_owner_runtime'', ''product_owner_agent'', ''plan''),
      (''product_owner_model_call'', ''product_owner_agent'', ''plan''),
      (''project_assessment'', ''project_assessment_agent'', ''plan'')]"

lemma operation_contract_cases:
  assumes "(operation, agent, needed) \<in> set operation_contract"
  obtains "operation = ''git_workspace_command''" "agent = ''git_workspace_agent''" "needed = ''dev_safe''"
    | "operation = ''qa_agent_command''" "agent = ''qa_agent''" "needed = ''qa''"
    | "operation = ''devops_agent_command''" "agent = ''devops_agent''" "needed = ''qa''"
    | "operation = ''security_agent_scanner''" "agent = ''security_agent''" "needed = ''qa''"
    | "operation = ''security_agent_model_call''" "agent = ''security_agent''" "needed = ''qa''"
    | "operation \<in> set developer_operations" "agent = ''developer_agent''" "needed = ''dev_safe''"
    | "operation \<in> {''architect_agent_model_call'', ''architect_agent_runtime''}" "agent = ''architect_agent''" "needed = ''plan''"
    | "operation \<in> {''product_owner_runtime'', ''product_owner_model_call''}" "agent = ''product_owner_agent''" "needed = ''plan''"
    | "operation = ''project_assessment''" "agent = ''project_assessment_agent''" "needed = ''plan''"
  using assms unfolding operation_contract_def developer_operations_def
  by (simp only: set_simps insert_iff empty_iff simp_thms prod.inject) (elim disjE conjE; simp only: insert_iff simp_thms)

lemma not_the_assessment:
  "''project_assessment'' \<notin> set developer_operations"
  "''project_assessment'' \<notin> {''architect_agent_model_call'', ''architect_agent_runtime''}"
  "''project_assessment'' \<notin> {''product_owner_runtime'', ''product_owner_model_call''}"
  by (simp_all add: developer_operations_def)

lemma operation_contract_kept:
  assumes run: "allowed (eval_operation env trusted payload operation command tool profile cl cs)"
    and contract: "(operation, agent, needed) \<in> set operation_contract"
  shows "dget payload ''agentId'' = PStr agent \<and> profile = needed \<and>
    (if operation = ''project_assessment'' then given payload ''path'' \<and> given payload ''agentRunId'' else has_context payload)"
  using contract
proof (cases rule: operation_contract_cases)
  case 1
  show ?thesis using allow_git [OF run [unfolded 1(1) eval_operation_at]] 1 by simp
next
  case 2
  show ?thesis using allow_qa_agent [OF run [unfolded 2(1) eval_operation_at allowed_Inr]] 2 by simp
next
  case 3
  show ?thesis using allow_devops_agent [OF run [unfolded 3(1) eval_operation_at allowed_Inr]] 3 by simp
next
  case 4
  show ?thesis using allow_scanner [OF run [unfolded 4(1) eval_operation_at allowed_Inr]] 4 by simp
next
  case 5
  show ?thesis using allow_security_model [OF run [unfolded 5(1) eval_operation_at allowed_Inr]] 5 by simp
next
  case 6
  show ?thesis using allow_developer [OF run [unfolded eval_operation_in(1) [OF 6(1)]]] 6 not_the_assessment(1) by metis
next
  case 7
  show ?thesis using allow_architect [OF run [unfolded eval_operation_in(2) [OF 7(1)] allowed_Inr]] 7 not_the_assessment(2) by metis
next
  case 8
  show ?thesis using allow_product_owner [OF run [unfolded eval_operation_in(3) [OF 8(1)]]] 8 not_the_assessment(3) by metis
next
  case 9
  show ?thesis using allow_assessment [OF run [unfolded 9(1) eval_operation_at allowed_Inr]] 9 by simp
qed

section \<open>The gates\<close>

lemma dangerous_not_allowed: "\<not> allowed (dangerous_action env payload operation profile cs)"
  unfolding dangerous_action_def Let_def by (simp add: allowed_try_then)

definition origin_gate :: "policy_env \<Rightarrow> pydict \<Rightarrow> string \<Rightarrow> string \<Rightarrow> py_error + bool" where
  "origin_gate env payload operation tool =
     (if dget payload ''execute'' = PBool True \<and> tool = ''shell'' \<and> operation \<notin> set runtime_cli_operations
      then executable_origin_is_trusted env (dget payload ''commandArgv'') (dget payload ''workspacePath'') else Inr True)"

lemma allowed_iff:
  "allowed (evaluate_action env payload trusted) \<longleftrightarrow>
   (let operation = text_of env payload ''operation''; tool = text_of env payload ''tool'';
        profile = permission_profile_for (pe_other env) payload; (command, cl) = judged env payload operation in
    is_path_inside env (dget payload ''path'') (dget payload ''workspacePath'') = Inr True \<and>
    origin_gate env payload operation tool = Inr True \<and>
    py_lower (text_or env payload ''deploymentTarget'' ''deployment_target'') \<noteq> ''prod'' \<and>
    text_or env payload ''gitOperation'' ''git_operation'' \<notin> {''force_push'', ''push_main''} \<and> cl_risk cl \<noteq> ''critical'' \<and>
    allowed (eval_operation env trusted payload operation command tool profile cl (cl_categories cl)))"
proof -
  obtain command cl where j: "judged env payload (text_of env payload ''operation'') = (command, cl)"
    by (cases "judged env payload (text_of env payload ''operation'')")
  have dangerous: "allowed (if b then dangerous_action env payload operation profile cs else y) \<longleftrightarrow> \<not> b \<and> allowed y"
    for b operation profile cs y using dangerous_not_allowed by simp
  have ex_True: "(\<exists>x. r = Inr x \<and> x \<and> P) \<longleftrightarrow> r = Inr True \<and> P" for r :: "py_error + bool" and P by auto
  show ?thesis
    unfolding evaluate_action_def Let_def j prod.case origin_gate_def [symmetric]
    by (simp only: allowed_try_then guards dangerous ex_True not_not de_Morgan_disj) blast
qed

lemma judged_not_critical:
  assumes "judged env payload operation = (command, cl)" "cl_risk cl \<noteq> ''critical''"
  shows "not_critical (text_of env payload ''command'')" "not_critical command"
  using assms unfolding judged_def Let_def
  by (auto simp: classify_critical split: option.splits if_splits)

lemma trusted_origin:
  assumes "executable_origin_is_trusted env argv workspace = Inr True"
  shows "\<exists>executable rest. argv = PList (PStr executable # rest) \<and>
    (pe_dirname env executable = [] \<or> pe_normalized env executable = pe_normalized env (pe_interpreter env) \<or>
     (\<exists>directory \<in> path_directories env. pe_normalized env (pe_dirname env executable) = Some directory) \<or>
     (\<exists>w. workspace = PStr w \<and> pe_inside env executable w))"
proof -
  obtain executable rest where argv: "argv = PList (PStr executable # rest)"
    using assms unfolding executable_origin_is_trusted_def by (auto split: pyval.splits list.splits)
  let ?normalized = "pe_normalized env executable" and ?parent = "pe_normalized env (pe_dirname env executable)"
  have run: "(if py_strip executable = [] then Inr False
      else if pe_dirname env executable = [] then Inr True
      else if ?normalized \<noteq> None \<and> ?normalized = pe_normalized env (pe_interpreter env) then Inr True
      else if ?parent \<noteq> None \<and> the ?parent \<in> path_directories env then Inr True
      else if \<not> truthy workspace then Inr False
      else is_path_inside env (PStr executable) workspace) = (Inr True :: py_error + bool)"
    using assms unfolding argv executable_origin_is_trusted_def Let_def by simp
  have "executable \<noteq> []" using run by (auto simp: py_strip_def split: if_splits)
  then show ?thesis using run unfolding argv
    by (cases "?parent"; cases workspace) (auto simp: is_path_inside_def split: if_splits)
qed

text \<open>
  The run of a registered command line client is not looked at: neither the origin of its executable
  nor its arguments are, since both come from the installation of the runtime.
\<close>

definition unlisted_client :: pydict where
  "unlisted_client =
     [(''operation'', PStr ''developer_agent_runtime''), (''agentId'', PStr ''developer_agent''),
      (''permissionProfile'', PStr ''dev_safe''), (''tool'', PStr ''shell''), (''execute'', PBool True),
      (''runtimeId'', PStr ''codex_cli''), (''commandArgv'', PList [PStr ''/tmp/evil'', PStr ''rm'', PStr ''-rf'']),
      (''workspaceId'', PStr ''w''), (''workspacePath'', PStr ''/w''), (''agentRunId'', PStr ''r'')]"

lemma unlisted_client_runs:
  "executable_origin_is_trusted posix_env (dget unlisted_client ''commandArgv'') (dget unlisted_client ''workspacePath'') = Inr False"
  "(case evaluate_action posix_env unlisted_client False of Inl e \<Rightarrow> False | Inr d \<Rightarrow> pd_decision d = ''allow'')"
  by code_simp+

lemma client_exemption:
  "\<exists>env' payload' d'. text_of env' payload' ''operation'' \<in> set runtime_cli_operations \<and>
     executable_origin_is_trusted env' (dget payload' ''commandArgv'') (dget payload' ''workspacePath'') = Inr False \<and>
     evaluate_action env' payload' False = Inr d' \<and> pd_decision d' = ''allow''"
proof -
  have "text_of posix_env unlisted_client ''operation'' = ''developer_agent_runtime''" by code_simp
  then have "text_of posix_env unlisted_client ''operation'' \<in> set runtime_cli_operations"
    by (simp add: runtime_cli_operations_def)
  moreover obtain d' where "evaluate_action posix_env unlisted_client False = Inr d'" "pd_decision d' = ''allow''"
    using unlisted_client_runs(2) by (cases "evaluate_action posix_env unlisted_client False") auto
  ultimately show ?thesis using unlisted_client_runs(1) by (intro exI conjI)
qed

text \<open>C35. What an allowed action has passed. Its path, when it and a workspace are given, is inside the
  workspace. It does not deploy to prod, and its git operation is neither a forced push nor a push to
  main. The command it shows and the command it is judged by match no critical rule; that is the
  command that runs, when it executes the shell with arguments that are texts, none of them empty, and
  is not the run of a command line client. An
  execution of the shell that is not the run of a client starts an executable named without a
  directory or found in the search path, in the workspace or as the interpreter. An agent operation
  comes from its own agent under its own permission profile, with a workspace and a run, or, for the
  assessment of a project, with a path and a run. The exemption of the clients is real: one outside
  the search path and the workspace is allowed to run with arguments that nobody judged.\<close>

theorem allowed_actions_passed_every_gate:
  assumes "evaluate_action env payload trusted = Inr d" "pd_decision d = ''allow''"
  shows "(truthy (dget payload ''path'') \<longrightarrow> truthy (dget payload ''workspacePath'') \<longrightarrow>
      (\<exists>p w. dget payload ''path'' = PStr p \<and> dget payload ''workspacePath'' = PStr w \<and> pe_inside env p w)) \<and>
    (dget payload ''execute'' = PBool True \<longrightarrow> text_of env payload ''tool'' = ''shell'' \<longrightarrow>
      text_of env payload ''operation'' \<notin> set runtime_cli_operations \<longrightarrow>
      (\<exists>executable rest. dget payload ''commandArgv'' = PList (PStr executable # rest) \<and>
        (pe_dirname env executable = [] \<or> pe_normalized env executable = pe_normalized env (pe_interpreter env) \<or>
         (\<exists>directory \<in> path_directories env. pe_normalized env (pe_dirname env executable) = Some directory) \<or>
         (\<exists>w. dget payload ''workspacePath'' = PStr w \<and> pe_inside env executable w)))) \<and>
    py_lower (text_or env payload ''deploymentTarget'' ''deployment_target'') \<noteq> ''prod'' \<and>
    text_or env payload ''gitOperation'' ''git_operation'' \<notin> {''force_push'', ''push_main''} \<and>
    not_critical (text_of env payload ''command'') \<and>
    not_critical (fst (judged env payload (text_of env payload ''operation''))) \<and>
    (\<forall>agent needed. (text_of env payload ''operation'', agent, needed) \<in> set operation_contract \<longrightarrow>
      dget payload ''agentId'' = PStr agent \<and> permission_profile_for (pe_other env) payload = needed \<and>
      (if text_of env payload ''operation'' = ''project_assessment''
       then given payload ''path'' \<and> given payload ''agentRunId'' else has_context payload)) \<and>
    (\<exists>env' payload' d'. text_of env' payload' ''operation'' \<in> set runtime_cli_operations \<and>
      executable_origin_is_trusted env' (dget payload' ''commandArgv'') (dget payload' ''workspacePath'') = Inr False \<and>
      evaluate_action env' payload' False = Inr d' \<and> pd_decision d' = ''allow'')"
proof -
  let ?operation = "text_of env payload ''operation''"
  have "allowed (evaluate_action env payload trusted)" using assms by simp
  then obtain command cl where j: "judged env payload ?operation = (command, cl)"
    and inside: "is_path_inside env (dget payload ''path'') (dget payload ''workspacePath'') = Inr True"
    and origin: "origin_gate env payload ?operation (text_of env payload ''tool'') = Inr True"
    and rest: "py_lower (text_or env payload ''deploymentTarget'' ''deployment_target'') \<noteq> ''prod''"
      "text_or env payload ''gitOperation'' ''git_operation'' \<notin> {''force_push'', ''push_main''}" "cl_risk cl \<noteq> ''critical''"
    and run: "allowed (eval_operation env trusted payload ?operation command (text_of env payload ''tool'')
      (permission_profile_for (pe_other env) payload) cl (cl_categories cl))"
    unfolding allowed_iff Let_def by (auto split: prod.splits)
  have "truthy (dget payload ''path'') \<longrightarrow> truthy (dget payload ''workspacePath'') \<longrightarrow>
      (\<exists>p w. dget payload ''path'' = PStr p \<and> dget payload ''workspacePath'' = PStr w \<and> pe_inside env p w)"
    using inside by (auto simp: is_path_inside_def split: pyval.splits)
  moreover have "executable_origin_is_trusted env (dget payload ''commandArgv'') (dget payload ''workspacePath'') = Inr True"
    if "dget payload ''execute'' = PBool True" "text_of env payload ''tool'' = ''shell''" "?operation \<notin> set runtime_cli_operations"
    using origin that by (simp add: origin_gate_def)
  moreover have "not_critical (text_of env payload ''command'')" "not_critical command"
    using judged_not_critical [OF j rest(3)] by auto
  moreover have "\<exists>env' payload' d'. text_of env' payload' ''operation'' \<in> set runtime_cli_operations \<and>
      executable_origin_is_trusted env' (dget payload' ''commandArgv'') (dget payload' ''workspacePath'') = Inr False \<and>
      evaluate_action env' payload' False = Inr d' \<and> pd_decision d' = ''allow''"
    by (rule client_exemption)
  ultimately show ?thesis
    using rest(1,2) operation_contract_kept [OF run] trusted_origin unfolding j fst_conv by blast
qed

section \<open>The plan profile\<close>

lemma plan_kept:
  assumes "allowed (eval_operation env trusted payload operation command tool ''plan'' cl cs)"
    "(operation, agent, needed) \<in> set operation_contract"
  shows "operation \<in> {''architect_agent_model_call'', ''architect_agent_runtime'', ''product_owner_runtime'',
      ''product_owner_model_call'', ''project_assessment''}"
proof -
  have "needed = ''plan''" using operation_contract_kept [OF assms] by simp
  with assms(2) show ?thesis by (cases rule: operation_contract_cases) (simp_all, (elim disjE; simp)+)
qed

lemma plan_model_call:
  assumes "allowed (eval_operation env trusted payload operation command tool ''plan'' cl cs)"
  shows "operation = ''architect_agent_model_call'' \<Longrightarrow> tool \<in> set model_runtime_tools"
    and "operation = ''product_owner_model_call'' \<Longrightarrow> tool \<in> set model_runtime_tools"
    and "operation = ''architect_agent_runtime'' \<Longrightarrow> tool = ''shell''"
    and "operation = ''product_owner_runtime'' \<Longrightarrow> tool = ''shell''"
  using assms allow_architect [of env payload operation tool "''plan''" cs]
    allow_product_owner [of env payload operation tool "''plan''" cs]
  by (simp_all add: eval_operation_in)

text \<open>What is left when the operation has no contract.\<close>

lemma no_contract_eval:
  assumes "operation \<notin> fst ` set operation_contract" "operation \<noteq> ''codex_compatibility_smoke''"
  shows "eval_operation env trusted payload operation command tool profile cl cs =
    (if tool = ''shell'' \<and> command \<noteq> [] \<and> operation = ''issue_to_patch_runtime''
     then Inr (eval_issue_to_patch env payload tool profile cl cs)
     else if tool = ''shell'' \<and> command \<noteq> [] then Inr (eval_shell env payload tool profile cl cs)
     else if tool = ''shell'' then Inr (eval_empty_shell env payload tool profile cl cs)
     else Inr (eval_other operation command tool profile cl cs))"
  using assms unfolding eval_operation_def operation_contract_def developer_operations_def by simp

lemma plan_no_contract:
  assumes "allowed (eval_operation env trusted payload operation command tool ''plan'' cl cs)"
    "operation \<notin> fst ` set operation_contract" "operation \<noteq> ''codex_compatibility_smoke''"
  shows "tool \<noteq> ''shell'' \<and> tool \<notin> set plan_execution_adapter_tools"
  using assms(1) allow_issue_to_patch [of env payload tool "''plan''" cl cs] allow_shell [of env payload tool "''plan''" cl cs]
    allow_empty_shell [of env payload tool "''plan''" cl cs] allow_other [of operation command tool "''plan''" cl cs]
  unfolding no_contract_eval [OF assms(2,3)]
  by (cases "tool = ''shell''"; cases "command = []"; cases "operation = ''issue_to_patch_runtime''";
      simp only: if_True if_False simp_thms allowed_Inr) (simp_all add: plan_execution_adapter_tools_def)

lemma plan_scope:
  assumes run: "allowed (eval_operation env trusted payload operation command tool ''plan'' cl cs)"
  shows "tool = ''shell'' \<Longrightarrow> operation \<in> {''codex_compatibility_smoke'', ''architect_agent_runtime'',
      ''product_owner_runtime'', ''project_assessment''}"
    and "tool \<in> set plan_execution_adapter_tools \<Longrightarrow> operation \<in> {''architect_agent_model_call'',
      ''product_owner_model_call'', ''project_assessment''}"
proof -
  have shell: "''shell'' \<notin> set model_runtime_tools" "''shell'' \<notin> set plan_execution_adapter_tools"
    by (simp_all add: model_runtime_tools_def plan_execution_adapter_tools_def)
  have smoke: "tool = ''shell''" if "operation = ''codex_compatibility_smoke''"
    using run allow_smoke [of trusted payload tool "''plan''" cs] unfolding that eval_operation_at allowed_Inr by blast
  consider "operation = ''architect_agent_model_call''" | "operation = ''architect_agent_runtime''"
    | "operation = ''product_owner_runtime''" | "operation = ''product_owner_model_call''"
    | "operation = ''project_assessment''" | "operation = ''codex_compatibility_smoke''"
    | "tool \<noteq> ''shell'' \<and> tool \<notin> set plan_execution_adapter_tools"
  proof (cases "operation \<in> fst ` set operation_contract")
    case True
    then obtain agent needed where "(operation, agent, needed) \<in> set operation_contract" by auto
    from plan_kept [OF run this] that show ?thesis unfolding insert_iff empty_iff by argo
  next
    case False
    with plan_no_contract [OF run] that show ?thesis by argo
  qed
  note cases = this
  show "operation \<in> {''codex_compatibility_smoke'', ''architect_agent_runtime'',
      ''product_owner_runtime'', ''project_assessment''}" if "tool = ''shell''"
    using cases plan_model_call(1,2) [OF run] shell(1) that by cases simp_all
  show "operation \<in> {''architect_agent_model_call'', ''product_owner_model_call'', ''project_assessment''}"
    if "tool \<in> set plan_execution_adapter_tools"
    using cases plan_model_call(3,4) [OF run] smoke shell(2) that by cases simp_all
qed

text \<open>A request under the plan profile that runs a network client.\<close>

definition assessment_with_shell :: pydict where
  "assessment_with_shell =
     [(''operation'', PStr ''project_assessment''), (''agentId'', PStr ''project_assessment_agent''),
      (''permissionProfile'', PStr ''plan''), (''tool'', PStr ''shell''), (''execute'', PBool True),
      (''commandArgv'', PList [PStr ''curl'', PStr ''x'']), (''path'', PStr ''/w''), (''workspacePath'', PStr ''/w''),
      (''agentRunId'', PStr ''r'')]"

lemma assessment_runs_shell:
  "permission_profile_for (pe_other posix_env) assessment_with_shell = ''plan''"
  "executed_argv_command posix_env assessment_with_shell ''project_assessment'' = Some ''curl x''"
  "map_option (\<lambda>r. r) (case evaluate_action posix_env assessment_with_shell False of
     Inl e \<Rightarrow> None | Inr d \<Rightarrow> Some (pd_decision d, pd_risk d, pd_categories d)) =
   Some (''allow'', ''low'', [''network'', ''project_assessment''])"
  by code_simp+

text \<open>C38. Under the plan profile the shell is allowed only to the smoke test, to the two reviews by a
  command line client and to the assessment of a project, and a runtime adapter only to the two model
  calls and to the assessment. The assessment does not look at its tool: with the shell it is allowed
  to run a network client.\<close>

theorem plan_profile_scope:
  assumes "evaluate_action env payload trusted = Inr d" "pd_decision d = ''allow''"
    "permission_profile_for (pe_other env) payload = ''plan''"
  shows "(text_of env payload ''tool'' = ''shell'' \<longrightarrow> text_of env payload ''operation'' \<in>
      {''codex_compatibility_smoke'', ''architect_agent_runtime'', ''product_owner_runtime'', ''project_assessment''}) \<and>
    (text_of env payload ''tool'' \<in> set plan_execution_adapter_tools \<longrightarrow> text_of env payload ''operation'' \<in>
      {''architect_agent_model_call'', ''product_owner_model_call'', ''project_assessment''}) \<and>
    (\<exists>env' payload' d'. permission_profile_for (pe_other env') payload' = ''plan'' \<and>
      executed_argv_command env' payload' (text_of env' payload' ''operation'') = Some ''curl x'' \<and>
      evaluate_action env' payload' False = Inr d' \<and> pd_decision d' = ''allow'' \<and> pd_risk d' = ''low'')"
proof -
  have "allowed (evaluate_action env payload trusted)" using assms by simp
  then have run: "\<exists>command cl. allowed (eval_operation env trusted payload (text_of env payload ''operation'') command
      (text_of env payload ''tool'') ''plan'' cl (cl_categories cl))"
    unfolding allowed_iff Let_def assms(3) by (auto split: prod.splits)
  have operation: "text_of posix_env assessment_with_shell ''operation'' = ''project_assessment''" by code_simp
  obtain d' where "evaluate_action posix_env assessment_with_shell False = Inr d'" "pd_decision d' = ''allow''" "pd_risk d' = ''low''"
    using assessment_runs_shell(3) by (cases "evaluate_action posix_env assessment_with_shell False") auto
  with assessment_runs_shell(1,2) operation have "\<exists>env' payload' d'. permission_profile_for (pe_other env') payload' = ''plan'' \<and>
      executed_argv_command env' payload' (text_of env' payload' ''operation'') = Some ''curl x'' \<and>
      evaluate_action env' payload' False = Inr d' \<and> pd_decision d' = ''allow'' \<and> pd_risk d' = ''low''" by metis
  with run plan_scope show ?thesis by blast
qed

end
