(* ===== verification/Policy_Types.thy ===== *)
theory Policy_Types
  imports Policy_Engine Policy_Host
begin

text \<open>
  The shape of what the policy returns: which decisions go with which risk, that a reason and the
  categories are there, and the two exceptions it can end with.
\<close>

section \<open>Decisions\<close>

definition decision_risks :: "(string \<times> string) list" where
  "decision_risks = [(''allow'', ''low''), (''allow'', ''medium''), (''allow'', ''high''), (''deny'', ''high''), (''deny'', ''medium''),
     (''requires_approval'', ''medium''), (''requires_human'', ''critical'')]"

definition well_formed :: "policy_decision \<Rightarrow> bool" where
  "well_formed d = ((pd_decision d, pd_risk d) \<in> set decision_risks \<and> pd_reason d \<noteq> [] \<and> pd_categories d \<noteq> [])"

lemma well_formed_if: "well_formed x \<Longrightarrow> well_formed y \<Longrightarrow> well_formed (if b then x else y)"
  by simp

text \<open>Rules for a reason that is a literal, so that a chain of guards is a chain of introductions.\<close>

lemma shape_deny:
  "well_formed (deny cs tag (c # s))" "well_formed (deny cs tag ((c # s) @ x))"
  "well_formed (deny cs tag (if b then c # s else (c' # s') @ x))"
  by (simp_all add: well_formed_def verdict_def deny_def decision_risks_def)

lemma shape_allow:
  "r \<in> {''low'', ''medium'', ''high''} \<Longrightarrow> well_formed (allow cs r (t # ts) (c # s))"
  "r \<in> {''low'', ''medium'', ''high''} \<Longrightarrow> well_formed (allow cs r (t # ts) ((c # s) @ x))"
  "r \<in> {''low'', ''medium'', ''high''} \<Longrightarrow> well_formed (allow cs r (t # ts) (if b then c # s else c' # s'))"
  "r \<in> {''low'', ''medium'', ''high''} \<Longrightarrow> well_formed (allow cs r (ts @ [t]) (c # s))"
  by (auto simp: well_formed_def verdict_def allow_def decision_risks_def)

lemma shape_allow_rest:
  "cs \<noteq> [] \<Longrightarrow> well_formed (allow cs ''low'' ts (x @ c # s))"
  by (simp add: well_formed_def verdict_def allow_def decision_risks_def)

lemma shape_verdict:
  "(d, r) \<in> set decision_risks \<Longrightarrow> well_formed (verdict d r (cs @ [t]) (c # s))"
  "(d, r) \<in> set decision_risks \<Longrightarrow> well_formed (verdict d r [t] (c # s))"
  "(d, r) \<in> set decision_risks \<Longrightarrow> cs \<noteq> [] \<Longrightarrow> well_formed (verdict d r cs (c # s))"
  "(d, r) \<in> set decision_risks \<Longrightarrow> cs \<noteq> [] \<Longrightarrow> well_formed (verdict d r (if b then cs @ [t] else cs) (c # s))"
  "(if b then d else d', r) \<in> set decision_risks \<Longrightarrow> well_formed (verdict (if b then d else d') r (cs @ [t]) (c # s))"
  by (auto simp: well_formed_def verdict_def)

lemma listed_risks:
  "(''deny'', ''medium'') \<in> set decision_risks" "(''deny'', ''high'') \<in> set decision_risks"
  "(''requires_approval'', ''medium'') \<in> set decision_risks" "(''requires_human'', ''critical'') \<in> set decision_risks"
  "(''allow'', ''low'') \<in> set decision_risks" "(if b then ''allow'' else ''deny'', ''medium'') \<in> set decision_risks"
  by (simp_all add: decision_risks_def)

lemma allow_risks: "''low'' \<in> {''low'', ''medium'', ''high''}" "''medium'' \<in> {''low'', ''medium'', ''high''}"
  "''high'' \<in> {''low'', ''medium'', ''high''}"
  by simp_all

lemma shape_case:
  "well_formed x \<Longrightarrow> (\<And>a. well_formed (f a)) \<Longrightarrow> well_formed (case z of None \<Rightarrow> x | Some a \<Rightarrow> f a)"
  "well_formed x \<Longrightarrow> (\<And>a as. well_formed (g a as)) \<Longrightarrow> well_formed (case zs of [] \<Rightarrow> x | a # as \<Rightarrow> g a as)"
  by (simp_all split: option.split list.split)

lemmas shape = well_formed_if shape_case shape_deny shape_allow shape_allow_rest shape_verdict listed_risks allow_risks

named_theorems shaped \<open>each operation gives a decision of the right shape\<close>

lemma git_shaped [shaped]:
  "well_formed (git_merge_tree op network args cs)" "well_formed (git_fetch op network args cs)"
  "well_formed (git_init op network args cs)" "well_formed (git_push_delete op network args cs)"
  "well_formed (git_push op network args cs)" "well_formed (git_merge op network args cs)"
  "well_formed (git_add op network args cs)" "well_formed (git_commit op network args cs)"
  "well_formed (git_ls_remote op network args cs)" "well_formed (git_checkout c args cs)"
  "well_formed (git_branch op network args cs)" "well_formed (git_worktree op network args cs)"
  "well_formed (git_apply op network args cs)"
  unfolding git_merge_tree_def git_fetch_def git_init_def git_push_delete_def git_push_def git_merge_def git_add_def
    git_commit_def git_ls_remote_def git_checkout_def git_branch_def git_worktree_def git_apply_def Let_def
  by (intro shape)+

lemma agents_shaped [shaped]:
  "well_formed (eval_smoke trusted payload tool profile cs)"
  "well_formed (eval_qa_agent env payload tool profile cl cs)"
  "well_formed (eval_devops_agent env payload tool profile cl cs)"
  "well_formed (eval_developer_model env payload tool profile cl cs)"
  "well_formed (eval_developer_patch env payload tool profile cl cs)"
  "well_formed (eval_developer_qa env payload tool profile cl cs)"
  "well_formed (eval_security_model env payload tool profile cl cs)"
  "well_formed (eval_assessment env payload tool profile cl cs)"
  "well_formed (eval_issue_to_patch env payload tool profile cl cs)"
  "well_formed (eval_architect env payload operation tool profile cs)"
  "well_formed (eval_empty_shell env payload tool profile cl cs)"
  unfolding eval_smoke_def eval_qa_agent_def eval_devops_agent_def eval_developer_model_def eval_developer_patch_def
    eval_developer_qa_def eval_security_model_def eval_assessment_def eval_issue_to_patch_def eval_architect_def
    eval_empty_shell_def Let_def
  by (intro shape)+

lemma scanner_shaped [shaped]: "well_formed (eval_scanner env payload tool profile cl cs)"
  unfolding eval_scanner_def Let_def
  by (intro shape)

lemma shell_shaped [shaped]:
  "cs \<noteq> [] \<Longrightarrow> well_formed (eval_shell env payload tool profile cl cs)"
  "cs \<noteq> [] \<Longrightarrow> well_formed (eval_other operation command tool profile cl cs)"
  unfolding eval_shell_def eval_other_def Let_def by (intro shape; assumption)+

section \<open>Results\<close>

text \<open>A value that \<open>Path\<close> accepts, and the two ways to raise.\<close>

definition textual :: "pyval \<Rightarrow> bool" where
  "textual v = (truthy v \<longrightarrow> is_str v)"

definition policy_failure :: "policy_env \<Rightarrow> pydict \<Rightarrow> py_error \<Rightarrow> bool" where
  "policy_failure env payload e =
     (e = TypeError \<and> (\<not> textual (dget payload ''path'') \<or> \<not> textual (dget payload ''workspacePath'') \<or>
                        \<not> hashable (dget payload ''runtimeId'')) \<or>
      e = ValueError \<and> text_of env payload ''gitOperation'' = ''remote_add'')"

definition result_shaped :: "policy_env \<Rightarrow> pydict \<Rightarrow> py_error + policy_decision \<Rightarrow> bool" where
  "result_shaped env payload r = (case r of Inl e \<Rightarrow> policy_failure env payload e | Inr d \<Rightarrow> well_formed d)"

lemma result_if: "result_shaped env payload x \<Longrightarrow> result_shaped env payload y \<Longrightarrow> result_shaped env payload (if b then x else y)"
  by simp

lemma result_Inr: "well_formed d \<Longrightarrow> result_shaped env payload (Inr d)"
  by (simp add: result_shaped_def)

lemma result_then:
  "(\<And>e. r = Inl e \<Longrightarrow> policy_failure env payload e) \<Longrightarrow> (\<And>x. r = Inr x \<Longrightarrow> result_shaped env payload (f x)) \<Longrightarrow>
   result_shaped env payload (try_then r f)"
  by (cases r) (simp_all add: result_shaped_def)

lemma inside_fails: "is_path_inside env p w = Inl e \<Longrightarrow> e = TypeError \<and> (\<not> textual p \<or> \<not> textual w)"
  by (auto simp: is_path_inside_def textual_def split: if_splits pyval.splits)

lemma origin_fails: "executable_origin_is_trusted env argv w = Inl e \<Longrightarrow> e = TypeError \<and> \<not> textual w"
  by (auto simp: executable_origin_is_trusted_def Let_def is_path_inside_def textual_def split: if_splits pyval.splits list.splits)

lemma runtime_fails: "cli_runtime_denied payload tool names = Inl e \<Longrightarrow> e = TypeError \<and> \<not> hashable (dget payload ''runtimeId'')"
  by (auto simp: cli_runtime_denied_def Let_def split: if_splits)

lemma credentials_fail: "remote_url_embeds_credentials env url = Inl e \<Longrightarrow> e = ValueError"
  by (auto simp: remote_url_embeds_credentials_def url_authority_def Let_def try_then_def split: if_splits sum.splits prod.splits)

lemma git_remote_shaped:
  assumes "op = text_of env payload ''gitOperation''"
  shows "result_shaped env payload (git_remote env op args cs)"
proof (cases "op = ''remote_add''")
  case True
  then have "policy_failure env payload e" if "remote_url_embeds_credentials env url = Inl e" for e url
    using credentials_fail [OF that] assms by (simp add: policy_failure_def)
  then show ?thesis unfolding git_remote_def by (intro result_if result_Inr result_then shape) assumption
next
  case False
  then show ?thesis unfolding git_remote_def by (simp only: if_False) (intro result_if result_Inr shape)
qed

lemma git_subcommand_shaped:
  "op = text_of env payload ''gitOperation'' \<Longrightarrow> result_shaped env payload (git_subcommand env c op network subcommand args cs)"
  unfolding git_subcommand_def by (intro result_if result_Inr shaped shape git_remote_shaped)

lemma git_shaped_whole: "result_shaped env payload (evaluate_git_workspace_command env payload profile cs)"
proof -
  have "result_shaped env payload (git_command env payload executable word args cs)" for executable word args
    unfolding git_command_def Let_def by (intro result_if result_Inr shape git_subcommand_shaped) (rule refl)
  then show ?thesis
    unfolding evaluate_git_workspace_command_def
    by (intro result_if result_Inr shape) (simp split: option.split list.split, intro conjI allI impI result_Inr shape)
qed

lemma developer_shaped: "result_shaped env payload (eval_developer env payload operation tool profile cl cs)"
proof -
  have "result_shaped env payload (eval_developer_runtime payload tool cs)"
    unfolding eval_developer_runtime_def
    by (rule result_then) (auto dest!: runtime_fails simp: policy_failure_def intro!: result_Inr shape)
  then show ?thesis unfolding eval_developer_def by (intro result_if result_Inr shaped shape)
qed

lemma product_owner_shaped: "result_shaped env payload (eval_product_owner env payload operation tool profile cs)"
proof -
  have "policy_failure env payload e" if "cli_runtime_denied payload tool names = Inl e" for e names
    using runtime_fails [OF that] by (simp add: policy_failure_def)
  then show ?thesis unfolding eval_product_owner_def by (intro result_if result_Inr result_then shape) assumption
qed

lemma operation_shaped:
  "cs \<noteq> [] \<Longrightarrow> result_shaped env payload (eval_operation env trusted payload operation command tool profile cl cs)"
  unfolding eval_operation_def
  by (intro result_if result_Inr shaped git_shaped_whole developer_shaped product_owner_shaped) assumption+

lemma classify_categories: "cl_categories (classify_command text) \<noteq> []"
  by (simp add: classify_command_def Let_def split: option.split)

lemma judged_categories: "judged env payload operation = (command, cl) \<Longrightarrow> cl_categories cl \<noteq> []"
  using classify_categories by (auto simp: judged_def Let_def split: option.splits if_splits)

lemma dangerous_shaped: "cs \<noteq> [] \<Longrightarrow> result_shaped env payload (dangerous_action env payload operation profile cs)"
  unfolding dangerous_action_def Let_def
  by (intro result_if result_then result_Inr shape)
    (use git_shaped_whole [of env payload profile cs] in \<open>auto simp: result_shaped_def\<close>)

lemma action_shaped: "result_shaped env payload (evaluate_action env payload trusted)"
proof -
  obtain command cl where j: "judged env payload (text_of env payload ''operation'') = (command, cl)"
    by (cases "judged env payload (text_of env payload ''operation'')")
  have cs: "cl_categories cl \<noteq> []" using judged_categories [OF j] .
  have inside: "policy_failure env payload e" if "is_path_inside env (dget payload ''path'') (dget payload ''workspacePath'') = Inl e" for e
    using inside_fails [OF that] by (auto simp: policy_failure_def)
  have origin: "policy_failure env payload e" if "(if b then executable_origin_is_trusted env argv (dget payload ''workspacePath'')
      else Inr True) = Inl e" for b argv e
    using that origin_fails [of env argv "dget payload ''workspacePath''" e] by (auto simp: policy_failure_def split: if_splits)
  show ?thesis
    unfolding evaluate_action_def Let_def j prod.case
    by (rule result_then, erule inside, intro result_if result_Inr shape,
        rule result_then, erule origin, intro result_if result_Inr shape cs dangerous_shaped operation_shaped)
qed

text \<open>A remote whose address has an opening bracket only.\<close>

definition broken_remote :: pydict where
  "broken_remote =
     [(''operation'', PStr ''git_workspace_command''), (''agentId'', PStr ''git_workspace_agent''), (''tool'', PStr ''shell''),
      (''permissionProfile'', PStr ''dev_safe''), (''workspaceId'', PStr ''w''), (''workspacePath'', PStr ''/w''),
      (''agentRunId'', PStr ''r''), (''gitOperation'', PStr ''remote_add''),
      (''commandArgv'', PList [PStr ''git'', PStr ''remote'', PStr ''add'', PStr ''o'', PStr ''https://[''])]"

lemma broken_remote_raises: "evaluate_action posix_env broken_remote False = Inl ValueError"
  by code_simp

text \<open>C40. The policy returns one of seven pairs of decision and risk, with a reason and at least one category;
  a critical risk is what requires a human. It raises only for a path or a workspace that is not a
  text, for a runtime identifier that is a list or a dict, or while it parses the address of a remote to
  add; and it does raise on such an address although the module promises not to.\<close>

theorem policy_results_well_formed:
  "(case evaluate_action env payload trusted of
      Inl e \<Rightarrow> policy_failure env payload e
    | Inr d \<Rightarrow> well_formed d \<and> (pd_decision d = ''requires_human'' \<longleftrightarrow> pd_risk d = ''critical'')) \<and>
   (\<exists>env' payload'. evaluate_action env' payload' False = Inl ValueError)"
proof -
  have "pd_decision d = ''requires_human'' \<longleftrightarrow> pd_risk d = ''critical''" if "well_formed d" for d
    using that by (auto simp: well_formed_def decision_risks_def)
  then have "case evaluate_action env payload trusted of
      Inl e \<Rightarrow> policy_failure env payload e
    | Inr d \<Rightarrow> well_formed d \<and> (pd_decision d = ''requires_human'' \<longleftrightarrow> pd_risk d = ''critical'')"
    using action_shaped [of env payload trusted] by (simp add: result_shaped_def split: sum.splits)
  with broken_remote_raises show ?thesis by (intro conjI exI)
qed

end
