(* ===== verification/Policy_Decisions.thy ===== *)
theory Policy_Decisions
  imports Policy_Properties Policy_Types
begin

text \<open>
  What holds of every result of the policy: the shape of a decision and when there is none, what an
  allowed Git command is, and what a command of low risk is.
\<close>

section \<open>Git commands\<close>

lemma nonempty_texts_eq: "nonempty_texts xs = Some ts \<Longrightarrow> xs = map PStr ts"
  by (induction xs arbitrary: ts rule: nonempty_texts.induct) (auto split: if_splits)

lemma argv_texts_eq: "argv_texts v = Some ts \<Longrightarrow> v = PList (map PStr ts)"
  by (auto simp: argv_texts_def dest: nonempty_texts_eq split: pyval.splits)

text \<open>The guards of a chain, turned around.\<close>

lemma gate_chain:
  "\<not> \<not> p \<and> \<not> (n \<and> \<not> q) \<and> \<not> (r \<and> u) \<and> x \<Longrightarrow> p \<and> (n \<longrightarrow> q) \<and> (r \<longrightarrow> \<not> u) \<and> x" for p n q r u x :: bool
  by blast

lemma git_command_vetted:
  assumes "allowed (evaluate_git_workspace_command env payload profile cs)"
  shows "\<exists>executable word args. dget payload ''commandArgv'' = PList (map PStr (executable # word # args)) \<and>
      is_git_executable env executable \<and> \<not> given payload ''secretsRequired'' \<and>
      (given payload ''networkRequired'' \<longrightarrow> network_permitted (py_lower word) (text_of env payload ''gitOperation'')) \<and>
      (py_lower word \<in> set git_reads \<longrightarrow> \<not> list_ex is_git_read_unsafe_flag (takeWhile (\<lambda>arg. arg \<noteq> ''--'') args)) \<and>
      git_vetted env (text_of env payload ''gitOperation'') (given payload ''networkRequired'') (py_lower word) args"
proof -
  have secrets: "\<not> given payload ''secretsRequired''" and argv: "allowed (case argv_texts (dget payload ''commandArgv'') of
      Some (executable # word # args) \<Rightarrow> git_command env payload executable word args cs
    | _ \<Rightarrow> Inr (deny cs ''git_workspace_argv_required''
        ''Git workspace execution requires argv shaped as [git, subcommand, ...].''))"
    using assms unfolding evaluate_git_workspace_command_def guards by blast+
  obtain executable word args where texts: "argv_texts (dget payload ''commandArgv'') = Some (executable # word # args)"
    using argv by (auto split: option.splits list.splits)
  have "allowed (git_command env payload executable word args cs)" using argv unfolding texts by simp
  then have gates: "is_git_executable env executable \<and>
    (given payload ''networkRequired'' \<longrightarrow> network_permitted (py_lower word) (text_of env payload ''gitOperation'')) \<and>
    (py_lower word \<in> set git_reads \<longrightarrow> \<not> list_ex is_git_read_unsafe_flag (takeWhile (\<lambda>arg. arg \<noteq> ''--'') args)) \<and>
    allowed (git_subcommand env (dget payload ''gitOperation'' = PStr ''checkout'') (text_of env payload ''gitOperation'')
       (given payload ''networkRequired'') (py_lower word) args cs)"
    unfolding git_command_def Let_def guards by (rule gate_chain)
  have vetted: "git_vetted env (text_of env payload ''gitOperation'') (given payload ''networkRequired'') (py_lower word) args"
    by (rule git_subcommand_vetted) (use gates in \<open>elim conjE\<close>)
  note rest = conjunct2 [OF gates]
  show ?thesis
    by (rule exI [of _ executable], rule exI [of _ word], rule exI [of _ args],
        rule conjI [OF argv_texts_eq [OF texts] conjI [OF conjunct1 [OF gates] conjI [OF secrets
          conjI [OF conjunct1 [OF rest] conjI [OF conjunct1 [OF conjunct2 [OF rest]] vetted]]]]])
qed

definition delete_full_ref :: pydict where
  "delete_full_ref =
     [(''operation'', PStr ''git_workspace_command''), (''agentId'', PStr ''git_workspace_agent''), (''tool'', PStr ''shell''),
      (''permissionProfile'', PStr ''dev_safe''), (''workspaceId'', PStr ''w''), (''workspacePath'', PStr ''/w''),
      (''agentRunId'', PStr ''r''), (''execute'', PBool True), (''networkRequired'', PBool True),
      (''gitOperation'', PStr ''delete_remote_branch''),
      (''commandArgv'', PList [PStr ''git'', PStr ''push'', PStr ''o'', PStr ''--delete'', PStr ''refs/heads/main''])]"

lemma full_ref_not_critical: "not_critical ''git push o --delete refs/heads/main''"
proof -
  have "\<not> rx_search destructive_delete ''git push o --delete refs/heads/main''" by code_simp
  moreover have "\<not> rx_search force_push ''git push o --delete refs/heads/main''" by code_simp
  moreover have "\<not> rx_search prod_deploy ''git push o --delete refs/heads/main''" by code_simp
  moreover have "\<not> rx_search privilege_escalation ''git push o --delete refs/heads/main''" by code_simp
  moreover have "\<not> rx_search secrets_write ''git push o --delete refs/heads/main''" by code_simp
  ultimately show ?thesis
    by (simp only: not_critical_def critical_rules_def list.pred_inject prod.case simp_thms) (simp add: max_classified_command_chars_def)
qed

lemma full_ref_judged:
  "judged posix_env delete_full_ref ''git_workspace_command'' =
     (''git push o --delete refs/heads/main'', classify_command ''git push o --delete refs/heads/main'')"
proof -
  have "executed_argv_command posix_env delete_full_ref ''git_workspace_command'' = Some ''git push o --delete refs/heads/main''"
    "text_of posix_env delete_full_ref ''command'' = []" "cl_risk (classify_command []) = ''low''"
    by code_simp+
  then show ?thesis unfolding judged_def Let_def by simp
qed

lemma full_ref_deleted: "allowed (evaluate_action posix_env delete_full_ref False)"
proof -
  have "text_of posix_env delete_full_ref ''operation'' = ''git_workspace_command''" by code_simp
  moreover have "is_path_inside posix_env (dget delete_full_ref ''path'') (dget delete_full_ref ''workspacePath'') = Inr True" by code_simp
  moreover have "origin_gate posix_env delete_full_ref ''git_workspace_command'' (text_of posix_env delete_full_ref ''tool'') = Inr True"
    by code_simp
  moreover have "text_or posix_env delete_full_ref ''gitOperation'' ''git_operation'' = ''delete_remote_branch''"
    "text_or posix_env delete_full_ref ''deploymentTarget'' ''deployment_target'' = []" by code_simp+
  moreover have "allowed (evaluate_git_workspace_command posix_env delete_full_ref
      (permission_profile_for (pe_other posix_env) delete_full_ref) cs)" for cs by code_simp
  moreover have "cl_risk (classify_command ''git push o --delete refs/heads/main'') \<noteq> ''critical''"
    using full_ref_not_critical classify_critical by simp
  ultimately show ?thesis
    unfolding allowed_iff Let_def by (simp add: full_ref_judged eval_operation_at py_lower_def)
qed

text \<open>C36. An allowed Git command names the git executable and gets no secret; it uses the network only
  for the remote test, the push and the prune; a read carries no flag that writes a file or runs a
  driver; every other command carries only the flags of its subcommand, and a push or the deletion of a
  branch names no protected branch to delete. The names are compared as they are written, so the
  deletion of \<open>refs/heads/main\<close> is allowed.\<close>

theorem git_commands_vetted:
  assumes "evaluate_action env payload trusted = Inr d" "pd_decision d = ''allow''"
    "text_of env payload ''operation'' = ''git_workspace_command''"
  shows "(\<exists>executable word args. dget payload ''commandArgv'' = PList (map PStr (executable # word # args)) \<and>
      is_git_executable env executable \<and> \<not> given payload ''secretsRequired'' \<and>
      (given payload ''networkRequired'' \<longrightarrow> network_permitted (py_lower word) (text_of env payload ''gitOperation'')) \<and>
      (py_lower word \<in> set git_reads \<longrightarrow> \<not> list_ex is_git_read_unsafe_flag (takeWhile (\<lambda>arg. arg \<noteq> ''--'') args)) \<and>
      git_vetted env (text_of env payload ''gitOperation'') (given payload ''networkRequired'') (py_lower word) args) \<and>
    (\<exists>env' payload' d' remote. evaluate_action env' payload' False = Inr d' \<and> pd_decision d' = ''allow'' \<and>
      dget payload' ''commandArgv'' = PList (map PStr [''git'', ''push'', remote, ''--delete'', ''refs/heads/main'']))"
proof -
  have "allowed (evaluate_action env payload trusted)" using assms by simp
  then obtain cs where "allowed (evaluate_git_workspace_command env payload (permission_profile_for (pe_other env) payload) cs)"
    unfolding allowed_iff Let_def assms(3) eval_operation_at by (auto split: prod.splits)
  then have vetted: "\<exists>executable word args. dget payload ''commandArgv'' = PList (map PStr (executable # word # args)) \<and>
      is_git_executable env executable \<and> \<not> given payload ''secretsRequired'' \<and>
      (given payload ''networkRequired'' \<longrightarrow> network_permitted (py_lower word) (text_of env payload ''gitOperation'')) \<and>
      (py_lower word \<in> set git_reads \<longrightarrow> \<not> list_ex is_git_read_unsafe_flag (takeWhile (\<lambda>arg. arg \<noteq> ''--'') args)) \<and>
      git_vetted env (text_of env payload ''gitOperation'') (given payload ''networkRequired'') (py_lower word) args"
    by (rule git_command_vetted)
  have argv: "dget delete_full_ref ''commandArgv'' = PList (map PStr [''git'', ''push'', ''o'', ''--delete'', ''refs/heads/main''])"
    by code_simp
  obtain d' where "evaluate_action posix_env delete_full_ref False = Inr d'" "pd_decision d' = ''allow''"
    using full_ref_deleted by (auto simp: allowed_def split: sum.splits)
  with argv vetted show ?thesis by meson
qed

section \<open>Shell commands without an agent operation\<close>

definition shell_allowlist :: "(string \<times> string) list" where
  "shell_allowlist =
     map (Pair ''dev_safe'') [''test'', ''build'', ''lint'', ''interpreter_version'', ''read_only''] @
     map (Pair ''qa'') [''test'', ''build'', ''lint'', ''typecheck'', ''quality'', ''security_scan'', ''interpreter_version'',
       ''read_only'', ''dependency_install_frozen'']"

lemma picked: "map snd (filter (\<lambda>(k, tag). k \<in> set [c]) rows) \<noteq> [] \<longleftrightarrow> c \<in> set (map fst rows)"
  by (induction rows) auto

lemma paired: "(profile, c) \<in> set (map (Pair a) xs @ map (Pair b) ys) \<longleftrightarrow> profile = a \<and> c \<in> set xs \<or> profile = b \<and> c \<in> set ys"
  by auto

lemma allowlisted_one: "allowlisted_shell_categories profile [c] \<noteq> [] \<longleftrightarrow> (profile, c) \<in> set shell_allowlist"
proof -
  have "''qa'' \<noteq> ''dev_safe''" by simp
  then show ?thesis
    unfolding allowlisted_shell_categories_def shell_allowlist_def paired Let_def comp_def
    by (cases "profile = ''dev_safe''"; cases "profile = ''qa''";
        simp only: if_True if_False picked list.map fst_conv simp_thms not_False_eq_True)
qed

lemma listed_profile: "(profile, c) \<in> set shell_allowlist \<Longrightarrow> profile \<noteq> ''plan'' \<and> profile \<noteq> ''release''"
  unfolding shell_allowlist_def paired by (elim disjE conjE) simp_all

lemma gates_listed: "(l \<Longrightarrow> \<not> p \<and> \<not> r) \<Longrightarrow> k \<Longrightarrow> \<not> p \<and> \<not> r \<and> l \<and> k \<longleftrightarrow> l" for l p r k :: bool
  by blast

lemma eval_shell_allow:
  assumes "cl_risk cl = ''low''" "cs = [c]"
  shows "pd_decision (eval_shell env payload tool profile cl cs) = ''allow'' \<longleftrightarrow> (profile, c) \<in> set shell_allowlist"
  unfolding eval_shell_def Let_def guards assms(2) allowlisted_one by (rule gates_listed [OF listed_profile assms(1)])

lemma classify_low_one: "cl_risk (classify_command t) = ''low'' \<Longrightarrow> \<exists>c. cl_categories (classify_command t) = [c]"
  using classify_low(3) by fastforce

lemma judged_low_one: "judged env payload operation = (command, cl) \<Longrightarrow> cl_risk cl = ''low'' \<Longrightarrow> \<exists>c. cl_categories cl = [c]"
  using classify_low_one by (auto simp: judged_def Let_def split: option.splits if_splits)

text \<open>C37. A shell command that belongs to no agent operation is allowed exactly when its path and its
  executable pass their gates, it neither deploys to prod nor forces a push, and it is of low risk with
  a category on the list of its permission profile.\<close>

theorem shell_command_allowed_iff:
  assumes "text_of env payload ''operation'' = []" "text_of env payload ''tool'' = ''shell''"
    "judged env payload [] = (command, cl)" "command \<noteq> []"
  shows "(\<exists>d. evaluate_action env payload trusted = Inr d \<and> pd_decision d = ''allow'') \<longleftrightarrow>
    is_path_inside env (dget payload ''path'') (dget payload ''workspacePath'') = Inr True \<and>
    origin_gate env payload [] ''shell'' = Inr True \<and>
    py_lower (text_or env payload ''deploymentTarget'' ''deployment_target'') \<noteq> ''prod'' \<and>
    text_or env payload ''gitOperation'' ''git_operation'' \<notin> {''force_push'', ''push_main''} \<and>
    cl_risk cl = ''low'' \<and> (permission_profile_for (pe_other env) payload, hd (cl_categories cl)) \<in> set shell_allowlist"
proof -
  let ?profile = "permission_profile_for (pe_other env) payload"
  have allowed_ex: "(\<exists>d. r = Inr d \<and> pd_decision d = ''allow'') \<longleftrightarrow> allowed r" for r
    by (cases r) simp_all
  have shell: "eval_operation env trusted payload [] command ''shell'' ?profile cl (cl_categories cl) =
      Inr (eval_shell env payload ''shell'' ?profile cl (cl_categories cl))"
    using assms(4) by (simp add: eval_operation_def developer_operations_def)
  have "allowed (eval_operation env trusted payload [] command ''shell'' ?profile cl (cl_categories cl)) \<longleftrightarrow>
      cl_risk cl = ''low'' \<and> (?profile, hd (cl_categories cl)) \<in> set shell_allowlist"
  proof (cases "cl_risk cl = ''low''")
    case True
    then obtain c where "cl_categories cl = [c]" using judged_low_one [OF assms(3)] by blast
    then show ?thesis unfolding shell allowed_Inr using eval_shell_allow [OF True] True by simp
  next
    case False
    then show ?thesis unfolding shell allowed_Inr using allow_shell by blast
  qed
  moreover have "cl_risk cl = ''low'' \<Longrightarrow> cl_risk cl \<noteq> ''critical''" by simp
  ultimately show ?thesis
    unfolding allowed_ex allowed_iff assms(1,2,3) Let_def prod.case by argo
qed

text \<open>An action that names neither a tool nor a command is allowed, under the most restrictive profile too.\<close>

lemma empty_action_allowed:
  "permission_profile_for (pe_other posix_env) [] = ''plan''" "allowed (evaluate_action posix_env [] False)"
  by code_simp+

end
