(* ===== verification/Policy_Witnesses.thy ===== *)
theory Policy_Witnesses
  imports Policy_Decisions
begin

text \<open>The properties of the policy at concrete requests.\<close>

lemma full_ref_allowed: "\<exists>d. evaluate_action posix_env delete_full_ref False = Inr d \<and> pd_decision d = ''allow''"
  using full_ref_deleted by (auto simp: allowed_def split: sum.splits)

lemma full_ref_operation: "text_of posix_env delete_full_ref ''operation'' = ''git_workspace_command''"
  by code_simp

lemma full_ref_contract: "(''git_workspace_command'', ''git_workspace_agent'', ''dev_safe'') \<in> set operation_contract"
  unfolding operation_contract_def by (rule list.set_intros(1))

lemma allowed_actions_passed_every_gate_witness:
  "dget delete_full_ref ''agentId'' = PStr ''git_workspace_agent'' \<and>
   not_critical (fst (judged posix_env delete_full_ref ''git_workspace_command''))"
proof -
  obtain d where "evaluate_action posix_env delete_full_ref False = Inr d" "pd_decision d = ''allow''"
    using full_ref_allowed by blast
  from allowed_actions_passed_every_gate [OF this, unfolded full_ref_operation] show ?thesis
    using full_ref_contract by meson
qed

lemma assessment_allowed: "\<exists>d. evaluate_action posix_env assessment_with_shell False = Inr d \<and> pd_decision d = ''allow''"
  using assessment_runs_shell(3) by (auto split: sum.splits)

lemma plan_profile_scope_witness:
  "text_of posix_env assessment_with_shell ''tool'' = ''shell'' \<and> text_of posix_env assessment_with_shell ''operation'' \<in>
     {''codex_compatibility_smoke'', ''architect_agent_runtime'', ''product_owner_runtime'', ''project_assessment''}"
proof -
  have tool: "text_of posix_env assessment_with_shell ''tool'' = ''shell''" by code_simp
  obtain d where "evaluate_action posix_env assessment_with_shell False = Inr d" "pd_decision d = ''allow''"
    using assessment_allowed by blast
  from plan_profile_scope [OF this assessment_runs_shell(1)] show ?thesis using tool by meson
qed

lemma git_commands_vetted_witness:
  "\<exists>executable word args. dget delete_full_ref ''commandArgv'' = PList (map PStr (executable # word # args)) \<and>
     is_git_executable posix_env executable"
proof -
  obtain d where "evaluate_action posix_env delete_full_ref False = Inr d" "pd_decision d = ''allow''"
    using full_ref_allowed by blast
  from git_commands_vetted [OF this full_ref_operation] show ?thesis by meson
qed

definition list_files :: pydict where
  "list_files = [(''tool'', PStr ''shell''), (''command'', PStr ''ls''), (''permissionProfile'', PStr ''dev_safe'')]"

lemma shell_command_allowed_iff_witness:
  "\<exists>d. evaluate_action posix_env list_files False = Inr d \<and> pd_decision d = ''allow''"
proof -
  have "text_of posix_env list_files ''operation'' = []" "text_of posix_env list_files ''tool'' = ''shell''"
    "judged posix_env list_files [] = (''ls'', \<lparr>cl_risk = ''low'', cl_categories = [''read_only'']\<rparr>)" "''ls'' \<noteq> []"
    by code_simp+
  note at = shell_command_allowed_iff [OF this, of False]
  have "is_path_inside posix_env (dget list_files ''path'') (dget list_files ''workspacePath'') = Inr True"
    "origin_gate posix_env list_files [] ''shell'' = Inr True"
    "py_lower (text_or posix_env list_files ''deploymentTarget'' ''deployment_target'') \<noteq> ''prod''"
    "text_or posix_env list_files ''gitOperation'' ''git_operation'' \<notin> {''force_push'', ''push_main''}"
    "(permission_profile_for (pe_other posix_env) list_files, ''read_only'') \<in> set shell_allowlist"
    by code_simp+
  then show ?thesis unfolding at by (simp only: classification.simps list.sel simp_thms)
qed

end
