(* ===== verification/Spec2Isabelle.thy ===== *)
theory Spec2Isabelle
  imports Loop_Properties Jobs_Witnesses Team_Witnesses Host_Witnesses Image_Headers Policy_Witnesses
begin

text \<open>
  A verification development for the AIDO local control center.
\<close>

end
